(* ===== verification/Prelude.thy ===== *)
theory Prelude
  imports Main "HOL-Library.Multiset"
begin

text \<open>
  What the components share: the named collections of the development, the pieces of the Go
  language and standard library the agent uses (instants and durations, decimal printing,
  error values of the Kubernetes client), and the generic lemmas on sums and loops that the
  component proofs rest on.
\<close>

named_theorems go_defs \<open>unfoldings of the small helper definitions of the Go model\<close>
named_theorems loop_value \<open>value of an accumulating loop, as a sum over the list\<close>

section \<open>Instants and durations\<close>

text \<open>
  A \<^verbatim>\<open>time.Time\<close> is the number of nanoseconds since the Unix epoch, a \<^verbatim>\<open>time.Duration\<close> a
  number of nanoseconds. Both are unbounded here: the agent only handles instants of the
  present and durations of a few minutes, far from the 292 years of an \<^verbatim>\<open>int64\<close>.
\<close>

type_synonym go_time = int
type_synonym duration = int

definition Second :: duration where
  "Second = 1000000000"

definition Minute :: duration where
  "Minute = 60 * Second"

definition Hour :: duration where
  "Hour = 60 * Minute"

text \<open>The zero \<^verbatim>\<open>time.Time\<close>, the first of January of year 1.\<close>

definition zero_time :: go_time where
  "zero_time = - 62135596800 * 1000000000"

definition Before :: "go_time \<Rightarrow> go_time \<Rightarrow> bool" where
  "Before t u \<longleftrightarrow> t < u"

text \<open>
  \<^verbatim>\<open>metav1.Time\<close> is written to the API server as RFC 3339 text without a fraction, so an
  instant that goes through the server comes back as the start of its second.
\<close>

definition wire_time :: "go_time \<Rightarrow> go_time" where
  "wire_time t = (t div Second) * Second"

lemmas time_defs [go_defs] = Second_def Minute_def Hour_def Before_def

lemma wire_time_le: "wire_time t \<le> t"
  by (simp add: wire_time_def Second_def)

lemma wire_time_gt: "t - Second < wire_time t"
proof -
  have "t = wire_time t + t mod Second" and "t mod Second < Second"
    by (simp_all add: wire_time_def Second_def)
  then show ?thesis by linarith
qed

lemma wire_time_idem [simp]: "wire_time (wire_time t) = wire_time t"
  by (simp add: wire_time_def Second_def)

lemma wire_time_zero [simp]: "wire_time zero_time = zero_time"
  by (simp add: wire_time_def zero_time_def Second_def)

section \<open>Exponential backoff\<close>

text \<open>The step the retry loop and the watch loop share: double the delay, up to a maximum.\<close>

definition next_backoff :: "duration \<Rightarrow> duration \<Rightarrow> duration" where
  "next_backoff maxBackoff backoff =
     (let b = backoff * 2 in if maxBackoff < b then maxBackoff else b)"

lemma next_backoff_iterate:
  assumes "0 < b" and "b \<le> m"
  shows "(next_backoff m ^^ n) b = min (b * 2 ^ n) m"
proof (induction n)
  case 0
  then show ?case using assms by simp
next
  case (Suc n)
  have "m \<le> m * 2" using assms by simp
  with Suc show ?case by (auto simp: next_backoff_def Let_def min_def)
qed

section \<open>Decimal text\<close>

text \<open>\<^verbatim>\<open>fmt\<close>'s \<^verbatim>\<open>%d\<close> on a natural number, and its inverse.\<close>

definition digit_char :: "nat \<Rightarrow> char" where
  "digit_char d = char_of (48 + d)"

definition char_digit :: "char \<Rightarrow> nat option" where
  "char_digit c = (let n = (of_char c :: nat) in if 48 \<le> n \<and> n \<le> 57 then Some (n - 48) else None)"

fun show_nat :: "nat \<Rightarrow> string" where
  "show_nat n = (if n < 10 then [digit_char n] else show_nat (n div 10) @ [digit_char (n mod 10)])"

declare show_nat.simps [simp del]

definition show_int :: "int \<Rightarrow> string" where
  "show_int i = (if i < 0 then ''-'' @ show_nat (nat (- i)) else show_nat (nat i))"

fun read_digits :: "nat \<Rightarrow> string \<Rightarrow> nat option" where
  "read_digits acc [] = Some acc"
| "read_digits acc (c # cs) =
     (case char_digit c of None \<Rightarrow> None | Some d \<Rightarrow> read_digits (10 * acc + d) cs)"

definition read_nat :: "string \<Rightarrow> nat option" where
  "read_nat s = (if s = [] then None else read_digits 0 s)"

lemma char_digit_digit_char [simp]: "d < 10 \<Longrightarrow> char_digit (digit_char d) = Some d"
  by (simp add: char_digit_def digit_char_def)

lemma read_digits_append:
  "read_digits acc (s @ t) =
     (case read_digits acc s of None \<Rightarrow> None | Some a \<Rightarrow> read_digits a t)"
  by (induction s arbitrary: acc) (auto split: option.splits)

lemma show_nat_nonempty [simp]: "show_nat n \<noteq> []"
  by (subst show_nat.simps) simp

lemma read_digits_show_nat: "read_digits 0 (show_nat n) = Some n"
proof (induction n rule: show_nat.induct)
  case (1 n)
  show ?case
  proof (cases "n < 10")
    case True
    then show ?thesis by (simp add: show_nat.simps [of n])
  next
    case False
    with 1 have "read_digits 0 (show_nat (n div 10)) = Some (n div 10)" by simp
    with False show ?thesis
      by (simp add: show_nat.simps [of n] read_digits_append)
  qed
qed

lemma read_nat_show_nat [simp]: "read_nat (show_nat n) = Some n"
  by (simp add: read_nat_def read_digits_show_nat)

lemma set_show_nat: "c \<in> set (show_nat n) \<Longrightarrow> \<exists>d < 10. c = digit_char d"
proof (induction n rule: show_nat.induct)
  case (1 n)
  show ?case
  proof (cases "n < 10")
    case True
    with "1.prems" show ?thesis by (auto simp: show_nat.simps [of n])
  next
    case False
    with 1 have "c \<in> set (show_nat (n div 10)) \<or> c = digit_char (n mod 10)"
      by (auto simp: show_nat.simps [of n])
    with 1 False show ?thesis by (metis mod_less_divisor zero_less_numeral)
  qed
qed

lemma digit_char_neq_minus: "d < 10 \<Longrightarrow> digit_char d \<noteq> CHR ''-''"
  by (auto simp: digit_char_def dest!: arg_cong [where f = "of_char :: char \<Rightarrow> nat"])

lemma show_nat_no_minus: "CHR ''-'' \<notin> set (show_nat n)"
  using set_show_nat [of "CHR ''-''" n] digit_char_neq_minus by metis

section \<open>Errors of the Kubernetes client\<close>

text \<open>
  The agent only tells "not found" from every other error (\<^verbatim>\<open>apierrors.IsNotFound\<close>,
  \<^verbatim>\<open>client.IgnoreNotFound\<close>); the other named kinds are those the API server answers to a
  write that it has refused, so that it is known not to have happened.
\<close>

datatype api_error =
    NotFound string
  | AlreadyExists string
  | Conflict string
  | OtherError string

primrec Error :: "api_error \<Rightarrow> string" where
  "Error (NotFound s) = s"
| "Error (AlreadyExists s) = s"
| "Error (Conflict s) = s"
| "Error (OtherError s) = s"

primrec IsNotFound :: "api_error \<Rightarrow> bool" where
  "IsNotFound (NotFound s) = True"
| "IsNotFound (AlreadyExists s) = False"
| "IsNotFound (Conflict s) = False"
| "IsNotFound (OtherError s) = False"

text \<open>A write answered with one of these has been refused by the server.\<close>

primrec refused :: "api_error \<Rightarrow> bool" where
  "refused (NotFound s) = True"
| "refused (AlreadyExists s) = True"
| "refused (Conflict s) = True"
| "refused (OtherError s) = False"

section \<open>Sums over lists\<close>

lemma sum_list_map_perm:
  "mset xs = mset ys \<Longrightarrow> sum_list (map f xs) = sum_list (map (f :: 'a \<Rightarrow> int) ys)"
  by (metis mset_map sum_mset_sum_list)

lemma fold_max_ge: "(a :: int) \<le> fold max xs a"
  by (induction xs arbitrary: a) (auto intro: order_trans [OF max.cobounded2])

lemma fold_max_upper: "x \<in> set xs \<Longrightarrow> (x :: int) \<le> fold max xs a"
proof (induction xs arbitrary: a)
  case Nil
  then show ?case by simp
next
  case (Cons y ys)
  show ?case
  proof (cases "x = y")
    case True
    have "y \<le> max y a" by simp
    also have "max y a \<le> fold max ys (max y a)" by (rule fold_max_ge)
    finally show ?thesis using True by simp
  next
    case False
    with Cons show ?thesis by simp
  qed
qed

end
