(* ===== verification/Quantity.thy ===== *)
theory Quantity
  imports Prelude
begin

text \<open>
  The interface of \<^verbatim>\<open>resource.Quantity\<close> (\<^verbatim>\<open>k8s.io/apimachinery/pkg/api/resource\<close>), which the
  collector, the controllers and the DTO conversions call. The package is not part of the
  repository, so its operations are a parameter: a record \<open>quantity_ops\<close> over an abstract
  type \<open>'q\<close>. The locale \<open>quantity\<close> states what its documentation promises: a quantity
  denotes an exact number, here in units of \<open>10\<^sup>-\<^sup>9\<close> (the finest scale a quantity has),
  addition and subtraction are exact, comparison compares the numbers, and the printed form
  parses back to the same number. The last section gives an instance, quantities as an
  integer number of nano-units with a textual form, for concrete runs.
\<close>

section \<open>The operations and their laws\<close>

datatype quantity_format = DecimalSI | BinarySI | DecimalExponent

record 'q quantity_ops =
  NewQuantity :: "int \<Rightarrow> quantity_format \<Rightarrow> 'q"
  ZeroQuantity :: "'q" \<comment> \<open>the zero value \<^verbatim>\<open>resource.Quantity{}\<close>\<close>
  Add :: "'q \<Rightarrow> 'q \<Rightarrow> 'q"
  Sub :: "'q \<Rightarrow> 'q \<Rightarrow> 'q"
  Cmp :: "'q \<Rightarrow> 'q \<Rightarrow> int"
  DeepCopy :: "'q \<Rightarrow> 'q"
  QString :: "'q \<Rightarrow> string"
  ParseQuantity :: "string \<Rightarrow> string + 'q"

locale quantity =
  fixes qo :: "'q quantity_ops"
    and qval :: "'q \<Rightarrow> int"
  assumes val_NewQuantity: "qval (NewQuantity qo n f) = n * 1000000000"
    and val_ZeroQuantity: "qval (ZeroQuantity qo) = 0"
    and val_Add: "qval (Add qo a b) = qval a + qval b"
    and val_Sub: "qval (Sub qo a b) = qval a - qval b"
    and Cmp_pos: "(0 < Cmp qo a b) = (qval b < qval a)"
    and DeepCopy_id: "DeepCopy qo a = a"
    and Parse_QString: "\<exists>b. ParseQuantity qo (QString qo a) = Inr b \<and> qval b = qval a"
    and Parse_empty: "\<exists>e. ParseQuantity qo '''' = Inl e"
begin

lemmas val_simps = val_NewQuantity val_ZeroQuantity val_Add val_Sub Cmp_pos DeepCopy_id

lemma QString_nonempty: "QString qo a \<noteq> ''''"
proof
  assume "QString qo a = ''''"
  with Parse_QString [of a] Parse_empty show False by auto
qed

text \<open>
  The pattern \<^verbatim>\<open>if x.Cmp(max) > 0 { max = x.DeepCopy() }\<close> keeps the larger value.
\<close>

lemma val_keep_larger:
  "qval (if 0 < Cmp qo a b then DeepCopy qo a else b) = max (qval a) (qval b)"
  by (simp add: Cmp_pos DeepCopy_id)

end

section \<open>Serialisation\<close>

text \<open>
  A quantity inside a custom resource is written as its string and parsed again when the
  object is read back: the number is kept, the internal representation need not be.
\<close>

definition wire_quantity :: "'q quantity_ops \<Rightarrow> 'q \<Rightarrow> 'q" where
  "wire_quantity qo a = (case ParseQuantity qo (QString qo a) of Inr b \<Rightarrow> b | Inl e \<Rightarrow> a)"

context quantity begin

lemma val_wire_quantity [simp]: "qval (wire_quantity qo a) = qval a"
  using Parse_QString [of a] by (auto simp: wire_quantity_def)

end

section \<open>Optional entries of a resource list\<close>

text \<open>
  A \<^verbatim>\<open>corev1.ResourceList\<close> is a map from resource names to quantities. The source reads it
  with \<^verbatim>\<open>if q, ok := m[k]; ok { total.Add(q) }\<close> throughout.
\<close>

type_synonym 'q resource_list = "string \<rightharpoonup> 'q"

definition add_present :: "'q quantity_ops \<Rightarrow> 'q resource_list \<Rightarrow> string \<Rightarrow> 'q \<Rightarrow> 'q" where
  "add_present qo m k acc = (case m k of Some q \<Rightarrow> Add qo acc q | None \<Rightarrow> acc)"

definition amount :: "('q \<Rightarrow> int) \<Rightarrow> 'q resource_list \<Rightarrow> string \<Rightarrow> int" where
  "amount qval m k = (case m k of Some q \<Rightarrow> qval q | None \<Rightarrow> 0)"

context quantity begin

lemma val_add_present [simp]: "qval (add_present qo m k acc) = qval acc + amount qval m k"
  by (simp add: add_present_def amount_def val_Add split: option.split)

end

section \<open>An instance: nano-units\<close>

text \<open>
  Quantities as an integer number of nano-units. The text is a decimal number with the suffix
  \<^verbatim>\<open>n\<close>; the parser also reads the suffix \<^verbatim>\<open>m\<close> and no suffix, as in \<^verbatim>\<open>500m\<close> or \<^verbatim>\<open>4\<close>.
\<close>

definition nano_string :: "int \<Rightarrow> string" where
  "nano_string v = show_int v @ ''n''"

definition split_sign :: "string \<Rightarrow> int \<times> string" where
  "split_sign s = (case s of c # cs \<Rightarrow> if c = CHR ''-'' then (- 1, cs) else (1, s) | [] \<Rightarrow> (1, []))"

definition split_suffix :: "string \<Rightarrow> int \<times> string" where
  "split_suffix s =
     (if s \<noteq> [] \<and> last s = CHR ''n'' then (1, butlast s)
      else if s \<noteq> [] \<and> last s = CHR ''m'' then (1000000, butlast s)
      else (1000000000, s))"

definition nano_parse :: "string \<Rightarrow> string + int" where
  "nano_parse s =
     (let (sg, r) = split_sign s; (scale, ds) = split_suffix r
      in case read_nat ds of
           None \<Rightarrow> Inl ''quantities must match the regular expression''
         | Some n \<Rightarrow> Inr (sg * (scale * int n)))"

definition nano_ops :: "int quantity_ops" where
  "nano_ops = \<lparr>NewQuantity = (\<lambda>n f. n * 1000000000), ZeroQuantity = 0, Add = (+), Sub = (-),
     Cmp = (\<lambda>a b. sgn (a - b)), DeepCopy = (\<lambda>a. a), QString = nano_string,
     ParseQuantity = nano_parse\<rparr>"

lemma split_sign_show_int:
  "split_sign (show_int v @ s) = (if v < 0 then (- 1, show_nat (nat (- v)) @ s) else (1, show_nat (nat v) @ s))"
proof (cases "v < 0")
  case True
  then show ?thesis by (simp add: split_sign_def show_int_def)
next
  case False
  obtain c cs where c: "show_nat (nat v) = c # cs"
    by (metis list.exhaust show_nat_nonempty)
  then have "c \<noteq> CHR ''-''" using show_nat_no_minus [of "nat v"] by auto
  with c False show ?thesis by (simp add: split_sign_def show_int_def)
qed

lemma nano_roundtrip: "nano_parse (nano_string v) = Inr v"
  by (simp add: nano_parse_def nano_string_def split_sign_show_int split_suffix_def)

interpretation nano: quantity nano_ops "\<lambda>v. v"
proof
  fix a :: int
  show "\<exists>b. ParseQuantity nano_ops (QString nano_ops a) = Inr b \<and> b = a"
    by (simp add: nano_ops_def nano_roundtrip)
  show "\<exists>e. ParseQuantity nano_ops '''' = Inl e"
    by (simp add: nano_ops_def nano_parse_def split_sign_def split_suffix_def read_nat_def)
qed (simp_all add: nano_ops_def)

end
