(* ===== verification/Api_Types.thy ===== *)
theory Api_Types
  imports Quantity
begin

text \<open>
  The custom resources of \<^verbatim>\<open>api/v1alpha1\<close>: \<^verbatim>\<open>Advertisement\<close>, \<^verbatim>\<open>ReservationInstruction\<close> and
  \<^verbatim>\<open>ProviderInstruction\<close>. A struct is a record with one field per field of the source, a
  pointer that may be \<^verbatim>\<open>nil\<close> is an \<open>option\<close>. The three root types have the same shape
  (\<^verbatim>\<open>ObjectMeta\<close>, \<^verbatim>\<open>Spec\<close>, \<^verbatim>\<open>Status\<close>), which is one polymorphic record; of \<^verbatim>\<open>ObjectMeta\<close> the
  three fields the agent and the API server's concurrency control use are kept.
\<close>

section \<open>Object metadata\<close>

type_synonym namespaced_name = "string \<times> string" \<comment> \<open>namespace, name\<close>

record object_meta =
  Name :: string
  Namespace :: string
  ResourceVersion :: string

record ('s, 't) kobject =
  ObjectMeta :: object_meta
  Spec :: 's
  Status :: 't

definition okey :: "('s, 't) kobject \<Rightarrow> namespaced_name" where
  "okey x = (Namespace (ObjectMeta x), Name (ObjectMeta x))"

definition oversion :: "('s, 't) kobject \<Rightarrow> string" where
  "oversion x = ResourceVersion (ObjectMeta x)"

lemma okey_update [simp]:
  "okey (x\<lparr>Spec := s\<rparr>) = okey x" "okey (x\<lparr>Status := t\<rparr>) = okey x"
  by (simp_all add: okey_def)

lemma oversion_update [simp]:
  "oversion (x\<lparr>Spec := s\<rparr>) = oversion x" "oversion (x\<lparr>Status := t\<rparr>) = oversion x"
  by (simp_all add: oversion_def)

text \<open>The metadata of an object the agent is about to create: no resource version yet.\<close>

definition new_meta :: "namespaced_name \<Rightarrow> object_meta" where
  "new_meta k = \<lparr>Name = snd k, Namespace = fst k, ResourceVersion = ''''\<rparr>"

lemma okey_new [simp]: "okey \<lparr>ObjectMeta = new_meta k, Spec = s, Status = t\<rparr> = k"
  by (simp add: okey_def new_meta_def)

section \<open>Advertisement\<close>

record 'q ResourceQuantities =
  CPU :: 'q
  Memory :: 'q
  GPU :: "'q option"
  Storage :: "'q option"

record 'q ResourceMetrics =
  Capacity :: "'q ResourceQuantities"
  Allocatable :: "'q ResourceQuantities"
  Allocated :: "'q ResourceQuantities"
  Used :: "'q ResourceQuantities option"
  Available :: "'q ResourceQuantities"

record CostInfo =
  CPUCost :: string
  MemoryCost :: string
  Currency :: string

record 'q AdvertisementSpec =
  adv_ClusterID :: string
  adv_Resources :: "'q ResourceMetrics"
  adv_Cost :: "CostInfo option"
  adv_Timestamp :: go_time

record AdvertisementStatus =
  adv_Phase :: string
  adv_LastUpdateTime :: go_time
  adv_Published :: bool
  adv_Message :: string

type_synonym 'q Advertisement = "('q AdvertisementSpec, AdvertisementStatus) kobject"

definition AdvertisementStatus_zero :: AdvertisementStatus where
  "AdvertisementStatus_zero =
     \<lparr>adv_Phase = '''', adv_LastUpdateTime = zero_time, adv_Published = False, adv_Message = ''''\<rparr>"

section \<open>Reservation instruction\<close>

record ReservationInstructionSpec =
  ri_ReservationName :: string
  ri_TargetClusterID :: string
  ri_RequestedCPU :: string
  ri_RequestedMemory :: string
  ri_Message :: string
  ri_ExpiresAt :: "go_time option"

record ReservationInstructionStatus =
  ri_ObservedReservationResourceVersion :: string
  ri_Delivered :: bool
  ri_LastUpdateTime :: go_time

type_synonym ReservationInstruction =
  "(ReservationInstructionSpec, ReservationInstructionStatus) kobject"

definition ReservationInstructionStatus_zero :: ReservationInstructionStatus where
  "ReservationInstructionStatus_zero =
     \<lparr>ri_ObservedReservationResourceVersion = '''', ri_Delivered = False,
      ri_LastUpdateTime = zero_time\<rparr>"

section \<open>Provider instruction\<close>

record ProviderInstructionSpec =
  pi_ReservationName :: string
  pi_RequesterClusterID :: string
  pi_RequestedCPU :: string
  pi_RequestedMemory :: string
  pi_Message :: string
  pi_ExpiresAt :: "go_time option"

record ProviderInstructionStatus =
  pi_Enforced :: bool
  pi_LastUpdateTime :: go_time

type_synonym ProviderInstruction =
  "(ProviderInstructionSpec, ProviderInstructionStatus) kobject"

definition ProviderInstructionStatus_zero :: ProviderInstructionStatus where
  "ProviderInstructionStatus_zero = \<lparr>pi_Enforced = False, pi_LastUpdateTime = zero_time\<rparr>"

section \<open>What a round trip through the API server keeps\<close>

text \<open>
  The server stores the JSON form: a \<^verbatim>\<open>metav1.Time\<close> comes back in whole seconds, a quantity
  as the parse of its string, and every other field as it was.
\<close>

definition wire_ri_spec :: "ReservationInstructionSpec \<Rightarrow> ReservationInstructionSpec" where
  "wire_ri_spec s = s\<lparr>ri_ExpiresAt := map_option wire_time (ri_ExpiresAt s)\<rparr>"

definition wire_ri_status :: "ReservationInstructionStatus \<Rightarrow> ReservationInstructionStatus" where
  "wire_ri_status t = t\<lparr>ri_LastUpdateTime := wire_time (ri_LastUpdateTime t)\<rparr>"

definition wire_pi_spec :: "ProviderInstructionSpec \<Rightarrow> ProviderInstructionSpec" where
  "wire_pi_spec s = s\<lparr>pi_ExpiresAt := map_option wire_time (pi_ExpiresAt s)\<rparr>"

definition wire_pi_status :: "ProviderInstructionStatus \<Rightarrow> ProviderInstructionStatus" where
  "wire_pi_status t = t\<lparr>pi_LastUpdateTime := wire_time (pi_LastUpdateTime t)\<rparr>"

definition wire_quantities ::
    "'q quantity_ops \<Rightarrow> 'q ResourceQuantities \<Rightarrow> 'q ResourceQuantities" where
  "wire_quantities qo r =
     \<lparr>CPU = wire_quantity qo (CPU r), Memory = wire_quantity qo (Memory r),
      GPU = map_option (wire_quantity qo) (GPU r),
      Storage = map_option (wire_quantity qo) (Storage r)\<rparr>"

definition wire_metrics :: "'q quantity_ops \<Rightarrow> 'q ResourceMetrics \<Rightarrow> 'q ResourceMetrics" where
  "wire_metrics qo m =
     \<lparr>Capacity = wire_quantities qo (Capacity m), Allocatable = wire_quantities qo (Allocatable m),
      Allocated = wire_quantities qo (Allocated m),
      Used = map_option (wire_quantities qo) (Used m),
      Available = wire_quantities qo (Available m)\<rparr>"

definition wire_adv_spec :: "'q quantity_ops \<Rightarrow> 'q AdvertisementSpec \<Rightarrow> 'q AdvertisementSpec" where
  "wire_adv_spec qo s =
     s\<lparr>adv_Resources := wire_metrics qo (adv_Resources s),
       adv_Timestamp := wire_time (adv_Timestamp s)\<rparr>"

definition wire_adv_status :: "AdvertisementStatus \<Rightarrow> AdvertisementStatus" where
  "wire_adv_status t = t\<lparr>adv_LastUpdateTime := wire_time (adv_LastUpdateTime t)\<rparr>"

lemmas wire_defs = wire_ri_spec_def wire_ri_status_def wire_pi_spec_def wire_pi_status_def
  wire_quantities_def wire_metrics_def
  wire_adv_spec_def wire_adv_status_def

end
