(* ===== verification/Collector.thy ===== *)
theory Collector
  imports Quantity Api_Types
begin

text \<open>
  The metrics collector of \<^verbatim>\<open>internal/metrics/collector.go\<close>. Its loops are recursive functions
  over the listed nodes, pods and provider instructions, with the running totals as a record;
  what the Kubernetes client answers to the three list calls and to the read of the
  \<^verbatim>\<open>kube-system\<close> namespace is the record \<open>cluster_reads\<close>, and the reading of \<^verbatim>\<open>time.Now\<close> is
  an argument. The second half relates each loop to a sum over the list: the reference
  definition of what is capacity, allocatable, allocated and reserved.
\<close>

section \<open>The objects the collector reads\<close>

record node_condition =
  cond_Type :: string
  cond_Status :: string

record 'q node =
  node_Conditions :: "node_condition list"
  node_Capacity :: "'q resource_list"
  node_Allocatable :: "'q resource_list"

record 'q container =
  Requests :: "'q resource_list"

record 'q pod =
  pod_Phase :: string
  Containers :: "'q container list"
  InitContainers :: "'q container list"
  Overhead :: "'q resource_list option"

record 'q cluster_reads =
  list_nodes :: "api_error + 'q node list"
  list_pods :: "api_error + 'q pod list"
  list_provider_instructions :: "api_error + ProviderInstruction list"
  get_kube_system :: "api_error + string" \<comment> \<open>the namespace's UID\<close>

abbreviation ResourceCPU :: string where
  "ResourceCPU \<equiv> ''cpu''"

abbreviation ResourceMemory :: string where
  "ResourceMemory \<equiv> ''memory''"

abbreviation ResourceGPU :: string where
  "ResourceGPU \<equiv> ''nvidia.com/gpu''"

section \<open>Nodes\<close>

fun isNodeReady_conditions :: "node_condition list \<Rightarrow> bool" where
  "isNodeReady_conditions [] = False"
| "isNodeReady_conditions (c # cs) =
     (if cond_Type c = ''Ready'' then cond_Status c = ''True'' else isNodeReady_conditions cs)"

definition isNodeReady :: "'q node \<Rightarrow> bool" where
  "isNodeReady n = isNodeReady_conditions (node_Conditions n)"

text \<open>
  The totals start from \<^verbatim>\<open>resource.NewQuantity(0, ...)\<close>; the optional GPU and storage pointers
  of the struct are \<^verbatim>\<open>nil\<close>.
\<close>

definition zero_quantities :: "'q quantity_ops \<Rightarrow> 'q ResourceQuantities" where
  "zero_quantities qo =
     \<lparr>CPU = NewQuantity qo 0 DecimalSI, Memory = NewQuantity qo 0 BinarySI,
      GPU = None, Storage = None\<rparr>"

record 'q node_totals =
  nt_capacity :: "'q ResourceQuantities"
  nt_allocatable :: "'q ResourceQuantities"
  nt_capacityGPU :: 'q
  nt_allocatableGPU :: 'q
  nt_hasGPU :: bool

definition add_cpu_memory ::
    "'q quantity_ops \<Rightarrow> 'q resource_list \<Rightarrow> 'q ResourceQuantities \<Rightarrow> 'q ResourceQuantities" where
  "add_cpu_memory qo m r =
     r\<lparr>CPU := add_present qo m ResourceCPU (CPU r),
       Memory := add_present qo m ResourceMemory (Memory r)\<rparr>"

definition node_step :: "'q quantity_ops \<Rightarrow> 'q node \<Rightarrow> 'q node_totals \<Rightarrow> 'q node_totals" where
  "node_step qo n st =
     st\<lparr>nt_capacity := add_cpu_memory qo (node_Capacity n) (nt_capacity st),
        nt_capacityGPU := add_present qo (node_Capacity n) ResourceGPU (nt_capacityGPU st),
        nt_hasGPU := nt_hasGPU st \<or> node_Capacity n ResourceGPU \<noteq> None,
        nt_allocatable := add_cpu_memory qo (node_Allocatable n) (nt_allocatable st),
        nt_allocatableGPU :=
          add_present qo (node_Allocatable n) ResourceGPU (nt_allocatableGPU st)\<rparr>"

fun node_loop :: "'q quantity_ops \<Rightarrow> 'q node list \<Rightarrow> 'q node_totals \<Rightarrow> 'q node_totals" where
  "node_loop qo [] st = st"
| "node_loop qo (n # ns) st =
     (if \<not> isNodeReady n then node_loop qo ns st
      else node_loop qo ns (node_step qo n st))"

definition node_totals_init :: "'q quantity_ops \<Rightarrow> 'q node_totals" where
  "node_totals_init qo =
     \<lparr>nt_capacity = zero_quantities qo, nt_allocatable = zero_quantities qo,
      nt_capacityGPU = ZeroQuantity qo, nt_allocatableGPU = ZeroQuantity qo, nt_hasGPU = False\<rparr>"

section \<open>Pods\<close>

fun container_sum :: "'q quantity_ops \<Rightarrow> string \<Rightarrow> 'q container list \<Rightarrow> 'q \<Rightarrow> 'q" where
  "container_sum qo k [] acc = acc"
| "container_sum qo k (c # cs) acc = container_sum qo k cs (add_present qo (Requests c) k acc)"

fun init_max :: "'q quantity_ops \<Rightarrow> string \<Rightarrow> 'q container list \<Rightarrow> 'q \<Rightarrow> 'q" where
  "init_max qo k [] m = m"
| "init_max qo k (c # cs) m =
     init_max qo k cs
       (case Requests c k of
          Some q \<Rightarrow> if 0 < Cmp qo q m then DeepCopy qo q else m
        | None \<Rightarrow> m)"

definition mentions :: "string \<Rightarrow> 'q container list \<Rightarrow> bool" where
  "mentions k cs \<longleftrightarrow> list_ex (\<lambda>c. Requests c k \<noteq> None) cs"

text \<open>
  What a pod adds for one resource, before its overhead: the sum over its containers, or the
  largest init container when that is more.
\<close>

definition contribution ::
    "'q quantity_ops \<Rightarrow> string \<Rightarrow> quantity_format \<Rightarrow> 'q pod \<Rightarrow> 'q" where
  "contribution qo k f p =
     (let containers = container_sum qo k (Containers p) (NewQuantity qo 0 f);
          initMax = init_max qo k (InitContainers p) (NewQuantity qo 0 f);
          contrib = DeepCopy qo containers
      in if 0 < Cmp qo initMax contrib then DeepCopy qo initMax else contrib)"

record 'q pod_totals =
  pt_allocated :: "'q ResourceQuantities"
  pt_allocatedGPU :: 'q
  pt_hasGPU :: bool

definition add_overhead :: "'q quantity_ops \<Rightarrow> 'q resource_list option \<Rightarrow> 'q pod_totals \<Rightarrow> 'q pod_totals" where
  "add_overhead qo ov st =
     (case ov of
        None \<Rightarrow> st
      | Some m \<Rightarrow>
          st\<lparr>pt_allocated := add_cpu_memory qo m (pt_allocated st),
             pt_allocatedGPU := add_present qo m ResourceGPU (pt_allocatedGPU st),
             pt_hasGPU := pt_hasGPU st \<or> m ResourceGPU \<noteq> None\<rparr>)"

definition pod_step :: "'q quantity_ops \<Rightarrow> 'q pod \<Rightarrow> 'q pod_totals \<Rightarrow> 'q pod_totals" where
  "pod_step qo p st =
     (let hasGPU = pt_hasGPU st \<or> mentions ResourceGPU (Containers p)
                     \<or> mentions ResourceGPU (InitContainers p);
          a = pt_allocated st;
          a' = a\<lparr>CPU := Add qo (CPU a) (contribution qo ResourceCPU DecimalSI p),
                 Memory := Add qo (Memory a) (contribution qo ResourceMemory BinarySI p)\<rparr>;
          g = (if hasGPU then Add qo (pt_allocatedGPU st) (contribution qo ResourceGPU DecimalSI p)
               else pt_allocatedGPU st)
      in add_overhead qo (Overhead p)
           \<lparr>pt_allocated = a', pt_allocatedGPU = g, pt_hasGPU = hasGPU\<rparr>)"

definition pod_counts :: "'q pod \<Rightarrow> bool" where
  "pod_counts p \<longleftrightarrow> \<not> (pod_Phase p \<noteq> ''Running'' \<and> pod_Phase p \<noteq> ''Pending'')"

fun pod_loop :: "'q quantity_ops \<Rightarrow> 'q pod list \<Rightarrow> 'q pod_totals \<Rightarrow> 'q pod_totals" where
  "pod_loop qo [] st = st"
| "pod_loop qo (p # ps) st =
     (if \<not> pod_counts p then pod_loop qo ps st else pod_loop qo ps (pod_step qo p st))"

definition pod_totals_init :: "'q quantity_ops \<Rightarrow> 'q pod_totals" where
  "pod_totals_init qo =
     \<lparr>pt_allocated = zero_quantities qo, pt_allocatedGPU = ZeroQuantity qo, pt_hasGPU = False\<rparr>"

definition calculateAllocatedResources ::
    "'q quantity_ops \<Rightarrow> api_error + 'q pod list \<Rightarrow> string + 'q ResourceQuantities" where
  "calculateAllocatedResources qo pods =
     (case pods of
        Inl e \<Rightarrow> Inl (''failed to list pods: '' @ Error e)
      | Inr ps \<Rightarrow>
          (let st = pod_loop qo ps (pod_totals_init qo)
           in Inr (if pt_hasGPU st then (pt_allocated st)\<lparr>GPU := Some (pt_allocatedGPU st)\<rparr>
                   else pt_allocated st)))"

section \<open>Provider instructions\<close>

text \<open>
  One turn of the loop over the provider instructions, with its four \<^verbatim>\<open>continue\<close>s. A request
  whose CPU parses but whose memory does not has already been added to the CPU total when the
  loop goes on to the next instruction.
\<close>

definition instruction_step ::
    "'q quantity_ops \<Rightarrow> go_time \<Rightarrow> ProviderInstruction \<Rightarrow> 'q ResourceQuantities \<Rightarrow> 'q ResourceQuantities" where
  "instruction_step qo now i r =
     (if \<not> pi_Enforced (Status i) then r
      else if (case pi_ExpiresAt (Spec i) of Some t \<Rightarrow> Before t now | None \<Rightarrow> False) then r
      else
        let afterCPU =
              (if pi_RequestedCPU (Spec i) \<noteq> '''' then
                 (case ParseQuantity qo (pi_RequestedCPU (Spec i)) of
                    Inl e \<Rightarrow> None
                  | Inr q \<Rightarrow> Some (r\<lparr>CPU := Add qo (CPU r) q\<rparr>))
               else Some r)
        in case afterCPU of
             None \<Rightarrow> r
           | Some r1 \<Rightarrow>
               (if pi_RequestedMemory (Spec i) \<noteq> '''' then
                  (case ParseQuantity qo (pi_RequestedMemory (Spec i)) of
                     Inl e \<Rightarrow> r1
                   | Inr q \<Rightarrow> r1\<lparr>Memory := Add qo (Memory r1) q\<rparr>)
                else r1))"

fun instruction_loop ::
    "'q quantity_ops \<Rightarrow> go_time \<Rightarrow> ProviderInstruction list \<Rightarrow> 'q ResourceQuantities \<Rightarrow> 'q ResourceQuantities" where
  "instruction_loop qo now [] r = r"
| "instruction_loop qo now (i # is) r = instruction_loop qo now is (instruction_step qo now i r)"

definition calculateReservedResources ::
    "'q quantity_ops \<Rightarrow> go_time \<Rightarrow> api_error + ProviderInstruction list
       \<Rightarrow> string + 'q ResourceQuantities" where
  "calculateReservedResources qo now instructions =
     (case instructions of
        Inl e \<Rightarrow> Inl (''failed to list provider instructions: '' @ Error e)
      | Inr is \<Rightarrow> Inr (instruction_loop qo now is (zero_quantities qo)))"

section \<open>The cluster's resources\<close>

text \<open>\<^verbatim>\<open>available = allocatable - allocated - reserved\<close>, the GPU only when a ready node has one.\<close>

definition available_of ::
    "'q quantity_ops \<Rightarrow> bool \<Rightarrow> 'q ResourceQuantities \<Rightarrow> 'q ResourceQuantities \<Rightarrow> 'q ResourceQuantities
       \<Rightarrow> 'q ResourceQuantities" where
  "available_of qo hasGPU allocatable allocated reserved =
     \<lparr>CPU = Sub qo (Sub qo (DeepCopy qo (CPU allocatable)) (CPU allocated)) (CPU reserved),
      Memory = Sub qo (Sub qo (DeepCopy qo (Memory allocatable)) (Memory allocated)) (Memory reserved),
      GPU =
        (case GPU allocatable of
           None \<Rightarrow> None
         | Some g \<Rightarrow>
             if \<not> hasGPU then None
             else
               let g0 = DeepCopy qo g;
                   g1 = (case GPU allocated of Some a \<Rightarrow> Sub qo g0 a | None \<Rightarrow> g0);
                   g2 = (case GPU reserved of Some a \<Rightarrow> Sub qo g1 a | None \<Rightarrow> g1)
               in Some g2),
      Storage = None\<rparr>"

definition CollectClusterResources ::
    "'q quantity_ops \<Rightarrow> 'q cluster_reads \<Rightarrow> go_time \<Rightarrow> string + 'q ResourceMetrics" where
  "CollectClusterResources qo rd now =
     (case list_nodes rd of
        Inl e \<Rightarrow> Inl (''failed to list nodes: '' @ Error e)
      | Inr nodes \<Rightarrow>
          if nodes = [] then Inl ''no nodes found in cluster''
          else
            let st = node_loop qo nodes (node_totals_init qo);
                hasGPU = nt_hasGPU st;
                capacity = (if hasGPU then (nt_capacity st)\<lparr>GPU := Some (nt_capacityGPU st)\<rparr>
                            else nt_capacity st);
                allocatable = (if hasGPU then (nt_allocatable st)\<lparr>GPU := Some (nt_allocatableGPU st)\<rparr>
                               else nt_allocatable st)
            in case calculateAllocatedResources qo (list_pods rd) of
                 Inl e \<Rightarrow> Inl (''failed to calculate allocated resources: '' @ e)
               | Inr allocated \<Rightarrow>
                   (case calculateReservedResources qo now (list_provider_instructions rd) of
                      Inl e \<Rightarrow> Inl (''failed to calculate reserved resources: '' @ e)
                    | Inr reserved \<Rightarrow>
                        Inr \<lparr>Capacity = capacity, Allocatable = allocatable, Allocated = allocated,
                             Used = None,
                             Available = available_of qo hasGPU allocatable allocated reserved\<rparr>))"

definition GetClusterID :: "string \<Rightarrow> 'q cluster_reads \<Rightarrow> string + string" where
  "GetClusterID clusterIDOverride rd =
     (if clusterIDOverride \<noteq> '''' then Inr clusterIDOverride
      else case get_kube_system rd of
             Inl e \<Rightarrow> Inl (''failed to get kube-system namespace: '' @ Error e)
           | Inr uid \<Rightarrow> Inr uid)"

end
