(* ===== verification/Collector_Correct.thy ===== *)
theory Collector_Correct
  imports Collector
begin

text \<open>
  Correctness of the collector: a reference definition of each published number as a sum over
  the listed objects, and the proof that the loops of \<open>Collector\<close> compute exactly these
  numbers. Everything is proved once in the locale \<open>quantity\<close>, for any implementation of
  \<^verbatim>\<open>resource.Quantity\<close> that keeps its documented laws, and stated at the end over the
  collector's own functions.
\<close>

section \<open>Reference definitions\<close>

definition ready_sum ::
    "('q \<Rightarrow> int) \<Rightarrow> ('q node \<Rightarrow> 'q resource_list) \<Rightarrow> string \<Rightarrow> 'q node list \<Rightarrow> int" where
  "ready_sum qval sel k ns = (\<Sum>n\<leftarrow>filter isNodeReady ns. amount qval (sel n) k)"

text \<open>
  The scheduler's view of a pod: the larger of the sum of its containers and its largest init
  container, plus the overhead.
\<close>

definition pod_request :: "('q \<Rightarrow> int) \<Rightarrow> string \<Rightarrow> 'q pod \<Rightarrow> int" where
  "pod_request qval k p =
     max (fold max (map (\<lambda>c. amount qval (Requests c) k) (InitContainers p)) 0)
         (\<Sum>c\<leftarrow>Containers p. amount qval (Requests c) k)
     + (case Overhead p of None \<Rightarrow> 0 | Some m \<Rightarrow> amount qval m k)"

definition allocated_sum :: "('q \<Rightarrow> int) \<Rightarrow> string \<Rightarrow> 'q pod list \<Rightarrow> int" where
  "allocated_sum qval k ps = (\<Sum>p\<leftarrow>filter pod_counts ps. pod_request qval k p)"

definition pod_mentions :: "string \<Rightarrow> 'q pod \<Rightarrow> bool" where
  "pod_mentions k p \<longleftrightarrow>
     mentions k (Containers p) \<or> mentions k (InitContainers p) \<or>
     (case Overhead p of None \<Rightarrow> False | Some m \<Rightarrow> m k \<noteq> None)"

text \<open>An instruction holds resources while it is enforced and its expiry is not in the past.\<close>

definition holds_resources :: "go_time \<Rightarrow> ProviderInstruction \<Rightarrow> bool" where
  "holds_resources now i \<longleftrightarrow>
     pi_Enforced (Status i) \<and> (case pi_ExpiresAt (Spec i) of Some t \<Rightarrow> now \<le> t | None \<Rightarrow> True)"

definition request_value :: "'q quantity_ops \<Rightarrow> ('q \<Rightarrow> int) \<Rightarrow> string \<Rightarrow> int option" where
  "request_value qo qval s =
     (if s = '''' then Some 0
      else case ParseQuantity qo s of Inr q \<Rightarrow> Some (qval q) | Inl e \<Rightarrow> None)"

definition reserved_cpu :: "'q quantity_ops \<Rightarrow> ('q \<Rightarrow> int) \<Rightarrow> go_time \<Rightarrow> ProviderInstruction \<Rightarrow> int" where
  "reserved_cpu qo qval now i =
     (if holds_resources now i
      then (case request_value qo qval (pi_RequestedCPU (Spec i)) of Some v \<Rightarrow> v | None \<Rightarrow> 0)
      else 0)"

definition reserved_memory :: "'q quantity_ops \<Rightarrow> ('q \<Rightarrow> int) \<Rightarrow> go_time \<Rightarrow> ProviderInstruction \<Rightarrow> int" where
  "reserved_memory qo qval now i =
     (if holds_resources now i \<and> request_value qo qval (pi_RequestedCPU (Spec i)) \<noteq> None
      then (case request_value qo qval (pi_RequestedMemory (Spec i)) of Some v \<Rightarrow> v | None \<Rightarrow> 0)
      else 0)"

section \<open>The loops compute the sums\<close>

lemma add_cpu_memory_frame [simp]:
  "GPU (add_cpu_memory qo m r) = GPU r" "Storage (add_cpu_memory qo m r) = Storage r"
  by (simp_all add: add_cpu_memory_def)

lemma node_loop_hasGPU:
  "nt_hasGPU (node_loop qo ns st) \<longleftrightarrow>
     nt_hasGPU st \<or> (\<exists>n\<in>set ns. isNodeReady n \<and> node_Capacity n ResourceGPU \<noteq> None)"
  by (induction ns arbitrary: st) (auto simp: node_step_def)

lemma node_loop_frame:
  "GPU (nt_capacity (node_loop qo ns st)) = GPU (nt_capacity st)"
  "GPU (nt_allocatable (node_loop qo ns st)) = GPU (nt_allocatable st)"
  "Storage (nt_capacity (node_loop qo ns st)) = Storage (nt_capacity st)"
  "Storage (nt_allocatable (node_loop qo ns st)) = Storage (nt_allocatable st)"
  by (induction ns arbitrary: st) (simp_all add: node_step_def)

lemma pod_loop_hasGPU:
  "pt_hasGPU (pod_loop qo ps st) \<longleftrightarrow>
     pt_hasGPU st \<or> (\<exists>p\<in>set ps. pod_counts p \<and> pod_mentions ResourceGPU p)"
  by (induction ps arbitrary: st)
    (auto simp: pod_step_def add_overhead_def pod_mentions_def Let_def split: option.splits)

lemma pod_loop_frame:
  "GPU (pt_allocated (pod_loop qo ps st)) = GPU (pt_allocated st)"
  "Storage (pt_allocated (pod_loop qo ps st)) = Storage (pt_allocated st)"
  by (induction ps arbitrary: st)
    (simp_all add: pod_step_def add_overhead_def Let_def split: option.splits)

lemma instruction_loop_frame: "GPU (instruction_loop qo now is r) = GPU r"
  by (induction "is" arbitrary: r)
    (simp_all add: instruction_step_def Let_def split: option.splits sum.splits)

lemma amount_absent: "\<not> mentions k cs \<Longrightarrow> c \<in> set cs \<Longrightarrow> amount qval (Requests c) k = 0"
  by (auto simp: mentions_def list_ex_iff amount_def)

lemma sum_absent:
  "\<not> mentions k cs \<Longrightarrow> (\<Sum>c\<leftarrow>cs. amount qval (Requests c) k) = 0"
  by (induction cs) (auto simp: mentions_def amount_def)

lemma fold_max_absent:
  "\<not> mentions k cs \<Longrightarrow> fold max (map (\<lambda>c. amount qval (Requests c) k) cs) 0 = 0"
  by (induction cs) (auto simp: mentions_def amount_def)

lemma amount_None: "m k = None \<Longrightarrow> amount qval m k = 0"
  by (simp add: amount_def)

lemma pod_request_absent: "\<not> pod_mentions k p \<Longrightarrow> pod_request qval k p = 0"
  by (cases "Overhead p")
    (simp_all add: pod_mentions_def pod_request_def sum_absent fold_max_absent amount_None)

lemma allocated_sum_absent:
  "\<not> (\<exists>p\<in>set ps. pod_counts p \<and> pod_mentions k p) \<Longrightarrow> allocated_sum qval k ps = 0"
  by (induction ps) (auto simp: allocated_sum_def pod_request_absent)

context quantity begin

lemma val_node_loop [loop_value]:
  "qval (CPU (nt_capacity (node_loop qo ns st))) =
     qval (CPU (nt_capacity st)) + ready_sum qval node_Capacity ResourceCPU ns"
  "qval (Memory (nt_capacity (node_loop qo ns st))) =
     qval (Memory (nt_capacity st)) + ready_sum qval node_Capacity ResourceMemory ns"
  "qval (nt_capacityGPU (node_loop qo ns st)) =
     qval (nt_capacityGPU st) + ready_sum qval node_Capacity ResourceGPU ns"
  "qval (CPU (nt_allocatable (node_loop qo ns st))) =
     qval (CPU (nt_allocatable st)) + ready_sum qval node_Allocatable ResourceCPU ns"
  "qval (Memory (nt_allocatable (node_loop qo ns st))) =
     qval (Memory (nt_allocatable st)) + ready_sum qval node_Allocatable ResourceMemory ns"
  "qval (nt_allocatableGPU (node_loop qo ns st)) =
     qval (nt_allocatableGPU st) + ready_sum qval node_Allocatable ResourceGPU ns"
  by (induction ns arbitrary: st) (simp_all add: ready_sum_def node_step_def add_cpu_memory_def)

lemma val_container_sum:
  "qval (container_sum qo k cs acc) = qval acc + (\<Sum>c\<leftarrow>cs. amount qval (Requests c) k)"
  by (induction cs arbitrary: acc) simp_all

lemma val_init_max:
  "0 \<le> qval m \<Longrightarrow>
   qval (init_max qo k cs m) = fold max (map (\<lambda>c. amount qval (Requests c) k) cs) (qval m)"
proof (induction cs arbitrary: m)
  case Nil
  then show ?case by simp
next
  case (Cons c cs)
  let ?m = "case Requests c k of Some q \<Rightarrow> if 0 < Cmp qo q m then DeepCopy qo q else m | None \<Rightarrow> m"
  have "qval ?m = max (amount qval (Requests c) k) (qval m)"
    using Cons.prems by (simp add: amount_def val_simps split: option.split)
  with Cons show ?case by simp
qed

lemma val_contribution:
  "qval (contribution qo k f p) =
     max (fold max (map (\<lambda>c. amount qval (Requests c) k) (InitContainers p)) 0)
         (\<Sum>c\<leftarrow>Containers p. amount qval (Requests c) k)"
  by (simp add: contribution_def Let_def val_keep_larger val_container_sum val_init_max
      val_NewQuantity DeepCopy_id)

text \<open>
  A pod that is counted before any GPU has been seen adds nothing to the GPU total, and nothing
  is what it requests: the flag only saves work.
\<close>

lemma val_contribution_absent:
  assumes "\<not> mentions k (Containers p)" and "\<not> mentions k (InitContainers p)"
  shows "qval (contribution qo k f p) = 0"
  using assms by (simp add: val_contribution sum_absent fold_max_absent)

lemma val_pod_step:
  "qval (CPU (pt_allocated (pod_step qo p st))) =
     qval (CPU (pt_allocated st)) + pod_request qval ResourceCPU p"
  "qval (Memory (pt_allocated (pod_step qo p st))) =
     qval (Memory (pt_allocated st)) + pod_request qval ResourceMemory p"
  "qval (pt_allocatedGPU (pod_step qo p st)) =
     qval (pt_allocatedGPU st) + pod_request qval ResourceGPU p"
proof -
  show "qval (CPU (pt_allocated (pod_step qo p st))) =
     qval (CPU (pt_allocated st)) + pod_request qval ResourceCPU p"
    by (simp add: pod_step_def Let_def add_overhead_def add_cpu_memory_def pod_request_def
        val_Add val_contribution split: option.split)
  show "qval (Memory (pt_allocated (pod_step qo p st))) =
     qval (Memory (pt_allocated st)) + pod_request qval ResourceMemory p"
    by (simp add: pod_step_def Let_def add_overhead_def add_cpu_memory_def pod_request_def
        val_Add val_contribution split: option.split)
  show "qval (pt_allocatedGPU (pod_step qo p st)) =
     qval (pt_allocatedGPU st) + pod_request qval ResourceGPU p"
    using val_contribution_absent [of ResourceGPU p DecimalSI]
    by (auto simp: pod_step_def Let_def add_overhead_def pod_request_def
        val_Add val_contribution split: option.split)
qed

lemma val_pod_loop [loop_value]:
  "qval (CPU (pt_allocated (pod_loop qo ps st))) =
     qval (CPU (pt_allocated st)) + allocated_sum qval ResourceCPU ps"
  "qval (Memory (pt_allocated (pod_loop qo ps st))) =
     qval (Memory (pt_allocated st)) + allocated_sum qval ResourceMemory ps"
  "qval (pt_allocatedGPU (pod_loop qo ps st)) =
     qval (pt_allocatedGPU st) + allocated_sum qval ResourceGPU ps"
  by (induction ps arbitrary: st) (simp_all add: allocated_sum_def val_pod_step)

lemma val_instruction_step:
  "qval (CPU (instruction_step qo now i r)) = qval (CPU r) + reserved_cpu qo qval now i"
  "qval (Memory (instruction_step qo now i r)) = qval (Memory r) + reserved_memory qo qval now i"
  by (auto simp: instruction_step_def reserved_cpu_def reserved_memory_def holds_resources_def
      request_value_def Before_def val_Add Let_def split: option.splits sum.splits)

lemma val_instruction_loop [loop_value]:
  "qval (CPU (instruction_loop qo now is r)) =
     qval (CPU r) + (\<Sum>i\<leftarrow>is. reserved_cpu qo qval now i)"
  "qval (Memory (instruction_loop qo now is r)) =
     qval (Memory r) + (\<Sum>i\<leftarrow>is. reserved_memory qo qval now i)"
  by (induction "is" arbitrary: r) (simp_all add: val_instruction_step)

lemma val_zero_quantities [simp]:
  "qval (CPU (zero_quantities qo)) = 0" "qval (Memory (zero_quantities qo)) = 0"
  "GPU (zero_quantities qo) = None"
  by (simp_all add: zero_quantities_def val_NewQuantity)

end

section \<open>The published metrics\<close>

text \<open>A run that gets past its three list calls returns these metrics.\<close>

lemma collect_Inr:
  assumes "list_nodes rd = Inr ns" and "ns \<noteq> []" and "list_pods rd = Inr ps"
    and "list_provider_instructions rd = Inr is"
  shows "CollectClusterResources qo rd now =
    (let st = node_loop qo ns (node_totals_init qo); pt = pod_loop qo ps (pod_totals_init qo);
         capacity = (if nt_hasGPU st then (nt_capacity st)\<lparr>GPU := Some (nt_capacityGPU st)\<rparr>
                     else nt_capacity st);
         allocatable = (if nt_hasGPU st then (nt_allocatable st)\<lparr>GPU := Some (nt_allocatableGPU st)\<rparr>
                        else nt_allocatable st);
         allocated = (if pt_hasGPU pt then (pt_allocated pt)\<lparr>GPU := Some (pt_allocatedGPU pt)\<rparr>
                      else pt_allocated pt);
         reserved = instruction_loop qo now is (zero_quantities qo)
     in Inr \<lparr>Capacity = capacity, Allocatable = allocatable, Allocated = allocated, Used = None,
             Available = available_of qo (nt_hasGPU st) allocatable allocated reserved\<rparr>)"
  using assms
  by (simp add: CollectClusterResources_def calculateAllocatedResources_def
      calculateReservedResources_def Let_def)

lemma collect_Inr_cases:
  assumes "CollectClusterResources qo rd now = Inr m"
  obtains ns ps "is" where "list_nodes rd = Inr ns" "ns \<noteq> []" "list_pods rd = Inr ps"
    "list_provider_instructions rd = Inr is"
  using assms
  by (auto simp: CollectClusterResources_def calculateAllocatedResources_def
      calculateReservedResources_def Let_def split: sum.splits if_splits)

context quantity begin

lemma val_init_totals [simp]:
  "qval (CPU (nt_capacity (node_totals_init qo))) = 0"
  "qval (Memory (nt_capacity (node_totals_init qo))) = 0"
  "qval (CPU (nt_allocatable (node_totals_init qo))) = 0"
  "qval (Memory (nt_allocatable (node_totals_init qo))) = 0"
  "qval (nt_capacityGPU (node_totals_init qo)) = 0"
  "qval (nt_allocatableGPU (node_totals_init qo)) = 0"
  "qval (CPU (pt_allocated (pod_totals_init qo))) = 0"
  "qval (Memory (pt_allocated (pod_totals_init qo))) = 0"
  "qval (pt_allocatedGPU (pod_totals_init qo)) = 0"
  by (simp_all add: node_totals_init_def pod_totals_init_def val_ZeroQuantity)

lemma collect_cpu_memory:
  assumes "list_nodes rd = Inr ns" and "ns \<noteq> []" and "list_pods rd = Inr ps"
    and "list_provider_instructions rd = Inr is" and "CollectClusterResources qo rd now = Inr m"
  shows "qval (CPU (Capacity m)) = ready_sum qval node_Capacity ResourceCPU ns"
    and "qval (Memory (Capacity m)) = ready_sum qval node_Capacity ResourceMemory ns"
    and "qval (CPU (Allocatable m)) = ready_sum qval node_Allocatable ResourceCPU ns"
    and "qval (Memory (Allocatable m)) = ready_sum qval node_Allocatable ResourceMemory ns"
    and "qval (CPU (Allocated m)) = allocated_sum qval ResourceCPU ps"
    and "qval (Memory (Allocated m)) = allocated_sum qval ResourceMemory ps"
    and "qval (CPU (Available m)) =
           qval (CPU (Allocatable m)) - qval (CPU (Allocated m)) - (\<Sum>i\<leftarrow>is. reserved_cpu qo qval now i)"
    and "qval (Memory (Available m)) =
           qval (Memory (Allocatable m)) - qval (Memory (Allocated m))
           - (\<Sum>i\<leftarrow>is. reserved_memory qo qval now i)"
  using assms(5) [unfolded collect_Inr [OF assms(1-4)]]
  by (auto simp: Let_def available_of_def loop_value val_Sub DeepCopy_id)

lemma GPU_init_totals [simp]:
  "GPU (nt_capacity (node_totals_init qo)) = None" "GPU (nt_allocatable (node_totals_init qo)) = None"
  "GPU (pt_allocated (pod_totals_init qo)) = None"
  "\<not> nt_hasGPU (node_totals_init qo)" "\<not> pt_hasGPU (pod_totals_init qo)"
  by (simp_all add: node_totals_init_def pod_totals_init_def)

lemma collect_gpu:
  assumes "list_nodes rd = Inr ns" and "ns \<noteq> []" and "list_pods rd = Inr ps"
    and "list_provider_instructions rd = Inr is" and "CollectClusterResources qo rd now = Inr m"
  shows "map_option qval (GPU (Capacity m)) =
           (if \<exists>n\<in>set ns. isNodeReady n \<and> node_Capacity n ResourceGPU \<noteq> None
            then Some (ready_sum qval node_Capacity ResourceGPU ns) else None)"
    and "map_option qval (GPU (Allocated m)) =
           (if \<exists>p\<in>set ps. pod_counts p \<and> pod_mentions ResourceGPU p
            then Some (allocated_sum qval ResourceGPU ps) else None)"
    and "map_option qval (GPU (Available m)) =
           (if \<exists>n\<in>set ns. isNodeReady n \<and> node_Capacity n ResourceGPU \<noteq> None
            then Some (ready_sum qval node_Allocatable ResourceGPU ns - allocated_sum qval ResourceGPU ps)
            else None)"
    and "map_option qval (GPU (Allocatable m)) =
           (if \<exists>n\<in>set ns. isNodeReady n \<and> node_Capacity n ResourceGPU \<noteq> None
            then Some (ready_sum qval node_Allocatable ResourceGPU ns) else None)"
proof -
  let ?st = "node_loop qo ns (node_totals_init qo)" and ?pt = "pod_loop qo ps (pod_totals_init qo)"
  note m = assms(5) [unfolded collect_Inr [OF assms(1-4)] Let_def sum.inject, symmetric]
  have n: "(\<exists>n\<in>set ns. isNodeReady n \<and> node_Capacity n ResourceGPU \<noteq> None) = nt_hasGPU ?st"
    by (simp add: node_loop_hasGPU)
  have p: "(\<exists>p\<in>set ps. pod_counts p \<and> pod_mentions ResourceGPU p) = pt_hasGPU ?pt"
    by (simp add: pod_loop_hasGPU)
  note frames = node_loop_frame pod_loop_frame instruction_loop_frame
  note zero = allocated_sum_absent [of ps ResourceGPU qval, unfolded p]
  show "map_option qval (GPU (Capacity m)) =
      (if \<exists>n\<in>set ns. isNodeReady n \<and> node_Capacity n ResourceGPU \<noteq> None
       then Some (ready_sum qval node_Capacity ResourceGPU ns) else None)"
    unfolding n by (simp add: m loop_value frames)
  show "map_option qval (GPU (Allocated m)) =
      (if \<exists>p\<in>set ps. pod_counts p \<and> pod_mentions ResourceGPU p
       then Some (allocated_sum qval ResourceGPU ps) else None)"
    unfolding p by (simp add: m loop_value frames)
  show "map_option qval (GPU (Available m)) =
      (if \<exists>n\<in>set ns. isNodeReady n \<and> node_Capacity n ResourceGPU \<noteq> None
       then Some (ready_sum qval node_Allocatable ResourceGPU ns - allocated_sum qval ResourceGPU ps)
       else None)"
    unfolding n by (simp add: m available_of_def loop_value frames val_Sub DeepCopy_id Let_def zero)
  show "map_option qval (GPU (Allocatable m)) =
      (if \<exists>n\<in>set ns. isNodeReady n \<and> node_Capacity n ResourceGPU \<noteq> None
       then Some (ready_sum qval node_Allocatable ResourceGPU ns) else None)"
    unfolding n by (simp add: m loop_value frames)
qed

end

text \<open>Storage and usage are not measured.\<close>

lemma collect_unmeasured:
  assumes "CollectClusterResources qo rd now = Inr m"
  shows "Used m = None" and "Storage (Capacity m) = None" and "Storage (Allocatable m) = None"
    and "Storage (Allocated m) = None" and "Storage (Available m) = None"
  using assms
  by (auto simp: CollectClusterResources_def calculateAllocatedResources_def available_of_def Let_def
      node_loop_frame pod_loop_frame node_totals_init_def pod_totals_init_def zero_quantities_def
      split: sum.splits if_splits)

section \<open>Properties\<close>

text \<open>
  C1. The published figures. When the three list calls succeed and there is a node, the collector
  returns metrics whose capacity and allocatable CPU and memory are the sums over the ready
  nodes, whose allocated CPU and memory are the scheduler's requests of the running and pending
  pods, and whose available CPU and memory are allocatable minus allocated minus what the
  provider instructions in force reserve.
\<close>

theorem collect_published_figures:
  assumes "quantity qo qval"
    and "list_nodes rd = Inr ns" and "ns \<noteq> []" and "list_pods rd = Inr ps"
    and "list_provider_instructions rd = Inr is"
  shows "\<exists>m. CollectClusterResources qo rd now = Inr m \<and>
    qval (CPU (Capacity m)) = ready_sum qval node_Capacity ResourceCPU ns \<and>
    qval (Memory (Capacity m)) = ready_sum qval node_Capacity ResourceMemory ns \<and>
    qval (CPU (Allocatable m)) = ready_sum qval node_Allocatable ResourceCPU ns \<and>
    qval (Memory (Allocatable m)) = ready_sum qval node_Allocatable ResourceMemory ns \<and>
    qval (CPU (Allocated m)) = allocated_sum qval ResourceCPU ps \<and>
    qval (Memory (Allocated m)) = allocated_sum qval ResourceMemory ps \<and>
    qval (CPU (Available m)) =
      ready_sum qval node_Allocatable ResourceCPU ns - allocated_sum qval ResourceCPU ps
      - (\<Sum>i\<leftarrow>is. reserved_cpu qo qval now i) \<and>
    qval (Memory (Available m)) =
      ready_sum qval node_Allocatable ResourceMemory ns - allocated_sum qval ResourceMemory ps
      - (\<Sum>i\<leftarrow>is. reserved_memory qo qval now i)"
proof -
  obtain m where m: "CollectClusterResources qo rd now = Inr m"
    using collect_Inr [OF assms(2-5)] by (simp add: Let_def)
  show ?thesis
    using m quantity.collect_cpu_memory [OF assms m] by auto
qed

text \<open>The sample cluster of the witnesses: a ready node, one that is not, three pods, two instructions.\<close>

definition sample_node :: "string \<Rightarrow> int \<Rightarrow> int \<Rightarrow> int node" where
  "sample_node ready cpu mem =
     \<lparr>node_Conditions = [\<lparr>cond_Type = ''MemoryPressure'', cond_Status = ''False''\<rparr>,
                         \<lparr>cond_Type = ''Ready'', cond_Status = ready\<rparr>],
      node_Capacity = [ResourceCPU \<mapsto> cpu + 1, ResourceMemory \<mapsto> mem, ResourceGPU \<mapsto> 2],
      node_Allocatable = [ResourceCPU \<mapsto> cpu, ResourceMemory \<mapsto> mem, ResourceGPU \<mapsto> 2]\<rparr>"

definition sample_pod :: "string \<Rightarrow> int \<Rightarrow> int \<Rightarrow> int pod" where
  "sample_pod phase cpu initcpu =
     \<lparr>pod_Phase = phase,
      Containers = [\<lparr>Requests = [ResourceCPU \<mapsto> cpu, ResourceMemory \<mapsto> 5]\<rparr>],
      InitContainers = [\<lparr>Requests = [ResourceCPU \<mapsto> initcpu]\<rparr>],
      Overhead = Some [ResourceCPU \<mapsto> 1]\<rparr>"

definition sample_instruction :: "bool \<Rightarrow> string \<Rightarrow> string \<Rightarrow> ProviderInstruction" where
  "sample_instruction enforced cpu mem =
     \<lparr>ObjectMeta = \<lparr>Name = ''r1-provider'', Namespace = ''default'', ResourceVersion = ''1''\<rparr>,
      Spec = \<lparr>pi_ReservationName = ''r1'', pi_RequesterClusterID = ''rome'', pi_RequestedCPU = cpu,
              pi_RequestedMemory = mem, pi_Message = '''', pi_ExpiresAt = Some 100\<rparr>,
      Status = \<lparr>pi_Enforced = enforced, pi_LastUpdateTime = 0\<rparr>\<rparr>"

definition sample_nodes :: "int node list" where
  "sample_nodes = [sample_node ''True'' 20 30, sample_node ''False'' 40 50]"

definition sample_pods :: "int pod list" where
  "sample_pods = [sample_pod ''Running'' 3 2, sample_pod ''Pending'' 1 4, sample_pod ''Failed'' 9 9]"

definition sample_instructions :: "ProviderInstruction list" where
  "sample_instructions = [sample_instruction True ''2n'' ''4n'', sample_instruction False ''7n'' ''7n'']"

definition sample_reads :: "int cluster_reads" where
  "sample_reads =
     \<lparr>list_nodes = Inr sample_nodes, list_pods = Inr sample_pods,
      list_provider_instructions = Inr sample_instructions, get_kube_system = Inr ''uid''\<rparr>"

lemma sample_reads_lists [simp]:
  "list_nodes sample_reads = Inr sample_nodes" "sample_nodes \<noteq> []"
  "list_pods sample_reads = Inr sample_pods"
  "list_provider_instructions sample_reads = Inr sample_instructions"
  by (simp_all add: sample_reads_def sample_nodes_def)

lemma sample_sums [simp]:
  "ready_sum (\<lambda>v. v) node_Allocatable ResourceCPU sample_nodes = 20"
  "ready_sum (\<lambda>v. v) node_Allocatable ResourceMemory sample_nodes = 30"
  "allocated_sum (\<lambda>v. v) ResourceCPU sample_pods = 9"
  "allocated_sum (\<lambda>v. v) ResourceMemory sample_pods = 10"
  "(\<Sum>i\<leftarrow>sample_instructions. reserved_cpu nano_ops (\<lambda>v. v) 50 i) = 2"
  "(\<Sum>i\<leftarrow>sample_instructions. reserved_memory nano_ops (\<lambda>v. v) 50 i) = 4"
  by code_simp+

theorem collect_published_figures_witness:
  "\<exists>m. CollectClusterResources nano_ops sample_reads 50 = Inr m \<and>
     CPU (Allocatable m) = 20 \<and> CPU (Allocated m) = 9 \<and> CPU (Available m) = 9 \<and>
     Memory (Available m) = 16"
  using collect_published_figures [OF nano.quantity_axioms sample_reads_lists, of 50] by auto

text \<open>
  C21. GPUs. Capacity and availability of GPUs are published exactly when some ready node lists
  a GPU in its capacity, the allocated GPUs exactly when a running or pending pod asks for one;
  the published numbers are the sum over the ready nodes, the requests of the pods, and their
  difference. The \<^verbatim>\<open>hasGPU\<close> flag that the pod loop carries from pod to pod does not change a
  number: a pod counted before the flag is set asks for none.
\<close>

theorem collect_gpu_figures:
  assumes "quantity qo qval"
    and "list_nodes rd = Inr ns" and "ns \<noteq> []" and "list_pods rd = Inr ps"
    and "list_provider_instructions rd = Inr is"
  shows "\<exists>m. CollectClusterResources qo rd now = Inr m \<and>
    map_option qval (GPU (Capacity m)) =
      (if list_ex (\<lambda>n. isNodeReady n \<and> node_Capacity n ResourceGPU \<noteq> None) ns
       then Some (ready_sum qval node_Capacity ResourceGPU ns) else None) \<and>
    map_option qval (GPU (Allocated m)) =
      (if list_ex (\<lambda>p. pod_counts p \<and> pod_mentions ResourceGPU p) ps
       then Some (allocated_sum qval ResourceGPU ps) else None) \<and>
    map_option qval (GPU (Available m)) =
      (if list_ex (\<lambda>n. isNodeReady n \<and> node_Capacity n ResourceGPU \<noteq> None) ns
       then Some (ready_sum qval node_Allocatable ResourceGPU ns - allocated_sum qval ResourceGPU ps)
       else None)"
proof -
  obtain m where m: "CollectClusterResources qo rd now = Inr m"
    using collect_Inr [OF assms(2-5)] by (simp add: Let_def)
  show ?thesis
    using m quantity.collect_gpu [OF assms m] by (auto simp: list_ex_iff)
qed

lemma sample_gpu [simp]:
  "list_ex (\<lambda>n. isNodeReady n \<and> node_Capacity n ResourceGPU \<noteq> None) sample_nodes"
  "\<not> list_ex (\<lambda>p. pod_counts p \<and> pod_mentions ResourceGPU p) sample_pods"
  "ready_sum (\<lambda>v. v) node_Allocatable ResourceGPU sample_nodes = 2"
  "allocated_sum (\<lambda>v. v) ResourceGPU sample_pods = 0"
  by code_simp+

theorem collect_gpu_figures_witness:
  "\<exists>m. CollectClusterResources nano_ops sample_reads 50 = Inr m \<and>
     GPU (Allocated m) = None \<and> GPU (Available m) = Some 2"
  using collect_gpu_figures [OF nano.quantity_axioms sample_reads_lists, of 50]
  by (auto simp: option.map_id0 [unfolded id_def] simp del: not_None_eq)

text \<open>
  C34. The collector's errors: it fails exactly when a list call fails or the cluster has no
  node, and the message it returns is the one of the first call that failed, in the order
  nodes, pods, provider instructions.
\<close>

theorem collect_errors:
  "(CollectClusterResources qo rd now = Inl e) \<longleftrightarrow>
     (case list_nodes rd of
        Inl x \<Rightarrow> e = ''failed to list nodes: '' @ Error x
      | Inr ns \<Rightarrow>
          if ns = [] then e = ''no nodes found in cluster''
          else (case list_pods rd of
                  Inl x \<Rightarrow> e = ''failed to calculate allocated resources: failed to list pods: '' @ Error x
                | Inr ps \<Rightarrow>
                    (case list_provider_instructions rd of
                       Inl x \<Rightarrow> e = ''failed to calculate reserved resources: failed to list provider instructions: '' @ Error x
                     | Inr is \<Rightarrow> False)))"
  by (auto simp: CollectClusterResources_def calculateAllocatedResources_def
      calculateReservedResources_def Let_def split: sum.splits if_splits)

text \<open>
  What one instruction costs. Replacing one provider instruction in the list (the rest of the
  cluster being the same) changes the available CPU and memory by exactly the difference of what
  the two instructions reserve; in particular enforcing an unexpired instruction takes its whole
  request away from what is advertised.
\<close>

lemma collect_instruction_delta:
  assumes "quantity qo qval"
    and "list_provider_instructions rd = Inr (xs @ i # ys)"
    and "CollectClusterResources qo rd now = Inr m"
    and "CollectClusterResources qo (rd\<lparr>list_provider_instructions := Inr (xs @ j # ys)\<rparr>) now = Inr m'"
  shows "qval (CPU (Available m)) - qval (CPU (Available m')) =
           reserved_cpu qo qval now j - reserved_cpu qo qval now i \<and>
         qval (Memory (Available m)) - qval (Memory (Available m')) =
           reserved_memory qo qval now j - reserved_memory qo qval now i"
proof -
  from assms(3) obtain ns ps
    where l: "list_nodes rd = Inr ns" "ns \<noteq> []" "list_pods rd = Inr ps"
    by (rule collect_Inr_cases)
  let ?rd = "rd\<lparr>list_provider_instructions := Inr (xs @ j # ys)\<rparr>"
  have l': "list_nodes ?rd = Inr ns" "list_pods ?rd = Inr ps"
      "list_provider_instructions ?rd = Inr (xs @ j # ys)"
    using l by simp_all
  note v = quantity.collect_cpu_memory [OF assms(1) l assms(2,3)]
    quantity.collect_cpu_memory [OF assms(1) l'(1) l(2) l'(2,3) assms(4)]
  show ?thesis using v by simp
qed

lemma sample_instructions_split:
  "list_provider_instructions sample_reads =
     Inr ([sample_instruction True ''2n'' ''4n''] @ sample_instruction False ''7n'' ''7n'' # [])"
  by (simp add: sample_reads_def sample_instructions_def)

lemma sample_reserved:
  "reserved_cpu nano_ops (\<lambda>v. v) 50 (sample_instruction True ''7n'' ''7n'') = 7"
  "reserved_cpu nano_ops (\<lambda>v. v) 50 (sample_instruction False ''7n'' ''7n'') = 0"
  by code_simp+

text \<open>
  C25. The measured values do not depend on the order in which the API server lists nodes, pods and
  instructions: CPU, memory, GPU and storage of the capacity, of the allocatable, of the allocated
  and of the available resources are the same, and so is what is said about usage (nothing).
\<close>

theorem collect_order_independent:
  assumes "quantity qo qval"
    and "list_nodes rd = Inr ns" and "list_pods rd = Inr ps"
    and "list_provider_instructions rd = Inr is"
    and "mset ns' = mset ns" and "mset ps' = mset ps" and "mset is' = mset is"
    and "rd' = rd\<lparr>list_nodes := Inr ns', list_pods := Inr ps', list_provider_instructions := Inr is'\<rparr>"
    and "CollectClusterResources qo rd now = Inr m"
  shows "\<exists>m'. CollectClusterResources qo rd' now = Inr m' \<and>
    list_all (\<lambda>part. qval (CPU (part m')) = qval (CPU (part m)) \<and>
                      qval (Memory (part m')) = qval (Memory (part m)) \<and>
                      map_option qval (GPU (part m')) = map_option qval (GPU (part m)) \<and>
                      map_option qval (Storage (part m')) = map_option qval (Storage (part m)))
      [Capacity, Allocatable, Allocated, Available] \<and>
    Used m' = Used m"
proof -
  have "ns \<noteq> []" using assms(2,9) by (auto simp: CollectClusterResources_def)
  moreover from this assms(5) have "ns' \<noteq> []" by auto
  ultimately have ns: "ns \<noteq> []" "ns' \<noteq> []" .
  have l': "list_nodes rd' = Inr ns'" "list_pods rd' = Inr ps'" "list_provider_instructions rd' = Inr is'"
    using assms(8) by simp_all
  obtain m' where m': "CollectClusterResources qo rd' now = Inr m'"
    using collect_Inr [OF l'(1) ns(2) l'(2,3)] by (simp add: Let_def)
  have sums: "ready_sum qval sel k ns' = ready_sum qval sel k ns"
      "allocated_sum qval k ps' = allocated_sum qval k ps" for sel k
    unfolding ready_sum_def allocated_sum_def
    using assms(5,6) by (auto intro!: sum_list_map_perm simp: mset_filter)
  have res: "(\<Sum>i\<leftarrow>is'. reserved_cpu qo qval now i) = (\<Sum>i\<leftarrow>is. reserved_cpu qo qval now i)"
      "(\<Sum>i\<leftarrow>is'. reserved_memory qo qval now i) = (\<Sum>i\<leftarrow>is. reserved_memory qo qval now i)"
    using assms(7) by (auto intro!: sum_list_map_perm)
  have sets: "set ns' = set ns" using assms(5) by (rule mset_eq_setD)
  note v = quantity.collect_cpu_memory [OF assms(1,2) ns(1) assms(3,4,9)]
    quantity.collect_cpu_memory [OF assms(1) l'(1) ns(2) l'(2,3) m']
    quantity.collect_gpu [OF assms(1,2) ns(1) assms(3,4,9)]
    quantity.collect_gpu [OF assms(1) l'(1) ns(2) l'(2,3) m']
    collect_unmeasured [OF assms(9)] collect_unmeasured [OF m']
  have ex: "(\<exists>p\<in>set ps'. P p) = (\<exists>p\<in>set ps. P p)" for P
    using mset_eq_setD [OF assms(6)] by simp
  show ?thesis
    using m' by (simp add: v sums res sets ex) force
qed

theorem collect_order_independent_witness:
  "\<exists>m m'. CollectClusterResources nano_ops sample_reads 50 = Inr m \<and>
     CollectClusterResources nano_ops
       (sample_reads\<lparr>list_nodes := Inr (rev sample_nodes), list_pods := Inr (rev sample_pods),
          list_provider_instructions := Inr (rev sample_instructions)\<rparr>) 50 = Inr m' \<and>
     CPU (Available m') = CPU (Available m) \<and> Memory (Allocated m') = Memory (Allocated m) \<and>
     GPU (Capacity m') = GPU (Capacity m)"
proof -
  obtain m where m: "CollectClusterResources nano_ops sample_reads 50 = Inr m"
    using collect_Inr [OF sample_reads_lists, of nano_ops 50] by (simp add: Let_def)
  show ?thesis
    using m collect_order_independent [OF nano.quantity_axioms sample_reads_lists(1,3,4)
        mset_rev mset_rev mset_rev refl m]
    by (auto simp: option.map_id0 [unfolded id_def])
qed

text \<open>
  An instruction in force whose CPU request does not parse reserves nothing at all, not even
  the memory it asks for, while one whose memory request does not parse still reserves its CPU.
\<close>

lemma unparsable_request:
  assumes "quantity qo qval" and "pi_RequestedCPU (Spec i) \<noteq> ''''"
    and "ParseQuantity qo (pi_RequestedCPU (Spec i)) = Inl e"
  shows "qval (CPU (instruction_step qo now i r)) = qval (CPU r) \<and>
    qval (Memory (instruction_step qo now i r)) = qval (Memory r)"
  using assms(2,3) quantity.val_instruction_step [OF assms(1)]
  by (simp add: reserved_cpu_def reserved_memory_def request_value_def)

end
