(* ===== verification/Clock_Sync.thy ===== *)
theory Clock_Sync
  imports Prelude
begin

text \<open>
  \<^verbatim>\<open>calculateNextClockSync\<close> of \<^verbatim>\<open>internal/controller/advertisement_controller.go\<close>: the instant at
  which the next advertisement is due. Instants are nanoseconds since the epoch; the location of
  \<^verbatim>\<open>now\<close> is its offset from UTC, a fixed duration (a transition of daylight-saving time inside
  the two hours the function looks ahead is outside the model). \<^verbatim>\<open>int(interval.Minutes())\<close>
  goes through a \<^verbatim>\<open>float64\<close>; below \<open>2\<^sup>1\<^sup>7\<close> minutes (three months) the sum is exact enough that
  the conversion is the truncated quotient, which is what the model uses.
\<close>

section \<open>Wall clock\<close>

text \<open>\<^verbatim>\<open>t.Minute()\<close>, and \<^verbatim>\<open>time.Date\<close> on the year, month, day and hour of \<^verbatim>\<open>t\<close> and a minute.\<close>

definition Minute_of :: "duration \<Rightarrow> go_time \<Rightarrow> int" where
  "Minute_of off t = ((t + off) div Minute) mod 60"

definition Date_in_hour_of :: "duration \<Rightarrow> go_time \<Rightarrow> int \<Rightarrow> go_time" where
  "Date_in_hour_of off t m = ((t + off) div Hour) * Hour + m * Minute - off"

definition int_Minutes :: "duration \<Rightarrow> int" where
  "int_Minutes d = (if d < 0 then - ((- d) div Minute) else d div Minute)"

section \<open>The next synchronised instant\<close>

definition interval_minutes :: "duration \<Rightarrow> int" where
  "interval_minutes interval =
     (let intervalMinutes = int_Minutes interval
      in if intervalMinutes < 1 then 1 else intervalMinutes)"

definition calculateNextClockSync :: "duration \<Rightarrow> go_time \<Rightarrow> duration \<Rightarrow> go_time" where
  "calculateNextClockSync off now interval =
     (let intervalMinutes = interval_minutes interval;
          currentMinute = Minute_of off now;
          nextMinute = (currentMinute div intervalMinutes + 1) * intervalMinutes;
          nextSync = Date_in_hour_of off now (nextMinute mod 60)
      in if 60 \<le> nextMinute then nextSync + Hour else nextSync)"

lemma interval_minutes_pos: "1 \<le> interval_minutes interval"
  by (simp add: interval_minutes_def Let_def)

lemma interval_minutes_below: "interval < 2 * Minute \<Longrightarrow> interval_minutes interval = 1"
  by (auto simp: interval_minutes_def int_Minutes_def Let_def time_defs)

section \<open>Arithmetic of aligned instants\<close>

lemma Minute_of_bounds: "0 \<le> Minute_of off t" "Minute_of off t < 60"
  by (simp_all add: Minute_of_def)

text \<open>The hour and the minute of an instant make up its minute number.\<close>

lemma minute_number:
  "(t + off) div Minute = 60 * ((t + off) div Hour) + Minute_of off t"
proof -
  have "(t + off) div Hour = ((t + off) div Minute) div 60"
    by (simp add: Hour_def Minute_def Second_def zdiv_zmult2_eq mult.commute)
  then show ?thesis by (simp add: Minute_of_def)
qed

text \<open>The next multiple of \<open>d\<close> that is greater than \<open>c\<close>.\<close>

lemma next_multiple:
  assumes "(1 :: int) \<le> d"
  shows "c < (c div d + 1) * d" and "(c div d) * d \<le> c"
proof -
  have "(c div d) * d = c - c mod d" by (rule minus_mod_eq_div_mult [symmetric])
  moreover have "0 \<le> c mod d" "c mod d < d" using assms by simp_all
  ultimately show "c < (c div d + 1) * d" "(c div d) * d \<le> c"
    by (simp_all add: distrib_right)
qed

lemma Minute_pos: "1 \<le> Minute"
  by (simp add: time_defs)

lemmas within_minute = next_multiple [OF Minute_pos, of "t + off" for t off]

lemma Hour_minutes: "Hour = 60 * Minute"
  by (simp add: time_defs)

text \<open>
  The result in minutes of the local clock: the hour of \<open>now\<close>, and either the next multiple of
  the interval or, when that is not in this hour, what it leaves over an hour in the next one.
\<close>

lemma next_sync_minutes:
  fixes off now interval
  defines "n \<equiv> (Minute_of off now div interval_minutes interval + 1) * interval_minutes interval"
  shows "calculateNextClockSync off now interval + off =
    (60 * ((now + off) div Hour) + (if 60 \<le> n then 60 + n mod 60 else n)) * Minute"
proof -
  have "0 \<le> Minute_of off now" by (rule Minute_of_bounds)
  then have "0 \<le> n" unfolding n_def using next_multiple(1) [OF interval_minutes_pos] by (meson less_imp_le order_trans)
  then have "n mod 60 = n" if "\<not> 60 \<le> n" using that by simp
  then show ?thesis
    unfolding calculateNextClockSync_def Let_def n_def [symmetric] Date_in_hour_of_def Hour_minutes
    by (simp add: algebra_simps)
qed

lemma next_sync_range:
  "now < calculateNextClockSync off now interval \<and>
   calculateNextClockSync off now interval \<le> now + 2 * Hour"
proof -
  let ?c = "Minute_of off now" and ?d = "interval_minutes interval"
  let ?n = "(?c div ?d + 1) * ?d" and ?h = "60 * ((now + off) div Hour)"
  let ?m = "if 60 \<le> ?n then 60 + ?n mod 60 else ?n"
  have c: "0 \<le> ?c" "?c < 60" by (rule Minute_of_bounds)+
  have n: "?c < ?n" by (rule next_multiple(1) [OF interval_minutes_pos])
  have m: "?c + 1 \<le> ?m" "?m < 120" using c n by auto
  have num: "(now + off) div Minute = ?h + ?c" by (rule minute_number)
  have M: "0 < Minute" by (simp add: time_defs)
  have lo: "now + off < (?h + ?c + 1) * Minute" using within_minute(1) [of now off] num by simp
  have hi: "(?h + ?c) * Minute \<le> now + off" using within_minute(2) [of now off] num by simp
  have "now + off < (?h + ?m) * Minute"
    using lo mult_right_mono [of "?h + ?c + 1" "?h + ?m" Minute] m(1) M by linarith
  moreover have "(?h + ?m) * Minute \<le> (?h + ?c + 120) * Minute"
    using m(2) c(1) M by (intro mult_right_mono) linarith+
  then have "(?h + ?m) * Minute \<le> now + off + 2 * Hour"
    using hi by (simp add: Hour_minutes distrib_right)
  ultimately show ?thesis using next_sync_minutes [of off now interval] by simp
qed

section \<open>Properties\<close>

text \<open>
  C23. The next advertisement is always in the future, whatever the interval, and never more than
  two hours ahead: the loop of advertisements makes progress and cannot be put off for longer.
\<close>

theorem next_sync_bounds:
  "now < calculateNextClockSync off now interval \<and>
   calculateNextClockSync off now interval \<le> now + 2 * Hour"
  by (rule next_sync_range)

text \<open>
  C24. Clock alignment. When the interval is a whole number of minutes that divides the hour (every
  interval of less than two minutes counts as one), the result is the first instant after now
  at which the local clock shows a multiple of the interval. So all agents of a zone that compute
  it inside the same slot publish at the same instant.
\<close>

theorem next_sync_aligned:
  assumes "interval_minutes interval dvd 60"
  shows "calculateNextClockSync off now interval + off =
    ((now + off) div (interval_minutes interval * Minute) + 1) * (interval_minutes interval * Minute)"
proof -
  let ?c = "Minute_of off now" and ?d = "interval_minutes interval" and ?h = "(now + off) div Hour"
  let ?n = "(?c div ?d + 1) * ?d"
  obtain q where q: "60 = ?d * q" using assms by (rule dvdE)
  have d: "1 \<le> ?d" by (rule interval_minutes_pos)
  have c: "0 \<le> ?c" "?c < 60" by (rule Minute_of_bounds)+
  have "(?c div ?d) * ?d < q * ?d"
    using next_multiple(2) [OF d, of ?c] c(2) q by (simp add: mult.commute)
  then have "?c div ?d < q" using d by simp
  then have "?n \<le> q * ?d" using d by (intro mult_right_mono) auto
  then have n: "?n \<le> 60" using q by (simp add: mult.commute)
  have "(if 60 \<le> ?n then 60 + ?n mod 60 else ?n) = ?n" using n by auto
  then have r: "calculateNextClockSync off now interval + off = (60 * ?h + ?n) * Minute"
    using next_sync_minutes [of off now interval] by simp
  have "(now + off) div (?d * Minute) = ((now + off) div Minute) div ?d"
    using d by (subst mult.commute) (rule zdiv_zmult2_eq, linarith)
  also have "\<dots> = (?d * (q * ?h) + ?c) div ?d"
    using minute_number [of now off] q by (simp add: mult.assoc [symmetric])
  also have "\<dots> = q * ?h + ?c div ?d" using d by simp
  finally have "((now + off) div (?d * Minute) + 1) * (?d * Minute) = ((?d * q) * ?h + ?n) * Minute"
    by (simp add: algebra_simps)
  then show ?thesis unfolding r q by (rule sym)
qed

theorem next_sync_aligned_witness:
  "calculateNextClockSync 0 (7 * Minute + 30 * Second) (5 * Minute) = 10 * Minute"
proof -
  have d: "interval_minutes (5 * Minute) = 5" by code_simp
  show ?thesis
    using next_sync_aligned [of "5 * Minute" 0 "7 * Minute + 30 * Second", unfolded d]
    by (simp add: time_defs)
qed

text \<open>
  An interval below two minutes is a one-minute interval. The default of the command line is
  thirty seconds, so by default advertisements are due at the start of every minute and not every
  thirty seconds.
\<close>

lemma default_interval_is_a_minute:
  "calculateNextClockSync off now (30 * Second) = calculateNextClockSync off now Minute"
  by (simp add: calculateNextClockSync_def interval_minutes_below time_defs)

text \<open>
  An interval of an hour or more is not honoured: the result is the minute
  \<open>interval mod 60\<close> of the next hour, so that an interval of two hours asks for an update
  every hour.
\<close>

lemma long_interval_sync:
  assumes "Hour \<le> interval"
  shows "calculateNextClockSync off now interval =
    Date_in_hour_of off now (60 + (interval div Minute) mod 60)"
proof -
  have i: "interval_minutes interval = interval div Minute" and ge: "60 \<le> interval div Minute"
    using assms by (auto simp: interval_minutes_def int_Minutes_def Let_def time_defs)
  have "Minute_of off now div (interval div Minute) = 0"
    using Minute_of_bounds [of off now] ge by (intro div_pos_pos_trivial) auto
  then have "(Minute_of off now div interval_minutes interval + 1) * interval_minutes interval
      = interval div Minute" using i by simp
  then have "calculateNextClockSync off now interval + off =
      (60 * ((now + off) div Hour) + (60 + (interval div Minute) mod 60)) * Minute"
    using next_sync_minutes [of off now interval] ge by simp
  then show ?thesis by (simp add: Date_in_hour_of_def Hour_minutes algebra_simps)
qed

end
