(* ===== verification/Dto.thy ===== *)
theory Dto
  imports Api_Types
begin

text \<open>
  The protocol-independent messages of \<^verbatim>\<open>internal/transport/dto\<close> and their conversions from and
  to the custom resources. Quantities travel as strings, an absent GPU or storage as the empty
  string.
\<close>

section \<open>Messages\<close>

record ResourceQuantitiesDTO =
  dto_CPU :: string
  dto_Memory :: string
  dto_GPU :: string
  dto_Storage :: string

record ResourceMetricsDTO =
  dto_Capacity :: ResourceQuantitiesDTO
  dto_Allocatable :: ResourceQuantitiesDTO
  dto_Allocated :: ResourceQuantitiesDTO
  dto_Reserved :: "ResourceQuantitiesDTO option"
  dto_Available :: ResourceQuantitiesDTO

record AdvertisementDTO =
  dto_ClusterID :: string
  dto_ClusterName :: string
  dto_Resources :: ResourceMetricsDTO
  dto_Timestamp :: go_time

type_synonym Role = string

definition RoleRequester :: Role where
  "RoleRequester = ''requester''"

definition RoleProvider :: Role where
  "RoleProvider = ''provider''"

record ReservationStatusDTO =
  rsv_Phase :: string
  rsv_Message :: string
  rsv_ReservedAt :: "go_time option"
  rsv_ExpiresAt :: "go_time option"

record ReservationDTO =
  rsv_ID :: string
  rsv_RequesterID :: string
  rsv_TargetClusterID :: string
  rsv_RequestedResources :: ResourceQuantitiesDTO
  rsv_Status :: ReservationStatusDTO
  rsv_CreatedAt :: go_time

section \<open>Conversions\<close>

definition toResourceQuantitiesDTO ::
    "'q quantity_ops \<Rightarrow> 'q ResourceQuantities \<Rightarrow> ResourceQuantitiesDTO" where
  "toResourceQuantitiesDTO qo rq =
     \<lparr>dto_CPU = QString qo (CPU rq), dto_Memory = QString qo (Memory rq),
      dto_GPU = (case GPU rq of Some g \<Rightarrow> QString qo g | None \<Rightarrow> ''''),
      dto_Storage = (case Storage rq of Some s \<Rightarrow> QString qo s | None \<Rightarrow> '''')\<rparr>"

definition ToAdvertisementDTO :: "'q quantity_ops \<Rightarrow> 'q Advertisement \<Rightarrow> AdvertisementDTO" where
  "ToAdvertisementDTO qo adv =
     (let r = adv_Resources (Spec adv)
      in \<lparr>dto_ClusterID = adv_ClusterID (Spec adv), dto_ClusterName = Name (ObjectMeta adv),
          dto_Resources =
            \<lparr>dto_Capacity = toResourceQuantitiesDTO qo (Capacity r),
             dto_Allocatable = toResourceQuantitiesDTO qo (Allocatable r),
             dto_Allocated = toResourceQuantitiesDTO qo (Allocated r),
             dto_Reserved = None,
             dto_Available = toResourceQuantitiesDTO qo (Available r)\<rparr>,
          dto_Timestamp = adv_Timestamp (Spec adv)\<rparr>)"

text \<open>
  The parse of a DTO returns the struct filled so far and the first error. The fields are parsed in
  the order CPU, memory, GPU, storage; the optional ones only when they are not empty.
\<close>

definition parse_optional :: "'q quantity_ops \<Rightarrow> string \<Rightarrow> string + 'q option" where
  "parse_optional qo s =
     (if s \<noteq> '''' then (case ParseQuantity qo s of Inl e \<Rightarrow> Inl e | Inr q \<Rightarrow> Inr (Some q))
      else Inr None)"

definition fromResourceQuantitiesDTO ::
    "'q quantity_ops \<Rightarrow> ResourceQuantitiesDTO \<Rightarrow> 'q ResourceQuantities \<times> string option" where
  "fromResourceQuantitiesDTO qo d =
     (let rq = \<lparr>CPU = ZeroQuantity qo, Memory = ZeroQuantity qo, GPU = None, Storage = None\<rparr>
      in case ParseQuantity qo (dto_CPU d) of
           Inl e \<Rightarrow> (rq, Some e)
         | Inr c \<Rightarrow>
             let rq = rq\<lparr>CPU := c\<rparr>
             in case ParseQuantity qo (dto_Memory d) of
                  Inl e \<Rightarrow> (rq, Some e)
                | Inr m \<Rightarrow>
                    let rq = rq\<lparr>Memory := m\<rparr>
                    in case parse_optional qo (dto_GPU d) of
                         Inl e \<Rightarrow> (rq, Some e)
                       | Inr g \<Rightarrow>
                           let rq = rq\<lparr>GPU := g\<rparr>
                           in case parse_optional qo (dto_Storage d) of
                                Inl e \<Rightarrow> (rq, Some e)
                              | Inr s \<Rightarrow> (rq\<lparr>Storage := s\<rparr>, None))"

definition FromReservationDTO ::
    "ReservationDTO \<Rightarrow> string \<times> string \<times> string \<times> string \<times> go_time option" where
  "FromReservationDTO d =
     (rsv_RequesterID d, rsv_TargetClusterID d, dto_CPU (rsv_RequestedResources d),
      dto_Memory (rsv_RequestedResources d), rsv_ExpiresAt (rsv_Status d))"

section \<open>Round trip\<close>

text \<open>Two structs denote the same amounts.\<close>

definition same_amounts ::
    "('q \<Rightarrow> int) \<Rightarrow> 'q ResourceQuantities \<Rightarrow> 'q ResourceQuantities \<Rightarrow> bool" where
  "same_amounts qval a b \<longleftrightarrow>
     qval (CPU a) = qval (CPU b) \<and> qval (Memory a) = qval (Memory b) \<and>
     map_option qval (GPU a) = map_option qval (GPU b) \<and>
     map_option qval (Storage a) = map_option qval (Storage b)"

context quantity begin

lemma parse_QString:
  obtains b where "ParseQuantity qo (QString qo a) = Inr b" "qval b = qval a"
  using Parse_QString by blast

lemma parse_optional_roundtrip:
  obtains b where "parse_optional qo (case a of Some g \<Rightarrow> QString qo g | None \<Rightarrow> '''') = Inr b"
    "map_option qval b = map_option qval a"
proof (cases a)
  case None
  then show ?thesis using that by (simp add: parse_optional_def)
next
  case (Some g)
  obtain b where b: "ParseQuantity qo (QString qo g) = Inr b" "qval b = qval g"
    by (rule parse_QString)
  show ?thesis
  proof (rule that)
    show "parse_optional qo (case a of Some g \<Rightarrow> QString qo g | None \<Rightarrow> '''') = Inr (Some b)"
      using Some b(1) QString_nonempty [of g] by (simp add: parse_optional_def)
    show "map_option qval (Some b) = map_option qval a"
      using Some b(2) by simp
  qed
qed

lemma dto_roundtrip:
  "\<exists>rq'. fromResourceQuantitiesDTO qo (toResourceQuantitiesDTO qo rq) = (rq', None) \<and>
    same_amounts qval rq' rq"
proof -
  obtain c where c: "ParseQuantity qo (QString qo (CPU rq)) = Inr c" "qval c = qval (CPU rq)"
    by (rule parse_QString)
  obtain m where m: "ParseQuantity qo (QString qo (Memory rq)) = Inr m" "qval m = qval (Memory rq)"
    by (rule parse_QString)
  obtain g where g: "parse_optional qo (case GPU rq of Some g \<Rightarrow> QString qo g | None \<Rightarrow> '''') = Inr g"
      "map_option qval g = map_option qval (GPU rq)"
    by (rule parse_optional_roundtrip)
  obtain s where s: "parse_optional qo (case Storage rq of Some g \<Rightarrow> QString qo g | None \<Rightarrow> '''') = Inr s"
      "map_option qval s = map_option qval (Storage rq)"
    by (rule parse_optional_roundtrip)
  show ?thesis
    using c m g s
    by (simp add: fromResourceQuantitiesDTO_def toResourceQuantitiesDTO_def same_amounts_def Let_def)
qed

lemma same_amounts_wire: "same_amounts qval a (wire_quantities qo b) = same_amounts qval a b"
  by (simp add: same_amounts_def wire_quantities_def option.map_comp comp_def)

end

section \<open>Properties\<close>

text \<open>
  C27. Resource quantities survive the trip through their string form: parsing the DTO of a struct
  succeeds and gives a struct with the same CPU and memory, and with a GPU and a storage amount
  exactly when the original has one, of the same value.
\<close>

theorem quantities_dto_roundtrip:
  assumes "quantity qo qval"
  shows "\<exists>rq'. fromResourceQuantitiesDTO qo (toResourceQuantitiesDTO qo rq) = (rq', None) \<and>
    same_amounts qval rq' rq"
  by (rule quantity.dto_roundtrip [OF assms])

theorem quantities_dto_roundtrip_witness:
  "\<exists>rq'. fromResourceQuantitiesDTO nano_ops (toResourceQuantitiesDTO nano_ops
       \<lparr>CPU = 1500000000, Memory = 42, GPU = Some 7, Storage = None\<rparr>) = (rq', None) \<and>
     same_amounts (\<lambda>v. v) rq' \<lparr>CPU = 1500000000, Memory = 42, GPU = Some 7, Storage = None\<rparr>"
  by (rule quantities_dto_roundtrip [OF nano.quantity_axioms])

end
