(* ===== verification/Http_Client.thy ===== *)
theory Http_Client
  imports Dto
begin

text \<open>
  The REST client of \<^verbatim>\<open>internal/transport/http/client.go\<close>. The network and the broker behind it
  are the environment: what one exchange, one pause and one close do is a record \<open>http_env\<close> over
  an arbitrary type \<open>'w\<close> of states of the world.

  A request carries its body twice, as in Go. \<open>req_Body\<close> is the reader: \<^verbatim>\<open>Request.Clone\<close> copies the
  reader and not its contents, so all attempts of a retry share it, and an attempt that has read it
  leaves it drained for the next. \<open>req_GetBody\<close> is what the function \<^verbatim>\<open>GetBody\<close> yields, which
  \<^verbatim>\<open>NewRequestWithContext\<close> sets for a \<^verbatim>\<open>bytes.Reader\<close> and \<^verbatim>\<open>Clone\<close> copies: a fresh reader of the same
  bytes. The retry loop never calls it; whether the transport does, to rewind a body it has not got
  through, is up to the environment. A response body is given by what the three ways of reading it yield (decoded
  as an advertisement, decoded as a list of reservations, read as text); a body that has been
  closed yields nothing. The JSON text between a value and the wire is not modelled: a body stands
  for the value that is marshalled into it.
\<close>

section \<open>Requests and responses\<close>

datatype body_reader =
    NoBody
  | Unread AdvertisementDTO
  | Drained

record http_request =
  req_Verb :: string
  req_URL :: string
  req_ContentType :: string
  req_Body :: body_reader
  req_GetBody :: "AdvertisementDTO option"

record response_body =
  as_advertisement :: "AdvertisementDTO option"
  as_reservations :: "string + ReservationDTO option list"
  as_text :: string

record http_response =
  StatusCode :: int
  resp_Body :: response_body

definition closed_body :: response_body where
  "closed_body =
     \<lparr>as_advertisement = None, as_reservations = Inl ''http: read on closed response body'', as_text = ''''\<rparr>"

text \<open>
  \<open>Do\<close> is one exchange: an error or a response, whether the body reader has been read, and the new
  world. \<open>Pause\<close> waits for a duration unless the context ends first, which gives the context's
  error. \<open>CloseBody\<close> closes a response body. \<open>URLError\<close> says what is wrong with a URL, if anything.
\<close>

record 'w http_env =
  Do :: "'w \<Rightarrow> http_request \<Rightarrow> (string + http_response) \<times> bool \<times> 'w"
  Pause :: "'w \<Rightarrow> duration \<Rightarrow> string option \<times> 'w"
  CloseBody :: "'w \<Rightarrow> http_response \<Rightarrow> 'w"
  URLError :: "string \<Rightarrow> string option"

record HTTPCommunicator =
  baseURL :: string
  clusterID :: string
  maxRetries :: nat

abbreviation StatusOK :: int where
  "StatusOK \<equiv> 200"

abbreviation StatusCreated :: int where
  "StatusCreated \<equiv> 201"

section \<open>Retries\<close>

abbreviation firstBackoff :: duration where
  "firstBackoff \<equiv> 1 * Second"

abbreviation maxBackoff :: duration where
  "maxBackoff \<equiv> 16 * Second"

text \<open>The request as the next attempt finds it: what \<^verbatim>\<open>Clone\<close> shares of the body is the reader.\<close>

definition reader_after :: "bool \<Rightarrow> http_request \<Rightarrow> http_request" where
  "reader_after was_read req =
     (if was_read \<and> req_Body req \<noteq> NoBody then req\<lparr>req_Body := Drained\<rparr> else req)"

text \<open>
  The loop of \<^verbatim>\<open>doWithRetry\<close>; \<open>left\<close> is \<^verbatim>\<open>c.maxRetries - attempt\<close>. A response below 500 is
  returned. Otherwise the body of the response, if there is one, is closed, and unless this was the
  last attempt the loop pauses and tries again. After the last attempt a transport error is
  wrapped, and a 5xx response is returned with its body already closed.
\<close>

fun retry_loop ::
    "'w http_env \<Rightarrow> nat \<Rightarrow> duration \<Rightarrow> http_request \<Rightarrow> 'w \<Rightarrow> (string + http_response) \<times> 'w" where
  "retry_loop env left backoff req w =
     (case Do env w req of
        (res, was_read, w1) \<Rightarrow>
          (case res of
             Inr resp \<Rightarrow>
               if StatusCode resp < 500 then (Inr resp, w1)
               else
                 let w2 = CloseBody env w1 resp
                 in (case left of
                       0 \<Rightarrow> (Inr (resp\<lparr>resp_Body := closed_body\<rparr>), w2)
                     | Suc l \<Rightarrow>
                         (case Pause env w2 backoff of
                            (Some e, w3) \<Rightarrow> (Inl e, w3)
                          | (None, w3) \<Rightarrow>
                              retry_loop env l (next_backoff maxBackoff backoff) (reader_after was_read req) w3))
           | Inl err \<Rightarrow>
               (case left of
                  0 \<Rightarrow> (Inl (''max retries exceeded: '' @ err), w1)
                | Suc l \<Rightarrow>
                    (case Pause env w1 backoff of
                       (Some e, w3) \<Rightarrow> (Inl e, w3)
                     | (None, w3) \<Rightarrow>
                         retry_loop env l (next_backoff maxBackoff backoff) (reader_after was_read req) w3))))"

declare retry_loop.simps [simp del]

definition doWithRetry ::
    "HTTPCommunicator \<Rightarrow> 'w http_env \<Rightarrow> http_request \<Rightarrow> 'w \<Rightarrow> (string + http_response) \<times> 'w" where
  "doWithRetry c env req w = retry_loop env (maxRetries c) firstBackoff req w"

section \<open>Publishing an advertisement\<close>

definition get_request :: "string \<Rightarrow> http_request" where
  "get_request url = \<lparr>req_Verb = ''GET'', req_URL = url, req_ContentType = '''', req_Body = NoBody,
      req_GetBody = None\<rparr>"

definition post_request :: "string \<Rightarrow> AdvertisementDTO \<Rightarrow> http_request" where
  "post_request url adv =
     \<lparr>req_Verb = ''POST'', req_URL = url, req_ContentType = ''application/json'', req_Body = Unread adv,
      req_GetBody = Some adv\<rparr>"

definition advertisement_url :: "HTTPCommunicator \<Rightarrow> string \<Rightarrow> string" where
  "advertisement_url c cid = baseURL c @ ''/api/v1/advertisements/'' @ cid"

definition publish_url :: "HTTPCommunicator \<Rightarrow> string" where
  "publish_url c = baseURL c @ ''/api/v1/advertisements''"

text \<open>\<^verbatim>\<open>json.Marshal\<close> of the advertisement fails only on a time whose year is not in \<open>0..9999\<close>.\<close>

definition marshal_error :: "AdvertisementDTO \<Rightarrow> string option" where
  "marshal_error adv =
     (if - 62167219200 * Second \<le> dto_Timestamp adv \<and> dto_Timestamp adv < 253402300800 * Second
      then None
      else Some ''json: error calling MarshalJSON for type time.Time: year outside of range [0,9999]'')"

text \<open>
  Step 1 of \<^verbatim>\<open>PublishAdvertisement\<close>: what the answer to the GET does to the advertisement that is
  about to be posted. Only a response 200 that decodes and has a \<^verbatim>\<open>reserved\<close> entry changes it.
\<close>

definition with_reserved :: "ResourceQuantitiesDTO option \<Rightarrow> AdvertisementDTO \<Rightarrow> AdvertisementDTO" where
  "with_reserved r adv = adv\<lparr>dto_Resources := (dto_Resources adv)\<lparr>dto_Reserved := r\<rparr>\<rparr>"

definition preserve_reserved :: "string + http_response \<Rightarrow> AdvertisementDTO \<Rightarrow> AdvertisementDTO" where
  "preserve_reserved res adv =
     (case res of
        Inl e \<Rightarrow> adv
      | Inr resp \<Rightarrow>
          if StatusCode resp = StatusOK then
            (case as_advertisement (resp_Body resp) of
               None \<Rightarrow> adv
             | Some existing \<Rightarrow>
                 (case dto_Reserved (dto_Resources existing) of
                    None \<Rightarrow> adv
                  | Some r \<Rightarrow> with_reserved (Some r) adv))
          else adv)"

text \<open>The body of the GET is closed in the branch of the response 200 only.\<close>

definition close_ok :: "'w http_env \<Rightarrow> string + http_response \<Rightarrow> 'w \<Rightarrow> 'w" where
  "close_ok env res w =
     (case res of
        Inl e \<Rightarrow> w
      | Inr resp \<Rightarrow> if StatusCode resp = StatusOK then CloseBody env w resp else w)"

definition PublishAdvertisement ::
    "HTTPCommunicator \<Rightarrow> 'w http_env \<Rightarrow> 'w \<Rightarrow> AdvertisementDTO \<Rightarrow> string option \<times> 'w" where
  "PublishAdvertisement c env w adv =
     (case URLError env (advertisement_url c (dto_ClusterID adv)) of
        Some e \<Rightarrow> (Some (''failed to create GET request: '' @ e), w)
      | None \<Rightarrow>
          (case doWithRetry c env (get_request (advertisement_url c (dto_ClusterID adv))) w of
             (got, w1) \<Rightarrow>
               let w2 = close_ok env got w1; adv' = preserve_reserved got adv
               in (case marshal_error adv' of
                     Some e \<Rightarrow> (Some (''failed to marshal advertisement: '' @ e), w2)
                   | None \<Rightarrow>
                       (case URLError env (publish_url c) of
                          Some e \<Rightarrow> (Some (''failed to create POST request: '' @ e), w2)
                        | None \<Rightarrow>
                            (case doWithRetry c env (post_request (publish_url c) adv') w2 of
                               (Inl e, w3) \<Rightarrow> (Some (''failed to publish advertisement: '' @ e), w3)
                             | (Inr resp, w3) \<Rightarrow>
                                 let w4 = CloseBody env w3 resp
                                 in if StatusCode resp \<noteq> StatusOK \<and> StatusCode resp \<noteq> StatusCreated
                                    then (Some (''broker returned status '' @ show_int (StatusCode resp) @ '': ''
                                                 @ as_text (resp_Body resp)), w4)
                                    else (None, w4))))))"

section \<open>Fetching reservations, ping\<close>

definition reservations_url :: "HTTPCommunicator \<Rightarrow> string \<Rightarrow> Role \<Rightarrow> string" where
  "reservations_url c cid role =
     baseURL c @ ''/api/v1/reservations?clusterID='' @ cid @ ''&role='' @ role"

definition FetchReservations ::
    "HTTPCommunicator \<Rightarrow> 'w http_env \<Rightarrow> 'w \<Rightarrow> string \<Rightarrow> Role
       \<Rightarrow> (string + ReservationDTO option list) \<times> 'w" where
  "FetchReservations c env w cid role =
     (case URLError env (reservations_url c cid role) of
        Some e \<Rightarrow> (Inl (''failed to create request: '' @ e), w)
      | None \<Rightarrow>
          (case doWithRetry c env (get_request (reservations_url c cid role)) w of
             (Inl e, w1) \<Rightarrow> (Inl (''failed to fetch reservations: '' @ e), w1)
           | (Inr resp, w1) \<Rightarrow>
               let w2 = CloseBody env w1 resp
               in if StatusCode resp \<noteq> StatusOK
                  then (Inl (''broker returned status '' @ show_int (StatusCode resp) @ '': ''
                             @ as_text (resp_Body resp)), w2)
                  else (case as_reservations (resp_Body resp) of
                          Inl e \<Rightarrow> (Inl (''failed to decode response: '' @ e), w2)
                        | Inr rs \<Rightarrow> (Inr rs, w2))))"

definition Ping :: "HTTPCommunicator \<Rightarrow> 'w http_env \<Rightarrow> 'w \<Rightarrow> string option \<times> 'w" where
  "Ping c env w =
     (case URLError env (baseURL c @ ''/healthz'') of
        Some e \<Rightarrow> (Some (''failed to create request: '' @ e), w)
      | None \<Rightarrow>
          (case Do env w (get_request (baseURL c @ ''/healthz'')) of
             (Inl e, was_read, w1) \<Rightarrow> (Some (''ping failed: '' @ e), w1)
           | (Inr resp, was_read, w1) \<Rightarrow>
               let w2 = CloseBody env w1 resp
               in if StatusCode resp \<noteq> StatusOK
                  then (Some (''broker returned status '' @ show_int (StatusCode resp)), w2)
                  else (None, w2)))"

end
