(* ===== verification/Http_Correct.thy ===== *)
theory Http_Correct
  imports Http_Client
begin

text \<open>
  What the REST client promises. The exchanges, pauses and closes of a run are made visible by
  running it in a logged environment (\<open>logged\<close>), which behaves like the one it wraps and records
  every call: the retry theorems are statements about that log and hold in every environment. The
  theorems on publishing relate the client to what the broker's REST interface promises (locale
  \<open>rest_broker\<close>).
\<close>

section \<open>The log of a run\<close>

datatype http_event =
    Sent http_request "string + http_response"
  | Paused duration "string option"
  | Closed http_response

definition logged :: "'w http_env \<Rightarrow> ('w \<times> http_event list) http_env" where
  "logged env =
     \<lparr>Do = (\<lambda>(w, l) req. case Do env w req of (res, b, w') \<Rightarrow> (res, b, (w', l @ [Sent req res]))),
      Pause = (\<lambda>(w, l) d. case Pause env w d of (e, w') \<Rightarrow> (e, (w', l @ [Paused d e]))),
      CloseBody = (\<lambda>(w, l) resp. (CloseBody env w resp, l @ [Closed resp])),
      URLError = URLError env\<rparr>"

definition retryable :: "string + http_response \<Rightarrow> bool" where
  "retryable res = (case res of Inl e \<Rightarrow> True | Inr resp \<Rightarrow> 500 \<le> StatusCode resp)"

text \<open>What the loop returns when its last attempt gave \<open>res\<close>.\<close>

definition final_result :: "string + http_response \<Rightarrow> string + http_response" where
  "final_result res =
     (case res of
        Inl err \<Rightarrow> Inl (''max retries exceeded: '' @ err)
      | Inr resp \<Rightarrow> if 500 \<le> StatusCode resp then Inr (resp\<lparr>resp_Body := closed_body\<rparr>) else Inr resp)"

lemma logged_simps:
  "Do (logged env) (w, l) req = (case Do env w req of (res, b, w') \<Rightarrow> (res, b, (w', l @ [Sent req res])))"
  "Pause (logged env) (w, l) d = (case Pause env w d of (e, w') \<Rightarrow> (e, (w', l @ [Paused d e])))"
  "CloseBody (logged env) (w, l) resp = (CloseBody env w resp, l @ [Closed resp])"
  "URLError (logged env) = URLError env"
  by (simp_all add: logged_def)

section \<open>Shape of the retry loop\<close>

text \<open>
  One turn of the loop, as a case distinction on how it ends: with the result of this attempt, with
  the context's error, or with another turn.
\<close>

lemma retry_loop_cases:
  obtains (final) res b w1 w2 where "Do env w req = (res, b, w1)"
      "\<not> retryable res \<or> left = 0" "retry_loop env left d req w = (final_result res, w2)"
      "w2 = (case res of Inr resp \<Rightarrow> if 500 \<le> StatusCode resp then CloseBody env w1 resp else w1 | Inl e \<Rightarrow> w1)"
    | (cancelled) res b w1 w2 w3 l e where "Do env w req = (res, b, w1)" "retryable res" "left = Suc l"
      "w2 = (case res of Inr resp \<Rightarrow> CloseBody env w1 resp | Inl e \<Rightarrow> w1)"
      "Pause env w2 d = (Some e, w3)" "retry_loop env left d req w = (Inl e, w3)"
    | (again) res b w1 w2 w3 l where "Do env w req = (res, b, w1)" "retryable res" "left = Suc l"
      "w2 = (case res of Inr resp \<Rightarrow> CloseBody env w1 resp | Inl e \<Rightarrow> w1)"
      "Pause env w2 d = (None, w3)"
      "retry_loop env left d req w =
         retry_loop env l (next_backoff maxBackoff d) (reader_after b req) w3"
proof -
  obtain res b w1 where o: "Do env w req = (res, b, w1)" by (metis surj_pair)
  define w2 where "w2 = (case res of Inr resp \<Rightarrow> CloseBody env w1 resp | Inl e \<Rightarrow> w1)"
  obtain e w3 where p: "Pause env w2 d = (e, w3)" by (metis surj_pair)
  show ?thesis
  proof (cases "\<not> retryable res \<or> left = 0")
    case True
    then show ?thesis
      using o by (intro final [OF o True])
        (auto simp: retry_loop.simps [of env left] final_result_def retryable_def Let_def split: sum.splits nat.splits)
  next
    case False
    then obtain l where l: "left = Suc l" and r: "retryable res" by (cases left) auto
    show ?thesis
    proof (cases e)
      case None
      show ?thesis
        using o p None l r w2_def
        by (intro again [OF o r l w2_def])
          (auto simp: retry_loop.simps [of env "Suc l"] retryable_def Let_def split: sum.splits)
    next
      case (Some x)
      show ?thesis
        using o p Some l r w2_def
        by (intro cancelled [OF o r l w2_def])
          (auto simp: retry_loop.simps [of env "Suc l"] retryable_def Let_def split: sum.splits)
    qed
  qed
qed

text \<open>
  The log of a run, written down without reference to the loop. A turn that is followed by another
  one is an exchange that failed, the closing of the response's body if there is one, and a pause
  that ended with \<open>e\<close>; \<open>turns f xs\<close> are the turns of the exchanges \<open>xs\<close>, with pauses of \<open>f 0\<close>,
  \<open>f 1\<close> and so on, none of which the context has cut short.
\<close>

definition closing :: "string + http_response \<Rightarrow> http_event list" where
  "closing res =
     (case res of Inl e \<Rightarrow> [] | Inr resp \<Rightarrow> if 500 \<le> StatusCode resp then [Closed resp] else [])"

type_synonym exchange = "http_request \<times> (string + http_response)"

definition turn :: "duration \<Rightarrow> string option \<Rightarrow> exchange \<Rightarrow> http_event list" where
  "turn d e x = Sent (fst x) (snd x) # closing (snd x) @ [Paused d e]"

fun turns :: "(nat \<Rightarrow> duration) \<Rightarrow> exchange list \<Rightarrow> http_event list" where
  "turns f [] = []"
| "turns f (x # xs) = turn (f 0) None x @ turns (\<lambda>i. f (Suc i)) xs"

text \<open>An attempt sends the request it is given, or the request with its reader drained.\<close>

definition attempt_of :: "http_request \<Rightarrow> http_request \<Rightarrow> bool" where
  "attempt_of req r \<longleftrightarrow> r = req \<or> r = req\<lparr>req_Body := Drained\<rparr>"

text \<open>
  A run with \<open>left\<close> retries: some turns whose exchanges all failed in a way that is retried, and
  then a last exchange whose result is returned, either because it is final or because no retry is
  left; or the last of the turns ends in a pause that the context cuts short, and its error is
  returned.
\<close>

definition retry_log ::
    "nat \<Rightarrow> (nat \<Rightarrow> duration) \<Rightarrow> http_request \<Rightarrow> http_event list \<Rightarrow> string + http_response \<Rightarrow> bool" where
  "retry_log left f req l out \<longleftrightarrow>
     (\<exists>xs. length xs \<le> left \<and> list_all (\<lambda>x. retryable (snd x) \<and> attempt_of req (fst x)) xs \<and>
        ((\<exists>r res. attempt_of req r \<and> l = turns f xs @ Sent r res # closing res \<and>
            out = final_result res \<and> (retryable res \<longrightarrow> length xs = left)) \<or>
         (\<exists>ys x e. xs = ys @ [x] \<and> l = turns f ys @ turn (f (length ys)) (Some e) x \<and> out = Inl e)))"

lemma attempt_of_refl [simp]: "attempt_of req req"
  by (simp add: attempt_of_def)

lemma attempt_of_again: "attempt_of (reader_after b req) r \<Longrightarrow> attempt_of req r"
  by (auto simp: attempt_of_def reader_after_def split: if_splits)

lemma retry_log_final:
  assumes "\<not> retryable res \<or> left = 0"
  shows "retry_log left f req (Sent req res # closing res) (final_result res)"
  unfolding retry_log_def using assms by (intro exI [of _ "[]"]) auto

lemma retry_log_cancelled:
  assumes "retryable res"
  shows "retry_log (Suc n) f req (turn (f 0) (Some e) (req, res)) (Inl e)"
  unfolding retry_log_def using assms by (intro exI [of _ "[(req, res)]"]) auto

lemma retry_log_again:
  assumes "retry_log n (\<lambda>i. f (Suc i)) (reader_after b req) l out" and "retryable res"
  shows "retry_log (Suc n) f req (turn (f 0) None (req, res) @ l) out"
proof -
  from assms(1) obtain xs where xs: "length xs \<le> n"
      "list_all (\<lambda>x. retryable (snd x) \<and> attempt_of (reader_after b req) (fst x)) xs"
    and cases: "(\<exists>r res. attempt_of (reader_after b req) r \<and> l = turns (\<lambda>i. f (Suc i)) xs @ Sent r res # closing res \<and>
            out = final_result res \<and> (retryable res \<longrightarrow> length xs = n)) \<or>
         (\<exists>ys x e. xs = ys @ [x] \<and> l = turns (\<lambda>i. f (Suc i)) ys @ turn (f (Suc (length ys))) (Some e) x \<and> out = Inl e)"
    unfolding retry_log_def by blast
  let ?xs = "(req, res) # xs" and ?l = "turn (f 0) None (req, res) @ l"
  have "list_all (\<lambda>x. retryable (snd x) \<and> attempt_of req (fst x)) ?xs"
    using xs(2) assms(2) attempt_of_again by (auto simp: list_all_iff)
  moreover from cases have "(\<exists>r res. attempt_of req r \<and> ?l = turns f ?xs @ Sent r res # closing res \<and>
            out = final_result res \<and> (retryable res \<longrightarrow> length ?xs = Suc n)) \<or>
         (\<exists>ys x e. ?xs = ys @ [x] \<and> ?l = turns f ys @ turn (f (length ys)) (Some e) x \<and> out = Inl e)"
  proof
    assume "\<exists>ys x e. xs = ys @ [x] \<and> l = turns (\<lambda>i. f (Suc i)) ys @ turn (f (Suc (length ys))) (Some e) x \<and> out = Inl e"
    then obtain ys x e where "xs = ys @ [x]" "l = turns (\<lambda>i. f (Suc i)) ys @ turn (f (Suc (length ys))) (Some e) x"
        "out = Inl e" by blast
    then have "?xs = ((req, res) # ys) @ [x] \<and>
        ?l = turns f ((req, res) # ys) @ turn (f (length ((req, res) # ys))) (Some e) x \<and> out = Inl e" by simp
    then show ?thesis by blast
  qed (use attempt_of_again in fastforce)
  ultimately show ?thesis unfolding retry_log_def using xs(1) by (intro exI [of _ ?xs] conjI) simp_all
qed

text \<open>The delays of a loop that starts with the delay \<open>d\<close>.\<close>

abbreviation delays_from :: "duration \<Rightarrow> nat \<Rightarrow> duration" where
  "delays_from d \<equiv> \<lambda>i. (next_backoff maxBackoff ^^ i) d"

lemma delays_Suc: "delays_from d (Suc i) = delays_from (next_backoff maxBackoff d) i"
  by (simp add: funpow_swap1)

lemma retry_loop_log:
  "retry_loop (logged env) left d req (w, l0) = (out, (w', l1)) \<Longrightarrow>
   \<exists>l. l1 = l0 @ l \<and> retry_log left (delays_from d) req l out"
proof (induction left arbitrary: d req w l0 rule: less_induct)
  case (less left)
  show ?case
  proof (cases rule: retry_loop_cases [of "logged env" "(w, l0)" req left d])
    case (final res b w1 w2)
    then obtain v where "w1 = (v, l0 @ [Sent req res])" by (auto simp: logged_simps split: prod.splits)
    with final less.prems have "l1 = l0 @ Sent req res # closing res \<and> out = final_result res"
      by (auto simp: logged_simps closing_def split: sum.splits if_splits)
    with retry_log_final [OF final(2)] show ?thesis by auto
  next
    case (cancelled res b w1 w2 w3 n e)
    then obtain v where "w1 = (v, l0 @ [Sent req res])" by (auto simp: logged_simps split: prod.splits)
    with cancelled less.prems have "l1 = l0 @ turn d (Some e) (req, res) \<and> out = Inl e"
      by (auto simp: logged_simps turn_def closing_def retryable_def split: sum.splits prod.splits)
    with retry_log_cancelled [OF cancelled(2), of n "delays_from d"] cancelled(3) show ?thesis by auto
  next
    case (again res b w1 w2 w3 n)
    then obtain v where "w1 = (v, l0 @ [Sent req res])" by (auto simp: logged_simps split: prod.splits)
    with again obtain v3 where w3: "w3 = (v3, l0 @ turn d None (req, res))"
      by (auto simp: logged_simps turn_def closing_def retryable_def split: sum.splits prod.splits)
    from again less.prems w3
    have "retry_loop (logged env) n (next_backoff maxBackoff d) (reader_after b req)
        (v3, l0 @ turn d None (req, res)) = (out, (w', l1))"
      by simp
    from less.IH [OF _ this] again(3) obtain k where k: "l1 = (l0 @ turn d None (req, res)) @ k"
        "retry_log n (delays_from (next_backoff maxBackoff d)) (reader_after b req) k out"
      by auto
    from retry_log_again [of n "delays_from d" b req k out res, unfolded delays_Suc, OF k(2) again(2)] k(1) again(3)
    show ?thesis by auto
  qed
qed

text \<open>Logging is transparent: the run in the logged environment is the run in the environment.\<close>

lemma retry_loop_logged:
  "retry_loop (logged env) left d req (w, l0) = (out, (w', l1)) \<Longrightarrow> retry_loop env left d req w = (out, w')"
proof (induction left arbitrary: d req w l0)
  case 0
  then show ?case
    by (auto simp: retry_loop.simps [of _ 0] logged_simps Let_def split: prod.splits sum.splits if_splits)
next
  case (Suc n)
  then show ?case
    by (auto simp: retry_loop.simps [of _ "Suc n"] logged_simps Let_def
        split: prod.splits sum.splits if_splits option.splits)
qed

section \<open>Properties of the retry loop\<close>

definition retry_delay :: "nat \<Rightarrow> duration" where
  "retry_delay i = min (Second * 2 ^ i) (16 * Second)"

lemma retry_delays: "delays_from firstBackoff = retry_delay"
  using next_backoff_iterate [of firstBackoff maxBackoff] by (auto simp: retry_delay_def time_defs)

text \<open>
  C16. Retries, in every environment: what the log of a call looks like, event by event. There are
  \<open>length xs\<close> turns, at most \<^verbatim>\<open>maxRetries\<close>, each an exchange that failed with a transport error or a
  status of 500 or more, the closing of the response and exactly one pause, of 1, 2, 4, 8, 16, 16, ...
  seconds. Then either there is one more exchange and the call returns its result, which is a
  response below 500 unless all \<^verbatim>\<open>maxRetries + 1\<close> attempts have been used; or the context ends in the
  pause of the last turn and the call returns the context's error. Every attempt sends the same
  request, but for the state of its reader; and logging does not change the run.
\<close>

theorem retry_attempts:
  assumes "doWithRetry c (logged env) req (w, []) = (out, (w', l))"
  shows "(\<exists>xs. length xs \<le> maxRetries c \<and> list_all (\<lambda>x. retryable (snd x) \<and> attempt_of req (fst x)) xs \<and>
      ((\<exists>r res. attempt_of req r \<and> l = turns retry_delay xs @ Sent r res # closing res \<and>
          out = final_result res \<and> (retryable res \<longrightarrow> length xs = maxRetries c)) \<or>
       (\<exists>ys x e. xs = ys @ [x] \<and> l = turns retry_delay ys @ turn (retry_delay (length ys)) (Some e) x \<and>
          out = Inl e))) \<and>
    doWithRetry c env req w = (out, w')"
proof -
  have r: "retry_loop (logged env) (maxRetries c) firstBackoff req (w, []) = (out, (w', l))"
    using assms by (simp add: doWithRetry_def)
  from retry_loop_log [OF r] have "retry_log (maxRetries c) retry_delay req l out"
    unfolding retry_delays by simp
  moreover have "doWithRetry c env req w = (out, w')"
    using retry_loop_logged [OF r] by (simp add: doWithRetry_def)
  ultimately show ?thesis unfolding retry_log_def by blast
qed

text \<open>A broker that answers with the given status codes one after the other.\<close>

definition script_env :: "int list http_env" where
  "script_env =
     \<lparr>Do = (\<lambda>w req. case w of
               [] \<Rightarrow> (Inl ''connection refused'', False, [])
             | s # ss \<Rightarrow> (Inr \<lparr>StatusCode = s, resp_Body = closed_body\<rparr>, True, ss)),
      Pause = (\<lambda>w d. (None, w)), CloseBody = (\<lambda>w r. w), URLError = (\<lambda>u. None)\<rparr>"

definition sample_communicator :: HTTPCommunicator where
  "sample_communicator = \<lparr>baseURL = ''https://broker:8443'', clusterID = ''rome'', maxRetries = 3\<rparr>"

definition sample_dto :: AdvertisementDTO where
  "sample_dto =
     (let z = \<lparr>dto_CPU = ''1'', dto_Memory = ''2'', dto_GPU = '''', dto_Storage = ''''\<rparr>
      in \<lparr>dto_ClusterID = ''rome'', dto_ClusterName = ''cluster-advertisement'',
          dto_Resources = \<lparr>dto_Capacity = z, dto_Allocatable = z, dto_Allocated = z, dto_Reserved = None,
                           dto_Available = z\<rparr>,
          dto_Timestamp = 0\<rparr>)"

lemma sample_retry:
  "doWithRetry sample_communicator (logged script_env) (post_request ''u'' a) ([503, 500, 200], []) =
     (Inr \<lparr>StatusCode = 200, resp_Body = closed_body\<rparr>, [],
      [Sent (post_request ''u'' a) (Inr \<lparr>StatusCode = 503, resp_Body = closed_body\<rparr>),
       Closed \<lparr>StatusCode = 503, resp_Body = closed_body\<rparr>, Paused 1000000000 None,
       Sent ((post_request ''u'' a)\<lparr>req_Body := Drained\<rparr>) (Inr \<lparr>StatusCode = 500, resp_Body = closed_body\<rparr>),
       Closed \<lparr>StatusCode = 500, resp_Body = closed_body\<rparr>, Paused 2000000000 None,
       Sent ((post_request ''u'' a)\<lparr>req_Body := Drained\<rparr>) (Inr \<lparr>StatusCode = 200, resp_Body = closed_body\<rparr>)])"
  by code_simp

theorem retry_attempts_witness:
  "\<exists>out l xs r res. doWithRetry sample_communicator (logged script_env) (post_request ''u'' sample_dto)
       ([503, 500, 200], []) = (out, ([], l)) \<and> length l = 7 \<and>
     length xs \<le> 3 \<and> list_all (\<lambda>x. retryable (snd x) \<and> attempt_of (post_request ''u'' sample_dto) (fst x)) xs \<and>
     l = turns retry_delay xs @ Sent r res # closing res \<and> out = final_result res"
proof -
  obtain out l where r: "doWithRetry sample_communicator (logged script_env) (post_request ''u'' sample_dto)
      ([503, 500, 200], []) = (out, ([], l))"
    and l: "length l = 7" and out: "out = Inr \<lparr>StatusCode = 200, resp_Body = closed_body\<rparr>"
    using sample_retry by fastforce
  have m: "maxRetries sample_communicator = 3" by (simp add: sample_communicator_def)
  from retry_attempts [OF r] obtain xs where xs: "length xs \<le> 3"
      "list_all (\<lambda>x. retryable (snd x) \<and> attempt_of (post_request ''u'' sample_dto) (fst x)) xs"
    and "(\<exists>r res. l = turns retry_delay xs @ Sent r res # closing res \<and> out = final_result res) \<or> (\<exists>e. out = Inl e)"
    unfolding m by blast
  with out obtain q res where "l = turns retry_delay xs @ Sent q res # closing res" "out = final_result res"
    by auto
  with r l xs show ?thesis by blast
qed

section \<open>Publishing to a broker\<close>

text \<open>
  What the broker's REST interface promises about the advertisements it holds (\<open>advs\<close>): a GET that
  is answered 200 answers the advertisement of the cluster, and one that is answered 404 says that
  there is none, while any other status (not authorised, too many requests, a server error) says
  nothing; a POST that is answered 200 or 201 stores the advertisement in its body, and one that is
  not may or may not have done so. The body is what the reader held or what \<^verbatim>\<open>GetBody\<close> yields. And,
  for the duration of a call, the broker does not change advertisements on its own.
\<close>

locale rest_broker =
  fixes c :: HTTPCommunicator
    and env :: "'w http_env"
    and advs :: "'w \<Rightarrow> string \<rightharpoonup> AdvertisementDTO"
  assumes get_ok: "Do env w (get_request (advertisement_url c cid)) = (Inr resp, b, w') \<Longrightarrow>
      StatusCode resp = 200 \<Longrightarrow> \<exists>a. advs w cid = Some a \<and> as_advertisement (resp_Body resp) = Some a"
    and get_absent: "Do env w (get_request (advertisement_url c cid)) = (Inr resp, b, w') \<Longrightarrow>
      StatusCode resp = 404 \<Longrightarrow> advs w cid = None"
    and get_quiet: "Do env w (get_request u) = (r, b, w') \<Longrightarrow> advs w' = advs w"
    and post_ok: "Do env w req = (Inr resp, b, w') \<Longrightarrow> req_Verb req = ''POST'' \<Longrightarrow>
      StatusCode resp = 200 \<or> StatusCode resp = 201 \<Longrightarrow>
      \<exists>a. (req_Body req = Unread a \<or> req_GetBody req = Some a) \<and> advs w' = (advs w)(dto_ClusterID a \<mapsto> a)"
    and post_any: "Do env w req = (r, b, w') \<Longrightarrow> req_Verb req = ''POST'' \<Longrightarrow> advs w' \<noteq> advs w \<Longrightarrow>
      \<exists>a. (req_Body req = Unread a \<or> req_GetBody req = Some a) \<and> advs w' = (advs w)(dto_ClusterID a \<mapsto> a)"
    and pause_quiet: "Pause env w d = (e, w') \<Longrightarrow> advs w' = advs w"
    and close_quiet: "advs (CloseBody env w resp) = advs w"
begin

lemma reader_after_get [simp]: "reader_after b (get_request u) = get_request u"
  by (simp add: reader_after_def get_request_def)

lemma get_retry:
  assumes "retry_loop env left d (get_request (advertisement_url c cid)) w = (out, w')"
  shows "advs w' = advs w \<and>
    (case out of
       Inl e \<Rightarrow> True
     | Inr resp \<Rightarrow>
         if StatusCode resp = 200
         then (\<exists>a. advs w cid = Some a \<and> as_advertisement (resp_Body resp) = Some a)
         else StatusCode resp = 404 \<longrightarrow> advs w cid = None)"
  using assms
proof (induction left arbitrary: d w rule: less_induct)
  case (less left)
  show ?case
  proof (cases rule: retry_loop_cases [of env w "get_request (advertisement_url c cid)" left d])
    case (final res b w1 w2)
    then show ?thesis
      using less.prems get_quiet [of w] get_ok [of w cid] get_absent [of w cid]
      by (auto simp: final_result_def close_quiet split: sum.splits if_splits)
  next
    case (cancelled res b w1 w2 w3 l e)
    then show ?thesis
      using less.prems get_quiet [of w] pause_quiet [of w2] by (auto simp: close_quiet split: sum.splits)
  next
    case (again res b w1 w2 w3 l)
    have "advs w3 = advs w"
      using again(4) get_quiet [OF again(1)] pause_quiet [OF again(5)]
      by (auto simp: close_quiet split: sum.splits)
    moreover have "retry_loop env l (next_backoff maxBackoff d)
        (get_request (advertisement_url c cid)) w3 = (out, w')"
      using again less.prems by simp
    ultimately show ?thesis
      using less.IH [of l "next_backoff maxBackoff d" w3] again(3) by (auto split: sum.splits)
  qed
qed

lemma post_retry:
  assumes "retry_loop env left d req w = (out, w')" and "req_Verb req = ''POST''"
    and "req_Body req = Unread a \<or> req_Body req = Drained" and "req_GetBody req = Some a"
  shows "(advs w' = advs w \<or> advs w' = (advs w)(dto_ClusterID a \<mapsto> a)) \<and>
    (\<forall>resp. out = Inr resp \<longrightarrow> StatusCode resp = 200 \<or> StatusCode resp = 201 \<longrightarrow>
       advs w' = (advs w)(dto_ClusterID a \<mapsto> a))"
  using assms
proof (induction left arbitrary: d req w rule: less_induct)
  case (less left)
  have one: "advs w1 = advs w \<or> advs w1 = (advs w)(dto_ClusterID a \<mapsto> a)"
    if "Do env w req = (res, b, w1)" for res b w1
    using post_any [OF that less.prems(2)] less.prems(3,4) by (cases "advs w1 = advs w") auto
  show ?case
  proof (cases rule: retry_loop_cases [of env w req left d])
    case (final res b w1 w2)
    have "advs w2 = advs w1" using final(4) by (auto simp: close_quiet split: sum.splits)
    then show ?thesis
      using one [OF final(1)] post_ok [of w req _ b w1] final less.prems
      by (auto simp: final_result_def simp del: fun_upd_apply split: sum.splits if_splits)
  next
    case (cancelled res b w1 w2 w3 l e)
    then show ?thesis
      using less.prems one [OF cancelled(1)] pause_quiet [of w2]
      by (auto simp: close_quiet split: sum.splits)
  next
    case (again res b w1 w2 w3 l)
    have "advs w3 = advs w1"
      using again(4) pause_quiet [OF again(5)] by (auto simp: close_quiet split: sum.splits)
    moreover have "retry_loop env l (next_backoff maxBackoff d) (reader_after b req) w3 = (out, w')"
      using again less.prems by simp
    moreover have "req_Verb (reader_after b req) = ''POST''"
        "req_Body (reader_after b req) = Unread a \<or> req_Body (reader_after b req) = Drained"
        "req_GetBody (reader_after b req) = Some a"
      using less.prems by (auto simp: reader_after_def)
    moreover have "(advs w1)(dto_ClusterID a \<mapsto> a) = (advs w)(dto_ClusterID a \<mapsto> a)"
      using one [OF again(1)] by auto
    ultimately show ?thesis
      using less.IH [of l "next_backoff maxBackoff d" "reader_after b req" w3] again(3) one [OF again(1)]
      by (auto simp del: fun_upd_apply)
  qed
qed

text \<open>What a publication may have done, whatever its outcome.\<close>

lemma publish_effect:
  assumes "PublishAdvertisement c env w adv = (e, w')"
    and "doWithRetry c env (get_request (advertisement_url c (dto_ClusterID adv))) w = (got, w1)"
  shows "(e \<noteq> None \<and> advs w' = advs w) \<or> advs w' = (advs w)(dto_ClusterID adv \<mapsto> preserve_reserved got adv)"
proof -
  let ?a = "preserve_reserved got adv"
  have id: "dto_ClusterID ?a = dto_ClusterID adv"
    by (simp add: preserve_reserved_def with_reserved_def split: sum.splits option.splits)
  have w1: "advs (close_ok env got w1) = advs w"
    using get_retry [OF assms(2) [unfolded doWithRetry_def]]
    by (auto simp: close_ok_def close_quiet split: sum.splits)
  obtain out w3 where p: "doWithRetry c env (post_request (publish_url c) ?a) (close_ok env got w1) = (out, w3)"
    by fastforce
  have "(advs w3 = advs w \<or> advs w3 = (advs w)(dto_ClusterID adv \<mapsto> ?a)) \<and>
      (\<forall>resp. out = Inr resp \<longrightarrow> StatusCode resp = 200 \<or> StatusCode resp = 201 \<longrightarrow>
         advs w3 = (advs w)(dto_ClusterID adv \<mapsto> ?a))"
    using post_retry [OF p [unfolded doWithRetry_def], of ?a] by (simp add: post_request_def w1 id)
  with assms p w1 show ?thesis
    by (auto simp: PublishAdvertisement_def Let_def close_quiet simp del: fun_upd_apply
        split: option.splits sum.splits if_splits)
qed

text \<open>
  The advertisement the broker holds after a successful publication: the new one, with the
  \<^verbatim>\<open>reserved\<close> entry of the old one if the GET could be answered and found one.
\<close>

lemma publish_stores:
  assumes "PublishAdvertisement c env w adv = (None, w')"
    and "doWithRetry c env (get_request (advertisement_url c (dto_ClusterID adv))) w = (got, w1)"
  shows "advs w' = (advs w)(dto_ClusterID adv \<mapsto> preserve_reserved got adv)"
proof -
  let ?a = "preserve_reserved got adv"
  have id: "dto_ClusterID ?a = dto_ClusterID adv"
    by (simp add: preserve_reserved_def with_reserved_def split: sum.splits option.splits)
  have w1: "advs (close_ok env got w1) = advs w"
    using get_retry [OF assms(2) [unfolded doWithRetry_def]]
    by (auto simp: close_ok_def close_quiet split: sum.splits)
  from assms obtain resp w3 where p: "doWithRetry c env (post_request (publish_url c) ?a) (close_ok env got w1)
      = (Inr resp, w3)" and s: "StatusCode resp = 200 \<or> StatusCode resp = 201" and w': "w' = CloseBody env w3 resp"
    by (auto simp: PublishAdvertisement_def Let_def split: option.splits prod.splits sum.splits if_splits)
  have "advs w3 = (advs w)(dto_ClusterID ?a \<mapsto> ?a)"
    using post_retry [OF p [unfolded doWithRetry_def], of ?a] s w1
    by (auto simp: post_request_def simp del: fun_upd_apply)
  then show ?thesis using w' id by (simp add: close_quiet)
qed

end


section \<open>A broker in memory\<close>

text \<open>
  A broker that holds the advertisements and the reservations and answers the three requests of
  the client. The next \<open>br_failures\<close> exchanges are answered 503.
\<close>

record mem_broker =
  br_advs :: "string \<rightharpoonup> AdvertisementDTO"
  br_reservations :: "string \<Rightarrow> ReservationDTO option list"
  br_failures :: nat

definition reply :: "int \<Rightarrow> AdvertisementDTO option \<Rightarrow> ReservationDTO option list \<Rightarrow> string + http_response" where
  "reply s a rs = Inr \<lparr>StatusCode = s, resp_Body = \<lparr>as_advertisement = a, as_reservations = Inr rs, as_text = ''''\<rparr>\<rparr>"

definition mem_get :: "HTTPCommunicator \<Rightarrow> mem_broker \<Rightarrow> string \<Rightarrow> string + http_response" where
  "mem_get c w url =
     (let p = advertisement_url c ''''
      in if take (length p) url = p
         then (case br_advs w (drop (length p) url) of None \<Rightarrow> reply 404 None [] | Some a \<Rightarrow> reply 200 (Some a) [])
         else reply 200 None (br_reservations w url))"

definition mem_exchange ::
    "HTTPCommunicator \<Rightarrow> mem_broker \<Rightarrow> http_request \<Rightarrow> (string + http_response) \<times> bool \<times> mem_broker" where
  "mem_exchange c w req =
     (case br_failures w of
        Suc n \<Rightarrow> (reply 503 None [], True, w\<lparr>br_failures := n\<rparr>)
      | 0 \<Rightarrow>
          if req_Verb req = ''GET'' then (mem_get c w (req_URL req), True, w)
          else (case req_Body req of
                  Unread a \<Rightarrow> (reply 201 None [], True, w\<lparr>br_advs := (br_advs w)(dto_ClusterID a \<mapsto> a)\<rparr>)
                | _ \<Rightarrow> (Inl ''http: ContentLength with Body length 0'', True, w)))"

definition mem_broker_env :: "HTTPCommunicator \<Rightarrow> mem_broker http_env" where
  "mem_broker_env c =
     \<lparr>Do = mem_exchange c, Pause = (\<lambda>w d. (None, w)), CloseBody = (\<lambda>w r. w), URLError = (\<lambda>u. None)\<rparr>"

lemma mem_get_advertisement:
  "mem_get c w (advertisement_url c cid) =
     (case br_advs w cid of None \<Rightarrow> reply 404 None [] | Some a \<Rightarrow> reply 200 (Some a) [])"
  by (simp add: mem_get_def advertisement_url_def Let_def)

interpretation memb: rest_broker c "mem_broker_env c" br_advs
  by unfold_locales
    (auto simp: mem_broker_env_def mem_exchange_def get_request_def mem_get_advertisement reply_def
      split: nat.splits option.splits body_reader.splits if_splits)

section \<open>Properties of publishing\<close>

text \<open>
  C17. Publishing keeps the broker's bookkeeping. When a publication succeeds and the GET before
  it was answered with the advertisement (200) or with the information that there is none (404),
  then the broker holds the posted advertisement with the \<^verbatim>\<open>reserved\<close> entry it held before, if it
  held one, and nothing else of the broker's advertisements changes. The broker is assumed not to
  change the advertisement itself between the GET and the POST: the client does not detect that.
\<close>

theorem publish_preserves_reserved:
  assumes "rest_broker c env advs"
    and "PublishAdvertisement c env w adv = (None, w')"
    and "doWithRetry c env (get_request (advertisement_url c (dto_ClusterID adv))) w = (Inr resp, w1)"
    and "StatusCode resp = 200 \<or> StatusCode resp = 404"
  shows "advs w' = (advs w)(dto_ClusterID adv \<mapsto>
    (case advs w (dto_ClusterID adv) of
       None \<Rightarrow> adv
     | Some old \<Rightarrow> (case dto_Reserved (dto_Resources old) of
                      None \<Rightarrow> adv
                    | Some r \<Rightarrow> with_reserved (Some r) adv)))"
proof -
  have "preserve_reserved (Inr resp) adv =
    (case advs w (dto_ClusterID adv) of None \<Rightarrow> adv
     | Some old \<Rightarrow> (case dto_Reserved (dto_Resources old) of None \<Rightarrow> adv | Some r \<Rightarrow> with_reserved (Some r) adv))"
    using rest_broker.get_retry [OF assms(1) assms(3) [unfolded doWithRetry_def]] assms(4)
    by (auto simp: preserve_reserved_def split: if_splits)
  then show ?thesis
    using rest_broker.publish_stores [OF assms(1-3)] by simp
qed

definition sample_reserved :: ResourceQuantitiesDTO where
  "sample_reserved = \<lparr>dto_CPU = ''3'', dto_Memory = ''4'', dto_GPU = '''', dto_Storage = ''''\<rparr>"

definition booked_broker :: "nat \<Rightarrow> mem_broker" where
  "booked_broker n =
     \<lparr>br_advs = [''rome'' \<mapsto> with_reserved (Some sample_reserved) sample_dto], br_reservations = (\<lambda>u. []),
      br_failures = n\<rparr>"

theorem publish_preserves_reserved_witness:
  "fst (PublishAdvertisement sample_communicator (mem_broker_env sample_communicator) (booked_broker 1) sample_dto) = None \<and>
   br_advs (snd (PublishAdvertisement sample_communicator (mem_broker_env sample_communicator) (booked_broker 1) sample_dto))
     = [''rome'' \<mapsto> with_reserved (Some sample_reserved) sample_dto]"
proof -
  let ?env = "mem_broker_env sample_communicator"
  have s: "fst (PublishAdvertisement sample_communicator ?env (booked_broker 1) sample_dto) = None"
    by code_simp
  have g: "(case fst (doWithRetry sample_communicator ?env
        (get_request (advertisement_url sample_communicator (dto_ClusterID sample_dto))) (booked_broker 1)) of
      Inl e \<Rightarrow> False | Inr resp \<Rightarrow> StatusCode resp = 200 \<or> StatusCode resp = 404)"
    by code_simp
  obtain w' where w': "PublishAdvertisement sample_communicator ?env (booked_broker 1) sample_dto = (None, w')"
    using s by (metis prod.collapse)
  obtain resp w1 where r: "doWithRetry sample_communicator ?env
        (get_request (advertisement_url sample_communicator (dto_ClusterID sample_dto))) (booked_broker 1) = (Inr resp, w1)"
      "StatusCode resp = 200 \<or> StatusCode resp = 404"
    using g by (auto split: sum.splits simp: prod_eq_iff)
  have id: "dto_ClusterID sample_dto = ''rome''" by (simp add: sample_dto_def Let_def)
  show ?thesis
    using publish_preserves_reserved [OF memb.rest_broker_axioms w' r] w' id
    by (auto simp: booked_broker_def with_reserved_def)
qed

text \<open>
  C38. A publication does all or nothing. However it ends, with success or with an error of any
  kind, and however often it has tried, either the broker holds what it held before, or exactly the
  advertisement of this cluster has been replaced by the one that was to be published, as it is or
  with the \<^verbatim>\<open>reserved\<close> entry that the broker held for this cluster. After a success it has been
  replaced.
\<close>

theorem publish_all_or_nothing:
  assumes "rest_broker c env advs" and "PublishAdvertisement c env w adv = (e, w')"
    and "cid = dto_ClusterID adv"
  shows "(e \<noteq> None \<and> advs w' = advs w) \<or> advs w' = (advs w)(cid \<mapsto> adv) \<or>
    (\<exists>old r. advs w cid = Some old \<and> dto_Reserved (dto_Resources old) = Some r \<and>
       advs w' = (advs w)(cid \<mapsto> with_reserved (Some r) adv))"
proof -
  obtain got w1 where g: "doWithRetry c env (get_request (advertisement_url c cid)) w = (got, w1)"
    by fastforce
  note get = rest_broker.get_retry [OF assms(1) g [unfolded doWithRetry_def]]
  have posted: "preserve_reserved got adv = adv \<or>
      (\<exists>old r. advs w cid = Some old \<and> dto_Reserved (dto_Resources old) = Some r \<and>
         preserve_reserved got adv = with_reserved (Some r) adv)"
    using get by (auto simp: preserve_reserved_def split: sum.splits option.splits)
  have "(e \<noteq> None \<and> advs w' = advs w) \<or> advs w' = (advs w)(cid \<mapsto> preserve_reserved got adv)"
    using rest_broker.publish_effect [OF assms(1,2) g [unfolded assms(3)]] assms(3) by simp
  with posted show ?thesis by metis
qed

text \<open>In the run of the witness every attempt to publish fails.\<close>

theorem publish_all_or_nothing_witness:
  "\<exists>e w'. PublishAdvertisement sample_communicator (mem_broker_env sample_communicator) (booked_broker 8) sample_dto
       = (Some e, w') \<and>
     (br_advs w' = br_advs (booked_broker 8) \<or> br_advs w' = (br_advs (booked_broker 8))(''rome'' \<mapsto> sample_dto) \<or>
      br_advs w' = (br_advs (booked_broker 8))(''rome'' \<mapsto> with_reserved (Some sample_reserved) sample_dto))"
proof -
  have "fst (PublishAdvertisement sample_communicator (mem_broker_env sample_communicator) (booked_broker 8) sample_dto)
      \<noteq> None"
    by code_simp
  then obtain e w' where h: "PublishAdvertisement sample_communicator (mem_broker_env sample_communicator)
      (booked_broker 8) sample_dto = (Some e, w')"
    by (cases "PublishAdvertisement sample_communicator (mem_broker_env sample_communicator) (booked_broker 8) sample_dto")
      auto
  have id: "dto_ClusterID sample_dto = ''rome''" by (simp add: sample_dto_def Let_def)
  show ?thesis
    using publish_all_or_nothing [OF memb.rest_broker_axioms h refl] h
    by (auto simp: id booked_broker_def with_reserved_def)
qed

text \<open>
  C39. The bookkeeping is lost when the GET fails. When the GET ends in an error or in any status
  but 200 (500 or more after all attempts, but also not authorised or too many requests) and the
  POST still succeeds, the broker ends up with exactly what the agent posted: what it held as
  \<^verbatim>\<open>reserved\<close> is gone.
\<close>

theorem publish_drops_reserved:
  assumes "rest_broker c env advs"
    and "PublishAdvertisement c env w adv = (None, w')"
    and "doWithRetry c env (get_request (advertisement_url c (dto_ClusterID adv))) w = (got, w1)"
    and "\<forall>resp. got = Inr resp \<longrightarrow> StatusCode resp \<noteq> 200"
  shows "advs w' = (advs w)(dto_ClusterID adv \<mapsto> adv)"
  using rest_broker.publish_stores [OF assms(1-3)] assms(4)
  by (auto simp: preserve_reserved_def split: sum.splits)

theorem publish_drops_reserved_witness:
  "br_advs (booked_broker 4) = [''rome'' \<mapsto> with_reserved (Some sample_reserved) sample_dto] \<and>
   fst (PublishAdvertisement sample_communicator (mem_broker_env sample_communicator) (booked_broker 4) sample_dto) = None \<and>
   br_advs (snd (PublishAdvertisement sample_communicator (mem_broker_env sample_communicator) (booked_broker 4) sample_dto))
     = [''rome'' \<mapsto> sample_dto]"
proof -
  let ?env = "mem_broker_env sample_communicator"
  have s: "fst (PublishAdvertisement sample_communicator ?env (booked_broker 4) sample_dto) = None"
    by code_simp
  have g: "(case fst (doWithRetry sample_communicator ?env
        (get_request (advertisement_url sample_communicator (dto_ClusterID sample_dto))) (booked_broker 4)) of
      Inl e \<Rightarrow> True | Inr resp \<Rightarrow> StatusCode resp \<noteq> 200)"
    by code_simp
  obtain w' where w': "PublishAdvertisement sample_communicator ?env (booked_broker 4) sample_dto = (None, w')"
    using s by (metis prod.collapse)
  obtain got w1 where r: "doWithRetry sample_communicator ?env
        (get_request (advertisement_url sample_communicator (dto_ClusterID sample_dto))) (booked_broker 4) = (got, w1)"
      "\<forall>resp. got = Inr resp \<longrightarrow> StatusCode resp \<noteq> 200"
    using g by (auto split: sum.splits simp: prod_eq_iff)
  have id: "dto_ClusterID sample_dto = ''rome''" by (simp add: sample_dto_def Let_def)
  show ?thesis
    using publish_drops_reserved [OF memb.rest_broker_axioms w' r] w' id
    by (auto simp: booked_broker_def)
qed

end
