(* ===== verification/Kube_Client.thy ===== *)
theory Kube_Client
  imports Api_Types
begin

text \<open>
  The local Kubernetes API as the agent's controllers and pollers use it, through
  \<^verbatim>\<open>client.Client\<close> of controller-runtime. The client and the server are not part of the
  repository: the four calls are the record \<open>client_ops\<close>, a parameter of every definition that
  uses them, over an arbitrary type \<open>'w\<close> of states of the world, and the locale \<open>api_server\<close>
  names what their documentation promises.

  The laws take the two features into account that make such code hard. Reads may be stale: the
  manager's client answers from a watch cache, so \<open>Get\<close> returns some version of the object, and
  only the resource version says whether it is the stored one. Writes may be lost: a write is
  refused when the resource version it carries is not the stored one, and an error that is not
  such a refusal says nothing about whether the write has happened. Writing the spec leaves the
  status alone and the other way round (the resources declare the status subresource).
\<close>

section \<open>The calls\<close>

record ('w, 's, 't) client_ops =
  Get :: "'w \<Rightarrow> namespaced_name \<Rightarrow> api_error + ('s, 't) kobject"
  Create :: "'w \<Rightarrow> ('s, 't) kobject \<Rightarrow> (api_error + ('s, 't) kobject) \<times> 'w"
  Update :: "'w \<Rightarrow> ('s, 't) kobject \<Rightarrow> (api_error + ('s, 't) kobject) \<times> 'w"
  StatusUpdate :: "'w \<Rightarrow> ('s, 't) kobject \<Rightarrow> (api_error + ('s, 't) kobject) \<times> 'w"

section \<open>The contract\<close>

text \<open>
  What a write does to the stored objects when it takes effect. \<open>stored w\<close> is what the server
  holds in the state \<open>w\<close>; \<open>wire_spec\<close> and \<open>wire_status\<close> are what its JSON form keeps of a spec
  and a status, \<open>status0\<close> is the empty status of a new object.
\<close>

definition created ::
    "('w \<Rightarrow> namespaced_name \<rightharpoonup> ('s, 't) kobject) \<Rightarrow> ('s \<Rightarrow> 's) \<Rightarrow> 't
       \<Rightarrow> 'w \<Rightarrow> ('s, 't) kobject \<Rightarrow> 'w \<Rightarrow> ('s, 't) kobject \<Rightarrow> bool" where
  "created stored wire_spec status0 w x w' y \<longleftrightarrow>
     stored w (okey x) = None \<and> stored w' = (stored w)(okey x \<mapsto> y) \<and>
     okey y = okey x \<and> Spec y = wire_spec (Spec x) \<and> Status y = status0"

definition spec_written ::
    "('w \<Rightarrow> namespaced_name \<rightharpoonup> ('s, 't) kobject) \<Rightarrow> ('s \<Rightarrow> 's)
       \<Rightarrow> 'w \<Rightarrow> ('s, 't) kobject \<Rightarrow> 'w \<Rightarrow> ('s, 't) kobject \<Rightarrow> bool" where
  "spec_written stored wire_spec w x w' y \<longleftrightarrow>
     (\<exists>z. stored w (okey x) = Some z \<and> oversion z = oversion x \<and> Status y = Status z) \<and>
     stored w' = (stored w)(okey x \<mapsto> y) \<and> okey y = okey x \<and> Spec y = wire_spec (Spec x)"

definition status_written ::
    "('w \<Rightarrow> namespaced_name \<rightharpoonup> ('s, 't) kobject) \<Rightarrow> ('t \<Rightarrow> 't)
       \<Rightarrow> 'w \<Rightarrow> ('s, 't) kobject \<Rightarrow> 'w \<Rightarrow> ('s, 't) kobject \<Rightarrow> bool" where
  "status_written stored wire_status w x w' y \<longleftrightarrow>
     (\<exists>z. stored w (okey x) = Some z \<and> oversion z = oversion x \<and> Spec y = Spec z) \<and>
     stored w' = (stored w)(okey x \<mapsto> y) \<and> okey y = okey x \<and> Status y = wire_status (Status x)"

lemmas write_defs = created_def spec_written_def status_written_def

text \<open>
  A call that succeeds has taken effect and answers the object as stored; a call that is refused
  has not; any other error leaves it open which of the two is the case.
\<close>

locale api_server =
  fixes C :: "('w, 's, 't) client_ops"
    and stored :: "'w \<Rightarrow> namespaced_name \<rightharpoonup> ('s, 't) kobject"
    and wire_spec :: "'s \<Rightarrow> 's"
    and wire_status :: "'t \<Rightarrow> 't"
    and status0 :: 't
  assumes get_key: "Get C w k = Inr x \<Longrightarrow> okey x = k"
    and get_version: "Get C w k = Inr x \<Longrightarrow> stored w k = Some y \<Longrightarrow> oversion y = oversion x \<Longrightarrow> y = x"
    and create_ok: "Create C w x = (Inr y, w') \<Longrightarrow> created stored wire_spec status0 w x w' y"
    and create_err: "Create C w x = (Inl e, w') \<Longrightarrow>
      stored w' = stored w \<or> (\<not> refused e \<and> (\<exists>y. created stored wire_spec status0 w x w' y))"
    and update_ok: "Update C w x = (Inr y, w') \<Longrightarrow> spec_written stored wire_spec w x w' y"
    and update_err: "Update C w x = (Inl e, w') \<Longrightarrow>
      stored w' = stored w \<or> (\<not> refused e \<and> (\<exists>y. spec_written stored wire_spec w x w' y))"
    and status_ok: "StatusUpdate C w x = (Inr y, w') \<Longrightarrow> status_written stored wire_status w x w' y"
    and status_err: "StatusUpdate C w x = (Inl e, w') \<Longrightarrow>
      stored w' = stored w \<or> (\<not> refused e \<and> (\<exists>y. status_written stored wire_status w x w' y))"
begin

text \<open>
  A status write of an object that was read before, with nothing but its status changed, acts on
  the version that was read or not at all: if it took effect, the read was not stale.
\<close>

lemma status_written_read:
  assumes "Get C w k = Inr x" and "status_written stored wire_status w (x\<lparr>Status := t\<rparr>) w' y"
  shows "stored w k = Some x \<and> stored w' = (stored w)(k \<mapsto> y) \<and>
    Spec y = Spec x \<and> Status y = wire_status t \<and> okey y = k"
proof -
  have k: "okey x = k" using assms(1) by (rule get_key)
  from assms(2) k obtain z where z: "stored w k = Some z" "oversion z = oversion x" "Spec y = Spec z"
    and rest: "stored w' = (stored w)(k \<mapsto> y)" "okey y = k" "Status y = wire_status t"
    by (auto simp: status_written_def)
  from get_version [OF assms(1) z(1,2)] have "z = x" .
  with z rest show ?thesis by simp
qed

lemma spec_written_read:
  assumes "Get C w k = Inr x" and "spec_written stored wire_spec w (x\<lparr>Spec := s\<rparr>) w' y"
  shows "stored w k = Some x \<and> stored w' = (stored w)(k \<mapsto> y) \<and>
    Spec y = wire_spec s \<and> Status y = Status x \<and> okey y = k"
proof -
  have k: "okey x = k" using assms(1) by (rule get_key)
  from assms(2) k obtain z where z: "stored w k = Some z" "oversion z = oversion x" "Status y = Status z"
    and rest: "stored w' = (stored w)(k \<mapsto> y)" "okey y = k" "Spec y = wire_spec s"
    by (auto simp: spec_written_def)
  from get_version [OF assms(1) z(1,2)] have "z = x" .
  with z rest show ?thesis by simp
qed

lemma status_outcome:
  assumes "StatusUpdate C w x = (r, w')"
  obtains (unchanged) e where "r = Inl e" "stored w' = stored w"
    | (unknown) e y where "r = Inl e" "status_written stored wire_status w x w' y"
    | (written) y where "r = Inr y" "status_written stored wire_status w x w' y"
  using assms status_ok [of w x] status_err [of w x] by (cases r) blast+

lemma status_write_effect:
  assumes "Get C w k = Inr x" and "StatusUpdate C w (x\<lparr>Status := t\<rparr>) = (r, w')"
  shows "stored w' = stored w \<or>
    (\<exists>y. stored w k = Some x \<and> stored w' = (stored w)(k \<mapsto> y) \<and> Spec y = Spec x \<and>
         Status y = wire_status t)"
  using assms(2) status_written_read [OF assms(1)] by (cases rule: status_outcome) blast+

lemma status_write_success:
  assumes "Get C w k = Inr x" and "StatusUpdate C w (x\<lparr>Status := t\<rparr>) = (Inr y, w')"
  shows "stored w k = Some x \<and> stored w' = (stored w)(k \<mapsto> y) \<and>
    Spec y = Spec x \<and> Status y = wire_status t \<and> okey y = k"
  using status_written_read [OF assms(1) status_ok [OF assms(2)]] .

lemma create_outcome:
  assumes "Create C w x = (r, w')"
  obtains (unchanged) e where "r = Inl e" "stored w' = stored w"
    | (unknown) e y where "r = Inl e" "created stored wire_spec status0 w x w' y"
    | (written) y where "r = Inr y" "created stored wire_spec status0 w x w' y"
  using assms create_ok [of w x] create_err [of w x] by (cases r) blast+

lemma update_outcome:
  assumes "Update C w x = (r, w')"
  obtains (unchanged) e where "r = Inl e" "stored w' = stored w"
    | (unknown) e y where "r = Inl e" "spec_written stored wire_spec w x w' y"
    | (written) y where "r = Inr y" "spec_written stored wire_spec w x w' y"
  using assms update_ok [of w x] update_err [of w x] by (cases r) blast+

end

text \<open>
  Writing objects of one kind leaves another part of the world alone, such as the objects of
  another kind.
\<close>

locale client_frame =
  fixes C :: "('w, 's, 't) client_ops"
    and kept :: "'w \<Rightarrow> 'v"
  assumes create_frame: "kept (snd (Create C w x)) = kept w"
    and update_frame: "kept (snd (Update C w x)) = kept w"
    and status_frame: "kept (snd (StatusUpdate C w x)) = kept w"
begin

lemma create_keeps: "Create C w x = (r, w') \<Longrightarrow> kept w' = kept w"
  using create_frame [of w x] by simp

lemma update_keeps: "Update C w x = (r, w') \<Longrightarrow> kept w' = kept w"
  using update_frame [of w x] by simp

lemma status_keeps: "StatusUpdate C w x = (r, w') \<Longrightarrow> kept w' = kept w"
  using status_frame [of w x] by simp

end

section \<open>An instance: an in-memory API server\<close>

text \<open>
  A server with a version counter, whose client reads through a cache. The cache holds earlier
  versions and is what \<open>Get\<close> answers from; \<open>down\<close> makes every write fail. It refuses stale
  writes, counts every write and applies the serialisation, so all laws hold, and runs of the
  agent's handlers can be evaluated on it.
\<close>

record ('s, 't) mem_server =
  mem_objs :: "namespaced_name \<rightharpoonup> ('s, 't) kobject"
  mem_cache :: "namespaced_name \<rightharpoonup> ('s, 't) kobject"
  mem_counter :: nat
  mem_down :: bool

definition stamp :: "nat \<Rightarrow> ('s, 't) kobject \<Rightarrow> ('s, 't) kobject" where
  "stamp n x = x\<lparr>ObjectMeta := (ObjectMeta x)\<lparr>ResourceVersion := show_nat n\<rparr>\<rparr>"

lemma stamp_simps [simp]:
  "okey (stamp n x) = okey x" "oversion (stamp n x) = show_nat n"
  "Spec (stamp n x) = Spec x" "Status (stamp n x) = Status x"
  by (simp_all add: stamp_def okey_def oversion_def)

definition mem_put :: "('s, 't) mem_server \<Rightarrow> ('s, 't) kobject \<Rightarrow> (api_error + ('s, 't) kobject) \<times> ('s, 't) mem_server" where
  "mem_put w x =
     (let y = stamp (mem_counter w) x
      in (Inr y, w\<lparr>mem_objs := (mem_objs w)(okey x \<mapsto> y), mem_cache := (mem_cache w)(okey x \<mapsto> y),
                   mem_counter := Suc (mem_counter w)\<rparr>))"

definition mem_client :: "('s \<Rightarrow> 's) \<Rightarrow> ('t \<Rightarrow> 't) \<Rightarrow> 't \<Rightarrow> (('s, 't) mem_server, 's, 't) client_ops" where
  "mem_client ws wt t0 =
     \<lparr>Get = (\<lambda>w k. case mem_cache w k of
               Some x \<Rightarrow> if okey x = k \<and> (mem_objs w k \<noteq> Some x \<longrightarrow> map_option oversion (mem_objs w k) \<noteq> Some (oversion x))
                         then Inr x else Inl (OtherError ''cache'')
             | None \<Rightarrow> Inl (NotFound ''not found'')),
      Create = (\<lambda>w x. if mem_down w then (Inl (OtherError ''connection refused''), w)
                       else if mem_objs w (okey x) \<noteq> None then (Inl (AlreadyExists ''already exists''), w)
                       else mem_put w (x\<lparr>Spec := ws (Spec x), Status := t0\<rparr>)),
      Update = (\<lambda>w x. if mem_down w then (Inl (OtherError ''connection refused''), w)
                       else case mem_objs w (okey x) of
                              None \<Rightarrow> (Inl (NotFound ''not found''), w)
                            | Some z \<Rightarrow> if oversion z \<noteq> oversion x then (Inl (Conflict ''object has been modified''), w)
                                         else mem_put w (x\<lparr>Spec := ws (Spec x), Status := Status z\<rparr>)),
      StatusUpdate = (\<lambda>w x. if mem_down w then (Inl (OtherError ''connection refused''), w)
                       else case mem_objs w (okey x) of
                              None \<Rightarrow> (Inl (NotFound ''not found''), w)
                            | Some z \<Rightarrow> if oversion z \<noteq> oversion x then (Inl (Conflict ''object has been modified''), w)
                                         else mem_put w (x\<lparr>Spec := Spec z, Status := wt (Status x)\<rparr>))\<rparr>"

interpretation mem: api_server "mem_client ws wt t0" mem_objs ws wt t0
  by unfold_locales
    (auto simp: mem_client_def mem_put_def Let_def write_defs split: if_splits option.splits)

end
