(* ===== verification/Calendar.thy ===== *)
theory Calendar
  imports Prelude "HOL-Library.Monad_Syntax"
begin

text \<open>
  The part of Go's package \<^verbatim>\<open>time\<close> that turns instants into text and back: the calendar, the layout
  \<^verbatim>\<open>2006-01-02T15:04:05Z\<close> the legacy client prints with, and \<^verbatim>\<open>time.Parse\<close> with the layout
  \<^verbatim>\<open>time.RFC3339\<close> the watcher reads with. A zone is its offset from UTC.
\<close>

section \<open>The calendar\<close>

definition isLeap :: "int \<Rightarrow> bool" where
  "isLeap y \<longleftrightarrow> y mod 4 = 0 \<and> (y mod 100 \<noteq> 0 \<or> y mod 400 = 0)"

definition month_lengths :: "bool \<Rightarrow> int list" where
  "month_lengths leap = [31, if leap then 29 else 28, 31, 30, 31, 30, 31, 31, 30, 31, 30, 31]"

definition daysIn :: "int \<Rightarrow> int \<Rightarrow> int" where
  "daysIn m y = month_lengths (isLeap y) ! nat (m - 1)"

text \<open>Days from the first of January of year 1 to that of year \<open>y\<close>.\<close>

definition days_before_year :: "int \<Rightarrow> int" where
  "days_before_year y = (let p = y - 1 in 365 * p + p div 4 - p div 100 + p div 400)"

definition days_from_civil :: "int \<Rightarrow> int \<Rightarrow> int \<Rightarrow> int" where
  "days_from_civil y m d =
     days_before_year y + sum_list (take (nat (m - 1)) (month_lengths (isLeap y))) + (d - 1) - 719162"

text \<open>
  The year and the day of the year of a number of days since year 1: cycles of 400, 100 and 4
  years and single years are divided off one after the other, where the last century of a cycle
  and the last year of four are a day longer.
\<close>

definition year_day :: "int \<Rightarrow> int \<times> int" where
  "year_day n =
     (let a = n div 146097; r1 = n mod 146097;
          b = min 3 (r1 div 36524); r2 = r1 - b * 36524;
          c = r2 div 1461; r3 = r2 mod 1461;
          e = min 3 (r3 div 365)
      in (400 * a + 100 * b + 4 * c + e + 1, r3 - e * 365))"

fun month_day :: "int \<Rightarrow> int list \<Rightarrow> int \<Rightarrow> int \<times> int" where
  "month_day m [] d = (m, d + 1)"
| "month_day m (l # ls) d = (if d < l then (m, d + 1) else month_day (m + 1) ls (d - l))"

definition civil_from_days :: "int \<Rightarrow> int \<times> int \<times> int" where
  "civil_from_days n =
     (case year_day (n + 719162) of (y, yd) \<Rightarrow>
       case month_day 1 (month_lengths (isLeap y)) yd of (m, d) \<Rightarrow> (y, m, d))"

lemma cycle_part:
  fixes x k :: int
  assumes "0 \<le> x" and "0 < k"
  shows "0 \<le> min 3 (x div k)" and "min 3 (x div k) \<le> 3" and "min 3 (x div k) * k \<le> x"
    and "min 3 (x div k) < 3 \<Longrightarrow> x - min 3 (x div k) * k < k"
proof -
  have d: "x div k * k \<le> x" "x - x div k * k < k" "0 \<le> x div k"
    using pos_mod_bound [OF assms(2), of x] pos_mod_sign [OF assms(2), of x] assms
    by (simp_all add: minus_div_mult_eq_mod [symmetric] pos_imp_zdiv_nonneg_iff)
  then show "0 \<le> min 3 (x div k)" "min 3 (x div k) \<le> 3" by simp_all
  have "min 3 (x div k) * k \<le> x div k * k" using assms by simp
  then show "min 3 (x div k) * k \<le> x" using d by linarith
  show "x - min 3 (x div k) * k < k" if "min 3 (x div k) < 3"
    using that d by (simp add: min_def split: if_splits)
qed

lemma div_by_bounds:
  fixes k :: int
  assumes "k * q \<le> x" and "x < k * q + k"
  shows "x div k = q"
proof -
  have "(x - k * q) div k = 0" using assms by (intro div_pos_pos_trivial) simp_all
  moreover have "(x - k * q + k * q) div k = q + (x - k * q) div k"
    using assms by (intro div_mult_self2) auto
  ultimately show ?thesis by simp
qed

lemma year_day_correct:
  assumes "year_day n = (y, yd)"
  shows "days_before_year y + yd = n" and "0 \<le> yd" and "yd < (if isLeap y then 366 else 365)"
proof -
  define a b c e where "a = n div 146097" and "b = min 3 (n mod 146097 div 36524)"
    and "c = (n mod 146097 - b * 36524) div 1461"
    and "e = min 3 ((n mod 146097 - b * 36524) mod 1461 div 365)"
  have y: "y = 400 * a + 100 * b + 4 * c + e + 1"
    and yd: "yd = (n mod 146097 - b * 36524) mod 1461 - e * 365"
    using assms unfolding year_day_def Let_def a_def b_def c_def e_def prod.inject by (elim conjE, metis)+
  have r1: "0 \<le> n mod 146097" "n mod 146097 < 146097" "n = 146097 * a + n mod 146097"
    by (simp_all add: a_def)
  note b = cycle_part [where k = 36524, OF r1(1), folded b_def]
  let ?r2 = "n mod 146097 - b * 36524"
  have r2: "0 \<le> ?r2" "?r2 \<le> 36524" "b < 3 \<Longrightarrow> ?r2 < 36524"
    using b r1(2) by linarith+
  have c: "0 \<le> c" "c \<le> 24" "?r2 = 1461 * c + ?r2 mod 1461" "0 \<le> ?r2 mod 1461" "?r2 mod 1461 < 1461"
    using r2(1,2) zdiv_mono1 [OF r2(2), of 1461] by (simp_all add: c_def pos_imp_zdiv_nonneg_iff)
  note e' = cycle_part [where k = 365, OF c(4), folded e_def]
  have e: "0 \<le> e" "e \<le> 3" "0 \<le> ?r2 mod 1461 - e * 365" "?r2 mod 1461 - e * 365 \<le> 365"
    "e < 3 \<Longrightarrow> ?r2 mod 1461 - e * 365 < 365"
    using e' c(5) by linarith+
  have d4: "(y - 1) div 4 = 100 * a + 25 * b + c"
    using e(1,2) unfolding y by (intro div_by_bounds) (simp_all add: distrib_left)
  have d100: "(y - 1) div 100 = 4 * a + b"
    using c(1,2) e(1,2) unfolding y by (intro div_by_bounds) (simp_all add: distrib_left)
  have d400: "(y - 1) div 400 = a"
    using b(1,2) c(1,2) e(1,2) unfolding y by (intro div_by_bounds) (simp_all add: distrib_left)
  have sum: "n = 146097 * a + 36524 * b + 1461 * c + 365 * e + yd"
    using r1(3) c(3) yd by simp
  show "days_before_year y + yd = n"
    unfolding days_before_year_def Let_def d4 d100 d400 using sum y by simp
  show "0 \<le> yd" using e(3) yd by simp
  show "yd < (if isLeap y then 366 else 365)"
  proof (cases "yd < 365")
    case False
    then have yd365: "yd = 365" "e = 3" using e yd by (cases "e < 3"; simp)+
    have "c \<noteq> 24 \<or> b = 3"
    proof (rule ccontr)
      assume "\<not> ?thesis"
      then have "b < 3" "c = 24" using b(2) by auto
      then show False using r2(3) c(3) yd yd365 by simp
    qed
    then consider "c < 24" | "b = 3" "c = 24" using c(2) by linarith
    then have "isLeap y"
    proof cases
      case 1
      have "y mod 4 = 0" using y yd365(2) by presburger
      moreover have "y div 100 = 4 * a + b"
        using 1 c(1) yd365(2) unfolding y by (intro div_by_bounds) (simp_all add: distrib_left)
      then have "y mod 100 \<noteq> 0" using 1 c(1) yd365(2) y mult_div_mod_eq [of 100 y] by linarith
      ultimately show ?thesis by (simp add: isLeap_def)
    next
      case 2
      then have "y = 400 * (a + 1)" using y yd365(2) by simp
      then have "y mod 400 = 0" "y mod 4 = 0" by (simp, presburger)
      then show ?thesis by (simp add: isLeap_def)
    qed
    then show ?thesis using yd365 by simp
  qed simp
qed

lemma month_day_correct:
  assumes "month_day m0 ls d0 = (m, d)" and "0 \<le> d0" and "d0 < sum_list ls"
  shows "m0 \<le> m \<and> m < m0 + int (length ls) \<and> 1 \<le> d \<and> d \<le> ls ! nat (m - m0) \<and>
    sum_list (take (nat (m - m0)) ls) + (d - 1) = d0"
  using assms
proof (induction m0 ls d0 rule: month_day.induct)
  case (2 m0 l ls d0)
  show ?case
  proof (cases "d0 < l")
    case False
    with 2 have IH: "m0 + 1 \<le> m \<and> m < m0 + 1 + int (length ls) \<and> 1 \<le> d \<and> d \<le> ls ! nat (m - (m0 + 1)) \<and>
      sum_list (take (nat (m - (m0 + 1))) ls) + (d - 1) = d0 - l"
      by simp
    then have "nat (m - m0) = Suc (nat (m - (m0 + 1)))" by arith
    with IH show ?thesis by simp
  qed (use 2 in auto)
qed simp

lemma sum_month_lengths: "sum_list (month_lengths l) = (if l then 366 else 365)"
  by (simp add: month_lengths_def)

lemma civil_from_days_correct:
  assumes "civil_from_days n = (y, m, d)"
  shows "1 \<le> m" and "m \<le> 12" and "1 \<le> d" and "d \<le> daysIn m y" and "days_from_civil y m d = n"
proof -
  obtain yd where y: "year_day (n + 719162) = (y, yd)"
    and m: "month_day 1 (month_lengths (isLeap y)) yd = (m, d)"
    using assms by (auto simp: civil_from_days_def split: prod.splits)
  note yd = year_day_correct [OF y]
  have len: "length (month_lengths l) = 12" for l by (simp add: month_lengths_def)
  have "yd < sum_list (month_lengths (isLeap y))" using yd(3) by (simp add: sum_month_lengths)
  from month_day_correct [OF m yd(2) this] yd(1)
  show "1 \<le> m" and "m \<le> 12" and "1 \<le> d" and "d \<le> daysIn m y" and "days_from_civil y m d = n"
    by (auto simp: daysIn_def days_from_civil_def len)
qed

lemma month_lengths_bound: "k < 12 \<Longrightarrow> month_lengths l ! k \<le> 31"
  by (cases l; simp add: month_lengths_def less_Suc_eq numeral_eq_Suc; auto)

lemma daysIn_bound: "1 \<le> m \<Longrightarrow> m \<le> 12 \<Longrightarrow> daysIn m y \<le> 31"
  by (simp add: daysIn_def month_lengths_bound)


section \<open>Printing\<close>

text \<open>
  \<^verbatim>\<open>Time.Format\<close> with the layout \<^verbatim>\<open>2006-01-02T15:04:05Z\<close>. In a layout only \<^verbatim>\<open>Z07\<close> and its variants
  stand for the zone: the final \<^verbatim>\<open>Z\<close> is a letter. The fields are those of the time's own location,
  at the offset \<open>off\<close> from UTC.
\<close>

definition pad :: "nat \<Rightarrow> int \<Rightarrow> string" where
  "pad n i = (let s = show_nat (nat \<bar>i\<bar>)
              in (if i < 0 then ''-'' else []) @ replicate (n - length s) (CHR ''0'') @ s)"

definition Format :: "duration \<Rightarrow> go_time \<Rightarrow> string" where
  "Format off t =
     (let s = (t + off) div Second; (y, m, d) = civil_from_days (s div 86400); r = s mod 86400
      in pad 4 y @ ''-'' @ pad 2 m @ ''-'' @ pad 2 d @ ''T'' @ pad 2 (r div 3600) @ '':'' @
         pad 2 (r div 60 mod 60) @ '':'' @ pad 2 (r mod 60) @ ''Z'')"

section \<open>Parsing\<close>

text \<open>
  \<^verbatim>\<open>time.Parse\<close> with the layout \<^verbatim>\<open>2006-01-02T15:04:05Z07:00\<close> (\<^verbatim>\<open>time.RFC3339\<close>), chunk by chunk; every
  error is \<open>None\<close>, since the callers do not look at it. As in Go, an hour may have one digit, a
  fraction may follow the seconds though the layout has none, after a period or a comma, and
  counts with its first nine digits, and an offset may be as large as 24 hours and 60 minutes.
\<close>

definition digit_value :: "char \<Rightarrow> int option" where
  "digit_value c = map_option int (char_digit c)"

definition isDigit :: "char \<Rightarrow> bool" where
  "isDigit c \<longleftrightarrow> char_digit c \<noteq> None"

fun getnum :: "bool \<Rightarrow> string \<Rightarrow> (int \<times> string) option" where
  "getnum fixed (c # d # cs) =
     (if \<not> isDigit c then None
      else if \<not> isDigit d then
        (if fixed then None else do { a \<leftarrow> digit_value c; Some (a, d # cs) })
      else do { a \<leftarrow> digit_value c; b \<leftarrow> digit_value d; Some (10 * a + b, cs) })"
| "getnum fixed [c] = (if fixed then None else do { a \<leftarrow> digit_value c; Some (a, []) })"
| "getnum fixed [] = None"

fun skip :: "char \<Rightarrow> string \<Rightarrow> string option" where
  "skip c (d # cs) = (if d = c then Some cs else None)"
| "skip c [] = None"

definition parse_year :: "string \<Rightarrow> (int \<times> string) option" where
  "parse_year s = (if length s < 4 then None
                   else do { y \<leftarrow> read_digits 0 (take 4 s); Some (int y, drop 4 s) })"

fun parse_fraction :: "string \<Rightarrow> (int \<times> string) option" where
  "parse_fraction [] = Some (0, [])"
| "parse_fraction (c # cs) =
     (let ds = takeWhile isDigit cs; used = take 9 ds
      in if (c = CHR ''.'' \<or> c = CHR '','') \<and> ds \<noteq> [] then
           do { v \<leftarrow> read_digits 0 used; Some (int v * 10 ^ (9 - length used), drop (length ds) cs) }
         else Some (0, c # cs))"

fun parse_zone :: "string \<Rightarrow> (int \<times> string) option" where
  "parse_zone s =
     (if s \<noteq> [] \<and> hd s = CHR ''Z'' then Some (0, tl s)
      else if length s < 6 \<or> s ! 3 \<noteq> CHR '':'' then None
      else do {
        (hr, _) \<leftarrow> getnum True (take 2 (drop 1 s));
        (mm, _) \<leftarrow> getnum True (take 2 (drop 4 s));
        if 24 < hr \<or> 60 < mm then None
        else if hd s = CHR ''+'' then Some ((hr * 60 + mm) * 60, drop 6 s)
        else if hd s = CHR ''-'' then Some (- ((hr * 60 + mm) * 60), drop 6 s)
        else None
      })"

definition ParseRFC3339 :: "string \<Rightarrow> go_time option" where
  "ParseRFC3339 s0 = do {
     (year, s) \<leftarrow> parse_year s0;
     s \<leftarrow> skip (CHR ''-'') s;
     (month, s) \<leftarrow> getnum True s;
     if month \<le> 0 \<or> 12 < month then None else do {
     s \<leftarrow> skip (CHR ''-'') s;
     (day, s) \<leftarrow> getnum True s;
     s \<leftarrow> skip (CHR ''T'') s;
     (hour, s) \<leftarrow> getnum False s;
     if 24 \<le> hour then None else do {
     s \<leftarrow> skip (CHR '':'') s;
     (min, s) \<leftarrow> getnum True s;
     if 60 \<le> min then None else do {
     s \<leftarrow> skip (CHR '':'') s;
     (sec, s) \<leftarrow> getnum True s;
     if 60 \<le> sec then None else do {
     (nsec, s) \<leftarrow> parse_fraction s;
     (zoneOffset, s) \<leftarrow> parse_zone s;
     if s \<noteq> [] \<or> day < 1 \<or> daysIn month year < day then None
     else Some ((days_from_civil year month day * 86400 + hour * 3600 + min * 60 + sec - zoneOffset) * Second
                + nsec) }}}}}"

lemma ParseRFC3339_samples:
  "ParseRFC3339 ''2024-02-29T23:59:59.5+02:30'' = Some 1709242199500000000"
  "ParseRFC3339 ''2023-02-29T23:59:59.5+02:30'' = None"
  "ParseRFC3339 ''2024-02-29T3:59:59Z'' = Some 1709179199000000000"
  "ParseRFC3339 ''2024-02-29'' = None"
  by code_simp+

section \<open>What is printed is read back\<close>

lemma digit_value_digit_char [simp]: "d < 10 \<Longrightarrow> digit_value (digit_char d) = Some (int d)"
  by (simp add: digit_value_def)

lemma isDigit_digit_char [simp]: "d < 10 \<Longrightarrow> isDigit (digit_char d)"
  by (simp add: isDigit_def)

lemma digit_char_0: "CHR ''0'' = digit_char 0"
  by code_simp

lemma show_nat_unroll:
  "n < 10 \<Longrightarrow> show_nat n = [digit_char n]"
  "10 \<le> n \<Longrightarrow> n < 100 \<Longrightarrow> show_nat n = [digit_char (n div 10), digit_char (n mod 10)]"
  by (simp_all add: show_nat.simps [of n] show_nat.simps [of "n div 10"])

lemma pad2:
  assumes "0 \<le> i" and "i < 100"
  shows "pad 2 i = [digit_char (nat i div 10), digit_char (nat i mod 10)]"
proof (cases "nat i < 10")
  case True
  with assms show ?thesis by (simp add: pad_def Let_def show_nat_unroll digit_char_0)
next
  case False
  with assms have "10 \<le> nat i" "nat i < 100" by auto
  with assms show ?thesis by (simp add: pad_def Let_def show_nat_unroll)
qed

lemma getnum_pad2: "0 \<le> i \<Longrightarrow> i < 100 \<Longrightarrow> getnum f (pad 2 i @ s) = Some (i, s)"
proof -
  assume i: "0 \<le> i" "i < 100"
  have "nat i div 10 < 10" "nat i mod 10 < 10" using i by auto
  moreover have "10 * int (nat i div 10) + int (nat i mod 10) = i" using i by (simp add: zdiv_int zmod_int)
  ultimately show ?thesis by (simp add: pad2 [OF i])
qed

lemma read_digits_pad4:
  assumes "0 \<le> i" and "i < 10000"
  shows "length (pad 4 i) = 4" and "read_digits 0 (pad 4 i) = Some (nat i)"
proof -
  have zeros: "read_digits 0 (replicate k (CHR ''0'') @ s) = read_digits 0 s" for k s
    by (induction k) (simp_all add: digit_char_0)
  have short: "length (show_nat n) \<le> 4" if "n < 10000" for n
    using that by (simp add: show_nat.simps [of n] show_nat.simps [of "n div 10"]
        show_nat.simps [of "n div 10 div 10"] show_nat.simps [of "n div 10 div 10 div 10"])
  show "length (pad 4 i) = 4" using assms short [of "nat i"] by (simp add: pad_def Let_def)
  show "read_digits 0 (pad 4 i) = Some (nat i)"
    using assms by (simp add: pad_def Let_def zeros read_digits_show_nat)
qed

lemma parse_year_pad4: "0 \<le> i \<Longrightarrow> i < 10000 \<Longrightarrow> parse_year (pad 4 i @ s) = Some (i, s)"
  using read_digits_pad4 [of i] by (simp add: parse_year_def)

text \<open>
  An instant whose local date lies in the years 0 to 9999 and that is printed at the offset \<open>off\<close>
  reads back as the start of its second, shifted by \<open>off\<close>: the text claims to be UTC.
\<close>

lemma time_text_roundtrip:
  assumes "civil_from_days ((t + off) div Second div 86400) = (y, m, d)" and "0 \<le> y" and "y \<le> 9999"
  shows "ParseRFC3339 (Format off t) = Some (wire_time (t + off))"
proof -
  define s r where "s = (t + off) div Second" and "r = s mod 86400"
  note c = civil_from_days_correct [OF assms(1), folded s_def]
  have d: "d < 100" using c(1,2,4) daysIn_bound [of m y] by simp
  have r: "0 \<le> r" "r < 86400" "s = s div 86400 * 86400 + r" by (simp_all add: r_def)
  have h: "0 \<le> r div 3600" "r div 3600 < 24" using r by (simp_all add: div_less_iff_less_mult pos_imp_zdiv_nonneg_iff)
  have "r div 3600 = r div 60 div 60" by (simp add: zdiv_zmult2_eq [symmetric])
  then have hms: "r div 3600 * 3600 + r div 60 mod 60 * 60 + r mod 60 = r"
    using mult_div_mod_eq [of 60 "r div 60"] mult_div_mod_eq [of 60 r] by linarith
  have printed: "Format off t = pad 4 y @ CHR ''-'' # pad 2 m @ CHR ''-'' # pad 2 d @ CHR ''T'' # pad 2 (r div 3600) @
      CHR '':'' # pad 2 (r div 60 mod 60) @ CHR '':'' # pad 2 (r mod 60) @ ''Z''"
    using assms(1) by (simp add: Format_def Let_def s_def r_def)
  have day: "\<not> (d < 1 \<or> daysIn m y < d)" using c by simp
  have "ParseRFC3339 (Format off t) =
      Some ((days_from_civil y m d * 86400 + r div 3600 * 3600 + r div 60 mod 60 * 60 + r mod 60) * Second)"
    unfolding printed ParseRFC3339_def
    using assms(2,3) c(1,2,3) d h day by (simp add: parse_year_pad4 getnum_pad2 not_le)
  also have "days_from_civil y m d * 86400 + r div 3600 * 3600 + r div 60 mod 60 * 60 + r mod 60 = s"
    using hms r(3) c(5) by linarith
  finally show ?thesis by (simp add: wire_time_def s_def)
qed

end
