(* ===== verification/Broker_Client.thy ===== *)
theory Broker_Client
  imports Api_Types Calendar
begin

text \<open>
  The legacy Kubernetes transport of \<^verbatim>\<open>internal/publisher/broker_client.go\<close>: the advertisement is
  written as an untyped object into the broker's cluster, through the dynamic client of client-go,
  which is a parameter (record \<open>dynamic_ops\<close>). An untyped object is a JSON object; the API server
  only holds objects with a \<^verbatim>\<open>metadata\<close> object, so this is a field of its own here and the source's
  type assertion on it cannot fail. A Go map is an association list that is read and written by key.
\<close>

section \<open>Untyped objects\<close>

datatype json =
    JNull
  | JBool bool
  | JNumber int
  | JString string
  | JArray "json list"
  | JObject "(string \<times> json) list"

type_synonym jmap = "(string \<times> json) list"

definition jget :: "jmap \<Rightarrow> string \<Rightarrow> json option" where
  "jget m k = map_of m k"

definition jset :: "jmap \<Rightarrow> string \<Rightarrow> json \<Rightarrow> jmap" where
  "jset m k v = (k, v) # filter (\<lambda>e. fst e \<noteq> k) m"

lemma jget_jset: "jget (jset m k v) k' = (if k' = k then Some v else jget m k')"
proof -
  have "map_of (filter (\<lambda>e. fst e \<noteq> k) m) k' = map_of m k'" if "k' \<noteq> k"
    using that by (induction m) auto
  then show ?thesis by (simp add: jget_def jset_def)
qed

lemma jget_simps [simp]:
  "jget [] k = None" "jget ((k', v) # m) k = (if k = k' then Some v else jget m k)"
  by (simp_all add: jget_def)

text \<open>\<^verbatim>\<open>m[k].(map[string]interface{})\<close> with the two-valued form of the assertion.\<close>

definition jobject :: "jmap \<Rightarrow> string \<Rightarrow> jmap option" where
  "jobject m k = (case jget m k of Some (JObject o') \<Rightarrow> Some o' | _ \<Rightarrow> None)"

record unstructured_object =
  u_metadata :: jmap
  u_Object :: jmap \<comment> \<open>the other entries\<close>

record 'w dynamic_ops =
  dyn_Get :: "'w \<Rightarrow> namespaced_name \<Rightarrow> api_error + unstructured_object"
  dyn_Create :: "'w \<Rightarrow> namespaced_name \<Rightarrow> unstructured_object \<Rightarrow> (api_error + unstructured_object) \<times> 'w"
  dyn_Update :: "'w \<Rightarrow> namespaced_name \<Rightarrow> unstructured_object \<Rightarrow> (api_error + unstructured_object) \<times> 'w"

section \<open>The client\<close>

record 'w BrokerClient =
  bc_Client :: "'w dynamic_ops option"
  bc_ClusterID :: string
  Enabled :: bool
  bc_Namespace :: string

text \<open>What the kubeconfig is turned into; \<open>'c\<close> is the type of REST configurations.\<close>

record ('w, 'c) kube_env =
  UserHomeDir :: "string + string"
  BuildConfigFromFlags :: "string \<Rightarrow> string + 'c"
  NewForConfig :: "'c \<Rightarrow> string + 'w dynamic_ops"

definition Join :: "string \<Rightarrow> string \<Rightarrow> string" where
  "Join dir file = dir @ ''/'' @ file"

definition loadBrokerConfig :: "('w, 'c) kube_env \<Rightarrow> string \<Rightarrow> string + 'c" where
  "loadBrokerConfig env kubeconfigPath =
     (if 2 \<le> length kubeconfigPath \<and> take 2 kubeconfigPath = ''~/'' then
        (case UserHomeDir env of
           Inl e \<Rightarrow> Inl e
         | Inr home \<Rightarrow> BuildConfigFromFlags env (Join home (drop 2 kubeconfigPath)))
      else BuildConfigFromFlags env kubeconfigPath)"

definition NewBrokerClient :: "('w, 'c) kube_env \<Rightarrow> string \<Rightarrow> string \<Rightarrow> string \<Rightarrow> string + 'w BrokerClient" where
  "NewBrokerClient env brokerKubeconfig cid namespace =
     (if brokerKubeconfig = ''''
      then Inr \<lparr>bc_Client = None, bc_ClusterID = '''', Enabled = False, bc_Namespace = ''''\<rparr>
      else case loadBrokerConfig env brokerKubeconfig of
             Inl e \<Rightarrow> Inl (''failed to load broker kubeconfig: '' @ e)
           | Inr config \<Rightarrow>
               (case NewForConfig env config of
                  Inl e \<Rightarrow> Inl (''failed to create dynamic client: '' @ e)
                | Inr dynamicClient \<Rightarrow>
                    Inr \<lparr>bc_Client = Some dynamicClient, bc_ClusterID = cid, Enabled = True,
                         bc_Namespace = namespace\<rparr>))"

section \<open>Publishing\<close>

definition quantities_map :: "'q quantity_ops \<Rightarrow> 'q ResourceQuantities \<Rightarrow> json" where
  "quantities_map qo r =
     JObject [(''cpu'', JString (QString qo (CPU r))), (''memory'', JString (QString qo (Memory r)))]"

definition reserved_entry :: "unstructured_object \<Rightarrow> json option" where
  "reserved_entry x =
     (case jobject (u_Object x) ''spec'' of
        Some existingSpec \<Rightarrow>
          (case jobject existingSpec ''resources'' of
             Some existingResources \<Rightarrow> jget existingResources ''reserved''
           | None \<Rightarrow> None)
      | None \<Rightarrow> None)"

definition resources_spec :: "'q quantity_ops \<Rightarrow> 'q ResourceMetrics \<Rightarrow> json option \<Rightarrow> jmap" where
  "resources_spec qo m reserved =
     (let base = [(''capacity'', quantities_map qo (Capacity m)),
                  (''allocatable'', quantities_map qo (Allocatable m)),
                  (''allocated'', quantities_map qo (Allocated m)),
                  (''available'', quantities_map qo (Available m))]
      in case reserved of Some r \<Rightarrow> jset base ''reserved'' r | None \<Rightarrow> base)"

definition cluster_advertisement ::
    "'q quantity_ops \<Rightarrow> duration \<Rightarrow> string \<Rightarrow> string \<Rightarrow> 'q AdvertisementSpec \<Rightarrow> json option \<Rightarrow> unstructured_object" where
  "cluster_advertisement qo off cid namespace s reserved =
     \<lparr>u_metadata = [(''name'', JString (cid @ ''-adv'')), (''namespace'', JString namespace)],
      u_Object =
        [(''apiVersion'', JString ''broker.fluidos.eu/v1alpha1''), (''kind'', JString ''ClusterAdvertisement''),
         (''spec'', JObject [(''clusterID'', JString (adv_ClusterID s)), (''clusterName'', JString cid),
                             (''resources'', JObject (resources_spec qo (adv_Resources s) reserved)),
                             (''timestamp'', JString (Format off (adv_Timestamp s)))])]\<rparr>"

text \<open>
  A value missing in the existing metadata reads as \<^verbatim>\<open>nil\<close>. An enabled client has a dynamic client.
\<close>

definition legacy_PublishAdvertisement ::
    "'q quantity_ops \<Rightarrow> duration \<Rightarrow> 'w BrokerClient \<Rightarrow> 'w \<Rightarrow> 'q Advertisement \<Rightarrow> string option \<times> 'w" where
  "legacy_PublishAdvertisement qo off b w adv =
     (case (Enabled b, bc_Client b) of
        (True, Some D) \<Rightarrow>
          let namespace = (if bc_Namespace b = '''' then ''default'' else bc_Namespace b);
              key = (namespace, bc_ClusterID b @ ''-adv'')
          in (case dyn_Get D w key of
                Inl err \<Rightarrow>
                  (case dyn_Create D w key
                          (cluster_advertisement qo off (bc_ClusterID b) namespace (Spec adv) None) of
                     (Inl e, w') \<Rightarrow> (Some (''failed to create advertisement in broker: '' @ Error e), w')
                   | (Inr y, w') \<Rightarrow> (None, w'))
              | Inr existing \<Rightarrow>
                  let c = cluster_advertisement qo off (bc_ClusterID b) namespace (Spec adv) (reserved_entry existing);
                      version = (case jget (u_metadata existing) ''resourceVersion'' of Some v \<Rightarrow> v | None \<Rightarrow> JNull)
                  in (case dyn_Update D w key (c\<lparr>u_metadata := jset (u_metadata c) ''resourceVersion'' version\<rparr>) of
                        (Inl e, w') \<Rightarrow> (Some (''failed to update advertisement in broker: '' @ Error e), w')
                      | (Inr y, w') \<Rightarrow> (None, w')))
      | _ \<Rightarrow> (None, w))"


section \<open>What the dynamic client promises\<close>

abbreviation jversion :: "unstructured_object \<Rightarrow> json option" where
  "jversion x \<equiv> jget (u_metadata x) ''resourceVersion''"

abbreviation jspec :: "unstructured_object \<Rightarrow> jmap option" where
  "jspec x \<equiv> jobject (u_Object x) ''spec''"

text \<open>
  Objects that are read carry their resource version. A read may be out of date by the time its
  result is used: only the version says whether it is what is stored. An update that carries a
  version succeeds only on the object with this version; both writes keep the spec they are given.
\<close>

locale dynamic_server =
  fixes D :: "'w dynamic_ops"
    and held :: "'w \<Rightarrow> namespaced_name \<rightharpoonup> unstructured_object"
  assumes get_has_version: "dyn_Get D w k = Inr x \<Longrightarrow> \<exists>v. jversion x = Some (JString v)"
    and get_this_version: "dyn_Get D w k = Inr x \<Longrightarrow> held w k = Some y \<Longrightarrow> jversion y = jversion x \<Longrightarrow> y = x"
    and create_done: "dyn_Create D w k x = (Inr y, w') \<Longrightarrow>
      held w k = None \<and> held w' = (held w)(k \<mapsto> y) \<and> jspec y = jspec x"
    and update_done: "dyn_Update D w k x = (Inr y, w') \<Longrightarrow> jversion x = Some (JString v) \<Longrightarrow>
      (\<exists>z. held w k = Some z \<and> jversion z = jversion x) \<and> held w' = (held w)(k \<mapsto> y) \<and> jspec y = jspec x"

locale dynamic_frame =
  fixes D :: "'w dynamic_ops"
    and kept :: "'w \<Rightarrow> 'v"
  assumes create_keeps: "kept (snd (dyn_Create D w k x)) = kept w"
    and update_keeps: "kept (snd (dyn_Update D w k x)) = kept w"
begin

lemma legacy_keeps:
  assumes "bc_Client b = Some D"
  shows "kept (snd (legacy_PublishAdvertisement qo off b w adv)) = kept w"
proof -
  have c: "kept w' = kept w" if "dyn_Create D w k x = (r, w')" for k x r w'
    using create_keeps [of w k x] that by simp
  have u: "kept w' = kept w" if "dyn_Update D w k x = (r, w')" for k x r w'
    using update_keeps [of w k x] that by simp
  show ?thesis
    by (auto simp: legacy_PublishAdvertisement_def Let_def assms dest!: c u
        split: bool.split sum.split prod.split)
qed

end

definition legacy_key :: "'w BrokerClient \<Rightarrow> namespaced_name" where
  "legacy_key b = (if bc_Namespace b = '''' then ''default'' else bc_Namespace b, bc_ClusterID b @ ''-adv'')"

text \<open>What can be read back from the object that is written.\<close>

lemma cluster_advertisement_reserved:
  "reserved_entry (cluster_advertisement qo off cid ns s r) = r"
  by (auto simp: reserved_entry_def cluster_advertisement_def resources_spec_def jobject_def jget_jset Let_def
      split: option.splits)

lemma reserved_entry_spec: "jspec x = jspec y \<Longrightarrow> reserved_entry x = reserved_entry y"
  by (simp add: reserved_entry_def)

definition figures_of :: "unstructured_object \<Rightarrow> string \<Rightarrow> json option" where
  "figures_of x k = (case jspec x of Some s \<Rightarrow> (case jobject s ''resources'' of Some r \<Rightarrow> jget r k | None \<Rightarrow> None)
                                   | None \<Rightarrow> None)"

lemma cluster_advertisement_figures:
  "figures_of (cluster_advertisement qo off cid ns s r) ''capacity'' = Some (quantities_map qo (Capacity (adv_Resources s)))"
  "figures_of (cluster_advertisement qo off cid ns s r) ''allocatable'' = Some (quantities_map qo (Allocatable (adv_Resources s)))"
  "figures_of (cluster_advertisement qo off cid ns s r) ''allocated'' = Some (quantities_map qo (Allocated (adv_Resources s)))"
  "figures_of (cluster_advertisement qo off cid ns s r) ''available'' = Some (quantities_map qo (Available (adv_Resources s)))"
  by (simp_all add: figures_of_def cluster_advertisement_def resources_spec_def jobject_def jget_jset Let_def
      split: option.splits)

context dynamic_server begin

lemma legacy_publish_effect:
  assumes "Enabled b" and "bc_Client b = Some D"
    and "legacy_PublishAdvertisement qo off b w adv = (None, w')"
  shows "\<exists>y. held w' = (held w)(legacy_key b \<mapsto> y) \<and>
    jspec y = jspec (cluster_advertisement qo off (bc_ClusterID b) (fst (legacy_key b)) (Spec adv)
      (case held w (legacy_key b) of None \<Rightarrow> None | Some z \<Rightarrow> reserved_entry z))"
proof (cases "dyn_Get D w (legacy_key b)")
  case (Inl e)
  with assms obtain y where "dyn_Create D w (legacy_key b)
      (cluster_advertisement qo off (bc_ClusterID b) (fst (legacy_key b)) (Spec adv) None) = (Inr y, w')"
    by (auto simp: legacy_PublishAdvertisement_def legacy_key_def Let_def split: prod.splits sum.splits)
  from create_done [OF this] show ?thesis by auto
next
  case (Inr x)
  obtain v where v: "jversion x = Some (JString v)" using get_has_version [OF Inr] by blast
  let ?c = "cluster_advertisement qo off (bc_ClusterID b) (fst (legacy_key b)) (Spec adv) (reserved_entry x)"
  let ?u = "?c\<lparr>u_metadata := jset (u_metadata ?c) ''resourceVersion'' (JString v)\<rparr>"
  obtain y where u: "dyn_Update D w (legacy_key b) ?u = (Inr y, w')"
    using assms Inr v
    by (auto simp: legacy_PublishAdvertisement_def legacy_key_def Let_def split: prod.splits sum.splits)
  have "jversion ?u = Some (JString v)" by (simp add: jget_jset)
  from update_done [OF u this] v obtain z where z: "held w (legacy_key b) = Some z" "jversion z = jversion x"
    and r: "held w' = (held w)(legacy_key b \<mapsto> y)" "jspec y = jspec ?c"
    by (auto simp: jget_jset)
  have "z = x" by (rule get_this_version [OF Inr z])
  with z r show ?thesis by auto
qed

end

section \<open>An instance\<close>

record dyn_mem =
  dm_objs :: "namespaced_name \<rightharpoonup> unstructured_object"
  dm_counter :: nat

definition dyn_stamp :: "nat \<Rightarrow> unstructured_object \<Rightarrow> unstructured_object" where
  "dyn_stamp n x = x\<lparr>u_metadata := jset (u_metadata x) ''resourceVersion'' (JString (show_nat n))\<rparr>"

definition dyn_put ::
    "dyn_mem \<Rightarrow> namespaced_name \<Rightarrow> unstructured_object \<Rightarrow> (api_error + unstructured_object) \<times> dyn_mem" where
  "dyn_put w k x =
     (let y = dyn_stamp (dm_counter w) x
      in (Inr y, w\<lparr>dm_objs := (dm_objs w)(k \<mapsto> y), dm_counter := Suc (dm_counter w)\<rparr>))"

definition mem_dynamic :: "dyn_mem dynamic_ops" where
  "mem_dynamic =
     \<lparr>dyn_Get = (\<lambda>w k. case dm_objs w k of
                   Some x \<Rightarrow> (case jversion x of Some (JString v) \<Rightarrow> Inr x | _ \<Rightarrow> Inl (OtherError ''no version''))
                 | None \<Rightarrow> Inl (NotFound ''not found'')),
      dyn_Create = (\<lambda>w k x. case dm_objs w k of
                      Some z \<Rightarrow> (Inl (AlreadyExists ''already exists''), w)
                    | None \<Rightarrow> dyn_put w k x),
      dyn_Update = (\<lambda>w k x. case dm_objs w k of
                      None \<Rightarrow> (Inl (NotFound ''not found''), w)
                    | Some z \<Rightarrow> if jversion x \<noteq> jversion z then (Inl (Conflict ''object has been modified''), w)
                                 else dyn_put w k x)\<rparr>"

interpretation mem_dyn: dynamic_server mem_dynamic dm_objs
  by unfold_locales
    (auto simp: mem_dynamic_def dyn_put_def dyn_stamp_def Let_def split: option.splits json.splits if_splits)

section \<open>Properties\<close>

text \<open>
  C18. The legacy publication keeps the broker's bookkeeping, also when others write at the same
  time. When it succeeds, the broker's object for this cluster has the reserved entry that the
  object it replaced had at the moment of the write (none if there was no object), and the figures
  of the advertisement; nothing else at the broker has changed. The resource version of the object
  that was read makes an update of anything newer fail.
\<close>

theorem legacy_publish_preserves_reserved:
  assumes "dynamic_server D held" and "Enabled b" and "bc_Client b = Some D"
    and "legacy_PublishAdvertisement qo off b w adv = (None, w')"
  shows "\<exists>y. held w' = (held w)(legacy_key b \<mapsto> y) \<and>
    reserved_entry y = (case held w (legacy_key b) of None \<Rightarrow> None | Some z \<Rightarrow> reserved_entry z) \<and>
    figures_of y ''capacity'' = Some (quantities_map qo (Capacity (adv_Resources (Spec adv)))) \<and>
    figures_of y ''allocatable'' = Some (quantities_map qo (Allocatable (adv_Resources (Spec adv)))) \<and>
    figures_of y ''allocated'' = Some (quantities_map qo (Allocated (adv_Resources (Spec adv)))) \<and>
    figures_of y ''available'' = Some (quantities_map qo (Available (adv_Resources (Spec adv))))"
proof -
  let ?c = "cluster_advertisement qo off (bc_ClusterID b) (fst (legacy_key b)) (Spec adv)
      (case held w (legacy_key b) of None \<Rightarrow> None | Some z \<Rightarrow> reserved_entry z)"
  obtain y where y: "held w' = (held w)(legacy_key b \<mapsto> y)" "jspec y = jspec ?c"
    using dynamic_server.legacy_publish_effect [OF assms] by blast
  have "figures_of y = figures_of ?c" by (rule ext) (simp add: figures_of_def y(2))
  moreover have "reserved_entry y = reserved_entry ?c" by (rule reserved_entry_spec) (rule y(2))
  ultimately show ?thesis
    using y(1) by (intro exI [of _ y]) (simp add: cluster_advertisement_figures cluster_advertisement_reserved)
qed

definition legacy_sample :: "dyn_mem BrokerClient" where
  "legacy_sample = \<lparr>bc_Client = Some mem_dynamic, bc_ClusterID = ''rome'', Enabled = True, bc_Namespace = ''''\<rparr>"

definition legacy_adv :: "int Advertisement" where
  "legacy_adv =
     (let z = \<lparr>CPU = 5, Memory = 6, GPU = None, Storage = None\<rparr>
      in \<lparr>ObjectMeta = new_meta (''default'', ''cluster-advertisement''),
          Spec = \<lparr>adv_ClusterID = ''rome'',
                  adv_Resources = \<lparr>Capacity = z, Allocatable = z, Allocated = z, Used = None, Available = z\<rparr>,
                  adv_Cost = None, adv_Timestamp = 0\<rparr>,
          Status = AdvertisementStatus_zero\<rparr>)"

definition booked_cluster :: dyn_mem where
  "booked_cluster =
     \<lparr>dm_objs = [(''default'', ''rome-adv'') \<mapsto>
        \<lparr>u_metadata = [(''resourceVersion'', JString ''7'')],
         u_Object = [(''spec'', JObject [(''resources'', JObject [(''reserved'', JString ''3'')])])]\<rparr>],
      dm_counter = 8\<rparr>"

theorem legacy_publish_preserves_reserved_witness:
  "\<exists>w' y. legacy_PublishAdvertisement nano_ops 0 legacy_sample booked_cluster legacy_adv = (None, w') \<and>
     dm_objs w' (''default'', ''rome-adv'') = Some y \<and> reserved_entry y = Some (JString ''3'')"
proof -
  have "fst (legacy_PublishAdvertisement nano_ops 0 legacy_sample booked_cluster legacy_adv) = None"
    by code_simp
  then obtain w' where h: "legacy_PublishAdvertisement nano_ops 0 legacy_sample booked_cluster legacy_adv = (None, w')"
    by (metis prod.collapse)
  have e: "Enabled legacy_sample" "bc_Client legacy_sample = Some mem_dynamic"
      "legacy_key legacy_sample = (''default'', ''rome-adv'')"
    by (simp_all add: legacy_sample_def legacy_key_def)
  have r: "(case dm_objs booked_cluster (''default'', ''rome-adv'') of None \<Rightarrow> None | Some z \<Rightarrow> reserved_entry z)
      = Some (JString ''3'')"
    by (simp add: booked_cluster_def reserved_entry_def jobject_def)
  show ?thesis
    using legacy_publish_preserves_reserved [OF mem_dyn.dynamic_server_axioms e(1,2) h] h
    by (auto simp: e(3) r)
qed

text \<open>
  C35. The time stamp of the published object is the time stamp of the advertisement, cut to its
  second, only where the agent runs in UTC: read as the RFC 3339 text it claims to be, it is shifted
  by the offset of the agent's zone.
\<close>

theorem legacy_timestamp_shifted:
  assumes "civil_from_days ((adv_Timestamp s + off) div Second div 86400) = (y, m, d)" and "0 \<le> y" and "y \<le> 9999"
  shows "\<exists>sp txt. jspec (cluster_advertisement qo off cid namespace s reserved) = Some sp \<and>
    jget sp ''timestamp'' = Some (JString txt) \<and> ParseRFC3339 txt = Some (wire_time (adv_Timestamp s + off))"
  using time_text_roundtrip [OF assms] by (simp add: cluster_advertisement_def jobject_def)

theorem legacy_timestamp_shifted_witness:
  "\<exists>sp txt. jspec (cluster_advertisement nano_ops Hour ''rome'' ''default'' (Spec legacy_adv) None) = Some sp \<and>
    jget sp ''timestamp'' = Some (JString txt) \<and> ParseRFC3339 txt = Some Hour"
  using legacy_timestamp_shifted [of "Spec legacy_adv" Hour 1970 1 1 nano_ops "''rome''" "''default''" None]
  by (simp add: legacy_adv_def Let_def time_defs wire_time_def civil_from_days_def year_day_def month_lengths_def isLeap_def)

end
