(* ===== verification/Transport.thy ===== *)
theory Transport
  imports Http_Correct Kube_Client Broker_Client
begin

text \<open>
  The transport abstraction of \<^verbatim>\<open>internal/transport/interface.go\<close>: what the advertisement
  controller and the reservation poller know of the broker. The Go interface is a record of its
  operations; \<open>http_communicator\<close> is the REST client seen through it. What its clients rely on is
  that talking to the broker leaves the objects of the local cluster alone (locale
  \<open>broker_frame\<close>).

  The second part puts the pieces of the world together: a component that works on a part of the
  world (a client of one kind of object, the network) is lifted to the whole, and keeps its laws.
\<close>

section \<open>The interface\<close>

record 'w BrokerCommunicator =
  com_PublishAdvertisement :: "'w \<Rightarrow> AdvertisementDTO \<Rightarrow> string option \<times> 'w"
  com_FetchReservations :: "'w \<Rightarrow> string \<Rightarrow> Role \<Rightarrow> (string + ReservationDTO option list) \<times> 'w"
  com_Ping :: "'w \<Rightarrow> string option \<times> 'w"
  com_Close :: "'w \<Rightarrow> string option \<times> 'w"

text \<open>\<^verbatim>\<open>Close\<close> drops the idle connections, which the model does not have, and cannot fail.\<close>

definition Close :: "HTTPCommunicator \<Rightarrow> 'w \<Rightarrow> string option \<times> 'w" where
  "Close c w = (None, w)"

definition http_communicator :: "HTTPCommunicator \<Rightarrow> 'w http_env \<Rightarrow> 'w BrokerCommunicator" where
  "http_communicator c env =
     \<lparr>com_PublishAdvertisement = PublishAdvertisement c env,
      com_FetchReservations = FetchReservations c env,
      com_Ping = Ping c env,
      com_Close = Close c\<rparr>"

section \<open>Talking to the broker leaves local objects alone\<close>

locale broker_frame =
  fixes com :: "'w BrokerCommunicator"
    and held :: "'w \<Rightarrow> 'v"
  assumes publish_frame: "held (snd (com_PublishAdvertisement com w adv)) = held w"
    and fetch_frame: "held (snd (com_FetchReservations com w cid role)) = held w"

locale env_frame =
  fixes env :: "'w http_env"
    and held :: "'w \<Rightarrow> 'v"
  assumes do_frame: "Do env w req = (res, b, w') \<Longrightarrow> held w' = held w"
    and pause_frame: "Pause env w d = (e, w') \<Longrightarrow> held w' = held w"
    and close_frame [simp]: "held (CloseBody env w resp) = held w"
begin

lemma retry_frame: "retry_loop env left d req w = (out, w') \<Longrightarrow> held w' = held w"
proof (induction left arbitrary: d req w rule: less_induct)
  case (less left)
  show ?case
  proof (cases rule: retry_loop_cases [of env w req left d])
    case (final res b w1 w2)
    then show ?thesis
      using less.prems do_frame [OF final(1)] by (auto split: sum.splits)
  next
    case (cancelled res b w1 w2 w3 l e)
    then show ?thesis
      using less.prems do_frame [OF cancelled(1)] pause_frame [OF cancelled(5)] by (auto split: sum.splits)
  next
    case (again res b w1 w2 w3 l)
    then have "held w' = held w3" using less by auto
    also have "\<dots> = held w"
      using do_frame [OF again(1)] pause_frame [OF again(5)] again(4) by (auto split: sum.splits)
    finally show ?thesis .
  qed
qed

lemma do_with_retry_frame: "doWithRetry c env req w = (out, w') \<Longrightarrow> held w' = held w"
  unfolding doWithRetry_def by (rule retry_frame)

lemma close_ok_frame [simp]: "held (close_ok env res w) = held w"
  by (simp add: close_ok_def split: sum.splits)

end

sublocale env_frame \<subseteq> http_frame: broker_frame "http_communicator c env" held for c
proof
  fix w adv
  show "held (snd (com_PublishAdvertisement (http_communicator c env) w adv)) = held w"
    by (auto simp: http_communicator_def PublishAdvertisement_def Let_def dest!: do_with_retry_frame
        split: option.splits prod.splits sum.splits)
next
  fix w cid role
  show "held (snd (com_FetchReservations (http_communicator c env) w cid role)) = held w"
    by (auto simp: http_communicator_def FetchReservations_def Let_def dest!: do_with_retry_frame
        split: option.splits prod.splits sum.splits)
qed

section \<open>Lifting to the whole world\<close>

definition lift_env :: "('w \<Rightarrow> 'v) \<Rightarrow> ('v \<Rightarrow> 'w \<Rightarrow> 'w) \<Rightarrow> 'v http_env \<Rightarrow> 'w http_env" where
  "lift_env get put env =
     \<lparr>Do = (\<lambda>w req. case Do env (get w) req of (res, b, v) \<Rightarrow> (res, b, put v w)),
      Pause = (\<lambda>w d. case Pause env (get w) d of (e, v) \<Rightarrow> (e, put v w)),
      CloseBody = (\<lambda>w resp. put (CloseBody env (get w) resp) w),
      URLError = URLError env\<rparr>"

definition lift_write ::
    "('w \<Rightarrow> 'v) \<Rightarrow> ('v \<Rightarrow> 'w \<Rightarrow> 'w) \<Rightarrow> ('v \<Rightarrow> 'x \<Rightarrow> 'r \<times> 'v) \<Rightarrow> 'w \<Rightarrow> 'x \<Rightarrow> 'r \<times> 'w" where
  "lift_write get put f w x = (case f (get w) x of (r, v) \<Rightarrow> (r, put v w))"

definition lift_client ::
    "('w \<Rightarrow> 'v) \<Rightarrow> ('v \<Rightarrow> 'w \<Rightarrow> 'w) \<Rightarrow> ('v, 's, 't) client_ops \<Rightarrow> ('w, 's, 't) client_ops" where
  "lift_client get put C =
     \<lparr>Get = (\<lambda>w k. Get C (get w) k),
      Create = lift_write get put (Create C),
      Update = lift_write get put (Update C),
      StatusUpdate = lift_write get put (StatusUpdate C)\<rparr>"

text \<open>A part of the world that can be read and replaced.\<close>

locale world_part =
  fixes get :: "'w \<Rightarrow> 'v" and put :: "'v \<Rightarrow> 'w \<Rightarrow> 'w"
  assumes get_put [simp]: "get (put v w) = v"
begin

lemma lift_writes:
  "created (\<lambda>w. stored (get w)) ws t0 w x (put v w) y = created stored ws t0 (get w) x v y"
  "spec_written (\<lambda>w. stored (get w)) ws w x (put v w) y = spec_written stored ws (get w) x v y"
  "status_written (\<lambda>w. stored (get w)) wt w x (put v w) y = status_written stored wt (get w) x v y"
  by (simp_all add: write_defs)

lemma lift_api_server:
  assumes "api_server C stored ws wt t0"
  shows "api_server (lift_client get put C) (\<lambda>w. stored (get w)) ws wt t0"
proof
  fix w k x y
  assume "Get (lift_client get put C) w k = Inr x"
  then have g: "Get C (get w) k = Inr x" by (simp add: lift_client_def)
  show "okey x = k" using api_server.get_key [OF assms g] .
  show "y = x" if "stored (get w) k = Some y" "oversion y = oversion x"
    using api_server.get_version [OF assms g that] .
qed (auto simp: lift_client_def lift_write_def lift_writes split: prod.splits
      dest!: api_server.create_ok [OF assms] api_server.update_ok [OF assms] api_server.status_ok [OF assms]
        api_server.create_err [OF assms] api_server.update_err [OF assms] api_server.status_err [OF assms])

end

section \<open>A concrete world\<close>

text \<open>
  An in-memory broker, one in-memory API server per kind of object of the agent, and the legacy
  broker's cluster, each lifted to the whole.
\<close>

record 'q agent_world =
  broker_part :: mem_broker
  ri_part :: "(ReservationInstructionSpec, ReservationInstructionStatus) mem_server"
  pi_part :: "(ProviderInstructionSpec, ProviderInstructionStatus) mem_server"
  adv_part :: "('q AdvertisementSpec, AdvertisementStatus) mem_server"
  legacy_part :: dyn_mem

definition world_env :: "HTTPCommunicator \<Rightarrow> 'q agent_world http_env" where
  "world_env c = lift_env broker_part (\<lambda>v. broker_part_update (\<lambda>_. v)) (mem_broker_env c)"

definition world_dynamic :: "'q agent_world dynamic_ops" where
  "world_dynamic =
     \<lparr>dyn_Get = (\<lambda>w. dyn_Get mem_dynamic (legacy_part w)),
      dyn_Create = (\<lambda>w k x. case dyn_Create mem_dynamic (legacy_part w) k x of (r, v) \<Rightarrow> (r, w\<lparr>legacy_part := v\<rparr>)),
      dyn_Update = (\<lambda>w k x. case dyn_Update mem_dynamic (legacy_part w) k x of (r, v) \<Rightarrow> (r, w\<lparr>legacy_part := v\<rparr>))\<rparr>"

definition world_ri ::
    "('q agent_world, ReservationInstructionSpec, ReservationInstructionStatus) client_ops" where
  "world_ri = lift_client ri_part (\<lambda>v. ri_part_update (\<lambda>_. v))
     (mem_client wire_ri_spec wire_ri_status ReservationInstructionStatus_zero)"

definition world_pi ::
    "('q agent_world, ProviderInstructionSpec, ProviderInstructionStatus) client_ops" where
  "world_pi = lift_client pi_part (\<lambda>v. pi_part_update (\<lambda>_. v))
     (mem_client wire_pi_spec wire_pi_status ProviderInstructionStatus_zero)"

definition world_adv ::
    "'q quantity_ops \<Rightarrow> ('q agent_world, 'q AdvertisementSpec, AdvertisementStatus) client_ops" where
  "world_adv qo = lift_client adv_part (\<lambda>v. adv_part_update (\<lambda>_. v))
     (mem_client (wire_adv_spec qo) wire_adv_status AdvertisementStatus_zero)"

abbreviation ri_objs :: "'q agent_world \<Rightarrow> namespaced_name \<rightharpoonup> ReservationInstruction" where
  "ri_objs w \<equiv> mem_objs (ri_part w)"

abbreviation pi_objs :: "'q agent_world \<Rightarrow> namespaced_name \<rightharpoonup> ProviderInstruction" where
  "pi_objs w \<equiv> mem_objs (pi_part w)"

abbreviation adv_objs :: "'q agent_world \<Rightarrow> namespaced_name \<rightharpoonup> 'q Advertisement" where
  "adv_objs w \<equiv> mem_objs (adv_part w)"

interpretation ri_lens: world_part ri_part "\<lambda>v. ri_part_update (\<lambda>_. v)"
  by unfold_locales simp

interpretation pi_lens: world_part pi_part "\<lambda>v. pi_part_update (\<lambda>_. v)"
  by unfold_locales simp

interpretation adv_lens: world_part adv_part "\<lambda>v. adv_part_update (\<lambda>_. v)"
  by unfold_locales simp

interpretation world_ri: api_server world_ri ri_objs wire_ri_spec wire_ri_status
  ReservationInstructionStatus_zero
  unfolding world_ri_def by (rule ri_lens.lift_api_server [OF mem.api_server_axioms])

interpretation world_pi: api_server world_pi pi_objs wire_pi_spec wire_pi_status
  ProviderInstructionStatus_zero
  unfolding world_pi_def by (rule pi_lens.lift_api_server [OF mem.api_server_axioms])

interpretation world_adv: api_server "world_adv qo" adv_objs "wire_adv_spec qo" wire_adv_status
  AdvertisementStatus_zero
  unfolding world_adv_def by (rule adv_lens.lift_api_server [OF mem.api_server_axioms])

interpretation world_env: env_frame "world_env c" "\<lambda>w. (ri_part w, pi_part w, adv_part w)"
  by unfold_locales (auto simp: world_env_def lift_env_def split: prod.splits)

interpretation world_dyn: dynamic_frame world_dynamic "\<lambda>w. (ri_part w, pi_part w, adv_part w)"
  by unfold_locales (auto simp: world_dynamic_def split: prod.splits)

interpretation world_dyn_adv: dynamic_frame world_dynamic adv_objs
  by unfold_locales (auto simp: world_dynamic_def split: prod.splits)

lemma world_broker_frame:
  "broker_frame (http_communicator c (world_env c)) (\<lambda>w. (ri_part w, pi_part w, adv_part w))"
  by (rule world_env.http_frame.broker_frame_axioms)

lemma world_fetch_parts [simp]:
  "ri_part (snd (com_FetchReservations (http_communicator c (world_env c)) w cid role)) = ri_part w"
  "pi_part (snd (com_FetchReservations (http_communicator c (world_env c)) w cid role)) = pi_part w"
  "adv_part (snd (com_FetchReservations (http_communicator c (world_env c)) w cid role)) = adv_part w"
  using broker_frame.fetch_frame [OF world_broker_frame, of c w cid role] by simp_all

lemma world_publish_parts [simp]:
  "ri_part (snd (com_PublishAdvertisement (http_communicator c (world_env c)) w adv)) = ri_part w"
  "pi_part (snd (com_PublishAdvertisement (http_communicator c (world_env c)) w adv)) = pi_part w"
  "adv_part (snd (com_PublishAdvertisement (http_communicator c (world_env c)) w adv)) = adv_part w"
  using broker_frame.publish_frame [OF world_broker_frame, of c w adv] by simp_all


interpretation world_broker: rest_broker c "world_env c" "\<lambda>w. br_advs (broker_part w)"
  by unfold_locales
    (auto simp: world_env_def lift_env_def mem_broker_env_def mem_exchange_def get_request_def
      mem_get_advertisement reply_def split: nat.splits option.splits body_reader.splits if_splits prod.splits)

end
