(* ===== verification/Instruction_Controllers.thy ===== *)
theory Instruction_Controllers
  imports Kube_Client
begin

text \<open>
  The reconcilers of \<^verbatim>\<open>internal/controller/providerinstruction_controller.go\<close> and
  \<^verbatim>\<open>reservationinstruction_controller.go\<close>. Each handler is one definition over the client calls:
  it returns the controller-runtime result, the error, and the new state of the world. The three
  readings of the clock a handler makes (the expiry check, the status time stamp, the time that
  remains) are the record \<open>readings\<close>, in the order of the calls.

  Both keep one flag of the status in step with the expiry of the instruction (\<^verbatim>\<open>Enforced\<close>,
  \<^verbatim>\<open>Delivered\<close>), which is the contract \<open>flag_reconciler\<close>: its consequences for whole runs of
  reconciliations, with stale reads and failing writes, are proved once and hold for both.
\<close>

section \<open>The handlers\<close>

record ctrl_result =
  RequeueAfter :: duration

abbreviation no_requeue :: ctrl_result where
  "no_requeue \<equiv> \<lparr>RequeueAfter = 0\<rparr>"

type_synonym reconcile_out = "ctrl_result \<times> api_error option"

record readings =
  now_check :: go_time
  now_status :: go_time
  now_until :: go_time

definition expired :: "go_time option \<Rightarrow> go_time \<Rightarrow> bool" where
  "expired e now = (case e of Some t \<Rightarrow> Before t now | None \<Rightarrow> False)"

text \<open>The requeue both handlers end with: at the expiry when there is one ahead, else in five minutes.\<close>

definition requeue_until :: "go_time option \<Rightarrow> go_time \<Rightarrow> ctrl_result" where
  "requeue_until e now =
     (case e of
        Some t \<Rightarrow> if 0 < t - now then \<lparr>RequeueAfter = t - now\<rparr> else \<lparr>RequeueAfter = 5 * Minute\<rparr>
      | None \<Rightarrow> \<lparr>RequeueAfter = 5 * Minute\<rparr>)"

definition ProviderInstruction_Reconcile ::
    "('w, ProviderInstructionSpec, ProviderInstructionStatus) client_ops \<Rightarrow> readings \<Rightarrow> 'w
       \<Rightarrow> namespaced_name \<Rightarrow> reconcile_out \<times> 'w" where
  "ProviderInstruction_Reconcile C rd w req =
     (case Get C w req of
        Inl e \<Rightarrow> if IsNotFound e then ((no_requeue, None), w) else ((no_requeue, Some e), w)
      | Inr x \<Rightarrow>
          if expired (pi_ExpiresAt (Spec x)) (now_check rd) then
            (case StatusUpdate C w
                    (x\<lparr>Status := (Status x)\<lparr>pi_Enforced := False, pi_LastUpdateTime := now_status rd\<rparr>\<rparr>) of
               (Inl e, w') \<Rightarrow> ((no_requeue, Some e), w')
             | (Inr y, w') \<Rightarrow> ((no_requeue, None), w'))
          else if pi_Enforced (Status x) then
            ((requeue_until (pi_ExpiresAt (Spec x)) (now_until rd), None), w)
          else
            (case StatusUpdate C w
                    (x\<lparr>Status := (Status x)\<lparr>pi_Enforced := True, pi_LastUpdateTime := now_status rd\<rparr>\<rparr>) of
               (Inl e, w') \<Rightarrow> ((no_requeue, Some e), w')
             | (Inr y, w') \<Rightarrow> ((requeue_until (pi_ExpiresAt (Spec y)) (now_until rd), None), w')))"

definition ReservationInstruction_Reconcile ::
    "('w, ReservationInstructionSpec, ReservationInstructionStatus) client_ops \<Rightarrow> readings \<Rightarrow> 'w
       \<Rightarrow> namespaced_name \<Rightarrow> reconcile_out \<times> 'w" where
  "ReservationInstruction_Reconcile C rd w req =
     (case Get C w req of
        Inl e \<Rightarrow> if IsNotFound e then ((no_requeue, None), w) else ((no_requeue, Some e), w)
      | Inr x \<Rightarrow>
          if expired (ri_ExpiresAt (Spec x)) (now_check rd) then
            (if ri_Delivered (Status x) then
               (case StatusUpdate C w
                       (x\<lparr>Status := (Status x)\<lparr>ri_Delivered := False, ri_LastUpdateTime := now_status rd\<rparr>\<rparr>) of
                  (Inl e, w') \<Rightarrow> ((no_requeue, Some e), w')
                | (Inr y, w') \<Rightarrow> ((no_requeue, None), w'))
             else ((no_requeue, None), w))
          else if ri_Delivered (Status x) then
            ((requeue_until (ri_ExpiresAt (Spec x)) (now_until rd), None), w)
          else
            (case StatusUpdate C w
                    (x\<lparr>Status := (Status x)\<lparr>ri_Delivered := True, ri_LastUpdateTime := now_status rd\<rparr>\<rparr>) of
               (Inl e, w') \<Rightarrow> ((no_requeue, Some e), w')
             | (Inr y, w') \<Rightarrow> ((requeue_until (ri_ExpiresAt (Spec y)) (now_until rd), None), w')))"

text \<open>Both write nothing but status, through their client.\<close>

lemma provider_reconcile_frame:
  "client_frame C kept \<Longrightarrow> kept (snd (ProviderInstruction_Reconcile C rd w k)) = kept w"
  by (auto simp: ProviderInstruction_Reconcile_def dest: client_frame.status_keeps split: sum.split prod.split)

lemma reservation_reconcile_frame:
  "client_frame C kept \<Longrightarrow> kept (snd (ReservationInstruction_Reconcile C rd w k)) = kept w"
  by (auto simp: ReservationInstruction_Reconcile_def dest: client_frame.status_keeps split: sum.split prod.split)

text \<open>A sequence of reconciliations, of any objects and with any clock readings.\<close>

fun reconcile_run ::
    "(readings \<Rightarrow> 'w \<Rightarrow> namespaced_name \<Rightarrow> reconcile_out \<times> 'w) \<Rightarrow> (readings \<times> namespaced_name) list
       \<Rightarrow> 'w \<Rightarrow> 'w" where
  "reconcile_run rec [] w = w"
| "reconcile_run rec ((rd, k) # es) w = reconcile_run rec es (snd (rec rd w k))"

section \<open>The contract of the two reconcilers\<close>

text \<open>
  \<open>rec_effect\<close>: a reconciliation changes nothing, or it sets the flag of the stored object it is
  asked for to "not expired" and leaves the spec alone. \<open>rec_success\<close>: when it reports success and
  what it read is what is stored, the flag is right afterwards. \<open>rec_requeue\<close>: an instruction that
  is still valid is looked at again.
\<close>

locale flag_reconciler =
  api_server C stored wire_spec wire_status status0
  for C :: "('w, 's, 't) client_ops" and stored wire_spec wire_status status0 +
  fixes rec :: "readings \<Rightarrow> 'w \<Rightarrow> namespaced_name \<Rightarrow> reconcile_out \<times> 'w"
    and flag :: "'t \<Rightarrow> bool"
    and expiry :: "'s \<Rightarrow> go_time option"
  assumes rec_effect: "stored (snd (rec rd w k)) = stored w \<or>
      (\<exists>x y. stored w k = Some x \<and> stored (snd (rec rd w k)) = (stored w)(k \<mapsto> y) \<and>
             Spec y = Spec x \<and> flag (Status y) = (\<not> expired (expiry (Spec x)) (now_check rd)))"
    and rec_success: "Get C w k = Inr x \<Longrightarrow> stored w k = Some x \<Longrightarrow> rec rd w k = ((r, None), w') \<Longrightarrow>
      \<exists>y. stored w' k = Some y \<and> Spec y = Spec x \<and>
          flag (Status y) = (\<not> expired (expiry (Spec x)) (now_check rd))"
    and rec_requeue: "Get C w k = Inr x \<Longrightarrow> rec rd w k = ((r, None), w') \<Longrightarrow>
      r = (if expired (expiry (Spec x)) (now_check rd) then no_requeue
           else requeue_until (expiry (Spec x)) (now_until rd))"
begin

lemma rec_frame: "k' \<noteq> k \<Longrightarrow> stored (snd (rec rd w k)) k' = stored w k'"
  using rec_effect [of rd w k] by auto

lemma rec_keeps_spec: "map_option Spec (stored (snd (rec rd w k)) k') = map_option Spec (stored w k')"
  using rec_effect [of rd w k] by (cases "k' = k") auto

lemma run_keeps_spec:
  "map_option Spec (stored (reconcile_run rec es w) k) = map_option Spec (stored w k)"
proof (induction es arbitrary: w)
  case Nil
  then show ?case by simp
next
  case (Cons e es)
  then show ?case by (cases e) (simp add: rec_keeps_spec)
qed

lemma expired_mono: "expired e t \<Longrightarrow> t \<le> u \<Longrightarrow> expired e u"
  by (auto simp: expired_def Before_def split: option.splits)

text \<open>Once the flag of an expired instruction is down, no later reconciliation raises it again.\<close>

lemma rec_stays_off:
  assumes "stored w k = Some x" and "expired (expiry (Spec x)) t" and "\<not> flag (Status x)"
    and "t \<le> now_check rd"
  shows "\<exists>y. stored (snd (rec rd w k')) k = Some y \<and> Spec y = Spec x \<and> \<not> flag (Status y)"
proof (cases "k' = k")
  case True
  have "expired (expiry (Spec x)) (now_check rd)" using assms(2,4) by (rule expired_mono)
  with rec_effect [of rd w k] assms(1,3) True show ?thesis by auto
next
  case False
  then have "k \<noteq> k'" by simp
  then have "stored (snd (rec rd w k')) k = stored w k" by (rule rec_frame)
  with assms(1,3) show ?thesis by simp
qed

lemma run_stays_off:
  assumes "stored w k = Some x" and "expired (expiry (Spec x)) t" and "\<not> flag (Status x)"
    and "\<forall>(rd, k')\<in>set es. t \<le> now_check rd"
  shows "\<exists>y. stored (reconcile_run rec es w) k = Some y \<and> Spec y = Spec x \<and> \<not> flag (Status y)"
  using assms
proof (induction es arbitrary: w x)
  case Nil
  then show ?case by simp
next
  case (Cons e es)
  obtain rd k' where e: "e = (rd, k')" by (cases e)
  have "t \<le> now_check rd" using Cons.prems(4) e by simp
  then obtain y where y: "stored (snd (rec rd w k')) k = Some y" "Spec y = Spec x" "\<not> flag (Status y)"
    using rec_stays_off [OF Cons.prems(1-3)] by blast
  have "expired (expiry (Spec y)) t" using Cons.prems(2) y(2) by simp
  then obtain z where "stored (reconcile_run rec es (snd (rec rd w k'))) k = Some z"
      "Spec z = Spec y" "\<not> flag (Status z)"
    using Cons.IH [OF y(1) _ y(3)] Cons.prems(4) by auto
  with y(2) e show ?case by simp
qed

lemma requeue_positive:
  assumes "Get C w k = Inr x" and "rec rd w k = ((r, None), w')"
    and "\<not> expired (expiry (Spec x)) (now_check rd)"
  shows "0 < RequeueAfter r \<and>
    (\<forall>t. expiry (Spec x) = Some t \<longrightarrow> now_until rd < t \<longrightarrow> now_until rd + RequeueAfter r = t)"
  using rec_requeue [OF assms(1,2)] assms(3)
  by (auto simp: requeue_until_def time_defs split: option.splits)

end

section \<open>Both reconcilers keep the contract\<close>

locale provider_server =
  api_server C stored wire_pi_spec wire_pi_status ProviderInstructionStatus_zero
  for C :: "('w, ProviderInstructionSpec, ProviderInstructionStatus) client_ops" and stored

locale reservation_server =
  api_server C stored wire_ri_spec wire_ri_status ReservationInstructionStatus_zero
  for C :: "('w, ReservationInstructionSpec, ReservationInstructionStatus) client_ops" and stored

sublocale provider_server \<subseteq> enforce: flag_reconciler C stored wire_pi_spec wire_pi_status
  ProviderInstructionStatus_zero "ProviderInstruction_Reconcile C" pi_Enforced pi_ExpiresAt
proof
  fix rd w k
  show "stored (snd (ProviderInstruction_Reconcile C rd w k)) = stored w \<or>
      (\<exists>x y. stored w k = Some x \<and>
        stored (snd (ProviderInstruction_Reconcile C rd w k)) = (stored w)(k \<mapsto> y) \<and>
        Spec y = Spec x \<and> pi_Enforced (Status y) = (\<not> expired (pi_ExpiresAt (Spec x)) (now_check rd)))"
  proof (cases "Get C w k")
    case (Inl e)
    then show ?thesis by (simp add: ProviderInstruction_Reconcile_def)
  next
    case (Inr x)
    let ?ex = "expired (pi_ExpiresAt (Spec x)) (now_check rd)"
    let ?t = "(Status x)\<lparr>pi_Enforced := \<not> ?ex, pi_LastUpdateTime := now_status rd\<rparr>"
    obtain r w' where u: "StatusUpdate C w (x\<lparr>Status := ?t\<rparr>) = (r, w')" by fastforce
    have "stored w' = stored w \<or> (\<exists>y. stored w k = Some x \<and> stored w' = (stored w)(k \<mapsto> y) \<and>
        Spec y = Spec x \<and> pi_Enforced (Status y) = (\<not> ?ex))"
      using status_write_effect [OF Inr u] by (fastforce simp: wire_pi_status_def)
    then show ?thesis
      using Inr u by (auto simp: ProviderInstruction_Reconcile_def split: sum.splits)
  qed
next
  fix w k x rd r w'
  assume g: "Get C w k = Inr x" and s: "stored w k = Some x"
    and h: "ProviderInstruction_Reconcile C rd w k = ((r, None), w')"
  show "\<exists>y. stored w' k = Some y \<and> Spec y = Spec x \<and>
      pi_Enforced (Status y) = (\<not> expired (pi_ExpiresAt (Spec x)) (now_check rd))"
    using g s h
    by (auto simp: ProviderInstruction_Reconcile_def wire_pi_status_def
        dest!: status_write_success [OF g] split: if_splits sum.splits prod.splits)
next
  fix w k x rd r w'
  assume g: "Get C w k = Inr x" and h: "ProviderInstruction_Reconcile C rd w k = ((r, None), w')"
  show "r = (if expired (pi_ExpiresAt (Spec x)) (now_check rd) then no_requeue
             else requeue_until (pi_ExpiresAt (Spec x)) (now_until rd))"
    using g h
    by (auto simp: ProviderInstruction_Reconcile_def
        dest!: status_write_success [OF g] split: if_splits sum.splits prod.splits)
qed

sublocale reservation_server \<subseteq> deliver: flag_reconciler C stored wire_ri_spec wire_ri_status
  ReservationInstructionStatus_zero "ReservationInstruction_Reconcile C" ri_Delivered ri_ExpiresAt
proof
  fix rd w k
  show "stored (snd (ReservationInstruction_Reconcile C rd w k)) = stored w \<or>
      (\<exists>x y. stored w k = Some x \<and>
        stored (snd (ReservationInstruction_Reconcile C rd w k)) = (stored w)(k \<mapsto> y) \<and>
        Spec y = Spec x \<and> ri_Delivered (Status y) = (\<not> expired (ri_ExpiresAt (Spec x)) (now_check rd)))"
  proof (cases "Get C w k")
    case (Inl e)
    then show ?thesis by (simp add: ReservationInstruction_Reconcile_def)
  next
    case (Inr x)
    let ?ex = "expired (ri_ExpiresAt (Spec x)) (now_check rd)"
    let ?t = "(Status x)\<lparr>ri_Delivered := \<not> ?ex, ri_LastUpdateTime := now_status rd\<rparr>"
    obtain r w' where u: "StatusUpdate C w (x\<lparr>Status := ?t\<rparr>) = (r, w')" by fastforce
    have "stored w' = stored w \<or> (\<exists>y. stored w k = Some x \<and> stored w' = (stored w)(k \<mapsto> y) \<and>
        Spec y = Spec x \<and> ri_Delivered (Status y) = (\<not> ?ex))"
      using status_write_effect [OF Inr u] by (fastforce simp: wire_ri_status_def)
    then show ?thesis
      using Inr u by (auto simp: ReservationInstruction_Reconcile_def split: sum.splits)
  qed
next
  fix w k x rd r w'
  assume g: "Get C w k = Inr x" and s: "stored w k = Some x"
    and h: "ReservationInstruction_Reconcile C rd w k = ((r, None), w')"
  show "\<exists>y. stored w' k = Some y \<and> Spec y = Spec x \<and>
      ri_Delivered (Status y) = (\<not> expired (ri_ExpiresAt (Spec x)) (now_check rd))"
    using g s h
    by (auto simp: ReservationInstruction_Reconcile_def wire_ri_status_def
        dest!: status_write_success [OF g] split: if_splits sum.splits prod.splits)
next
  fix w k x rd r w'
  assume g: "Get C w k = Inr x" and h: "ReservationInstruction_Reconcile C rd w k = ((r, None), w')"
  show "r = (if expired (ri_ExpiresAt (Spec x)) (now_check rd) then no_requeue
             else requeue_until (ri_ExpiresAt (Spec x)) (now_until rd))"
    using g h
    by (auto simp: ReservationInstruction_Reconcile_def
        dest!: status_write_success [OF g] split: if_splits sum.splits prod.splits)
qed

abbreviation mem_pi_client ::
    "((ProviderInstructionSpec, ProviderInstructionStatus) mem_server,
      ProviderInstructionSpec, ProviderInstructionStatus) client_ops" where
  "mem_pi_client \<equiv> mem_client wire_pi_spec wire_pi_status ProviderInstructionStatus_zero"

abbreviation mem_ri_client ::
    "((ReservationInstructionSpec, ReservationInstructionStatus) mem_server,
      ReservationInstructionSpec, ReservationInstructionStatus) client_ops" where
  "mem_ri_client \<equiv> mem_client wire_ri_spec wire_ri_status ReservationInstructionStatus_zero"

context provider_server begin

lemma keeps_contract: "flag_reconciler C stored wire_pi_spec wire_pi_status ProviderInstructionStatus_zero
    (ProviderInstruction_Reconcile C) pi_Enforced pi_ExpiresAt"
  by (rule enforce.flag_reconciler_axioms)

end

context reservation_server begin

lemma keeps_contract: "flag_reconciler C stored wire_ri_spec wire_ri_status ReservationInstructionStatus_zero
    (ReservationInstruction_Reconcile C) ri_Delivered ri_ExpiresAt"
  by (rule deliver.flag_reconciler_axioms)

end

lemmas provider_contract = provider_server.keeps_contract [OF provider_server.intro]
lemmas reservation_contract = reservation_server.keeps_contract [OF reservation_server.intro]

interpretation mem_pi: provider_server mem_pi_client mem_objs
  by unfold_locales

interpretation mem_ri: reservation_server mem_ri_client mem_objs
  by unfold_locales

section \<open>Properties\<close>

text \<open>The sample objects of the witnesses: one instruction of each kind, expiring at 100 seconds.\<close>

definition sample_pi :: "bool \<Rightarrow> ProviderInstruction" where
  "sample_pi enforced =
     \<lparr>ObjectMeta = \<lparr>Name = ''r1-provider'', Namespace = ''default'', ResourceVersion = ''1''\<rparr>,
      Spec = \<lparr>pi_ReservationName = ''r1'', pi_RequesterClusterID = ''rome'', pi_RequestedCPU = ''2'',
              pi_RequestedMemory = ''4'', pi_Message = '''', pi_ExpiresAt = Some (100 * Second)\<rparr>,
      Status = \<lparr>pi_Enforced = enforced, pi_LastUpdateTime = 0\<rparr>\<rparr>"

definition sample_ri :: "bool \<Rightarrow> ReservationInstruction" where
  "sample_ri delivered =
     \<lparr>ObjectMeta = \<lparr>Name = ''r1'', Namespace = ''default'', ResourceVersion = ''1''\<rparr>,
      Spec = \<lparr>ri_ReservationName = ''r1'', ri_TargetClusterID = ''paris'', ri_RequestedCPU = ''2'',
              ri_RequestedMemory = ''4'', ri_Message = '''', ri_ExpiresAt = Some (100 * Second)\<rparr>,
      Status = \<lparr>ri_ObservedReservationResourceVersion = '''', ri_Delivered = delivered,
                ri_LastUpdateTime = 0\<rparr>\<rparr>"

definition server_with :: "('s, 't) kobject \<Rightarrow> ('s, 't) mem_server" where
  "server_with x = \<lparr>mem_objs = [okey x \<mapsto> x], mem_cache = [okey x \<mapsto> x], mem_counter = 2, mem_down = False\<rparr>"

abbreviation at_seconds :: "int \<Rightarrow> readings" where
  "at_seconds s \<equiv> \<lparr>now_check = s * Second, now_status = s * Second, now_until = s * Second\<rparr>"

lemma server_with_simps [simp]:
  "mem_objs (server_with x) = [okey x \<mapsto> x]"
  "Get (mem_client ws wt t0) (server_with x) (okey x) = Inr x"
  by (simp_all add: server_with_def mem_client_def)

text \<open>
  C7. After a reconciliation of a provider instruction that reports success and whose read was not
  stale, the stored instruction is enforced exactly when it had not expired at the time of the
  check, and its spec is what it was.
\<close>

theorem provider_reconcile_settles:
  assumes "api_server C stored wire_pi_spec wire_pi_status ProviderInstructionStatus_zero"
    and "Get C w k = Inr x" and "stored w k = Some x"
    and "ProviderInstruction_Reconcile C rd w k = ((r, None), w')"
  shows "\<exists>y. stored w' k = Some y \<and> Spec y = Spec x \<and>
    pi_Enforced (Status y) = (\<not> expired (pi_ExpiresAt (Spec x)) (now_check rd))"
  by (rule flag_reconciler.rec_success [OF provider_contract [OF assms(1)] assms(2-4)])

lemma sample_pi_reconcile:
  "ProviderInstruction_Reconcile mem_pi_client (at_seconds s) (server_with (sample_pi b)) (okey (sample_pi b))
     = ((r, e), w') \<Longrightarrow> e = None"
  by (auto simp: ProviderInstruction_Reconcile_def server_with_def mem_client_def mem_put_def Let_def
      split: if_splits)

lemma sample_ri_reconcile:
  "ReservationInstruction_Reconcile mem_ri_client (at_seconds s) (server_with (sample_ri b)) (okey (sample_ri b))
     = ((r, e), w') \<Longrightarrow> e = None"
  by (auto simp: ReservationInstruction_Reconcile_def server_with_def mem_client_def mem_put_def Let_def
      split: if_splits)

lemma sample_expiry [simp]:
  "pi_ExpiresAt (Spec (sample_pi b)) = Some (100 * Second)" "pi_Enforced (Status (sample_pi b)) = b"
  "ri_ExpiresAt (Spec (sample_ri b)) = Some (100 * Second)" "ri_Delivered (Status (sample_ri b)) = b"
  by (simp_all add: sample_pi_def sample_ri_def)

lemma expired_samples [simp]:
  "\<not> expired (Some (100 * Second)) (50 * Second)" "expired (Some (100 * Second)) (200 * Second)"
  by (simp_all add: expired_def time_defs)

theorem provider_reconcile_settles_witness:
  "\<exists>r w' y. ProviderInstruction_Reconcile mem_pi_client (at_seconds 50) (server_with (sample_pi False))
       (okey (sample_pi False)) = ((r, None), w') \<and>
     mem_objs w' (okey (sample_pi False)) = Some y \<and> pi_Enforced (Status y)"
proof -
  obtain r e w' where h: "ProviderInstruction_Reconcile mem_pi_client (at_seconds 50)
      (server_with (sample_pi False)) (okey (sample_pi False)) = ((r, e), w')"
    by (metis surj_pair)
  then have e: "e = None" by (rule sample_pi_reconcile)
  show ?thesis
    using provider_reconcile_settles [OF mem.api_server_axioms server_with_simps(2) _ h [unfolded e]]
      h e by auto
qed

text \<open>
  C8. The same for a reservation instruction and its \<^verbatim>\<open>Delivered\<close> flag.
\<close>

theorem reservation_reconcile_settles:
  assumes "api_server C stored wire_ri_spec wire_ri_status ReservationInstructionStatus_zero"
    and "Get C w k = Inr x" and "stored w k = Some x"
    and "ReservationInstruction_Reconcile C rd w k = ((r, None), w')"
  shows "\<exists>y. stored w' k = Some y \<and> Spec y = Spec x \<and>
    ri_Delivered (Status y) = (\<not> expired (ri_ExpiresAt (Spec x)) (now_check rd))"
  by (rule flag_reconciler.rec_success [OF reservation_contract [OF assms(1)] assms(2-4)])

theorem reservation_reconcile_settles_witness:
  "\<exists>r w' y. ReservationInstruction_Reconcile mem_ri_client (at_seconds 200) (server_with (sample_ri True))
       (okey (sample_ri True)) = ((r, None), w') \<and>
     mem_objs w' (okey (sample_ri True)) = Some y \<and> \<not> ri_Delivered (Status y)"
proof -
  obtain r e w' where h: "ReservationInstruction_Reconcile mem_ri_client (at_seconds 200)
      (server_with (sample_ri True)) (okey (sample_ri True)) = ((r, e), w')"
    by (metis surj_pair)
  then have e: "e = None" by (rule sample_ri_reconcile)
  show ?thesis
    using reservation_reconcile_settles [OF mem.api_server_axioms server_with_simps(2) _ h [unfolded e]]
      h e by auto
qed

text \<open>
  Once an expired provider instruction is not enforced, no sequence of later reconciliations
  enforces it again or changes its spec: whatever objects they are for, however stale their reads
  are, and whichever of their writes fail, are refused or are lost.
\<close>

lemma provider_expired_never_reenforced:
  assumes "api_server C stored wire_pi_spec wire_pi_status ProviderInstructionStatus_zero"
    and "stored w k = Some x" and "expired (pi_ExpiresAt (Spec x)) t" and "\<not> pi_Enforced (Status x)"
    and "\<forall>(rd, k')\<in>set es. t \<le> now_check rd"
  shows "\<exists>y. stored (reconcile_run (ProviderInstruction_Reconcile C) es w) k = Some y \<and>
    Spec y = Spec x \<and> \<not> pi_Enforced (Status y)"
  by (rule flag_reconciler.run_stays_off [OF provider_contract [OF assms(1)] assms(2-5)])

text \<open>
  The same for reservation instructions: one that has expired and is marked as not delivered
  is not delivered again.
\<close>

lemma reservation_expired_never_redelivered:
  assumes "api_server C stored wire_ri_spec wire_ri_status ReservationInstructionStatus_zero"
    and "stored w k = Some x" and "expired (ri_ExpiresAt (Spec x)) t" and "\<not> ri_Delivered (Status x)"
    and "\<forall>(rd, k')\<in>set es. t \<le> now_check rd"
  shows "\<exists>y. stored (reconcile_run (ReservationInstruction_Reconcile C) es w) k = Some y \<and>
    Spec y = Spec x \<and> \<not> ri_Delivered (Status y)"
  by (rule flag_reconciler.run_stays_off [OF reservation_contract [OF assms(1)] assms(2-5)])

text \<open>
  C22. A provider instruction that is still valid is always reconciled again: a successful
  reconciliation asks for a positive delay, and for one that ends exactly at the expiry when that
  is still ahead.
\<close>

theorem provider_requeued_until_expiry:
  assumes "api_server C stored wire_pi_spec wire_pi_status ProviderInstructionStatus_zero"
    and "Get C w k = Inr x" and "ProviderInstruction_Reconcile C rd w k = ((r, None), w')"
    and "\<not> expired (pi_ExpiresAt (Spec x)) (now_check rd)"
  shows "0 < RequeueAfter r \<and>
    (\<forall>t. pi_ExpiresAt (Spec x) = Some t \<longrightarrow> now_until rd < t \<longrightarrow> now_until rd + RequeueAfter r = t)"
  by (rule flag_reconciler.requeue_positive [OF provider_contract [OF assms(1)] assms(2-4)])

theorem provider_requeued_until_expiry_witness:
  "\<exists>r w'. ProviderInstruction_Reconcile mem_pi_client (at_seconds 50) (server_with (sample_pi False))
       (okey (sample_pi False)) = ((r, None), w') \<and> 50 * Second + RequeueAfter r = 100 * Second"
proof -
  obtain r e w' where h: "ProviderInstruction_Reconcile mem_pi_client (at_seconds 50)
      (server_with (sample_pi False)) (okey (sample_pi False)) = ((r, e), w')"
    by (metis surj_pair)
  then have e: "e = None" by (rule sample_pi_reconcile)
  have "50 * Second < 100 * Second" by (simp add: time_defs)
  then show ?thesis
    using provider_requeued_until_expiry [OF mem.api_server_axioms server_with_simps(2) h [unfolded e]]
      h e by auto
qed

text \<open>
  C37. A provider instruction that has expired is never left alone: every reconciliation that
  reports success writes its status again, with the time of the write, also when it is not enforced
  any more. As the controller watches these objects without a filter, each such write is an event
  that starts the next reconciliation, so that expired provider instructions are rewritten about
  once a second (the resolution of the stored time) for as long as they exist.
\<close>

theorem provider_expired_is_rewritten:
  assumes "api_server C stored wire_pi_spec wire_pi_status ProviderInstructionStatus_zero"
    and "Get C w k = Inr x" and "expired (pi_ExpiresAt (Spec x)) (now_check rd)"
    and "ProviderInstruction_Reconcile C rd w k = ((r, None), w')"
  shows "\<exists>y. stored w' k = Some y \<and> pi_LastUpdateTime (Status y) = wire_time (now_status rd)"
proof -
  obtain y where "StatusUpdate C w
      (x\<lparr>Status := (Status x)\<lparr>pi_Enforced := False, pi_LastUpdateTime := now_status rd\<rparr>\<rparr>) = (Inr y, w')"
    using assms(2-4) by (auto simp: ProviderInstruction_Reconcile_def split: prod.splits sum.splits)
  from api_server.status_write_success [OF assms(1,2) this] show ?thesis
    by (auto simp: wire_pi_status_def)
qed

theorem provider_expired_is_rewritten_witness:
  "\<exists>r w' y. ProviderInstruction_Reconcile mem_pi_client (at_seconds 200) (server_with (sample_pi False))
       (okey (sample_pi False)) = ((r, None), w') \<and>
     mem_objs w' (okey (sample_pi False)) = Some y \<and> pi_LastUpdateTime (Status y) = 200 * Second"
proof -
  obtain r e w' where h: "ProviderInstruction_Reconcile mem_pi_client (at_seconds 200)
      (server_with (sample_pi False)) (okey (sample_pi False)) = ((r, e), w')"
    by (metis surj_pair)
  then have e: "e = None" by (rule sample_pi_reconcile)
  show ?thesis
    using provider_expired_is_rewritten [OF mem.api_server_axioms server_with_simps(2) _ h [unfolded e]]
      h e by (auto simp: wire_time_def)
qed

end
