(* ===== verification/Advertisement_Controller.thy ===== *)
theory Advertisement_Controller
  imports Collector_Correct Clock_Sync Transport Instruction_Controllers
begin

text \<open>
  The advertisement controller of \<^verbatim>\<open>internal/controller/advertisement_controller.go\<close>: measure the
  cluster, write the figures into the local advertisement, set its status, send it to the broker,
  and come back at the next synchronised instant.

  The object the handler works on is one pointer in Go: a successful write replaces its contents by
  the server's answer, a failed one leaves what the handler has set. The handlers therefore return
  the object beside the result. The readings of the clock are the record \<open>adv_readings\<close>, in the
  order of the calls.
\<close>

section \<open>The reconciler\<close>

record ('w, 'q) manager_client =
  advertisements :: "('w, 'q AdvertisementSpec, AdvertisementStatus) client_ops"
  cluster :: "'w \<Rightarrow> 'q cluster_reads"

record ('w, 'q) Collector =
  col_Client :: "('w, 'q) manager_client"
  ClusterIDOverride :: string

record ('w, 'q) AdvertisementReconciler =
  Client :: "('w, 'q) manager_client"
  MetricsCollector :: "('w, 'q) Collector"
  BrokerClient :: "'w BrokerClient option"
  BrokerCommunicator :: "'w BrokerCommunicator option"
  TargetKey :: namespaced_name
  RequeueInterval :: duration

record adv_readings =
  now_collect :: go_time
  now_spec :: go_time
  now_update :: go_time
  now_sync :: go_time
  now_wait :: go_time
  zone_offset :: duration

text \<open>
  What \<^verbatim>\<open>SetupWithManager\<close> does to the reconciler: the collector it was given, of which only the
  override of the cluster ID matters, or a new one if it was given none, reads through the
  reconciler's client from now on. The controllers run after this, so that the reconciler has a
  collector.
\<close>

definition SetupWithManager ::
    "string option \<Rightarrow> ('w, 'q) AdvertisementReconciler \<Rightarrow> ('w, 'q) AdvertisementReconciler" where
  "SetupWithManager given r =
     r\<lparr>MetricsCollector :=
         \<lparr>col_Client = Client r, ClusterIDOverride = (case given of Some s \<Rightarrow> s | None \<Rightarrow> '''')\<rparr>\<rparr>"

definition findAdvertisementsForNode :: "('w, 'q) AdvertisementReconciler \<Rightarrow> namespaced_name list" where
  "findAdvertisementsForNode r = (if snd (TargetKey r) = '''' then [] else [TargetKey r])"

definition findAdvertisementsForPod :: "('w, 'q) AdvertisementReconciler \<Rightarrow> namespaced_name list" where
  "findAdvertisementsForPod r = (if snd (TargetKey r) = '''' then [] else [TargetKey r])"

section \<open>The handlers\<close>

definition adv_status :: "adv_readings \<Rightarrow> string \<Rightarrow> bool \<Rightarrow> string \<Rightarrow> AdvertisementStatus" where
  "adv_status rd phase published message =
     \<lparr>adv_Phase = phase, adv_LastUpdateTime = now_update rd, adv_Published = published, adv_Message = message\<rparr>"

definition next_requeue :: "('w, 'q) AdvertisementReconciler \<Rightarrow> adv_readings \<Rightarrow> ctrl_result" where
  "next_requeue r rd =
     (let requeueInterval = (if RequeueInterval r = 0 then 1 * Minute else RequeueInterval r);
          nextUpdate = calculateNextClockSync (zone_offset rd) (now_sync rd) requeueInterval
      in \<lparr>RequeueAfter = nextUpdate - now_wait rd\<rparr>)"

definition updateStatus ::
    "('w, 'q) AdvertisementReconciler \<Rightarrow> adv_readings \<Rightarrow> 'w \<Rightarrow> 'q Advertisement \<Rightarrow> string \<Rightarrow> bool \<Rightarrow> string
       \<Rightarrow> reconcile_out \<times> 'q Advertisement \<times> 'w" where
  "updateStatus r rd w adv phase published message =
     (let adv1 = adv\<lparr>Status := adv_status rd phase published message\<rparr>
      in case StatusUpdate (advertisements (Client r)) w adv1 of
           (Inl e, w') \<Rightarrow> ((no_requeue, Some e), adv1, w')
         | (Inr y, w') \<Rightarrow> ((next_requeue r rd, None), y, w'))"

definition publish ::
    "'q quantity_ops \<Rightarrow> ('w, 'q) AdvertisementReconciler \<Rightarrow> duration \<Rightarrow> 'w \<Rightarrow> 'q Advertisement \<Rightarrow> 'w" where
  "publish qo r off w adv =
     (case BrokerCommunicator r of
        Some com \<Rightarrow> snd (com_PublishAdvertisement com w (ToAdvertisementDTO qo adv))
      | None \<Rightarrow>
          (case BrokerClient r of
             Some bc \<Rightarrow> if Enabled bc then snd (legacy_PublishAdvertisement qo off bc w adv) else w
           | None \<Rightarrow> w))"

definition Reconcile ::
    "'q quantity_ops \<Rightarrow> ('w, 'q) AdvertisementReconciler \<Rightarrow> adv_readings \<Rightarrow> 'w \<Rightarrow> namespaced_name
       \<Rightarrow> reconcile_out \<times> 'w" where
  "Reconcile qo r rd w req =
     (case Get (advertisements (Client r)) w req of
        Inl e \<Rightarrow> if IsNotFound e then ((no_requeue, None), w) else ((no_requeue, Some e), w)
      | Inr adv \<Rightarrow>
          (case CollectClusterResources qo (cluster (col_Client (MetricsCollector r)) w) (now_collect rd) of
             Inl e \<Rightarrow>
               (case updateStatus r rd w adv ''Error'' False (''Failed to collect metrics: '' @ e) of
                  (out, a, w') \<Rightarrow> (out, w'))
           | Inr resourceData \<Rightarrow>
               (case GetClusterID (ClusterIDOverride (MetricsCollector r)) (cluster (col_Client (MetricsCollector r)) w) of
                  Inl e \<Rightarrow>
                    (case updateStatus r rd w adv ''Error'' False (''Failed to get cluster ID: '' @ e) of
                       (out, a, w') \<Rightarrow> (out, w'))
                | Inr cid \<Rightarrow>
                    let adv1 = adv\<lparr>Spec := (Spec adv)\<lparr>adv_ClusterID := cid, adv_Resources := resourceData,
                                                      adv_Timestamp := now_spec rd\<rparr>\<rparr>
                    in case Update (advertisements (Client r)) w adv1 of
                         (Inl e, w1) \<Rightarrow> ((no_requeue, Some e), w1)
                       | (Inr adv2, w1) \<Rightarrow>
                           (case updateStatus r rd w1 adv2 ''Active'' True ''Advertisement updated successfully'' of
                              (out, adv3, w2) \<Rightarrow> (out, publish qo r (zone_offset rd) w2 adv3)))))"


section \<open>What the reconciler relies on\<close>

text \<open>
  A local server for advertisements, and brokers that leave a part of the world alone: the local
  advertisements, or the instructions.
\<close>

locale quiet_brokers =
  fixes r :: "('w, 'q) AdvertisementReconciler" and kept :: "'w \<Rightarrow> 'v"
  assumes communicator_frame: "BrokerCommunicator r = Some com \<Longrightarrow> broker_frame com kept"
    and legacy_frame: "BrokerClient r = Some bc \<Longrightarrow> bc_Client bc = Some D \<Longrightarrow> dynamic_frame D kept"
begin

lemma legacy_quiet:
  assumes "BrokerClient r = Some bc"
  shows "kept (snd (legacy_PublishAdvertisement qo off bc w adv)) = kept w"
proof (cases "bc_Client bc")
  case None
  then show ?thesis by (simp add: legacy_PublishAdvertisement_def split: bool.splits)
next
  case (Some D)
  show ?thesis by (rule dynamic_frame.legacy_keeps [OF legacy_frame [OF assms Some] Some])
qed

lemma publish_quiet [simp]: "kept (publish qo r off w adv) = kept w"
  by (auto simp: publish_def legacy_quiet broker_frame.publish_frame [OF communicator_frame]
      split: option.splits)

lemma reconcile_frame:
  assumes "client_frame (advertisements (Client r)) kept"
  shows "kept (snd (Reconcile qo r rd w k)) = kept w"
proof -
  have "kept w' = kept w" if "updateStatus r rd w adv phase b msg = (out, a, w')" for w adv phase b msg out a w'
    using that client_frame.status_keeps [OF assms]
    by (auto simp: updateStatus_def Let_def split: sum.splits prod.splits)
  then show ?thesis
    using client_frame.update_keeps [OF assms]
    by (auto simp: Reconcile_def Let_def split: sum.split prod.split)
qed

end

locale advertiser =
  api_server "advertisements (Client r)" stored "wire_adv_spec qo" wire_adv_status AdvertisementStatus_zero +
  quiet_brokers r stored
  for qo :: "'q quantity_ops" and r :: "('w, 'q) AdvertisementReconciler" and stored
begin

text \<open>
  The status write right after a write of the spec acts on the object that write has answered.
\<close>

lemma status_after_update:
  assumes "Get (advertisements (Client r)) w k = Inr x"
    and "Update (advertisements (Client r)) w (x\<lparr>Spec := s\<rparr>) = (Inr y, w1)"
    and "updateStatus r rd w1 y phase published message = ((res, None), z, w2)"
  shows "stored w2 = (stored w)(k \<mapsto> z) \<and> Spec z = wire_adv_spec qo s \<and>
    Status z = wire_adv_status (adv_status rd phase published message) \<and> okey z = k \<and>
    res = next_requeue r rd"
proof -
  have y: "stored w1 = (stored w)(k \<mapsto> y)" "Spec y = wire_adv_spec qo s" "okey y = k"
    using spec_written_read [OF assms(1) update_ok [OF assms(2)]] by simp_all
  obtain u: "StatusUpdate (advertisements (Client r)) w1 (y\<lparr>Status := adv_status rd phase published message\<rparr>)
      = (Inr z, w2)" and "res = next_requeue r rd"
    using assms(3) by (auto simp: updateStatus_def Let_def split: prod.splits sum.splits)
  with status_ok [OF u] y show ?thesis by (auto simp: status_written_def)
qed

lemma status_of_read:
  assumes "Get (advertisements (Client r)) w k = Inr x"
    and "updateStatus r rd w x phase published message = ((res, None), z, w2)"
  shows "stored w2 = (stored w)(k \<mapsto> z) \<and> Spec z = Spec x \<and>
    Status z = wire_adv_status (adv_status rd phase published message) \<and> res = next_requeue r rd"
  using assms status_write_success [OF assms(1)]
  by (auto simp: updateStatus_def Let_def split: prod.splits sum.splits)

end

section \<open>Properties\<close>

abbreviation measured ::
    "'q quantity_ops \<Rightarrow> ('w, 'q) AdvertisementReconciler \<Rightarrow> adv_readings \<Rightarrow> 'w \<Rightarrow> string + 'q ResourceMetrics" where
  "measured qo r rd w \<equiv>
     CollectClusterResources qo (cluster (col_Client (MetricsCollector r)) w) (now_collect rd)"

abbreviation own_cluster_id :: "('w, 'q) AdvertisementReconciler \<Rightarrow> 'w \<Rightarrow> string + string" where
  "own_cluster_id r w \<equiv>
     GetClusterID (ClusterIDOverride (MetricsCollector r)) (cluster (col_Client (MetricsCollector r)) w)"

lemma reconcile_written:
  assumes "advertiser qo r stored"
    and "Get (advertisements (Client r)) w k = Inr x"
    and "measured qo r rd w = Inr m" and "own_cluster_id r w = Inr cid"
    and "Reconcile qo r rd w k = ((res, None), w')"
  shows "\<exists>y w2. stored w' = (stored w)(k \<mapsto> y) \<and> w' = publish qo r (zone_offset rd) w2 y \<and> stored w2 = stored w' \<and>
    Spec y = wire_adv_spec qo ((Spec x)\<lparr>adv_ClusterID := cid, adv_Resources := m, adv_Timestamp := now_spec rd\<rparr>) \<and>
    Status y = wire_adv_status (adv_status rd ''Active'' True ''Advertisement updated successfully'') \<and>
    res = next_requeue r rd"
proof -
  let ?s = "(Spec x)\<lparr>adv_ClusterID := cid, adv_Resources := m, adv_Timestamp := now_spec rd\<rparr>"
  obtain y1 w1 y w2 where u: "Update (advertisements (Client r)) w (x\<lparr>Spec := ?s\<rparr>) = (Inr y1, w1)"
    and t: "updateStatus r rd w1 y1 ''Active'' True ''Advertisement updated successfully'' = ((res, None), y, w2)"
    and p: "w' = publish qo r (zone_offset rd) w2 y"
    using assms(2-5) by (auto simp: Reconcile_def Let_def split: prod.splits sum.splits)
  from advertiser.status_after_update [OF assms(1,2) u t] p show ?thesis
    by (auto simp: quiet_brokers.publish_quiet [OF advertiser.axioms(2) [OF assms(1)]])
qed

text \<open>
  C4. A reconciliation that reports success after measuring the cluster has written what it
  measured: the stored advertisement has the cluster's ID, the figures of the collector, the time,
  the cost information it had before and the status \<^verbatim>\<open>Active\<close>; no other advertisement has changed;
  exactly this object is what is handed to the broker; and the next reconciliation is asked for at
  the synchronised instant.
\<close>

theorem reconcile_writes_measurement:
  assumes "advertiser qo r stored"
    and "Get (advertisements (Client r)) w k = Inr x"
    and "measured qo r rd w = Inr m" and "own_cluster_id r w = Inr cid"
    and "Reconcile qo r rd w k = ((res, None), w')"
  shows "\<exists>y w2. stored w' = (stored w)(k \<mapsto> y) \<and> w' = publish qo r (zone_offset rd) w2 y \<and> stored w2 = stored w' \<and>
    Spec y = wire_adv_spec qo ((Spec x)\<lparr>adv_ClusterID := cid, adv_Resources := m, adv_Timestamp := now_spec rd\<rparr>) \<and>
    Status y = wire_adv_status (adv_status rd ''Active'' True ''Advertisement updated successfully'') \<and>
    res = next_requeue r rd"
  using reconcile_written [OF assms] .

text \<open>
  C26. When the cluster cannot be measured, a reconciliation that reports success leaves the figures
  of the advertisement as they are, marks it as \<^verbatim>\<open>Error\<close> and not published, with the reason in the
  message, sends nothing to the broker and comes back at the synchronised instant.
\<close>

theorem reconcile_reports_failure:
  assumes "advertiser qo r stored"
    and "Get (advertisements (Client r)) w k = Inr x"
    and "measured qo r rd w = Inl e"
    and "Reconcile qo r rd w k = ((res, None), w')"
  shows "\<exists>y. stored w' = (stored w)(k \<mapsto> y) \<and> Spec y = Spec x \<and>
    Status y = wire_adv_status (adv_status rd ''Error'' False (''Failed to collect metrics: '' @ e)) \<and>
    StatusUpdate (advertisements (Client r)) w
      (x\<lparr>Status := adv_status rd ''Error'' False (''Failed to collect metrics: '' @ e)\<rparr>) = (Inr y, w') \<and>
    res = next_requeue r rd"
proof -
  obtain y where t: "updateStatus r rd w x ''Error'' False (''Failed to collect metrics: '' @ e)
      = ((res, None), y, w')"
    using assms(2-4) by (auto simp: Reconcile_def split: prod.splits)
  from advertiser.status_of_read [OF assms(1,2) t] t show ?thesis
    by (auto simp: updateStatus_def Let_def split: prod.splits sum.splits)
qed

text \<open>
  C33. The broker has no say in the reconciliation: the result and the error are the same whatever
  transport there is and whatever it does, so that a broker that cannot be reached neither fails nor
  delays the next reconciliation.
\<close>

theorem reconcile_ignores_broker:
  "fst (Reconcile qo (r\<lparr>BrokerCommunicator := com, BrokerClient := bc\<rparr>) rd w k) = fst (Reconcile qo r rd w k)"
  by (auto simp: Reconcile_def updateStatus_def next_requeue_def Let_def split: sum.splits prod.splits)

text \<open>
  C32. When the two readings of the clock that compute the delay are ordered, the delay is at most
  two hours, and it ends exactly at the synchronised instant; it is positive precisely if the clock
  has not reached this instant between the two readings.
\<close>

theorem requeue_delay:
  assumes "now_sync rd \<le> now_wait rd"
  shows "RequeueAfter (next_requeue r rd) \<le> 2 * Hour \<and>
    (\<exists>t. now_wait rd + RequeueAfter (next_requeue r rd) = t \<and> (t + zone_offset rd) mod Minute = 0 \<and>
         now_sync rd < t \<and> (0 < RequeueAfter (next_requeue r rd) \<longleftrightarrow> now_wait rd < t))"
proof -
  let ?i = "if RequeueInterval r = 0 then 1 * Minute else RequeueInterval r"
  let ?t = "calculateNextClockSync (zone_offset rd) (now_sync rd) ?i"
  have "RequeueAfter (next_requeue r rd) = ?t - now_wait rd"
    by (simp only: next_requeue_def Let_def ctrl_result.simps)
  moreover have "now_sync rd < ?t" "?t \<le> now_sync rd + 2 * Hour"
    using next_sync_range by blast+
  moreover have "(?t + zone_offset rd) mod Minute = 0"
    by (simp only: next_sync_minutes mod_mult_self2_is_0)
  ultimately show ?thesis using assms by auto
qed

text \<open>
  The delay can be lost. When the clock reaches the synchronised instant between the two
  readings, the result asks for no delay, which to the work queue means that nothing more is to be
  done: the periodic update stops until some other event.
\<close>

lemma requeue_lost:
  "next_requeue (r\<lparr>RequeueInterval := 30 * Second\<rparr>)
     \<lparr>now_collect = 0, now_spec = 0, now_update = 0, now_sync = 60 * Second - 1, now_wait = 60 * Second,
      zone_offset = 0\<rparr> = no_requeue"
  by (simp add: next_requeue_def calculateNextClockSync_def interval_minutes_below Minute_of_def
      Date_in_hour_of_def time_defs)

section \<open>Concrete runs\<close>

text \<open>
  The reconciler in the concrete world. The collector's list of provider instructions is what the
  server holds under the given keys; nodes and pods are those of the sample cluster.
\<close>

definition world_reads :: "namespaced_name list \<Rightarrow> 'q cluster_reads \<Rightarrow> 'q agent_world \<Rightarrow> 'q cluster_reads" where
  "world_reads ks rd w = rd\<lparr>list_provider_instructions := Inr (List.map_filter (pi_objs w) ks)\<rparr>"

definition world_reconciler ::
    "'q quantity_ops \<Rightarrow> HTTPCommunicator \<Rightarrow> namespaced_name list \<Rightarrow> 'q cluster_reads
       \<Rightarrow> ('q agent_world, 'q) AdvertisementReconciler" where
  "world_reconciler qo c ks rd =
     (let k = \<lparr>advertisements = world_adv qo, cluster = world_reads ks rd\<rparr>
      in SetupWithManager (Some (clusterID c))
           \<lparr>Client = k, MetricsCollector = \<lparr>col_Client = k, ClusterIDOverride = ''''\<rparr>, BrokerClient = None,
            BrokerCommunicator = Some (http_communicator c (world_env c)),
            TargetKey = (''default'', ''cluster-advertisement''), RequeueInterval = 30 * Second\<rparr>)"

lemma world_reconciler_simps [simp]:
  "Client (world_reconciler qo c ks rd) = \<lparr>advertisements = world_adv qo, cluster = world_reads ks rd\<rparr>"
  "MetricsCollector (world_reconciler qo c ks rd) =
     \<lparr>col_Client = \<lparr>advertisements = world_adv qo, cluster = world_reads ks rd\<rparr>, ClusterIDOverride = clusterID c\<rparr>"
  "BrokerCommunicator (world_reconciler qo c ks rd) = Some (http_communicator c (world_env c))"
  "BrokerClient (world_reconciler qo c ks rd) = None"
  by (simp_all add: world_reconciler_def SetupWithManager_def Let_def)

interpretation wa: advertiser qo "world_reconciler qo c ks rd" adv_objs
proof (rule advertiser.intro)
  show "api_server (advertisements (Client (world_reconciler qo c ks rd))) adv_objs (wire_adv_spec qo)
      wire_adv_status AdvertisementStatus_zero"
    by (simp add: world_adv.api_server_axioms)
  show "quiet_brokers (world_reconciler qo c ks rd) adv_objs"
    by unfold_locales (auto simp: broker_frame_def)
qed

definition sample_adv :: "int Advertisement" where
  "sample_adv =
     (let z = zero_quantities nano_ops
      in \<lparr>ObjectMeta = \<lparr>Name = ''cluster-advertisement'', Namespace = ''default'', ResourceVersion = ''7''\<rparr>,
          Spec = \<lparr>adv_ClusterID = ''rome'',
                  adv_Resources = \<lparr>Capacity = z, Allocatable = z, Allocated = z, Used = None, Available = z\<rparr>,
                  adv_Cost = None, adv_Timestamp = 0\<rparr>,
          Status = AdvertisementStatus_zero\<rparr>)"

definition adv_world :: "nat \<Rightarrow> int agent_world" where
  "adv_world failures =
     \<lparr>broker_part = \<lparr>br_advs = Map.empty, br_reservations = (\<lambda>u. []), br_failures = failures\<rparr>,
      ri_part = \<lparr>mem_objs = Map.empty, mem_cache = Map.empty, mem_counter = 1, mem_down = False\<rparr>,
      pi_part = \<lparr>mem_objs = Map.empty, mem_cache = Map.empty, mem_counter = 1, mem_down = False\<rparr>,
      adv_part = server_with sample_adv, legacy_part = \<lparr>dm_objs = Map.empty, dm_counter = 1\<rparr>\<rparr>"

definition adv_at :: "int \<Rightarrow> adv_readings" where
  "adv_at t = \<lparr>now_collect = t * Second, now_spec = t * Second, now_update = t * Second, now_sync = t * Second,
     now_wait = t * Second, zone_offset = 0\<rparr>"

abbreviation rome_reconciler :: "int cluster_reads \<Rightarrow> (int agent_world, int) AdvertisementReconciler" where
  "rome_reconciler rd \<equiv> world_reconciler nano_ops sample_communicator [] rd"


lemma adv_world_get:
  "Get (advertisements (Client (rome_reconciler rd))) (adv_world n) (''default'', ''cluster-advertisement'')
     = Inr sample_adv"
proof -
  have "okey sample_adv = (''default'', ''cluster-advertisement'')"
    by (simp add: sample_adv_def okey_def Let_def)
  then show ?thesis
    using server_with_simps(2) [of "wire_adv_spec nano_ops" wire_adv_status AdvertisementStatus_zero sample_adv]
    by (simp add: world_adv_def lift_client_def adv_world_def)
qed

lemma rome_reconcile_runs:
  "snd (fst (Reconcile nano_ops (rome_reconciler sample_reads) (adv_at 90) (adv_world 0)
     (''default'', ''cluster-advertisement''))) = None"
  "snd (fst (Reconcile nano_ops (rome_reconciler (sample_reads\<lparr>list_nodes := Inr []\<rparr>)) (adv_at 90) (adv_world 0)
     (''default'', ''cluster-advertisement''))) = None"
  by code_simp+

lemma rome_measures:
  "measured nano_ops (rome_reconciler sample_reads) (adv_at 90) (adv_world n) =
     CollectClusterResources nano_ops (sample_reads\<lparr>list_provider_instructions := Inr []\<rparr>) (90 * Second)"
  "own_cluster_id (rome_reconciler sample_reads) (adv_world n) = Inr ''rome''"
  "measured nano_ops (rome_reconciler (sample_reads\<lparr>list_nodes := Inr []\<rparr>)) (adv_at 90) (adv_world n) =
     Inl ''no nodes found in cluster''"
  by (simp_all add: world_reads_def adv_at_def GetClusterID_def sample_communicator_def map_filter_simps
      CollectClusterResources_def)

theorem reconcile_writes_measurement_witness:
  "\<exists>res w' y m. Reconcile nano_ops (rome_reconciler sample_reads) (adv_at 90) (adv_world 0)
       (''default'', ''cluster-advertisement'') = ((res, None), w') \<and>
     adv_objs w' (''default'', ''cluster-advertisement'') = Some y \<and> adv_ClusterID (Spec y) = ''rome'' \<and>
     adv_Resources (Spec y) = wire_metrics nano_ops m \<and>
     CollectClusterResources nano_ops (sample_reads\<lparr>list_provider_instructions := Inr []\<rparr>) (90 * Second) = Inr m"
proof -
  let ?rd = "sample_reads\<lparr>list_provider_instructions := Inr []\<rparr>"
  have "\<exists>m. CollectClusterResources nano_ops ?rd (90 * Second) = Inr m"
    by (auto simp: CollectClusterResources_def calculateAllocatedResources_def calculateReservedResources_def Let_def)
  then obtain m where m: "CollectClusterResources nano_ops ?rd (90 * Second) = Inr m" ..
  obtain res w' where h: "Reconcile nano_ops (rome_reconciler sample_reads) (adv_at 90) (adv_world 0)
      (''default'', ''cluster-advertisement'') = ((res, None), w')"
    using rome_reconcile_runs(1) by (metis prod.collapse)
  from reconcile_writes_measurement
      [OF wa.advertiser_axioms adv_world_get trans [OF rome_measures(1) m] rome_measures(2) h]
  obtain y where y: "adv_objs w' = (adv_objs (adv_world 0))((''default'', ''cluster-advertisement'') \<mapsto> y)"
    and s: "Spec y = wire_adv_spec nano_ops ((Spec sample_adv)\<lparr>adv_ClusterID := ''rome'', adv_Resources := m,
        adv_Timestamp := now_spec (adv_at 90)\<rparr>)"
    by blast
  have "adv_objs w' (''default'', ''cluster-advertisement'') = Some y" unfolding y by simp
  moreover have "adv_ClusterID (Spec y) = ''rome''" "adv_Resources (Spec y) = wire_metrics nano_ops m"
    unfolding s by (simp_all add: wire_adv_spec_def)
  ultimately show ?thesis using m h by blast
qed

theorem reconcile_reports_failure_witness:
  "\<exists>res w' y. Reconcile nano_ops (rome_reconciler (sample_reads\<lparr>list_nodes := Inr []\<rparr>)) (adv_at 90) (adv_world 0)
       (''default'', ''cluster-advertisement'') = ((res, None), w') \<and>
     adv_objs w' (''default'', ''cluster-advertisement'') = Some y \<and> Spec y = Spec sample_adv \<and>
     adv_Phase (Status y) = ''Error''"
proof -
  obtain res w' where h: "Reconcile nano_ops (rome_reconciler (sample_reads\<lparr>list_nodes := Inr []\<rparr>)) (adv_at 90)
      (adv_world 0) (''default'', ''cluster-advertisement'') = ((res, None), w')"
    using rome_reconcile_runs(2) by (metis prod.collapse)
  show ?thesis
    using reconcile_reports_failure [OF wa.advertiser_axioms adv_world_get rome_measures(3) h] h
    by (auto simp: wire_adv_status_def adv_status_def)
qed

theorem requeue_delay_witness:
  "now_sync (adv_at 90) \<le> now_wait (adv_at 90) \<and>
   RequeueAfter (next_requeue (rome_reconciler sample_reads) (adv_at 90)) \<le> 2 * Hour"
  using requeue_delay [of "adv_at 90" "rome_reconciler sample_reads"] by (simp add: adv_at_def)

text \<open>
  C40. The field \<^verbatim>\<open>Published\<close> does not say what its documentation says. For every transport, whatever
  it does and whether it works at all, a reconciliation leaves the same stored advertisements as one
  without any transport; and when it has measured the cluster and reports success, the stored
  advertisement is \<^verbatim>\<open>Active\<close> and published, even if every publication fails: the field is written
  before the broker is contacted and not corrected afterwards.
\<close>

theorem published_whatever_broker_does:
  assumes "advertiser qo r stored"
    and "r' = r\<lparr>BrokerCommunicator := None, BrokerClient := None\<rparr>"
    and "Reconcile qo r rd w k = (out, w')"
  shows "stored w' = stored (snd (Reconcile qo r' rd w k)) \<and>
    (\<forall>x m cid. Get (advertisements (Client r)) w k = Inr x \<longrightarrow> measured qo r rd w = Inr m \<longrightarrow>
       own_cluster_id r w = Inr cid \<longrightarrow> snd out = None \<longrightarrow>
       (\<exists>y. stored w' k = Some y \<and> adv_Published (Status y) \<and> adv_Phase (Status y) = ''Active''))"
proof -
  have n: "next_requeue r' = next_requeue r"
    by (simp add: assms(2) next_requeue_def fun_eq_iff)
  have r': "Client r' = Client r" "MetricsCollector r' = MetricsCollector r" "publish qo r' off v adv = v"
    for off v adv
    by (simp_all add: assms(2) publish_def)
  have u: "updateStatus r' = updateStatus r"
    by (intro ext) (simp only: updateStatus_def n r')
  note quiet = quiet_brokers.publish_quiet [OF advertiser.axioms(2) [OF assms(1)]]
  have "stored (snd (Reconcile qo r rd w k)) = stored (snd (Reconcile qo r' rd w k))"
    by (auto simp: Reconcile_def r' u quiet Let_def split: sum.split prod.split)
  moreover have "\<exists>y. stored w' k = Some y \<and> adv_Published (Status y) \<and> adv_Phase (Status y) = ''Active''"
    if h: "Get (advertisements (Client r)) w k = Inr x" "measured qo r rd w = Inr m" "own_cluster_id r w = Inr cid"
      and s: "snd out = None" for x m cid
  proof -
    from s assms(3) obtain res where "Reconcile qo r rd w k = ((res, None), w')" by (metis prod.collapse)
    from reconcile_written [OF assms(1) h this] show ?thesis
      by (auto simp: wire_adv_status_def adv_status_def)
  qed
  ultimately show ?thesis using assms(3) by auto
qed

theorem published_whatever_broker_does_witness:
  "\<exists>out w' y. Reconcile nano_ops (rome_reconciler sample_reads) (adv_at 90) (adv_world 8)
       (''default'', ''cluster-advertisement'') = (out, w') \<and>
     br_advs (broker_part w') ''rome'' = None \<and>
     adv_objs w' (''default'', ''cluster-advertisement'') = Some y \<and> adv_Published (Status y)"
proof -
  let ?rd = "sample_reads\<lparr>list_provider_instructions := Inr []\<rparr>"
  have run: "let (out, w') = Reconcile nano_ops (rome_reconciler sample_reads) (adv_at 90) (adv_world 8)
                (''default'', ''cluster-advertisement'')
     in snd out = None \<and> br_advs (broker_part w') ''rome'' = None"
    by code_simp
  obtain out w' where h: "Reconcile nano_ops (rome_reconciler sample_reads) (adv_at 90) (adv_world 8)
      (''default'', ''cluster-advertisement'') = (out, w')" by fastforce
  with run have s: "snd out = None" "br_advs (broker_part w') ''rome'' = None" by simp_all
  have "\<exists>m. CollectClusterResources nano_ops ?rd (90 * Second) = Inr m"
    by (auto simp: CollectClusterResources_def calculateAllocatedResources_def calculateReservedResources_def Let_def)
  then obtain m where m: "measured nano_ops (rome_reconciler sample_reads) (adv_at 90) (adv_world 8) = Inr m"
    using rome_measures(1) by auto
  show ?thesis
    using published_whatever_broker_does [OF wa.advertiser_axioms refl h] h s m rome_measures(2) adv_world_get
    by blast
qed

end
