(* ===== verification/Poller.thy ===== *)
theory Poller
  imports Transport Instruction_Controllers
begin

text \<open>
  The reservation poller of \<^verbatim>\<open>internal/transport/http/poller.go\<close>. It asks the broker for the
  reservations of this cluster, in both roles, and creates a local instruction for each that is in
  the phase \<^verbatim>\<open>Reserved\<close> and has none yet. The local client is one value in Go that serves every
  kind of object; here it is its two typed faces, one per kind of instruction.

  Errors of single reservations are only logged, so that they are values of the handlers and not of
  the loop. What ends the poller other than its context is a panic: a \<^verbatim>\<open>null\<close> in the list of
  reservations is a \<^verbatim>\<open>nil\<close> pointer whose status is read, and a ticker needs a positive interval.
\<close>

section \<open>The poller\<close>

record 'w ReservationPoller =
  communicator :: "'w BrokerCommunicator"
  po_clusterID :: string
  po_interval :: duration
  localRequester :: "('w, ReservationInstructionSpec, ReservationInstructionStatus) client_ops"
  localProvider :: "('w, ProviderInstructionSpec, ProviderInstructionStatus) client_ops"
  instructionNamespace :: string

definition NewReservationPoller ::
    "'w BrokerCommunicator \<Rightarrow> string \<Rightarrow> duration
       \<Rightarrow> ('w, ReservationInstructionSpec, ReservationInstructionStatus) client_ops
       \<Rightarrow> ('w, ProviderInstructionSpec, ProviderInstructionStatus) client_ops
       \<Rightarrow> string \<Rightarrow> 'w ReservationPoller" where
  "NewReservationPoller com cid interval cri cpi ns =
     \<lparr>communicator = com, po_clusterID = cid, po_interval = interval, localRequester = cri,
      localProvider = cpi, instructionNamespace = ns\<rparr>"

definition convertTimePtr :: "go_time option \<Rightarrow> go_time option" where
  "convertTimePtr t = (case t of None \<Rightarrow> None | Some u \<Rightarrow> Some u)"

definition requester_spec :: "ReservationDTO \<Rightarrow> ReservationInstructionSpec" where
  "requester_spec rsv =
     (let cpu = dto_CPU (rsv_RequestedResources rsv); mem = dto_Memory (rsv_RequestedResources rsv)
      in \<lparr>ri_ReservationName = rsv_ID rsv, ri_TargetClusterID = rsv_TargetClusterID rsv,
          ri_RequestedCPU = cpu, ri_RequestedMemory = mem,
          ri_Message = ''Use '' @ rsv_TargetClusterID rsv @ '' for '' @ cpu @ '' CPU / '' @ mem @ '' Memory'',
          ri_ExpiresAt = convertTimePtr (rsv_ExpiresAt (rsv_Status rsv))\<rparr>)"

definition provider_spec :: "ReservationDTO \<Rightarrow> ProviderInstructionSpec" where
  "provider_spec rsv =
     (let cpu = dto_CPU (rsv_RequestedResources rsv); mem = dto_Memory (rsv_RequestedResources rsv)
      in \<lparr>pi_ReservationName = rsv_ID rsv, pi_RequesterClusterID = rsv_RequesterID rsv,
          pi_RequestedCPU = cpu, pi_RequestedMemory = mem,
          pi_Message = ''Hold '' @ cpu @ '' CPU / '' @ mem @ '' Memory for requester '' @ rsv_RequesterID rsv,
          pi_ExpiresAt = convertTimePtr (rsv_ExpiresAt (rsv_Status rsv))\<rparr>)"

definition requester_key :: "string \<Rightarrow> ReservationDTO \<Rightarrow> namespaced_name" where
  "requester_key ns rsv = (ns, rsv_ID rsv)"

definition provider_key :: "string \<Rightarrow> ReservationDTO \<Rightarrow> namespaced_name" where
  "provider_key ns rsv = (ns, rsv_ID rsv @ ''-provider'')"

definition createRequesterInstruction ::
    "'w ReservationPoller \<Rightarrow> 'w \<Rightarrow> ReservationDTO \<Rightarrow> string option \<times> 'w" where
  "createRequesterInstruction p w rsv =
     (let key = requester_key (instructionNamespace p) rsv
      in case Get (localRequester p) w key of
           Inr x \<Rightarrow> (None, w)
         | Inl e \<Rightarrow>
             if \<not> IsNotFound e then (Some (''failed to check existing instruction: '' @ Error e), w)
             else (case Create (localRequester p) w
                          \<lparr>ObjectMeta = new_meta key, Spec = requester_spec rsv,
                           Status = ReservationInstructionStatus_zero\<rparr> of
                     (Inl e, w') \<Rightarrow> (Some (''failed to create instruction: '' @ Error e), w')
                   | (Inr y, w') \<Rightarrow> (None, w')))"

definition createProviderInstruction ::
    "'w ReservationPoller \<Rightarrow> 'w \<Rightarrow> ReservationDTO \<Rightarrow> string option \<times> 'w" where
  "createProviderInstruction p w rsv =
     (let key = provider_key (instructionNamespace p) rsv
      in case Get (localProvider p) w key of
           Inr x \<Rightarrow> (None, w)
         | Inl e \<Rightarrow>
             if \<not> IsNotFound e then (Some (''failed to check existing instruction: '' @ Error e), w)
             else (case Create (localProvider p) w
                          \<lparr>ObjectMeta = new_meta key, Spec = provider_spec rsv,
                           Status = ProviderInstructionStatus_zero\<rparr> of
                     (Inl e, w') \<Rightarrow> (Some (''failed to create provider instruction: '' @ Error e), w')
                   | (Inr y, w') \<Rightarrow> (None, w')))"

section \<open>A poll\<close>

datatype 'a go_exit = Return 'a | Panic string

definition nil_dereference :: "'a go_exit" where
  "nil_dereference = Panic ''runtime error: invalid memory address or nil pointer dereference''"

text \<open>The body of the loop for a reservation that is there: the phase, then the role.\<close>

definition process_reservation :: "'w ReservationPoller \<Rightarrow> Role \<Rightarrow> 'w \<Rightarrow> ReservationDTO \<Rightarrow> 'w" where
  "process_reservation p role w rsv =
     (if rsv_Phase (rsv_Status rsv) \<noteq> ''Reserved'' then w
      else if role = RoleRequester then snd (createRequesterInstruction p w rsv)
      else snd (createProviderInstruction p w rsv))"

fun process_loop ::
    "'w ReservationPoller \<Rightarrow> Role \<Rightarrow> 'w \<Rightarrow> ReservationDTO option list \<Rightarrow> unit go_exit \<times> 'w" where
  "process_loop p role w [] = (Return (), w)"
| "process_loop p role w (None # rs) = (nil_dereference, w)"
| "process_loop p role w (Some rsv # rs) = process_loop p role (process_reservation p role w rsv) rs"

definition pollAndProcess ::
    "'w ReservationPoller \<Rightarrow> 'w \<Rightarrow> Role \<Rightarrow> string option go_exit \<times> 'w" where
  "pollAndProcess p w role =
     (case com_FetchReservations (communicator p) w (po_clusterID p) role of
        (Inl e, w1) \<Rightarrow> (Return (Some (''failed to fetch '' @ role @ '' reservations: '' @ e)), w1)
      | (Inr rs, w1) \<Rightarrow>
          (case process_loop p role w1 rs of
             (Return u, w2) \<Rightarrow> (Return None, w2)
           | (Panic s, w2) \<Rightarrow> (Panic s, w2)))"

definition poll :: "'w ReservationPoller \<Rightarrow> 'w \<Rightarrow> unit go_exit \<times> 'w" where
  "poll p w =
     (case pollAndProcess p w RoleRequester of
        (Panic s, w1) \<Rightarrow> (Panic s, w1)
      | (Return err, w1) \<Rightarrow>
          (case pollAndProcess p w1 RoleProvider of
             (Panic s, w2) \<Rightarrow> (Panic s, w2)
           | (Return err, w2) \<Rightarrow> (Return (), w2)))"

text \<open>
  \<^verbatim>\<open>Start\<close>: a poll at once, then one per tick until the context is done. The events are what the
  \<^verbatim>\<open>select\<close> receives, in this order; when they run out the loop is waiting for the next one
  (\<open>None\<close>).
\<close>

datatype poller_event = Done | Tick

fun poll_loop :: "'w ReservationPoller \<Rightarrow> poller_event list \<Rightarrow> 'w \<Rightarrow> unit go_exit option \<times> 'w" where
  "poll_loop p [] w = (None, w)"
| "poll_loop p (Done # es) w = (Some (Return ()), w)"
| "poll_loop p (Tick # es) w =
     (case poll p w of
        (Panic s, w1) \<Rightarrow> (Some (Panic s), w1)
      | (Return u, w1) \<Rightarrow> poll_loop p es w1)"

definition Start :: "'w ReservationPoller \<Rightarrow> poller_event list \<Rightarrow> 'w \<Rightarrow> unit go_exit option \<times> 'w" where
  "Start p es w =
     (if po_interval p \<le> 0 then (Some (Panic ''non-positive interval for NewTicker''), w)
      else case poll p w of
             (Panic s, w1) \<Rightarrow> (Some (Panic s), w1)
           | (Return u, w1) \<Rightarrow> poll_loop p es w1)"

section \<open>The contract of the two handlers\<close>

text \<open>
  A handler that creates an object for a reservation unless there is one. \<open>ensure_effect\<close>: it
  changes nothing, or it adds the object of the reservation, at a key that was free.
  \<open>ensure_done\<close>: when it reports success it has seen the object or added it.
\<close>

locale create_if_absent =
  api_server C stored wire_spec wire_status status0
  for C :: "('w, 's, 't) client_ops" and stored wire_spec wire_status status0 +
  fixes ensure :: "'w \<Rightarrow> ReservationDTO \<Rightarrow> string option \<times> 'w"
    and key :: "ReservationDTO \<Rightarrow> namespaced_name"
    and new_spec :: "ReservationDTO \<Rightarrow> 's"
  assumes ensure_effect: "stored (snd (ensure w r)) = stored w \<or>
      (\<exists>y. stored w (key r) = None \<and> stored (snd (ensure w r)) = (stored w)(key r \<mapsto> y) \<and>
           Spec y = wire_spec (new_spec r) \<and> Status y = status0)"
    and ensure_done: "ensure w r = (None, w') \<Longrightarrow>
      (\<exists>x. Get C w (key r) = Inr x) \<or> stored w' (key r) \<noteq> None"
begin

lemma ensure_extends: "stored w \<subseteq>\<^sub>m stored (snd (ensure w r))"
  using ensure_effect [of w r] by (auto simp: map_le_def)

lemma ensure_new:
  assumes "stored (snd (ensure w r)) k = Some y" and "stored w k = None"
  shows "k = key r \<and> Spec y = wire_spec (new_spec r) \<and> Status y = status0"
  using ensure_effect [of w r] assms by (auto split: if_splits)

end

text \<open>
  A loop whose steps only add, each at the key of its item and with the item's contents.
\<close>

definition adds_only ::
    "('a \<rightharpoonup> ('s, 't) kobject) \<Rightarrow> ('a \<rightharpoonup> ('s, 't) kobject) \<Rightarrow> ('r \<Rightarrow> 'a) \<Rightarrow> ('r \<Rightarrow> 's) \<Rightarrow> 't \<Rightarrow> 'r set \<Rightarrow> bool" where
  "adds_only m m' key spec t0 R \<longleftrightarrow>
     m \<subseteq>\<^sub>m m' \<and>
     (\<forall>k y. m' k = Some y \<and> m k = None \<longrightarrow>
        (\<exists>r\<in>R. k = key r \<and> Spec y = spec r \<and> Status y = t0))"

lemma adds_only_refl [simp]: "adds_only m m key spec t0 R"
  by (auto simp: adds_only_def)

lemma adds_only_trans:
  assumes "adds_only m m1 key spec t0 R" and "adds_only m1 m2 key spec t0 S"
  shows "adds_only m m2 key spec t0 (R \<union> S)"
  using assms unfolding adds_only_def
proof (intro conjI allI impI, goal_cases)
  case 1
  then show ?case by (blast intro: map_le_trans)
next
  case (2 k y)
  show ?case
  proof (cases "m1 k")
    case None
    with 2 show ?thesis by blast
  next
    case (Some z)
    with 2 have "m2 k = Some z" by (metis domI map_le_def)
    with 2 Some show ?thesis by auto
  qed
qed

lemma adds_only_new:
  assumes "adds_only m m' key spec t0 R" and "m' k = Some y" and "m k = None"
  obtains r where "r \<in> R" "k = key r" "Spec y = spec r" "Status y = t0"
  using assms unfolding adds_only_def by blast

lemma adds_only_keeps: "adds_only m m' key spec t0 R \<Longrightarrow> m k \<noteq> None \<Longrightarrow> m' k \<noteq> None"
  using map_le_implies_dom_le [of m m'] unfolding adds_only_def by blast


section \<open>The poller and its world\<close>

text \<open>
  The local API as the poller uses it: a server for each kind of instruction, where creating one
  kind does not touch the other, and a broker that does not touch either.
\<close>

locale poller_world =
  fixes p :: "'w ReservationPoller"
    and sri :: "'w \<Rightarrow> namespaced_name \<rightharpoonup> ReservationInstruction"
    and spi :: "'w \<Rightarrow> namespaced_name \<rightharpoonup> ProviderInstruction"
  assumes ri_server: "api_server (localRequester p) sri wire_ri_spec wire_ri_status
      ReservationInstructionStatus_zero"
    and pi_server: "api_server (localProvider p) spi wire_pi_spec wire_pi_status
      ProviderInstructionStatus_zero"
    and ri_frame: "spi (snd (Create (localRequester p) w x)) = spi w"
    and pi_frame: "sri (snd (Create (localProvider p) w y)) = sri w"
    and fetch_quiet: "broker_frame (communicator p) (\<lambda>w. (sri w, spi w))"

sublocale poller_world \<subseteq> req: create_if_absent "localRequester p" sri wire_ri_spec wire_ri_status
  ReservationInstructionStatus_zero "createRequesterInstruction p" "requester_key (instructionNamespace p)"
  requester_spec
proof (rule create_if_absent.intro [OF ri_server], standard)
  fix w r
  show "sri (snd (createRequesterInstruction p w r)) = sri w \<or>
      (\<exists>y. sri w (requester_key (instructionNamespace p) r) = None \<and>
           sri (snd (createRequesterInstruction p w r)) = (sri w)(requester_key (instructionNamespace p) r \<mapsto> y) \<and>
           Spec y = wire_ri_spec (requester_spec r) \<and> Status y = ReservationInstructionStatus_zero)"
    by (auto simp: createRequesterInstruction_def Let_def created_def split: sum.splits prod.splits
        elim!: api_server.create_outcome [OF ri_server])
next
  fix w r w'
  assume "createRequesterInstruction p w r = (None, w')"
  then show "(\<exists>x. Get (localRequester p) w (requester_key (instructionNamespace p) r) = Inr x) \<or>
      sri w' (requester_key (instructionNamespace p) r) \<noteq> None"
    by (auto simp: createRequesterInstruction_def Let_def created_def
        dest!: api_server.create_ok [OF ri_server] split: sum.splits prod.splits if_splits)
qed

sublocale poller_world \<subseteq> prov: create_if_absent "localProvider p" spi wire_pi_spec wire_pi_status
  ProviderInstructionStatus_zero "createProviderInstruction p" "provider_key (instructionNamespace p)"
  provider_spec
proof (rule create_if_absent.intro [OF pi_server], standard)
  fix w r
  show "spi (snd (createProviderInstruction p w r)) = spi w \<or>
      (\<exists>y. spi w (provider_key (instructionNamespace p) r) = None \<and>
           spi (snd (createProviderInstruction p w r)) = (spi w)(provider_key (instructionNamespace p) r \<mapsto> y) \<and>
           Spec y = wire_pi_spec (provider_spec r) \<and> Status y = ProviderInstructionStatus_zero)"
    by (auto simp: createProviderInstruction_def Let_def created_def split: sum.splits prod.splits
        elim!: api_server.create_outcome [OF pi_server])
next
  fix w r w'
  assume "createProviderInstruction p w r = (None, w')"
  then show "(\<exists>x. Get (localProvider p) w (provider_key (instructionNamespace p) r) = Inr x) \<or>
      spi w' (provider_key (instructionNamespace p) r) \<noteq> None"
    by (auto simp: createProviderInstruction_def Let_def created_def
        dest!: api_server.create_ok [OF pi_server] split: sum.splits prod.splits if_splits)
qed

text \<open>The reservations of an answer that are processed.\<close>

definition reserved_in :: "ReservationDTO option list \<Rightarrow> ReservationDTO set" where
  "reserved_in rs = {r. Some r \<in> set rs \<and> rsv_Phase (rsv_Status r) = ''Reserved''}"

lemma reserved_in_simps [simp]:
  "reserved_in [] = {}" "reserved_in (None # rs) = reserved_in rs"
  "reserved_in (Some r # rs) = (if rsv_Phase (rsv_Status r) = ''Reserved'' then {r} else {}) \<union> reserved_in rs"
  by (auto simp: reserved_in_def)

lemma RoleProvider_neq [simp]: "RoleProvider \<noteq> RoleRequester"
  by (simp add: RoleProvider_def RoleRequester_def)

context poller_world begin

lemma requester_other: "spi (snd (createRequesterInstruction p w r)) = spi w"
  using ri_frame by (auto simp: createRequesterInstruction_def Let_def split: sum.splits prod.splits)
    (metis snd_conv)+

lemma provider_other: "sri (snd (createProviderInstruction p w r)) = sri w"
  using pi_frame by (auto simp: createProviderInstruction_def Let_def split: sum.splits prod.splits)
    (metis snd_conv)+

lemma requester_step:
  "adds_only (sri w) (sri (process_reservation p RoleRequester w r)) (requester_key (instructionNamespace p)) (\<lambda>r. wire_ri_spec (requester_spec r))
     ReservationInstructionStatus_zero (reserved_in [Some r])"
  "spi (process_reservation p RoleRequester w r) = spi w"
  using req.ensure_extends req.ensure_new
  by (auto simp: process_reservation_def adds_only_def requester_other)

lemma provider_step:
  "adds_only (spi w) (spi (process_reservation p RoleProvider w r)) (provider_key (instructionNamespace p)) (\<lambda>r. wire_pi_spec (provider_spec r))
     ProviderInstructionStatus_zero (reserved_in [Some r])"
  "sri (process_reservation p RoleProvider w r) = sri w"
  using prov.ensure_extends prov.ensure_new
  by (auto simp: process_reservation_def adds_only_def provider_other)

lemma requester_loop:
  "process_loop p RoleRequester w rs = (out, w') \<Longrightarrow>
   adds_only (sri w) (sri w') (requester_key (instructionNamespace p)) (\<lambda>r. wire_ri_spec (requester_spec r))
     ReservationInstructionStatus_zero (reserved_in rs) \<and> spi w' = spi w"
proof (induction rs arbitrary: w)
  case (Cons x rs)
  show ?case
  proof (cases x)
    case (Some r)
    then have "reserved_in (x # rs) = reserved_in [Some r] \<union> reserved_in rs" by simp
    with adds_only_trans [OF requester_step(1) [of w r], of "sri w'" "reserved_in rs"] requester_step(2) [of w r] Some
      Cons.prems Cons.IH [of "process_reservation p RoleRequester w r"]
    show ?thesis by simp
  qed (use Cons.prems in auto)
qed simp

lemma provider_loop:
  "process_loop p RoleProvider w rs = (out, w') \<Longrightarrow>
   adds_only (spi w) (spi w') (provider_key (instructionNamespace p)) (\<lambda>r. wire_pi_spec (provider_spec r))
     ProviderInstructionStatus_zero (reserved_in rs) \<and> sri w' = sri w"
proof (induction rs arbitrary: w)
  case (Cons x rs)
  show ?case
  proof (cases x)
    case (Some r)
    then have "reserved_in (x # rs) = reserved_in [Some r] \<union> reserved_in rs" by simp
    with adds_only_trans [OF provider_step(1) [of w r], of "spi w'" "reserved_in rs"] provider_step(2) [of w r] Some
      Cons.prems Cons.IH [of "process_reservation p RoleProvider w r"]
    show ?thesis by simp
  qed (use Cons.prems in auto)
qed simp

lemma fetch_frames:
  assumes "com_FetchReservations (communicator p) w cid role = (res, w1)"
  shows "sri w1 = sri w \<and> spi w1 = spi w"
  using broker_frame.fetch_frame [OF fetch_quiet, of w cid role] assms by simp

lemma requester_poll:
  assumes "pollAndProcess p w RoleRequester = (out, w')"
  shows "adds_only (sri w) (sri w') (requester_key (instructionNamespace p)) (\<lambda>r. wire_ri_spec (requester_spec r))
      ReservationInstructionStatus_zero
      (case fst (com_FetchReservations (communicator p) w (po_clusterID p) RoleRequester) of
         Inl e \<Rightarrow> {} | Inr rs \<Rightarrow> reserved_in rs) \<and> spi w' = spi w"
  using assms
  by (auto simp: pollAndProcess_def dest!: fetch_frames requester_loop
      split: prod.splits sum.splits go_exit.splits)

lemma provider_poll:
  assumes "pollAndProcess p w RoleProvider = (out, w')"
  shows "adds_only (spi w) (spi w') (provider_key (instructionNamespace p)) (\<lambda>r. wire_pi_spec (provider_spec r))
      ProviderInstructionStatus_zero
      (case fst (com_FetchReservations (communicator p) w (po_clusterID p) RoleProvider) of
         Inl e \<Rightarrow> {} | Inr rs \<Rightarrow> reserved_in rs) \<and> sri w' = sri w"
  using assms
  by (auto simp: pollAndProcess_def dest!: fetch_frames provider_loop
      split: prod.splits sum.splits go_exit.splits)

lemma poll_extends:
  assumes "poll p w = (out, w')"
  shows "sri w \<subseteq>\<^sub>m sri w' \<and> spi w \<subseteq>\<^sub>m spi w'"
  using assms
  by (auto simp: poll_def adds_only_def dest!: requester_poll provider_poll
      split: prod.splits go_exit.splits)

lemma poll_loop_extends:
  "poll_loop p es w = (out, w') \<Longrightarrow> sri w \<subseteq>\<^sub>m sri w' \<and> spi w \<subseteq>\<^sub>m spi w'"
proof (induction es arbitrary: w)
  case (Cons e es)
  then show ?case
    by (cases e) (auto dest!: poll_extends split: prod.splits go_exit.splits intro: map_le_trans)
qed simp

end

text \<open>
  A world in which the local servers answer truthfully and accept what is new. A poll then leaves
  no reservation without its instruction.
\<close>

definition has_instruction ::
    "'w ReservationPoller \<Rightarrow> ('w \<Rightarrow> namespaced_name \<rightharpoonup> ReservationInstruction)
       \<Rightarrow> ('w \<Rightarrow> namespaced_name \<rightharpoonup> ProviderInstruction) \<Rightarrow> Role \<Rightarrow> 'w \<Rightarrow> ReservationDTO \<Rightarrow> bool" where
  "has_instruction p sri spi role w r =
     (if role = RoleRequester then sri w (requester_key (instructionNamespace p) r) \<noteq> None
      else spi w (provider_key (instructionNamespace p) r) \<noteq> None)"

locale responsive_world =
  poller_world p sri spi for p :: "'w ReservationPoller" and sri spi +
  fixes good :: "'w \<Rightarrow> bool"
  assumes ri_get: "good w \<Longrightarrow> sri w k = None \<Longrightarrow> \<exists>s. Get (localRequester p) w k = Inl (NotFound s)"
      "good w \<Longrightarrow> sri w k = Some x \<Longrightarrow> Get (localRequester p) w k = Inr x"
    and pi_get: "good w \<Longrightarrow> spi w k = None \<Longrightarrow> \<exists>s. Get (localProvider p) w k = Inl (NotFound s)"
      "good w \<Longrightarrow> spi w k = Some y \<Longrightarrow> Get (localProvider p) w k = Inr y"
    and ri_create: "good w \<Longrightarrow> sri w (okey x) = None \<Longrightarrow>
      \<exists>z w'. Create (localRequester p) w x = (Inr z, w') \<and> good w'"
    and pi_create: "good w \<Longrightarrow> spi w (okey y) = None \<Longrightarrow>
      \<exists>z w'. Create (localProvider p) w y = (Inr z, w') \<and> good w'"
    and fetch_good: "good w \<Longrightarrow> good (snd (com_FetchReservations (communicator p) w cid role))"
begin

lemma requester_has:
  assumes "good w" and "rsv_Phase (rsv_Status r) = ''Reserved''"
  shows "good (process_reservation p RoleRequester w r) \<and>
    has_instruction p sri spi RoleRequester (process_reservation p RoleRequester w r) r"
proof (cases "sri w (requester_key (instructionNamespace p) r)")
  case None
  obtain s where g: "Get (localRequester p) w (requester_key (instructionNamespace p) r) = Inl (NotFound s)"
    using ri_get(1) [OF assms(1) None] by blast
  obtain z w' where c: "Create (localRequester p) w
      \<lparr>ObjectMeta = new_meta (requester_key (instructionNamespace p) r), Spec = requester_spec r,
       Status = ReservationInstructionStatus_zero\<rparr> = (Inr z, w')" "good w'"
    using ri_create [OF assms(1)] None by (metis okey_new)
  show ?thesis
    using api_server.create_ok [OF ri_server c(1)] g c assms(2)
    by (simp add: process_reservation_def createRequesterInstruction_def has_instruction_def Let_def created_def)
next
  case (Some x)
  with ri_get(2) [OF assms(1) Some] assms show ?thesis
    by (simp add: process_reservation_def createRequesterInstruction_def has_instruction_def Let_def)
qed

lemma provider_has:
  assumes "good w" and "rsv_Phase (rsv_Status r) = ''Reserved''"
  shows "good (process_reservation p RoleProvider w r) \<and>
    has_instruction p sri spi RoleProvider (process_reservation p RoleProvider w r) r"
proof (cases "spi w (provider_key (instructionNamespace p) r)")
  case None
  obtain s where g: "Get (localProvider p) w (provider_key (instructionNamespace p) r) = Inl (NotFound s)"
    using pi_get(1) [OF assms(1) None] by blast
  obtain z w' where c: "Create (localProvider p) w
      \<lparr>ObjectMeta = new_meta (provider_key (instructionNamespace p) r), Spec = provider_spec r,
       Status = ProviderInstructionStatus_zero\<rparr> = (Inr z, w')" "good w'"
    using pi_create [OF assms(1)] None by (metis okey_new)
  show ?thesis
    using api_server.create_ok [OF pi_server c(1)] g c assms(2)
    by (simp add: process_reservation_def createProviderInstruction_def has_instruction_def Let_def created_def)
next
  case (Some x)
  with pi_get(2) [OF assms(1) Some] assms show ?thesis
    by (simp add: process_reservation_def createProviderInstruction_def has_instruction_def Let_def)
qed

lemmas step_has = requester_has provider_has

lemma step_keeps:
  assumes "role = RoleRequester \<or> role = RoleProvider" and "has_instruction p sri spi role w r"
  shows "has_instruction p sri spi role (process_reservation p role w r') r"
  using assms adds_only_keeps [OF requester_step(1) [of w r'], of "requester_key (instructionNamespace p) r"]
    adds_only_keeps [OF provider_step(1) [of w r'], of "provider_key (instructionNamespace p) r"]
  unfolding has_instruction_def by (elim disjE) simp_all

lemma loop_complete:
  assumes "role = RoleRequester \<or> role = RoleProvider" and "good w" and "None \<notin> set rs"
  shows "\<exists>w'. process_loop p role w rs = (Return (), w') \<and> good w' \<and>
    (\<forall>r. r \<in> reserved_in rs \<or> has_instruction p sri spi role w r \<longrightarrow> has_instruction p sri spi role w' r)"
  using assms(2,3)
proof (induction rs arbitrary: w)
  case (Cons x rs)
  then obtain r where x: "x = Some r" by (cases x) auto
  let ?w = "process_reservation p role w r"
  have "good ?w \<and> (rsv_Phase (rsv_Status r) = ''Reserved'' \<longrightarrow> has_instruction p sri spi role ?w r)"
    using step_has [OF Cons.prems(1), of r] Cons.prems(1) assms(1)
    by (cases "rsv_Phase (rsv_Status r) = ''Reserved''") (auto simp: process_reservation_def)
  with Cons.IH [of ?w] Cons.prems(2) step_keeps [OF assms(1), of w] x show ?case
    by (auto split: if_splits)
qed simp

end


section \<open>The poller of the concrete world\<close>

definition world_poller :: "HTTPCommunicator \<Rightarrow> string \<Rightarrow> 'q agent_world ReservationPoller" where
  "world_poller c ns =
     NewReservationPoller (http_communicator c (world_env c)) (clusterID c) (30 * Second) world_ri world_pi ns"

definition up_to_date :: "('s, 't) mem_server \<Rightarrow> bool" where
  "up_to_date s \<longleftrightarrow> \<not> mem_down s \<and> mem_cache s = mem_objs s \<and> (\<forall>k x. mem_objs s k = Some x \<longrightarrow> okey x = k)"

definition good_world :: "'q agent_world \<Rightarrow> bool" where
  "good_world w \<longleftrightarrow> up_to_date (ri_part w) \<and> up_to_date (pi_part w)"

lemma up_to_date_get:
  assumes "up_to_date s"
  shows "mem_objs s k = None \<Longrightarrow> Get (mem_client ws wt t0) s k = Inl (NotFound ''not found'')"
    and "mem_objs s k = Some x \<Longrightarrow> Get (mem_client ws wt t0) s k = Inr x"
  using assms by (cases k; auto simp: mem_client_def up_to_date_def)+

lemma up_to_date_create:
  assumes "up_to_date s" and "mem_objs s (okey x) = None"
  shows "\<exists>y s'. Create (mem_client ws wt t0) s x = (Inr y, s') \<and> up_to_date s'"
  using assms by (auto simp: mem_client_def up_to_date_def mem_put_def Let_def)

lemma world_poller_simps [simp]:
  "communicator (world_poller c ns) = http_communicator c (world_env c)"
  "localRequester (world_poller c ns) = world_ri" "localProvider (world_poller c ns) = world_pi"
  "instructionNamespace (world_poller c ns) = ns" "po_clusterID (world_poller c ns) = clusterID c"
  by (simp_all add: world_poller_def NewReservationPoller_def)

lemma world_poller_world: "poller_world (world_poller c ns) ri_objs pi_objs"
proof (rule poller_world.intro, goal_cases)
  case 1
  then show ?case by (simp add: world_ri.api_server_axioms)
next
  case 2
  then show ?case by (simp add: world_pi.api_server_axioms)
next
  case (3 w x)
  then show ?case by (simp add: world_ri_def lift_client_def lift_write_def split: prod.splits)
next
  case (4 w y)
  then show ?case by (simp add: world_pi_def lift_client_def lift_write_def split: prod.splits)
next
  case 5
  then show ?case by unfold_locales simp_all
qed

interpretation wp: responsive_world "world_poller c ns" ri_objs pi_objs good_world
proof (rule responsive_world.intro [OF world_poller_world], standard, goal_cases)
  case (7 w cid role)
  then show ?case by (simp add: good_world_def)
next
  case (5 w x)
  then show ?case
    using up_to_date_create [of "ri_part w" x wire_ri_spec wire_ri_status ReservationInstructionStatus_zero]
    by (auto simp: world_ri_def lift_client_def lift_write_def good_world_def)
next
  case (6 w y)
  then show ?case
    using up_to_date_create [of "pi_part w" y wire_pi_spec wire_pi_status ProviderInstructionStatus_zero]
    by (auto simp: world_pi_def lift_client_def lift_write_def good_world_def)
qed (simp_all add: world_ri_def world_pi_def lift_client_def good_world_def up_to_date_get)


section \<open>Properties\<close>

definition sample_rsv :: ReservationDTO where
  "sample_rsv =
     \<lparr>rsv_ID = ''rsv-1'', rsv_RequesterID = ''paris'', rsv_TargetClusterID = ''rome'',
      rsv_RequestedResources = \<lparr>dto_CPU = ''2'', dto_Memory = ''3'', dto_GPU = '''', dto_Storage = ''''\<rparr>,
      rsv_Status = \<lparr>rsv_Phase = ''Reserved'', rsv_Message = '''', rsv_ReservedAt = None,
                    rsv_ExpiresAt = Some (100 * Second)\<rparr>,
      rsv_CreatedAt = 0\<rparr>"

definition empty_server :: "('s, 't) mem_server" where
  "empty_server = \<lparr>mem_objs = Map.empty, mem_cache = Map.empty, mem_counter = 1, mem_down = False\<rparr>"

definition rome_world :: "ReservationDTO option list \<Rightarrow> int agent_world" where
  "rome_world rs =
     \<lparr>broker_part = \<lparr>br_advs = Map.empty, br_reservations = (\<lambda>u. rs), br_failures = 0\<rparr>,
      ri_part = empty_server, pi_part = empty_server, adv_part = empty_server,
      legacy_part = \<lparr>dm_objs = Map.empty, dm_counter = 1\<rparr>\<rparr>"

abbreviation rome_poller :: "int agent_world ReservationPoller" where
  "rome_poller \<equiv> world_poller sample_communicator ''default''"

lemma rome_world_good [simp]: "good_world (rome_world rs)"
  by (simp add: good_world_def rome_world_def up_to_date_def empty_server_def)

lemma rome_world_fetch:
  "com_FetchReservations (communicator rome_poller) (rome_world rs) (po_clusterID rome_poller) RoleProvider
     = (Inr rs, rome_world rs)"
  "com_FetchReservations (communicator rome_poller) (rome_world rs) (po_clusterID rome_poller) RoleRequester
     = (Inr rs, rome_world rs)"
  by (simp_all add: http_communicator_def FetchReservations_def doWithRetry_def retry_loop.simps world_env_def
      lift_env_def mem_broker_env_def mem_exchange_def rome_world_def get_request_def mem_get_def reply_def
      reservations_url_def advertisement_url_def sample_communicator_def RoleProvider_def RoleRequester_def Let_def)

text \<open>
  C9. What a poll as provider does to the local objects, with stale reads and failing writes: it
  keeps every provider instruction as it is, adds at most one for each fetched reservation in the
  phase \<^verbatim>\<open>Reserved\<close>, under the name \<^verbatim>\<open><ID>-provider\<close>, with the requester, the amounts and the
  expiry of the reservation and not yet enforced, and does not touch reservation instructions.
\<close>

theorem provider_poll_adds:
  assumes "poller_world p sri spi"
    and "com_FetchReservations (communicator p) w (po_clusterID p) RoleProvider = (Inr rs, w1)"
    and "pollAndProcess p w RoleProvider = (out, w')"
  shows "adds_only (spi w) (spi w') (provider_key (instructionNamespace p))
      (\<lambda>r. wire_pi_spec (provider_spec r)) ProviderInstructionStatus_zero (reserved_in rs) \<and> sri w' = sri w"
  using poller_world.provider_poll [OF assms(1,3)] assms(2) by simp

theorem provider_poll_adds_witness:
  "\<exists>out w'. pollAndProcess rome_poller (rome_world [Some sample_rsv]) RoleProvider = (out, w') \<and>
     adds_only Map.empty (pi_objs w') (provider_key ''default'') (\<lambda>r. wire_pi_spec (provider_spec r))
       ProviderInstructionStatus_zero {sample_rsv}"
proof -
  obtain out w' where h: "pollAndProcess rome_poller (rome_world [Some sample_rsv]) RoleProvider = (out, w')"
    by fastforce
  have r: "reserved_in [Some sample_rsv] = {sample_rsv}" by (simp add: sample_rsv_def)
  show ?thesis
    using provider_poll_adds [OF world_poller_world rome_world_fetch(1) h] h r
    by (simp add: rome_world_def empty_server_def)
qed

text \<open>
  C10. The same for a poll as requester and the reservation instructions, which are named like
  their reservation and start as not delivered.
\<close>

theorem requester_poll_adds:
  assumes "poller_world p sri spi"
    and "com_FetchReservations (communicator p) w (po_clusterID p) RoleRequester = (Inr rs, w1)"
    and "pollAndProcess p w RoleRequester = (out, w')"
  shows "adds_only (sri w) (sri w') (requester_key (instructionNamespace p))
      (\<lambda>r. wire_ri_spec (requester_spec r)) ReservationInstructionStatus_zero (reserved_in rs) \<and> spi w' = spi w"
  using poller_world.requester_poll [OF assms(1,3)] assms(2) by simp

theorem requester_poll_adds_witness:
  "\<exists>out w'. pollAndProcess rome_poller (rome_world [Some sample_rsv]) RoleRequester = (out, w') \<and>
     adds_only Map.empty (ri_objs w') (requester_key ''default'') (\<lambda>r. wire_ri_spec (requester_spec r))
       ReservationInstructionStatus_zero {sample_rsv}"
proof -
  obtain out w' where h: "pollAndProcess rome_poller (rome_world [Some sample_rsv]) RoleRequester = (out, w')"
    by fastforce
  have r: "reserved_in [Some sample_rsv] = {sample_rsv}" by (simp add: sample_rsv_def)
  show ?thesis
    using requester_poll_adds [OF world_poller_world rome_world_fetch(2) h] h r
    by (simp add: rome_world_def empty_server_def)
qed

text \<open>
  C11. However long it runs and whatever the broker answers, the poller never changes and never
  removes an instruction that is there. So it does not undo what the instruction controllers have
  written; and it does not carry over a later change of a reservation, an extended expiry for
  example, although the comments of the two handlers say that they create or update.
\<close>

theorem poller_never_modifies:
  assumes "poller_world p sri spi" and "Start p es w = (out, w')"
  shows "sri w \<subseteq>\<^sub>m sri w' \<and> spi w \<subseteq>\<^sub>m spi w'"
  using assms(2)
  by (auto simp: Start_def dest!: poller_world.poll_extends [OF assms(1)]
      poller_world.poll_loop_extends [OF assms(1)]
      split: prod.splits go_exit.splits if_splits intro: map_le_trans)

theorem poller_never_modifies_witness:
  "\<exists>out w'. Start rome_poller [Tick, Tick, Done]
       ((rome_world [Some sample_rsv])\<lparr>pi_part := server_with (sample_pi True)\<rparr>) = (out, w') \<and>
     pi_objs w' (okey (sample_pi True)) = Some (sample_pi True)"
proof -
  let ?w = "(rome_world [Some sample_rsv])\<lparr>pi_part := server_with (sample_pi True)\<rparr>"
  obtain out w' where h: "Start rome_poller [Tick, Tick, Done] ?w = (out, w')" by fastforce
  have "pi_objs ?w (okey (sample_pi True)) = Some (sample_pi True)" by simp
  then show ?thesis
    using poller_never_modifies [OF world_poller_world h] h by (metis domI map_le_def)
qed

text \<open>
  C12. A poll is complete. In a world whose local servers answer truthfully and accept what is new,
  a poll in either role whose answer has no \<^verbatim>\<open>null\<close> reports success, and afterwards every
  reservation of the answer in the phase \<^verbatim>\<open>Reserved\<close> has its instruction.
\<close>

theorem poll_complete:
  assumes "responsive_world p sri spi good" and "good w"
    and "role = RoleRequester \<or> role = RoleProvider"
    and "com_FetchReservations (communicator p) w (po_clusterID p) role = (Inr rs, w1)"
    and "None \<notin> set rs"
  shows "\<exists>w'. pollAndProcess p w role = (Return None, w') \<and>
    (\<forall>r\<in>reserved_in rs. has_instruction p sri spi role w' r)"
proof -
  have "good w1"
    using responsive_world.fetch_good [OF assms(1,2), of "po_clusterID p" role] assms(4) by simp
  then show ?thesis
    using responsive_world.loop_complete [OF assms(1,3) _ assms(5)] assms(4)
    by (fastforce simp: pollAndProcess_def)
qed

theorem poll_complete_witness:
  "\<exists>w'. pollAndProcess rome_poller (rome_world [Some sample_rsv]) RoleProvider = (Return None, w') \<and>
     pi_objs w' (''default'', ''rsv-1-provider'') \<noteq> None"
proof -
  have n: "None \<notin> set [Some sample_rsv]" by simp
  have r: "rsv_Phase (rsv_Status sample_rsv) = ''Reserved''" by (simp add: sample_rsv_def)
  have k: "provider_key ''default'' sample_rsv = (''default'', ''rsv-1-provider'')"
    by (simp add: provider_key_def sample_rsv_def)
  show ?thesis
    using poll_complete [OF wp.responsive_world_axioms rome_world_good _ rome_world_fetch(1) n]
    by (simp add: has_instruction_def r k)
qed

lemma provider_key_inject: "provider_key ns r = provider_key ns r' \<longleftrightarrow> rsv_ID r = rsv_ID r'"
  by (simp add: provider_key_def)

text \<open>A poll as provider leaves the instruction of a reservation that had none.\<close>

lemma polled_instruction:
  assumes "responsive_world p sri spi good" and "good w"
    and "com_FetchReservations (communicator p) w (po_clusterID p) RoleProvider = (Inr rs, w1)"
    and "None \<notin> set rs" and "r \<in> reserved_in rs"
    and "\<forall>r'\<in>reserved_in rs. rsv_ID r' = rsv_ID r \<longrightarrow> r' = r"
    and "spi w (provider_key (instructionNamespace p) r) = None"
    and "pollAndProcess p w RoleProvider = (out, w2)"
  shows "\<exists>y. spi w2 (provider_key (instructionNamespace p) r) = Some y \<and> good w2 \<and>
    Spec y = wire_pi_spec (provider_spec r)"
proof -
  let ?k = "provider_key (instructionNamespace p) r"
  have pw: "poller_world p sri spi" by (rule responsive_world.axioms(1) [OF assms(1)])
  have "good w1"
    using responsive_world.fetch_good [OF assms(1,2), of "po_clusterID p" RoleProvider] assms(3) by simp
  then obtain v where v: "process_loop p RoleProvider w1 rs = (Return (), v)" "good v"
      "\<forall>r\<in>reserved_in rs. has_instruction p sri spi RoleProvider v r"
    using responsive_world.loop_complete [OF assms(1) _ _ assms(4), of RoleProvider w1] by blast
  then have "w2 = v" using assms(3,8) by (simp add: pollAndProcess_def)
  with v assms(5) obtain y where y: "spi w2 ?k = Some y" by (auto simp: has_instruction_def)
  moreover have a: "adds_only (spi w) (spi w2) (provider_key (instructionNamespace p))
      (\<lambda>r. wire_pi_spec (provider_spec r)) ProviderInstructionStatus_zero (reserved_in rs)"
    using poller_world.provider_poll [OF pw assms(8)] assms(3) by simp
  have "Spec y = wire_pi_spec (provider_spec r)"
    using adds_only_new [OF a y assms(7)] assms(6) by (metis provider_key_inject)
  ultimately show ?thesis using v \<open>w2 = v\<close> by simp
qed

lemma process_loop_null:
  "None \<in> set rs \<Longrightarrow> \<exists>w'. process_loop p role w rs = (nil_dereference, w')"
  by (induction p role w rs rule: process_loop.induct) auto

text \<open>
  A \<^verbatim>\<open>null\<close> in the broker's answer brings the agent down: the list decodes to a \<^verbatim>\<open>nil\<close>
  pointer, whose status the poll reads. The panic is not recovered, so that no further poll
  happens.
\<close>

lemma null_reservation_panics:
  assumes "com_FetchReservations (communicator p) w (po_clusterID p) RoleRequester = (Inr rs, w1)"
    and "None \<in> set rs" and "0 < po_interval p"
  shows "\<exists>s w'. Start p es w = (Some (Panic s), w')"
  using process_loop_null [OF assms(2), of p RoleRequester w1] assms
  by (auto simp: Start_def poll_def pollAndProcess_def nil_dereference_def)

end
