(* ===== verification/Reservation_Watcher.thy ===== *)
theory Reservation_Watcher
  imports Poller
begin

text \<open>
  The reservation watcher of \<^verbatim>\<open>internal/publisher/reservation_watcher.go\<close>, the counterpart of the
  poller in the legacy transport. It watches the untyped reservations in the broker's cluster and
  writes, for each event of one that concerns this cluster, the local instruction: it creates it or
  replaces its spec, and resets its status. As in \<open>Poller\<close>, the local client is given by its two
  typed faces.

  What the watch loop receives, a failure to open the watch, the events of a watch until its
  channel is closed, the end of the context, is the list that drives it; each event comes with the
  two readings of the clock that handling it may make.
\<close>

section \<open>Reading untyped objects\<close>

text \<open>
  \<^verbatim>\<open>unstructured.NestedMap\<close> and \<^verbatim>\<open>NestedString\<close> with one field: an entry that is missing or of another
  type is not found. The code reads the string of one that is not found as empty.
\<close>

definition NestedMap :: "jmap \<Rightarrow> string \<Rightarrow> jmap option" where
  "NestedMap m k = jobject m k"

definition NestedString :: "jmap \<Rightarrow> string \<Rightarrow> string option" where
  "NestedString m k = (case jget m k of Some (JString s) \<Rightarrow> Some s | _ \<Rightarrow> None)"

definition or_empty :: "string option \<Rightarrow> string" where
  "or_empty s = (case s of Some t \<Rightarrow> t | None \<Rightarrow> '''')"

definition GetName :: "unstructured_object \<Rightarrow> string" where
  "GetName u = or_empty (NestedString (u_metadata u) ''name'')"

definition GetResourceVersion :: "unstructured_object \<Rightarrow> string" where
  "GetResourceVersion u = or_empty (NestedString (u_metadata u) ''resourceVersion'')"

section \<open>The watcher\<close>

record 'w local_client =
  lc_requester :: "('w, ReservationInstructionSpec, ReservationInstructionStatus) client_ops"
  lc_provider :: "('w, ProviderInstructionSpec, ProviderInstructionStatus) client_ops"

record 'w ReservationWatcher =
  rw_Client :: "'w dynamic_ops option"
  LocalClient :: "'w local_client option"
  rw_ClusterID :: string
  rw_Enabled :: bool
  rw_InstructionNamespace :: string
  rw_BrokerNamespace :: string
  RequesterNamespace :: string

definition NewReservationWatcher ::
    "'w BrokerClient option \<Rightarrow> 'w local_client option \<Rightarrow> string \<Rightarrow> 'w ReservationWatcher" where
  "NewReservationWatcher brokerClient localClient ins_ns =
     (case brokerClient of
        None \<Rightarrow> \<lparr>rw_Client = None, LocalClient = None, rw_ClusterID = '''', rw_Enabled = False,
                 rw_InstructionNamespace = '''', rw_BrokerNamespace = '''', RequesterNamespace = ''''\<rparr>
      | Some b \<Rightarrow>
          let ns = (if ins_ns = '''' then ''default'' else ins_ns)
          in \<lparr>rw_Client = bc_Client b, LocalClient = localClient, rw_ClusterID = bc_ClusterID b,
              rw_Enabled = Enabled b, rw_InstructionNamespace = ns, rw_BrokerNamespace = bc_Namespace b,
              RequesterNamespace = ns\<rparr>)"

section \<open>Writing an instruction\<close>

text \<open>
  What both handlers do once the spec is put together: create the object, or replace the spec of
  the one that is read, and then write the status of the server's answer with the fields reset.
\<close>

definition put_spec ::
    "('w, 's, 't) client_ops \<Rightarrow> 't \<Rightarrow> 'w \<Rightarrow> namespaced_name \<Rightarrow> 's \<Rightarrow> (api_error + ('s, 't) kobject) \<times> 'w" where
  "put_spec C t0 w key spec =
     (case Get C w key of
        Inl e \<Rightarrow> if \<not> IsNotFound e then (Inl e, w)
                 else Create C w \<lparr>ObjectMeta = new_meta key, Spec = spec, Status = t0\<rparr>
      | Inr x \<Rightarrow> Update C w (x\<lparr>Spec := spec\<rparr>))"

definition upsert ::
    "('w, 's, 't) client_ops \<Rightarrow> 't \<Rightarrow> ('t \<Rightarrow> 't) \<Rightarrow> 'w \<Rightarrow> namespaced_name \<Rightarrow> 's \<Rightarrow> api_error option \<times> 'w" where
  "upsert C t0 reset w key spec =
     (case put_spec C t0 w key spec of
        (Inl e, w1) \<Rightarrow> (Some e, w1)
      | (Inr y, w1) \<Rightarrow>
          (case StatusUpdate C w1 (y\<lparr>Status := reset (Status y)\<rparr>) of
             (Inl e, w2) \<Rightarrow> (Some e, w2)
           | (Inr z, w2) \<Rightarrow> (None, w2)))"

definition expiry_of :: "string \<Rightarrow> go_time option" where
  "expiry_of expiresAt = (if expiresAt \<noteq> '''' then ParseRFC3339 expiresAt else None)"

definition or_default :: "string \<Rightarrow> string" where
  "or_default ns = (if ns = '''' then ''default'' else ns)"

definition watched_requester_spec ::
    "string \<Rightarrow> string \<Rightarrow> string \<Rightarrow> string \<Rightarrow> string \<Rightarrow> ReservationInstructionSpec" where
  "watched_requester_spec name targetCluster cpu mem expiresAt =
     \<lparr>ri_ReservationName = name, ri_TargetClusterID = targetCluster, ri_RequestedCPU = cpu,
      ri_RequestedMemory = mem,
      ri_Message = ''Use '' @ targetCluster @ '' for '' @ cpu @ '' CPU / '' @ mem @ '' Memory'',
      ri_ExpiresAt = expiry_of expiresAt\<rparr>"

definition reset_requester :: "string \<Rightarrow> go_time \<Rightarrow> ReservationInstructionStatus \<Rightarrow> ReservationInstructionStatus" where
  "reset_requester version now t =
     t\<lparr>ri_ObservedReservationResourceVersion := version, ri_Delivered := False, ri_LastUpdateTime := now\<rparr>"

definition upsertRequesterInstruction ::
    "'w ReservationWatcher \<Rightarrow> 'w local_client \<Rightarrow> go_time \<Rightarrow> 'w \<Rightarrow> unstructured_object
       \<Rightarrow> string \<Rightarrow> string \<Rightarrow> string \<Rightarrow> string \<Rightarrow> api_error option \<times> 'w" where
  "upsertRequesterInstruction wt c now w reservation targetCluster cpu mem expiresAt =
     (let name = GetName reservation; ns = or_default (rw_InstructionNamespace wt)
      in upsert (lc_requester c) ReservationInstructionStatus_zero
           (reset_requester (GetResourceVersion reservation) now) w (ns, name)
           (watched_requester_spec name targetCluster cpu mem expiresAt))"

definition watched_provider_spec ::
    "string \<Rightarrow> string \<Rightarrow> string \<Rightarrow> string \<Rightarrow> string \<Rightarrow> ProviderInstructionSpec" where
  "watched_provider_spec name requester cpu mem expiresAt =
     \<lparr>pi_ReservationName = name, pi_RequesterClusterID = requester, pi_RequestedCPU = cpu,
      pi_RequestedMemory = mem,
      pi_Message = ''Hold '' @ cpu @ '' CPU / '' @ mem @ '' Memory for requester '' @ requester,
      pi_ExpiresAt = expiry_of expiresAt\<rparr>"

definition reset_provider :: "go_time \<Rightarrow> ProviderInstructionStatus \<Rightarrow> ProviderInstructionStatus" where
  "reset_provider now t = t\<lparr>pi_Enforced := False, pi_LastUpdateTime := now\<rparr>"

definition upsertProviderInstruction ::
    "'w ReservationWatcher \<Rightarrow> 'w local_client \<Rightarrow> go_time \<Rightarrow> 'w \<Rightarrow> unstructured_object
       \<Rightarrow> string \<Rightarrow> string \<Rightarrow> string \<Rightarrow> string \<Rightarrow> api_error option \<times> 'w" where
  "upsertProviderInstruction wt c now w reservation requester cpu mem expiresAt =
     (let name = GetName reservation @ ''-provider''; ns = or_default (rw_InstructionNamespace wt)
      in upsert (lc_provider c) ProviderInstructionStatus_zero (reset_provider now) w (ns, name)
           (watched_provider_spec (GetName reservation) requester cpu mem expiresAt))"

section \<open>The events\<close>

datatype event_type = Added | Modified | Deleted | Bookmark | ErrorEvent

datatype event_object = Unstructured unstructured_object | OtherObject

record watch_event =
  ev_Type :: event_type
  ev_Object :: event_object

text \<open>What the loop body reads of an event that it does not skip.\<close>

record watched =
  wr_object :: unstructured_object
  requesterID :: string
  targetCluster :: string
  wr_cpu :: string
  wr_memory :: string
  wr_expiresAt :: string

definition watched_reservation :: "string \<Rightarrow> watch_event \<Rightarrow> watched option" where
  "watched_reservation cid ev =
     (case ev_Object ev of
        OtherObject \<Rightarrow> None
      | Unstructured u \<Rightarrow> do {
          spec \<leftarrow> NestedMap (u_Object u) ''spec'';
          let requester = NestedString spec ''requesterID'';
          let target = NestedString spec ''targetClusterID'';
          if (requester = None \<and> target = None) \<or> (or_empty requester \<noteq> cid \<and> or_empty target \<noteq> cid) then None
          else do {
            status \<leftarrow> NestedMap (u_Object u) ''status'';
            phase \<leftarrow> NestedString status ''phase'';
            if phase \<noteq> ''Reserved'' then None
            else do {
              resources \<leftarrow> NestedMap spec ''requestedResources'';
              Some \<lparr>wr_object = u, requesterID = or_empty requester, targetCluster = or_empty target,
                    wr_cpu = or_empty (NestedString resources ''cpu''),
                    wr_memory = or_empty (NestedString resources ''memory''),
                    wr_expiresAt = or_empty (NestedString status ''expiresAt'')\<rparr>
            }
          }
        })"

text \<open>The errors of the two writes are logged only.\<close>

definition handle_requester :: "'w ReservationWatcher \<Rightarrow> go_time \<Rightarrow> 'w \<Rightarrow> watched \<Rightarrow> 'w" where
  "handle_requester wt now w r =
     (if requesterID r = rw_ClusterID wt then
        (case LocalClient wt of
           Some c \<Rightarrow> snd (upsertRequesterInstruction wt c now w (wr_object r) (targetCluster r) (wr_cpu r)
                            (wr_memory r) (wr_expiresAt r))
         | None \<Rightarrow> w)
      else w)"

definition handle_provider :: "'w ReservationWatcher \<Rightarrow> go_time \<Rightarrow> 'w \<Rightarrow> watched \<Rightarrow> 'w" where
  "handle_provider wt now w r =
     (if targetCluster r = rw_ClusterID wt then
        (case LocalClient wt of
           Some c \<Rightarrow> snd (upsertProviderInstruction wt c now w (wr_object r) (requesterID r) (wr_cpu r)
                            (wr_memory r) (wr_expiresAt r))
         | None \<Rightarrow> w)
      else w)"

type_synonym clocked_event = "watch_event \<times> go_time \<times> go_time"

fun handle_event :: "'w ReservationWatcher \<Rightarrow> 'w \<Rightarrow> clocked_event \<Rightarrow> 'w" where
  "handle_event wt w (ev, t1, t2) =
     (case watched_reservation (rw_ClusterID wt) ev of
        None \<Rightarrow> w
      | Some r \<Rightarrow> handle_provider wt t2 (handle_requester wt t1 w r) r)"

section \<open>The watch loop\<close>

datatype watch_input =
    Cancelled
  | WatchError string
  | Watching "clocked_event list"

definition first_watch_backoff :: duration where
  "first_watch_backoff = 1 * Second"

definition max_watch_backoff :: duration where
  "max_watch_backoff = 60 * Second"

text \<open>
  The loop with its backoff and its count of failures; it returns whether it has ended, and the
  pauses it made. When the inputs run out it is waiting for the next one.
\<close>

fun watch_loop ::
    "'w ReservationWatcher \<Rightarrow> duration \<Rightarrow> nat \<Rightarrow> watch_input list \<Rightarrow> 'w \<Rightarrow> bool \<times> duration list \<times> 'w" where
  "watch_loop wt backoff failureCount [] w = (False, [], w)"
| "watch_loop wt backoff failureCount (Cancelled # is) w = (True, [], w)"
| "watch_loop wt backoff failureCount (WatchError e # is) w =
     (case watch_loop wt (next_backoff max_watch_backoff backoff) (Suc failureCount) is w of
        (ended, ds, w') \<Rightarrow> (ended, backoff # ds, w'))"
| "watch_loop wt backoff failureCount (Watching es # is) w =
     (case watch_loop wt first_watch_backoff 0 is (foldl (handle_event wt) w es) of
        (ended, ds, w') \<Rightarrow> (ended, 1 * Second # ds, w'))"

text \<open>\<open>watches ns\<close> is what happens to the watches on the broker's namespace \<open>ns\<close>.\<close>

definition watcher_Start ::
    "'w ReservationWatcher \<Rightarrow> (string \<Rightarrow> watch_input list) \<Rightarrow> 'w \<Rightarrow> bool \<times> duration list \<times> 'w" where
  "watcher_Start wt watches w =
     (if \<not> rw_Enabled wt then (True, [], w)
      else let remoteNamespace = or_default (rw_BrokerNamespace wt)
           in watch_loop wt first_watch_backoff 0 (watches remoteNamespace) w)"

section \<open>What a write does\<close>

text \<open>
  The status the object under a key has before the write, the empty one if there is none; and that
  an object with a given spec and status has been put under a key, with nothing else changed.
\<close>

definition status_before :: "(namespaced_name \<rightharpoonup> ('s, 't) kobject) \<Rightarrow> 't \<Rightarrow> namespaced_name \<Rightarrow> 't" where
  "status_before m t0 k = (case m k of Some x \<Rightarrow> Status x | None \<Rightarrow> t0)"

definition put_with ::
    "(namespaced_name \<rightharpoonup> ('s, 't) kobject) \<Rightarrow> (namespaced_name \<rightharpoonup> ('s, 't) kobject) \<Rightarrow> namespaced_name
       \<Rightarrow> 's \<Rightarrow> 't \<Rightarrow> bool" where
  "put_with m m' k s t \<longleftrightarrow> (\<exists>y. m' = m(k \<mapsto> y) \<and> okey y = k \<and> Spec y = s \<and> Status y = t)"

lemma put_withE:
  assumes "put_with m m' k s t"
  obtains y where "m' k = Some y" "Spec y = s" "Status y = t" "\<And>k'. k' \<noteq> k \<Longrightarrow> m' k' = m k'"
  using assms by (auto simp: put_with_def)

context api_server begin

lemma put_spec_effect:
  assumes "put_spec C t0 w k s = (r, w1)"
  shows "(\<exists>e. r = Inl e) \<and> stored w1 = stored w \<or>
    (\<exists>y. (\<forall>z. r = Inr z \<longrightarrow> z = y) \<and> stored w1 = (stored w)(k \<mapsto> y) \<and> okey y = k \<and> Spec y = wire_spec s \<and>
         Status y = status_before (stored w) status0 k)"
proof (cases "Get C w k")
  case (Inl e)
  show ?thesis
  proof (cases "IsNotFound e")
    case True
    with assms Inl have "Create C w \<lparr>ObjectMeta = new_meta k, Spec = s, Status = t0\<rparr> = (r, w1)"
      by (simp add: put_spec_def)
    then show ?thesis by (cases rule: create_outcome) (auto simp: created_def status_before_def)
  next
    case False
    with assms Inl have "r = Inl e" "w1 = w" by (simp_all add: put_spec_def)
    then show ?thesis by simp
  qed
next
  case (Inr x)
  with assms have "Update C w (x\<lparr>Spec := s\<rparr>) = (r, w1)" by (simp add: put_spec_def)
  then show ?thesis
    by (cases rule: update_outcome) (auto simp: status_before_def dest!: spec_written_read [OF Inr])
qed

lemma put_spec_success:
  assumes "put_spec C t0 w k s = (Inr y, w1)"
  shows "stored w1 = (stored w)(k \<mapsto> y)" and "okey y = k" and "Spec y = wire_spec s"
    and "Status y = status_before (stored w) status0 k"
  using put_spec_effect [OF assms] by auto

text \<open>
  Success: the object has the new spec and the old status with the fields reset. Otherwise nothing
  has changed, or the first or both of the two writes have taken effect.
\<close>

lemma upsert_done:
  assumes "upsert C t0 reset w k s = (None, w')"
  shows "put_with (stored w) (stored w') k (wire_spec s) (wire_status (reset (status_before (stored w) status0 k)))"
proof -
  from assms obtain y w1 z where first: "put_spec C t0 w k s = (Inr y, w1)"
    and st: "StatusUpdate C w1 (y\<lparr>Status := reset (Status y)\<rparr>) = (Inr z, w')"
    by (auto simp: upsert_def split: sum.splits prod.splits)
  from status_ok [OF st] show ?thesis
    by (auto simp: status_written_def put_with_def put_spec_success [OF first])
qed

lemma upsert_effect:
  assumes "upsert C t0 reset w k s = (res, w')"
  shows "stored w' = stored w \<or>
    put_with (stored w) (stored w') k (wire_spec s) (status_before (stored w) status0 k) \<or>
    put_with (stored w) (stored w') k (wire_spec s) (wire_status (reset (status_before (stored w) status0 k)))"
proof -
  obtain r w1 where first: "put_spec C t0 w k s = (r, w1)" by fastforce
  show ?thesis
  proof (cases r)
    case (Inl e)
    with assms first have "w' = w1" by (simp add: upsert_def)
    with put_spec_effect [OF first] show ?thesis by (auto simp: put_with_def)
  next
    case (Inr y)
    note y = put_spec_success [OF first [unfolded Inr]]
    obtain u where "StatusUpdate C w1 (y\<lparr>Status := reset (Status y)\<rparr>) = (u, w')"
      using assms Inr first by (auto simp: upsert_def split: sum.splits prod.splits)
    then show ?thesis
      by (cases rule: status_outcome) (auto simp: put_with_def status_written_def y)
  qed
qed

end

section \<open>The watcher and its world\<close>

context client_frame begin

lemma put_spec_frame: "kept (snd (put_spec C t0 w k s)) = kept w"
  by (simp add: put_spec_def create_frame update_frame split: sum.split)

lemma upsert_frame: "kept (snd (upsert C t0 reset w k s)) = kept w"
proof -
  have "kept w2 = kept w1" if "StatusUpdate C w1 x = (u, w2)" for w1 x u w2
    using that by (rule status_keeps)
  moreover have "kept w1 = kept w" if "put_spec C t0 w k s = (r, w1)" for r w1
    using put_spec_frame [of t0 w k s] that by simp
  ultimately show ?thesis by (auto simp: upsert_def split: sum.splits prod.splits)
qed

lemma upsert_keeps: "upsert C t0 reset w k s = (e, w') \<Longrightarrow> kept w' = kept w"
  using upsert_frame [of t0 reset w k s] by simp

end

definition watched_requester_key :: "'w ReservationWatcher \<Rightarrow> watched \<Rightarrow> namespaced_name" where
  "watched_requester_key wt r = (or_default (rw_InstructionNamespace wt), GetName (wr_object r))"

definition watched_provider_key :: "'w ReservationWatcher \<Rightarrow> watched \<Rightarrow> namespaced_name" where
  "watched_provider_key wt r = (or_default (rw_InstructionNamespace wt), GetName (wr_object r) @ ''-provider'')"

abbreviation requester_spec_of :: "watched \<Rightarrow> ReservationInstructionSpec" where
  "requester_spec_of r \<equiv>
     watched_requester_spec (GetName (wr_object r)) (targetCluster r) (wr_cpu r) (wr_memory r) (wr_expiresAt r)"

abbreviation provider_spec_of :: "watched \<Rightarrow> ProviderInstructionSpec" where
  "provider_spec_of r \<equiv>
     watched_provider_spec (GetName (wr_object r)) (requesterID r) (wr_cpu r) (wr_memory r) (wr_expiresAt r)"

locale watcher_world =
  fixes wt :: "'w ReservationWatcher"
    and c :: "'w local_client"
    and sri :: "'w \<Rightarrow> namespaced_name \<rightharpoonup> ReservationInstruction"
    and spi :: "'w \<Rightarrow> namespaced_name \<rightharpoonup> ProviderInstruction"
  assumes local_client: "LocalClient wt = Some c"
    and watcher_ri: "api_server (lc_requester c) sri wire_ri_spec wire_ri_status ReservationInstructionStatus_zero"
    and watcher_pi: "api_server (lc_provider c) spi wire_pi_spec wire_pi_status ProviderInstructionStatus_zero"
    and watcher_ri_frame: "client_frame (lc_requester c) spi"
    and watcher_pi_frame: "client_frame (lc_provider c) sri"

sublocale watcher_world \<subseteq> wri: api_server "lc_requester c" sri wire_ri_spec wire_ri_status
  ReservationInstructionStatus_zero
  by (rule watcher_ri)

sublocale watcher_world \<subseteq> wpi: api_server "lc_provider c" spi wire_pi_spec wire_pi_status
  ProviderInstructionStatus_zero
  by (rule watcher_pi)

sublocale watcher_world \<subseteq> wri_frame: client_frame "lc_requester c" spi
  by (rule watcher_ri_frame)

sublocale watcher_world \<subseteq> wpi_frame: client_frame "lc_provider c" sri
  by (rule watcher_pi_frame)

text \<open>What one write attempt may have done to the objects of a kind.\<close>

definition written_or_not ::
    "(namespaced_name \<rightharpoonup> ('s, 't) kobject) \<Rightarrow> (namespaced_name \<rightharpoonup> ('s, 't) kobject) \<Rightarrow> 't \<Rightarrow> namespaced_name
       \<Rightarrow> 's \<Rightarrow> ('t \<Rightarrow> 't) \<Rightarrow> bool" where
  "written_or_not m m' t0 k s f \<longleftrightarrow>
     m' = m \<or> put_with m m' k s (status_before m t0 k) \<or> put_with m m' k s (f (status_before m t0 k))"

context watcher_world begin

lemma handle_requester_frame: "spi (handle_requester wt now w r) = spi w"
  by (simp add: handle_requester_def local_client upsertRequesterInstruction_def Let_def wri_frame.upsert_frame)

lemma handle_provider_frame: "sri (handle_provider wt now w r) = sri w"
  by (simp add: handle_provider_def local_client upsertProviderInstruction_def Let_def wpi_frame.upsert_frame)

lemma handle_requester_effect:
  "if requesterID r = rw_ClusterID wt
   then written_or_not (sri w) (sri (handle_requester wt now w r)) ReservationInstructionStatus_zero
     (watched_requester_key wt r) (wire_ri_spec (requester_spec_of r))
     (\<lambda>t. wire_ri_status (reset_requester (GetResourceVersion (wr_object r)) now t))
   else sri (handle_requester wt now w r) = sri w"
  using wri.upsert_effect [OF surjective_pairing]
  by (simp add: handle_requester_def local_client upsertRequesterInstruction_def Let_def written_or_not_def
      watched_requester_key_def)

lemma handle_provider_effect:
  "if targetCluster r = rw_ClusterID wt
   then written_or_not (spi w) (spi (handle_provider wt now w r)) ProviderInstructionStatus_zero
     (watched_provider_key wt r) (wire_pi_spec (provider_spec_of r)) (\<lambda>t. wire_pi_status (reset_provider now t))
   else spi (handle_provider wt now w r) = spi w"
  using wpi.upsert_effect [OF surjective_pairing]
  by (simp add: handle_provider_def local_client upsertProviderInstruction_def Let_def written_or_not_def
      watched_provider_key_def)

end

section \<open>Whole runs\<close>

text \<open>
  Nothing is removed, every object has the spec it had or one the source \<open>from\<close> allows for its key,
  and a flag that is up was up before.
\<close>

definition rewritten ::
    "(namespaced_name \<Rightarrow> 's \<Rightarrow> bool) \<Rightarrow> ('t \<Rightarrow> bool) \<Rightarrow> (namespaced_name \<rightharpoonup> ('s, 't) kobject)
       \<Rightarrow> (namespaced_name \<rightharpoonup> ('s, 't) kobject) \<Rightarrow> bool" where
  "rewritten from flag m m' \<longleftrightarrow>
     dom m \<subseteq> dom m' \<and>
     (\<forall>k y. m' k = Some y \<longrightarrow> (\<exists>x. m k = Some x \<and> Spec x = Spec y) \<or> from k (Spec y)) \<and>
     (\<forall>k y. m' k = Some y \<and> flag (Status y) \<longrightarrow> (\<exists>x. m k = Some x \<and> flag (Status x)))"

lemma rewritten_refl [simp]: "rewritten from flag m m"
  by (auto simp: rewritten_def)

lemma rewritten_trans:
  assumes "rewritten from flag m m1" and "rewritten from flag m1 m2"
  shows "rewritten from flag m m2"
  unfolding rewritten_def
proof (intro conjI allI impI)
  show "dom m \<subseteq> dom m2" using assms unfolding rewritten_def by blast
next
  fix k y
  assume y: "m2 k = Some y"
  then consider z where "m1 k = Some z" "Spec z = Spec y" | "from k (Spec y)"
    using assms(2) unfolding rewritten_def by blast
  then show "(\<exists>x. m k = Some x \<and> Spec x = Spec y) \<or> from k (Spec y)"
  proof cases
    case 1
    with assms(1) show ?thesis unfolding rewritten_def by metis
  qed simp
next
  fix k y
  assume "m2 k = Some y \<and> flag (Status y)"
  then obtain z where "m1 k = Some z" "flag (Status z)" using assms(2) unfolding rewritten_def by blast
  then show "\<exists>x. m k = Some x \<and> flag (Status x)" using assms(1) unfolding rewritten_def by blast
qed

lemma rewritten_mono:
  assumes "rewritten from flag m m'" and "from \<le> from'"
  shows "rewritten from' flag m m'"
  using assms unfolding rewritten_def by (metis predicate2D)

lemma rewritten_step:
  assumes "rewritten from1 flag m m1" and "rewritten from2 flag m1 m2" and "from1 \<le> from" and "from2 \<le> from"
  shows "rewritten from flag m m2"
  using rewritten_trans [OF rewritten_mono [OF assms(1,3)] rewritten_mono [OF assms(2,4)]] .

lemma written_rewritten:
  assumes "written_or_not m m' t0 k s f" and "\<not> flag t0" and "\<And>t. \<not> flag (f t)" and "from k s"
  shows "rewritten from flag m m'"
  using assms by (auto simp: written_or_not_def rewritten_def put_with_def status_before_def split: if_splits option.splits)

text \<open>The events a run gets to see.\<close>

fun watch_events :: "watch_input list \<Rightarrow> clocked_event list" where
  "watch_events [] = []"
| "watch_events (Cancelled # is) = []"
| "watch_events (WatchError e # is) = watch_events is"
| "watch_events (Watching es # is) = es @ watch_events is"

lemma watch_loop_world:
  "snd (snd (watch_loop wt b n is w)) = foldl (handle_event wt) w (watch_events is)"
  by (induction wt b n "is" w rule: watch_loop.induct) (simp_all add: case_prod_beta)

text \<open>
  What an instruction says about a reservation with the given name, other cluster, amounts and
  expiry, as the server keeps it: field by field.
\<close>

definition stored_expiry :: "string \<Rightarrow> go_time option" where
  "stored_expiry expiresAt = (if expiresAt = '''' then None else map_option wire_time (ParseRFC3339 expiresAt))"

definition tells_requester ::
    "string \<Rightarrow> string \<Rightarrow> string \<Rightarrow> string \<Rightarrow> string \<Rightarrow> ReservationInstructionSpec \<Rightarrow> bool" where
  "tells_requester name target cpu mem expiresAt s \<longleftrightarrow>
     ri_ReservationName s = name \<and> ri_TargetClusterID s = target \<and> ri_RequestedCPU s = cpu \<and>
     ri_RequestedMemory s = mem \<and>
     ri_Message s = ''Use '' @ target @ '' for '' @ cpu @ '' CPU / '' @ mem @ '' Memory'' \<and>
     ri_ExpiresAt s = stored_expiry expiresAt"

definition tells_provider ::
    "string \<Rightarrow> string \<Rightarrow> string \<Rightarrow> string \<Rightarrow> string \<Rightarrow> ProviderInstructionSpec \<Rightarrow> bool" where
  "tells_provider name requester cpu mem expiresAt s \<longleftrightarrow>
     pi_ReservationName s = name \<and> pi_RequesterClusterID s = requester \<and> pi_RequestedCPU s = cpu \<and>
     pi_RequestedMemory s = mem \<and>
     pi_Message s = ''Hold '' @ cpu @ '' CPU / '' @ mem @ '' Memory for requester '' @ requester \<and>
     pi_ExpiresAt s = stored_expiry expiresAt"

lemma watched_specs_tell:
  "tells_requester name target cpu mem expiresAt (wire_ri_spec (watched_requester_spec name target cpu mem expiresAt))"
  "tells_provider name requester cpu mem expiresAt (wire_pi_spec (watched_provider_spec name requester cpu mem expiresAt))"
  by (simp_all add: tells_requester_def tells_provider_def watched_requester_spec_def watched_provider_spec_def
      wire_ri_spec_def wire_pi_spec_def stored_expiry_def expiry_of_def)

text \<open>
  What a reservation of the broker's cluster reports, read off its JSON form: it is in the phase
  \<^verbatim>\<open>Reserved\<close>, and its texts are the entries of these names, where one that is missing or no string
  counts as empty.
\<close>

definition text_at :: "jmap \<Rightarrow> string \<Rightarrow> string \<Rightarrow> bool" where
  "text_at m k t \<longleftrightarrow> jget m k = Some (JString t) \<or> (t = '''' \<and> (\<forall>u. jget m k \<noteq> Some (JString u)))"

definition reports_reserved ::
    "unstructured_object \<Rightarrow> string \<Rightarrow> string \<Rightarrow> string \<Rightarrow> string \<Rightarrow> string \<Rightarrow> string \<Rightarrow> bool" where
  "reports_reserved u name requester target cpu mem expiresAt \<longleftrightarrow>
     (\<exists>spec status resources.
        jget (u_Object u) ''spec'' = Some (JObject spec) \<and>
        jget (u_Object u) ''status'' = Some (JObject status) \<and>
        jget spec ''requestedResources'' = Some (JObject resources) \<and>
        jget status ''phase'' = Some (JString ''Reserved'') \<and>
        text_at (u_metadata u) ''name'' name \<and>
        text_at spec ''requesterID'' requester \<and> text_at spec ''targetClusterID'' target \<and>
        text_at resources ''cpu'' cpu \<and> text_at resources ''memory'' mem \<and>
        text_at status ''expiresAt'' expiresAt)"

lemma text_at_NestedString: "text_at m k (or_empty (NestedString m k))"
  by (auto simp: text_at_def or_empty_def NestedString_def split: option.splits json.splits)

lemma jobject_Some: "jobject m k = Some x \<longleftrightarrow> jget m k = Some (JObject x)"
  by (auto simp: jobject_def split: option.splits json.splits)

lemma watched_reports:
  assumes "watched_reservation cid ev = Some r"
  shows "ev_Object ev = Unstructured (wr_object r) \<and>
    reports_reserved (wr_object r) (GetName (wr_object r)) (requesterID r) (targetCluster r) (wr_cpu r) (wr_memory r)
      (wr_expiresAt r)"
proof -
  from assms obtain spec status resources where j: "ev_Object ev = Unstructured (wr_object r)"
      "jobject (u_Object (wr_object r)) ''spec'' = Some spec" "jobject (u_Object (wr_object r)) ''status'' = Some status"
      "jobject spec ''requestedResources'' = Some resources" "NestedString status ''phase'' = Some ''Reserved''"
    and r: "requesterID r = or_empty (NestedString spec ''requesterID'')"
      "targetCluster r = or_empty (NestedString spec ''targetClusterID'')"
      "wr_cpu r = or_empty (NestedString resources ''cpu'')" "wr_memory r = or_empty (NestedString resources ''memory'')"
      "wr_expiresAt r = or_empty (NestedString status ''expiresAt'')"
    by (auto simp: watched_reservation_def NestedMap_def Let_def bind_eq_Some_conv split: event_object.splits if_splits)
  have "jget status ''phase'' = Some (JString ''Reserved'')"
    using j(5) by (auto simp: NestedString_def split: option.splits json.splits)
  then show ?thesis
    using j(1-4)
    by (simp add: reports_reserved_def r GetName_def jobject_Some)
      (intro exI conjI; (assumption | rule text_at_NestedString))
qed

lemma reported_phase:
  assumes "reports_reserved u name requester target cpu mem expiresAt"
  shows "\<exists>status. jget (u_Object u) ''status'' = Some (JObject status) \<and>
    jget status ''phase'' = Some (JString ''Reserved'')"
  using assms unfolding reports_reserved_def by blast

text \<open>
  The specs a sequence of events may write, by key: those that tell what an event of it reports of a
  reservation with this cluster in the role.
\<close>

definition requester_source :: "'w ReservationWatcher \<Rightarrow> clocked_event list \<Rightarrow> namespaced_name \<Rightarrow> ReservationInstructionSpec \<Rightarrow> bool" where
  "requester_source wt es k s \<longleftrightarrow>
     (\<exists>e\<in>set es. \<exists>u name target cpu mem expiresAt. ev_Object (fst e) = Unstructured u \<and>
        reports_reserved u name (rw_ClusterID wt) target cpu mem expiresAt \<and>
        k = (or_default (rw_InstructionNamespace wt), name) \<and> tells_requester name target cpu mem expiresAt s)"

definition provider_source :: "'w ReservationWatcher \<Rightarrow> clocked_event list \<Rightarrow> namespaced_name \<Rightarrow> ProviderInstructionSpec \<Rightarrow> bool" where
  "provider_source wt es k s \<longleftrightarrow>
     (\<exists>e\<in>set es. \<exists>u name requester cpu mem expiresAt. ev_Object (fst e) = Unstructured u \<and>
        reports_reserved u name requester (rw_ClusterID wt) cpu mem expiresAt \<and>
        k = (or_default (rw_InstructionNamespace wt), name @ ''-provider'') \<and>
        tells_provider name requester cpu mem expiresAt s)"

lemma watched_sources:
  assumes "watched_reservation (rw_ClusterID wt) (fst e) = Some r"
  shows "requesterID r = rw_ClusterID wt \<Longrightarrow>
      requester_source wt [e] (watched_requester_key wt r) (wire_ri_spec (requester_spec_of r))"
    and "targetCluster r = rw_ClusterID wt \<Longrightarrow>
      provider_source wt [e] (watched_provider_key wt r) (wire_pi_spec (provider_spec_of r))"
  using watched_reports [OF assms]
  by (auto simp: requester_source_def provider_source_def watched_requester_key_def watched_provider_key_def
      intro!: watched_specs_tell exI)

context watcher_world begin

lemma event_rewrites:
  "rewritten (requester_source wt [e]) ri_Delivered (sri w) (sri (handle_event wt w e)) \<and>
   rewritten (provider_source wt [e]) pi_Enforced (spi w) (spi (handle_event wt w e))"
proof -
  obtain ev t1 t2 where e: "e = (ev, t1, t2)" by (cases e)
  show ?thesis
  proof (cases "watched_reservation (rw_ClusterID wt) ev")
    case None
    then show ?thesis by (simp add: e)
  next
    case (Some r)
    let ?w1 = "handle_requester wt t1 w r"
    note src = watched_sources [of wt e r]
    have "rewritten (requester_source wt [e]) ri_Delivered (sri w) (sri ?w1)"
      using handle_requester_effect [of r w t1] src(1) Some
      by (auto simp: e wire_ri_status_def reset_requester_def ReservationInstructionStatus_zero_def
          intro!: written_rewritten split: if_splits)
    moreover have "rewritten (provider_source wt [e]) pi_Enforced (spi ?w1) (spi (handle_provider wt t2 ?w1 r))"
      using handle_provider_effect [of r ?w1 t2] src(2) Some
      by (auto simp: e wire_pi_status_def reset_provider_def ProviderInstructionStatus_zero_def
          intro!: written_rewritten split: if_splits)
    ultimately show ?thesis using Some by (simp add: e handle_requester_frame handle_provider_frame)
  qed
qed

lemma events_rewrite:
  "rewritten (requester_source wt es) ri_Delivered (sri w) (sri (foldl (handle_event wt) w es)) \<and>
   rewritten (provider_source wt es) pi_Enforced (spi w) (spi (foldl (handle_event wt) w es))"
proof (induction es arbitrary: w)
  case Nil
  then show ?case by simp
next
  case (Cons e es)
  have "requester_source wt [e] \<le> requester_source wt (e # es)" "requester_source wt es \<le> requester_source wt (e # es)"
    "provider_source wt [e] \<le> provider_source wt (e # es)" "provider_source wt es \<le> provider_source wt (e # es)"
    by (auto simp: requester_source_def provider_source_def)
  then show ?case
    using event_rewrites [of e w] Cons [of "handle_event wt w e"]
    unfolding foldl_Cons by (blast intro: rewritten_step)
qed

end

section \<open>An instance\<close>

interpretation world_ri_pi: client_frame world_ri pi_objs
  by unfold_locales (simp_all add: world_ri_def lift_client_def lift_write_def split: prod.split)

interpretation world_pi_ri: client_frame world_pi ri_objs
  by unfold_locales (simp_all add: world_pi_def lift_client_def lift_write_def split: prod.split)

definition world_watcher :: "string \<Rightarrow> 'q agent_world ReservationWatcher" where
  "world_watcher cid =
     NewReservationWatcher
       (Some \<lparr>bc_Client = Some world_dynamic, bc_ClusterID = cid, Enabled = True, bc_Namespace = ''''\<rparr>)
       (Some \<lparr>lc_requester = world_ri, lc_provider = world_pi\<rparr>) ''''"

interpretation ww: watcher_world "world_watcher cid" "\<lparr>lc_requester = world_ri, lc_provider = world_pi\<rparr>" ri_objs pi_objs
  by (rule watcher_world.intro)
    (simp_all add: world_watcher_def NewReservationWatcher_def Let_def world_ri.api_server_axioms
      world_pi.api_server_axioms world_ri_pi.client_frame_axioms world_pi_ri.client_frame_axioms)

text \<open>A reservation as the broker's cluster holds it, for the reservation of a REST message.\<close>

definition broker_reservation :: "string \<Rightarrow> ReservationDTO \<Rightarrow> unstructured_object" where
  "broker_reservation version rsv =
     \<lparr>u_metadata = [(''name'', JString (rsv_ID rsv)), (''resourceVersion'', JString version)],
      u_Object =
        [(''spec'', JObject
            [(''requesterID'', JString (rsv_RequesterID rsv)), (''targetClusterID'', JString (rsv_TargetClusterID rsv)),
             (''requestedResources'', JObject
                [(''cpu'', JString (dto_CPU (rsv_RequestedResources rsv))),
                 (''memory'', JString (dto_Memory (rsv_RequestedResources rsv)))])]),
         (''status'', JObject
            ((''phase'', JString (rsv_Phase (rsv_Status rsv))) #
             (case rsv_ExpiresAt (rsv_Status rsv) of
                Some t \<Rightarrow> [(''expiresAt'', JString (Format 0 t))] | None \<Rightarrow> [])))]\<rparr>"

abbreviation reservation_event :: "event_type \<Rightarrow> ReservationDTO \<Rightarrow> watch_event" where
  "reservation_event ty rsv \<equiv> \<lparr>ev_Type = ty, ev_Object = Unstructured (broker_reservation ''7'' rsv)\<rparr>"

section \<open>Properties\<close>

text \<open>
  C14. When the watcher reports that it has written an instruction, exactly one object of that kind
  has changed, the one under the reservation's name (with the suffix for a provider); its spec says,
  field by field, what was read from the event; and its status is reset, whatever it was before:
  not delivered, or not enforced, updated at the time of the call, and for the requester with the
  resource version of the reservation.
\<close>

theorem watcher_upserts:
  assumes "watcher_world wt c sri spi" and "ns = or_default (rw_InstructionNamespace wt)"
  shows "(upsertRequesterInstruction wt c now w u cid cpu mem expiresAt = (None, w') \<longrightarrow>
      spi w' = spi w \<and>
      (\<exists>y. sri w' = (sri w)((ns, GetName u) \<mapsto> y) \<and> okey y = (ns, GetName u) \<and>
         tells_requester (GetName u) cid cpu mem expiresAt (Spec y) \<and>
         Status y = \<lparr>ri_ObservedReservationResourceVersion = GetResourceVersion u, ri_Delivered = False,
                     ri_LastUpdateTime = wire_time now\<rparr>)) \<and>
    (upsertProviderInstruction wt c now w u cid cpu mem expiresAt = (None, w') \<longrightarrow>
      sri w' = sri w \<and>
      (\<exists>y. spi w' = (spi w)((ns, GetName u @ ''-provider'') \<mapsto> y) \<and> okey y = (ns, GetName u @ ''-provider'') \<and>
         tells_provider (GetName u) cid cpu mem expiresAt (Spec y) \<and>
         Status y = \<lparr>pi_Enforced = False, pi_LastUpdateTime = wire_time now\<rparr>))"
proof -
  note servers = watcher_world.watcher_ri [OF assms(1)] watcher_world.watcher_pi [OF assms(1)]
  note frames = watcher_world.watcher_ri_frame [OF assms(1)] watcher_world.watcher_pi_frame [OF assms(1)]
  have status: "wire_ri_status (reset_requester v now t) =
      \<lparr>ri_ObservedReservationResourceVersion = v, ri_Delivered = False, ri_LastUpdateTime = wire_time now\<rparr>"
    "wire_pi_status (reset_provider now t') = \<lparr>pi_Enforced = False, pi_LastUpdateTime = wire_time now\<rparr>" for v t t'
    by (simp_all add: wire_ri_status_def reset_requester_def wire_pi_status_def reset_provider_def)
  show ?thesis
    unfolding upsertRequesterInstruction_def upsertProviderInstruction_def Let_def assms(2)
    using client_frame.upsert_keeps [OF frames(1)] client_frame.upsert_keeps [OF frames(2)]
      api_server.upsert_done [OF servers(1)] api_server.upsert_done [OF servers(2)]
      watched_specs_tell status
    unfolding put_with_def by metis
qed

text \<open>The world of the witness holds the provider's instruction, enforced; the event repeats the reservation.\<close>

definition held_pi :: ProviderInstruction where
  "held_pi =
     \<lparr>ObjectMeta = \<lparr>Name = ''rsv-1-provider'', Namespace = ''default'', ResourceVersion = ''1''\<rparr>,
      Spec = provider_spec sample_rsv, Status = \<lparr>pi_Enforced = True, pi_LastUpdateTime = 0\<rparr>\<rparr>"

definition held_world :: "int agent_world" where
  "held_world = (rome_world [])\<lparr>pi_part := server_with held_pi\<rparr>"

lemma held_world_pi: "pi_objs held_world (''default'', ''rsv-1-provider'') = Some held_pi"
  by (auto simp: held_pi_def held_world_def server_with_def okey_def)

theorem watcher_upserts_witness:
  "\<exists>w' y. upsertProviderInstruction (world_watcher ''rome'') \<lparr>lc_requester = world_ri, lc_provider = world_pi\<rparr>
       (5 * Second) held_world (broker_reservation ''7'' sample_rsv) ''paris'' ''2'' ''3''
       ''1970-01-01T00:01:40Z'' = (None, w') \<and>
     pi_objs held_world (''default'', ''rsv-1-provider'') = Some held_pi \<and> pi_Enforced (Status held_pi) \<and>
     pi_objs w' (''default'', ''rsv-1-provider'') = Some y \<and> \<not> pi_Enforced (Status y) \<and>
     pi_LastUpdateTime (Status y) = 5 * Second \<and> pi_ExpiresAt (Spec y) = Some (100 * Second)"
proof -
  let ?u = "upsertProviderInstruction (world_watcher ''rome'') \<lparr>lc_requester = world_ri, lc_provider = world_pi\<rparr>
       (5 * Second) held_world (broker_reservation ''7'' sample_rsv) ''paris'' ''2'' ''3''
       ''1970-01-01T00:01:40Z''"
  have "fst ?u = None" by code_simp
  then obtain w' where h: "?u = (None, w')" by (metis prod.collapse)
  have k: "GetName (broker_reservation ''7'' sample_rsv) = ''rsv-1''"
    "or_default (rw_InstructionNamespace (world_watcher ''rome'')) = ''default''"
    by code_simp+
  have x: "stored_expiry ''1970-01-01T00:01:40Z'' = Some (100 * Second)" by code_simp
  show ?thesis
    using watcher_upserts [OF ww.watcher_world_axioms refl, THEN conjunct2, rule_format, OF h] h x held_world_pi
    by (auto simp: k tells_provider_def wire_time_def held_pi_def time_defs)
qed

text \<open>
  C13. What a whole run of the watcher can do to the local objects, with stale reads, failing writes
  and any sequence of broken watches: it removes no instruction, gives an instruction no spec but
  what an event of the run reports, in its JSON form, of a reservation in the phase \<^verbatim>\<open>Reserved\<close> that
  has this cluster's ID in the role the instruction stands for, under the name of that reservation;
  and it never sets the flag \<^verbatim>\<open>Delivered\<close> or \<^verbatim>\<open>Enforced\<close>.
\<close>

theorem watcher_run:
  assumes "watcher_world wt c sri spi" and "watcher_Start wt watches w = (ended, ds, w')"
  shows "rewritten (requester_source wt (watch_events (watches (or_default (rw_BrokerNamespace wt)))))
      ri_Delivered (sri w) (sri w') \<and>
    rewritten (provider_source wt (watch_events (watches (or_default (rw_BrokerNamespace wt)))))
      pi_Enforced (spi w) (spi w')"
proof (cases "rw_Enabled wt")
  case True
  with assms(2) have "w' = foldl (handle_event wt) w (watch_events (watches (or_default (rw_BrokerNamespace wt))))"
    using watch_loop_world [of wt first_watch_backoff 0 "watches (or_default (rw_BrokerNamespace wt))" w]
    by (simp add: watcher_Start_def Let_def)
  then show ?thesis using watcher_world.events_rewrite [OF assms(1)] by simp
next
  case False
  with assms(2) show ?thesis by (simp add: watcher_Start_def)
qed

theorem watcher_run_witness:
  "\<exists>ended ds w'. watcher_Start (world_watcher ''rome'') (\<lambda>ns. [WatchError ''refused'',
       Watching [(reservation_event Added (sample_rsv\<lparr>rsv_Status := (rsv_Status sample_rsv)\<lparr>rsv_Phase := ''Pending''\<rparr>\<rparr>), 1, 2)]])
       held_world = (ended, ds, w') \<and>
     (\<exists>y. pi_objs w' (''default'', ''rsv-1-provider'') = Some y \<and> Spec y = Spec held_pi)"
proof -
  let ?rsv = "sample_rsv\<lparr>rsv_Status := (rsv_Status sample_rsv)\<lparr>rsv_Phase := ''Pending''\<rparr>\<rparr>"
  let ?ev = "reservation_event Added ?rsv"
  let ?is = "[WatchError ''refused'', Watching [(?ev, 1, 2)]]"
  obtain ended ds w' where h: "watcher_Start (world_watcher ''rome'') (\<lambda>ns. ?is) held_world = (ended, ds, w')"
    by (metis prod.exhaust)
  have "\<not> reports_reserved (broker_reservation v ?rsv) name requester target cpu mem expiresAt"
    for v name requester target cpu mem expiresAt
    using reported_phase [of "broker_reservation v ?rsv"] by (simp add: broker_reservation_def) blast
  then have none: "\<not> provider_source (world_watcher ''rome'' :: int agent_world ReservationWatcher) [(?ev, 1, 2)] k s" for k s
    unfolding provider_source_def by simp
  have "watch_events ?is = [(?ev, 1, 2)]" by simp
  with watcher_run [OF ww.watcher_world_axioms h] none have r: "dom (pi_objs held_world) \<subseteq> dom (pi_objs w')"
    "\<And>k y. pi_objs w' k = Some y \<Longrightarrow> \<exists>x. pi_objs held_world k = Some x \<and> Spec x = Spec y"
    unfolding rewritten_def by (simp_all only:) blast+
  from r(1) held_world_pi obtain y where y: "pi_objs w' (''default'', ''rsv-1-provider'') = Some y" by blast
  with r(2) [OF this] held_world_pi have "Spec y = Spec held_pi" by simp
  with y h show ?thesis by blast
qed

text \<open>The failures to open a watch in a row at the end of a sequence of inputs.\<close>

definition is_failure :: "watch_input \<Rightarrow> bool" where
  "is_failure i = (case i of WatchError e \<Rightarrow> True | _ \<Rightarrow> False)"

definition failures_at_end :: "watch_input list \<Rightarrow> nat" where
  "failures_at_end is = length (takeWhile is_failure (rev is))"

lemma failures_at_end_Nil [simp]: "failures_at_end [] = 0"
  by (simp add: failures_at_end_def)

lemma failures_at_end_all: "list_all is_failure xs \<Longrightarrow> failures_at_end xs = length xs"
  by (simp add: failures_at_end_def takeWhile_eq_all_conv [THEN iffD2] list_all_iff)

lemma failures_at_end_Cons:
  "failures_at_end (x # xs) =
     (if list_all is_failure xs \<and> is_failure x then Suc (length xs) else failures_at_end xs)"
proof (cases "list_all is_failure xs")
  case True
  with failures_at_end_all [OF True] show ?thesis by (simp add: failures_at_end_def takeWhile_append list_all_iff)
next
  case False
  then show ?thesis by (auto simp: failures_at_end_def takeWhile_append list_all_iff)
qed

definition watch_pause :: "nat \<Rightarrow> duration" where
  "watch_pause n = min (2 ^ n * Second) (60 * Second)"

lemma watch_pause_0: "watch_pause 0 = first_watch_backoff"
  by (simp add: watch_pause_def first_watch_backoff_def time_defs)

lemma watch_pause_Suc: "next_backoff max_watch_backoff (watch_pause n) = watch_pause (Suc n)"
  by (auto simp: next_backoff_def max_watch_backoff_def watch_pause_def Let_def min_def time_defs)

text \<open>
  The pauses of a loop that starts after \<open>n\<close> failures in a row: one per input up to the end of the
  context.
\<close>

lemma watch_loop_pauses:
  assumes "watch_loop wt (watch_pause n) m is w = (ended, ds, w')"
  shows "length ds = length (takeWhile (\<lambda>i. i \<noteq> Cancelled) is) \<and> (ended \<longleftrightarrow> Cancelled \<in> set is) \<and>
    (\<forall>i < length ds. ds ! i =
       (if is_failure (is ! i)
        then watch_pause (if list_all is_failure (take i is) then n + i else failures_at_end (take i is))
        else Second))"
  using assms
proof (induction "is" arbitrary: n m w ended ds w')
  case Nil
  then show ?case by simp
next
  case (Cons x xs)
  show ?case
  proof (cases x)
    case Cancelled
    with Cons.prems show ?thesis by simp
  next
    case (WatchError e)
    with Cons.prems obtain ds1 where r: "watch_loop wt (watch_pause (Suc n)) (Suc m) xs w = (ended, ds1, w')"
      and ds: "ds = watch_pause n # ds1"
      by (auto simp: watch_pause_Suc split: prod.splits)
    have "ds ! i = (if is_failure ((x # xs) ! i)
        then watch_pause (if list_all is_failure (take i (x # xs)) then n + i else failures_at_end (take i (x # xs)))
        else Second)" if "i < length ds" for i
      using that Cons.IH [OF r] WatchError ds
      by (cases i) (auto simp: is_failure_def failures_at_end_Cons)
    with Cons.IH [OF r] WatchError ds show ?thesis by auto
  next
    case (Watching es)
    with Cons.prems obtain ds1 where
        r: "watch_loop wt (watch_pause 0) 0 xs (foldl (handle_event wt) w es) = (ended, ds1, w')"
      and ds: "ds = Second # ds1"
      by (auto simp: watch_pause_0 split: prod.splits)
    have nf: "\<not> is_failure x" using Watching by (simp add: is_failure_def)
    have "failures_at_end (take i xs) = i" if "list_all is_failure (take i xs)" "i < length ds1" for i
    proof -
      have "length ds1 \<le> length xs" using Cons.IH [OF r] by (simp add: length_takeWhile_le)
      with that show ?thesis by (simp add: failures_at_end_all)
    qed
    then have "ds ! i = (if is_failure ((x # xs) ! i)
        then watch_pause (if list_all is_failure (take i (x # xs)) then n + i else failures_at_end (take i (x # xs)))
        else Second)" if "i < length ds" for i
      using that Cons.IH [OF r] nf ds
      by (cases i) (auto simp: failures_at_end_Cons)
    with Cons.IH [OF r] Watching ds show ?thesis by auto
  qed
qed

text \<open>
  C30. The pauses of the watcher. It pauses once after each input until its context ends: one second
  after a watch that was opened and closed, and after a failure to open one
  \<open>min (2 ^ k) 60\<close> seconds, where \<open>k\<close> counts the failures in a row right before it.
\<close>

theorem watch_backoff:
  assumes "rw_Enabled wt" and "watcher_Start wt watches w = (ended, ds, w')"
    and "is = watches (or_default (rw_BrokerNamespace wt))"
  shows "length ds = length (takeWhile (\<lambda>i. i \<noteq> Cancelled) is) \<and>
    (\<forall>i < length ds. ds ! i =
       (if is_failure (is ! i) then min (2 ^ failures_at_end (take i is) * Second) (60 * Second) else Second))"
proof -
  have r: "watch_loop wt (watch_pause 0) 0 is w = (ended, ds, w')"
    using assms by (simp add: watcher_Start_def watch_pause_0 Let_def)
  note p = watch_loop_pauses [OF r]
  have "length ds \<le> length is" using p by (simp add: length_takeWhile_le)
  then have "failures_at_end (take i is) = i" if "list_all is_failure (take i is)" "i < length ds" for i
    using that by (simp add: failures_at_end_all)
  with p show ?thesis by (auto simp: watch_pause_def)
qed

theorem watch_backoff_witness:
  "case watcher_Start (world_watcher ''rome'') (\<lambda>ns. replicate 8 (WatchError ''refused'')) (rome_world []) of
     (ended, ds, w') \<Rightarrow> ds ! 4 = 16 * Second \<and> ds ! 7 = 60 * Second"
proof -
  let ?is = "replicate 8 (WatchError ''refused'')"
  obtain ended ds w' where h: "watcher_Start (world_watcher ''rome'') (\<lambda>ns. ?is) (rome_world []) = (ended, ds, w')"
    by (metis prod.exhaust)
  have "rw_Enabled (world_watcher ''rome'')" by (simp add: world_watcher_def NewReservationWatcher_def Let_def)
  from watch_backoff [OF this h refl] show ?thesis
    unfolding h by (simp add: is_failure_def failures_at_end_def time_defs)
qed

text \<open>
  C31. The watcher ends exactly when its context does: a disabled one at once, an enabled one never by
  itself, whatever the watches deliver.
\<close>

theorem watcher_ends:
  "fst (watcher_Start wt watches w) \<longleftrightarrow>
     rw_Enabled wt = False \<or> Cancelled \<in> set (watches (or_default (rw_BrokerNamespace wt)))"
proof (cases "rw_Enabled wt")
  case True
  obtain ended ds w' where r: "watch_loop wt (watch_pause 0) 0 (watches (or_default (rw_BrokerNamespace wt))) w = (ended, ds, w')"
    by (metis prod.exhaust)
  from watch_loop_pauses [OF r] True r show ?thesis by (simp add: watcher_Start_def watch_pause_0 Let_def)
next
  case False
  then show ?thesis by (simp add: watcher_Start_def)
qed

text \<open>
  C15. Both transports deliver the same instructions. A reservation in the phase \<^verbatim>\<open>Reserved\<close> that
  concerns this cluster and whose expiry, if any, has a year of four digits makes the watcher write
  the specs and keys, in either role, that the poller makes of the REST message for it, whatever the
  type of the event.
\<close>

theorem watcher_agrees_with_poller:
  assumes "rsv_Phase (rsv_Status rsv) = ''Reserved''"
    and "rsv_RequesterID rsv = rw_ClusterID wt \<or> rsv_TargetClusterID rsv = rw_ClusterID wt"
    and "\<forall>t. rsv_ExpiresAt (rsv_Status rsv) = Some t \<longrightarrow>
      (case civil_from_days (t div Second div 86400) of (y, m, d) \<Rightarrow> 0 \<le> y \<and> y \<le> 9999)"
    and "ns = rw_InstructionNamespace wt" and "ns \<noteq> ''''"
  shows "\<exists>r. watched_reservation (rw_ClusterID wt) \<lparr>ev_Type = ty, ev_Object = Unstructured (broker_reservation v rsv)\<rparr> = Some r \<and>
    requesterID r = rsv_RequesterID rsv \<and> targetCluster r = rsv_TargetClusterID rsv \<and>
    watched_requester_key wt r = requester_key ns rsv \<and> watched_provider_key wt r = provider_key ns rsv \<and>
    wire_ri_spec (requester_spec_of r) = wire_ri_spec (requester_spec rsv) \<and>
    wire_pi_spec (provider_spec_of r) = wire_pi_spec (provider_spec rsv)"
proof -
  have e: "map_option wire_time (expiry_of (Format 0 t)) = Some (wire_time t)"
    if "rsv_ExpiresAt (rsv_Status rsv) = Some t" for t
  proof -
    obtain y m d where c: "civil_from_days (t div Second div 86400) = (y, m, d)" by (metis prod.exhaust)
    with assms(3) that have "0 \<le> y" "y \<le> 9999" by auto
    then have "ParseRFC3339 (Format 0 t) = Some (wire_time t)"
      using time_text_roundtrip [of t 0 y m d] c by simp
    moreover have "Format 0 t \<noteq> ''''" by (simp add: Format_def Let_def split: prod.splits)
    ultimately show ?thesis by (simp add: expiry_of_def)
  qed
  show ?thesis
    using assms(1,2,4,5) e
    by (auto simp: watched_reservation_def broker_reservation_def NestedMap_def NestedString_def jobject_def or_empty_def
        GetName_def watched_requester_key_def watched_provider_key_def requester_key_def provider_key_def or_default_def
        watched_requester_spec_def watched_provider_spec_def requester_spec_def provider_spec_def wire_ri_spec_def
        wire_pi_spec_def convertTimePtr_def expiry_of_def Let_def split: option.splits)
qed


theorem watcher_agrees_with_poller_witness:
  "\<exists>r. watched_reservation ''rome'' (reservation_event Deleted sample_rsv) = Some r \<and>
     wire_pi_spec (provider_spec_of r) = wire_pi_spec (provider_spec sample_rsv)"
proof -
  let ?wt = "world_watcher ''rome'' :: int agent_world ReservationWatcher"
  have wt: "rw_ClusterID ?wt = ''rome''" "rw_InstructionNamespace ?wt = ''default''"
    by (simp_all add: world_watcher_def NewReservationWatcher_def Let_def)
  have r: "rsv_Phase (rsv_Status sample_rsv) = ''Reserved''" "rsv_TargetClusterID sample_rsv = rw_ClusterID ?wt"
    "rsv_ExpiresAt (rsv_Status sample_rsv) = Some (100 * Second)"
    by (simp_all add: sample_rsv_def wt)
  have "civil_from_days (100 * Second div Second div 86400) = (1970, 1, 1)" by code_simp
  then have e: "\<forall>t. rsv_ExpiresAt (rsv_Status sample_rsv) = Some t \<longrightarrow>
      (case civil_from_days (t div Second div 86400) of (y, m, d) \<Rightarrow> 0 \<le> y \<and> y \<le> 9999)"
    by (simp add: r(3))
  have "''default'' \<noteq> ''''" by simp
  from watcher_agrees_with_poller [OF r(1) disjI2 [OF r(2)] e wt(2) [symmetric] this] show ?thesis
    unfolding wt by blast
qed

end
