(* ===== verification/Agent_Main.thy ===== *)
theory Agent_Main
  imports Advertisement_Controller Reservation_Watcher
begin

text \<open>
  What \<^verbatim>\<open>cmd/main.go\<close> decides before the manager runs: the cluster's ID, the namespace of the
  instructions, the options of the manager and its servers, the advertisement that has to exist, the
  transport and which background loops are started. The flags are a record; the certificate files,
  the kubeconfig, the clients that are built from them and the answers of controller-runtime to the
  calls that set the manager up are the environment. Leaving with \<^verbatim>\<open>os.Exit(1)\<close> is the left side of
  a sum, with the message that is logged.
\<close>

section \<open>Flags\<close>

record agent_flags =
  metricsAddr :: string
  metricsCertPath :: string
  metricsCertName :: string
  metricsCertKey :: string
  webhookCertPath :: string
  webhookCertName :: string
  webhookCertKey :: string
  enableLeaderElection :: bool
  probeAddr :: string
  secureMetrics :: bool
  enableHTTP2 :: bool
  brokerKubeconfig :: string
  brokerTransport :: string
  brokerURL :: string
  brokerCertPath :: string
  clusterIDFlag :: string
  advertisementName :: string
  advertisementNamespace :: string
  flag_instructionNamespace :: string
  brokerNamespace :: string
  advertisementRequeueInterval :: duration

definition default_flags :: agent_flags where
  "default_flags =
     \<lparr>metricsAddr = ''0'', metricsCertPath = '''', metricsCertName = ''tls.crt'', metricsCertKey = ''tls.key'',
      webhookCertPath = '''', webhookCertName = ''tls.crt'', webhookCertKey = ''tls.key'',
      enableLeaderElection = False, probeAddr = '':8081'', secureMetrics = True, enableHTTP2 = False,
      brokerKubeconfig = '''', brokerTransport = '''', brokerURL = '''', brokerCertPath = '''',
      clusterIDFlag = '''', advertisementName = ''cluster-advertisement'',
      advertisementNamespace = ''default'', flag_instructionNamespace = '''', brokerNamespace = ''default'',
      advertisementRequeueInterval = 30 * Second\<rparr>"

definition effective_instructionNamespace :: "agent_flags \<Rightarrow> string" where
  "effective_instructionNamespace f =
     (if flag_instructionNamespace f = '''' then advertisementNamespace f else flag_instructionNamespace f)"

definition effective_clusterID :: "agent_flags \<Rightarrow> api_error + string \<Rightarrow> string + string" where
  "effective_clusterID f kube_system =
     (if clusterIDFlag f = '''' then
        (case kube_system of
           Inl e \<Rightarrow> Inl ''failed to read kube-system namespace for cluster-id''
         | Inr uid \<Rightarrow> Inr uid)
      else Inr (clusterIDFlag f))"

section \<open>The options of the manager\<close>

text \<open>
  Of a TLS configuration the one field the agent sets is kept. The options of the two servers are
  one record; a field that a server does not have keeps its zero value.
\<close>

record tls_config =
  NextProtos :: "string list"

record server_options =
  BindAddress :: string
  SecureServing :: bool
  TLSOpts :: "(tls_config \<Rightarrow> tls_config) list"
  FilterProvider :: bool \<comment> \<open>authentication and authorisation of requests\<close>
  CertDir :: string
  CertName :: string
  KeyName :: string

definition disableHTTP2 :: "tls_config \<Rightarrow> tls_config" where
  "disableHTTP2 c = c\<lparr>NextProtos := [''http/1.1'']\<rparr>"

definition tls_options :: "agent_flags \<Rightarrow> (tls_config \<Rightarrow> tls_config) list" where
  "tls_options f = (if \<not> enableHTTP2 f then [] @ [disableHTTP2] else [])"

definition webhookServerOptions :: "agent_flags \<Rightarrow> server_options" where
  "webhookServerOptions f =
     (let o' = \<lparr>BindAddress = '''', SecureServing = False, TLSOpts = tls_options f, FilterProvider = False,
                CertDir = '''', CertName = '''', KeyName = ''''\<rparr>
      in if 0 < length (webhookCertPath f)
         then o'\<lparr>CertDir := webhookCertPath f, CertName := webhookCertName f, KeyName := webhookCertKey f\<rparr>
         else o')"

definition metricsServerOptions :: "agent_flags \<Rightarrow> server_options" where
  "metricsServerOptions f =
     (let o1 = \<lparr>BindAddress = metricsAddr f, SecureServing = secureMetrics f, TLSOpts = tls_options f,
                FilterProvider = False, CertDir = '''', CertName = '''', KeyName = ''''\<rparr>;
          o2 = (if secureMetrics f then o1\<lparr>FilterProvider := True\<rparr> else o1)
      in if 0 < length (metricsCertPath f)
         then o2\<lparr>CertDir := metricsCertPath f, CertName := metricsCertName f, KeyName := metricsCertKey f\<rparr>
         else o2)"

record manager_options =
  mgr_Metrics :: server_options
  mgr_WebhookServer :: server_options
  HealthProbeBindAddress :: string
  LeaderElection :: bool
  LeaderElectionID :: string

definition manager_options_of :: "agent_flags \<Rightarrow> manager_options" where
  "manager_options_of f =
     \<lparr>mgr_Metrics = metricsServerOptions f, mgr_WebhookServer = webhookServerOptions f,
      HealthProbeBindAddress = probeAddr f, LeaderElection = enableLeaderElection f,
      LeaderElectionID = ''e90c6511.fluidos.eu''\<rparr>"

text \<open>The configuration a server ends with: its options are applied in order.\<close>

definition served_protocols :: "server_options \<Rightarrow> tls_config \<Rightarrow> string list" where
  "served_protocols s c = NextProtos (foldl (\<lambda>c o'. o' c) c (TLSOpts s))"

lemma servers_without_http2:
  assumes "\<not> enableHTTP2 f"
  shows "served_protocols (metricsServerOptions f) c = [''http/1.1'']"
    and "served_protocols (webhookServerOptions f) c = [''http/1.1'']"
  using assms by (simp_all add: served_protocols_def metricsServerOptions_def webhookServerOptions_def tls_options_def
      disableHTTP2_def Let_def)

lemma secure_metrics_are_filtered:
  "SecureServing (metricsServerOptions f) = secureMetrics f"
  "FilterProvider (metricsServerOptions f) = secureMetrics f"
  by (simp_all add: metricsServerOptions_def Let_def)

section \<open>The advertisement that has to exist\<close>

definition defaultResourceMetrics :: "'q quantity_ops \<Rightarrow> 'q ResourceMetrics" where
  "defaultResourceMetrics qo =
     (let zeroQuantities = \<lparr>CPU = NewQuantity qo 0 DecimalSI, Memory = NewQuantity qo 0 BinarySI,
                            GPU = None, Storage = None\<rparr>
      in \<lparr>Capacity = zeroQuantities, Allocatable = zeroQuantities, Allocated = zeroQuantities, Used = None,
          Available = zeroQuantities\<rparr>)"

definition new_advertisement ::
    "'q quantity_ops \<Rightarrow> go_time \<Rightarrow> string \<Rightarrow> string \<Rightarrow> string \<Rightarrow> 'q Advertisement" where
  "new_advertisement qo now ns name cid =
     \<lparr>ObjectMeta = new_meta (ns, name),
      Spec = \<lparr>adv_ClusterID = cid, adv_Resources = defaultResourceMetrics qo, adv_Cost = None,
              adv_Timestamp = now\<rparr>,
      Status = AdvertisementStatus_zero\<rparr>"

definition ensureAdvertisementExists ::
    "'q quantity_ops \<Rightarrow> ('w, 'q AdvertisementSpec, AdvertisementStatus) client_ops \<Rightarrow> go_time \<Rightarrow> 'w
       \<Rightarrow> string \<Rightarrow> string \<Rightarrow> string \<Rightarrow> api_error option \<times> 'w" where
  "ensureAdvertisementExists qo C now w ns name cid =
     (case Get C w (ns, name) of
        Inr x \<Rightarrow> (None, w)
      | Inl e \<Rightarrow>
          if \<not> IsNotFound e then (Some e, w)
          else (case Create C w (new_advertisement qo now ns name cid) of
                  (Inl e, w') \<Rightarrow> (Some e, w')
                | (Inr y, w') \<Rightarrow> (None, w')))"

section \<open>The transport\<close>

text \<open>The files and the clients made from them.\<close>

record ('w, 'c) startup_env =
  LoadX509KeyPair :: "string \<Rightarrow> string \<Rightarrow> string option" \<comment> \<open>the error, if any\<close>
  ReadFile :: "string \<Rightarrow> string + string"
  AppendCertsFromPEM :: "string \<Rightarrow> bool"
  network :: "'w http_env"
  kubernetes :: "('w, 'c) kube_env"
  bootstrap_client :: "string option" \<comment> \<open>the error of \<^verbatim>\<open>client.New\<close>, if any\<close>
  NewManager :: "manager_options \<Rightarrow> string option"
  register_controller :: "string \<Rightarrow> string option"
  AddHealthzCheck :: "string \<Rightarrow> string option"
  AddReadyzCheck :: "string \<Rightarrow> string option"

definition NewHTTPCommunicator ::
    "('w, 'c) startup_env \<Rightarrow> string \<Rightarrow> string \<Rightarrow> string \<Rightarrow> string + HTTPCommunicator" where
  "NewHTTPCommunicator env url certPath cid =
     (case LoadX509KeyPair env (Join certPath ''tls.crt'') (Join certPath ''tls.key'') of
        Some e \<Rightarrow> Inl (''failed to load client certificate: '' @ e)
      | None \<Rightarrow>
          (case ReadFile env (Join certPath ''ca.crt'') of
             Inl e \<Rightarrow> Inl (''failed to load CA certificate: '' @ e)
           | Inr caCert \<Rightarrow>
               if \<not> AppendCertsFromPEM env caCert then Inl ''failed to append CA certificate''
               else Inr \<lparr>baseURL = url, clusterID = cid, maxRetries = 3\<rparr>))"

definition NewCommunicator ::
    "('w, 'c) startup_env \<Rightarrow> string \<Rightarrow> string \<Rightarrow> string \<Rightarrow> string \<Rightarrow> string \<Rightarrow> string + 'w BrokerCommunicator" where
  "NewCommunicator env transportType url kubeconfig certPath cid =
     (if transportType = ''http'' then
        (if url = '''' then Inl ''broker-url is required for HTTP transport''
         else if certPath = '''' then Inl ''broker-cert-path is required for HTTP transport''
         else case NewHTTPCommunicator env url certPath cid of
                Inl e \<Rightarrow> Inl e
              | Inr c \<Rightarrow> Inr (http_communicator c (network env)))
      else if transportType = ''kubernetes''
        then Inl ''kubernetes transport not yet implemented (coming in future iteration)''
      else Inl (''unknown transport type: '' @ transportType @ '' (supported: http, kubernetes)''))"

definition effective_transport :: "agent_flags \<Rightarrow> string" where
  "effective_transport f =
     (if brokerKubeconfig f \<noteq> '''' \<and> brokerTransport f = '''' then ''kubernetes'' else brokerTransport f)"

text \<open>The brokers of the agent: the legacy client and the communicator, either may be \<^verbatim>\<open>nil\<close>.\<close>

definition select_transport ::
    "('w, 'c) startup_env \<Rightarrow> agent_flags \<Rightarrow> string
       \<Rightarrow> string + ('w BrokerClient option \<times> 'w BrokerCommunicator option)" where
  "select_transport env f cid =
     (let t = effective_transport f
      in if t \<noteq> '''' then
           (if t = ''http'' then
              (case NewCommunicator env t (brokerURL f) (brokerKubeconfig f) (brokerCertPath f) cid of
                 Inl e \<Rightarrow> Inl ''failed to create HTTP broker communicator''
               | Inr com \<Rightarrow> Inr (None, Some com))
            else if t = ''kubernetes'' then
              (case NewBrokerClient (kubernetes env) (brokerKubeconfig f) cid (brokerNamespace f) of
                 Inl e \<Rightarrow> Inl ''failed to create broker client''
               | Inr bc \<Rightarrow> Inr (Some bc, None))
            else Inl ''Unknown broker transport'')
         else Inr (None, None))"

section \<open>Start-up\<close>

text \<open>What runs: the advertisement reconciler, and the watcher or the poller.\<close>

record ('w, 'q) agent =
  reconciler :: "('w, 'q) AdvertisementReconciler"
  watcher :: "'w ReservationWatcher option"
  poller :: "'w ReservationPoller option"

text \<open>
  The client of the bootstrap, which reads from the server itself, and the manager's client, which
  reads from a cache: one value in Go, its typed faces here.
\<close>

record ('w, 'q) agent_clients =
  boot_client :: "('w, 'q) manager_client"
  mgr_client :: "('w, 'q) manager_client"
  mgr_requester :: "('w, ReservationInstructionSpec, ReservationInstructionStatus) client_ops"
  mgr_provider :: "('w, ProviderInstructionSpec, ProviderInstructionStatus) client_ops"

definition build_agent ::
    "('w, 'q) agent_clients \<Rightarrow> agent_flags \<Rightarrow> string \<Rightarrow> 'w BrokerClient option \<Rightarrow> 'w BrokerCommunicator option
       \<Rightarrow> ('w, 'q) agent" where
  "build_agent k f cid bc com =
     \<lparr>reconciler =
        SetupWithManager (Some cid)
          \<lparr>Client = mgr_client k,
           MetricsCollector = \<lparr>col_Client = mgr_client k, ClusterIDOverride = cid\<rparr>,
           BrokerClient = bc, BrokerCommunicator = com,
           TargetKey = (advertisementNamespace f, advertisementName f),
           RequeueInterval = advertisementRequeueInterval f\<rparr>,
      watcher =
        (case bc of
           Some b \<Rightarrow>
             if Enabled b
             then Some (NewReservationWatcher bc (Some \<lparr>lc_requester = mgr_requester k, lc_provider = mgr_provider k\<rparr>)
                          (effective_instructionNamespace f))
             else None
         | None \<Rightarrow> None),
      poller =
        (case com of
           Some c \<Rightarrow>
             if effective_transport f = ''http''
             then Some (NewReservationPoller c cid (30 * Second) (mgr_requester k)
                          (mgr_provider k) (effective_instructionNamespace f))
             else None
         | None \<Rightarrow> None)\<rparr>"

text \<open>
  What the three controllers are registered for: a change of an object of their own kind asks for
  its reconciliation, a change of a node or a pod for that of the advertisement.
\<close>

datatype changed_object =
    ChangedAdvertisement namespaced_name
  | ChangedProviderInstruction namespaced_name
  | ChangedReservationInstruction namespaced_name
  | ChangedNode
  | ChangedPod

definition advertisement_requests :: "('w, 'q) AdvertisementReconciler \<Rightarrow> changed_object \<Rightarrow> namespaced_name list" where
  "advertisement_requests r c =
     (case c of
        ChangedAdvertisement key \<Rightarrow> [key]
      | ChangedNode \<Rightarrow> findAdvertisementsForNode r
      | ChangedPod \<Rightarrow> findAdvertisementsForPod r
      | _ \<Rightarrow> [])"

definition provider_requests :: "changed_object \<Rightarrow> namespaced_name list" where
  "provider_requests c = (case c of ChangedProviderInstruction key \<Rightarrow> [key] | _ \<Rightarrow> [])"

definition reservation_requests :: "changed_object \<Rightarrow> namespaced_name list" where
  "reservation_requests c = (case c of ChangedReservationInstruction key \<Rightarrow> [key] | _ \<Rightarrow> [])"

text \<open>
  The calls that hand the controllers and the health checks to the manager, in order, with the
  message of the first that fails.
\<close>

fun first_failure :: "(string option \<times> string) list \<Rightarrow> string option" where
  "first_failure [] = None"
| "first_failure ((e, msg) # cs) = (case e of Some s \<Rightarrow> Some msg | None \<Rightarrow> first_failure cs)"

definition registration_failure :: "('w, 'c) startup_env \<Rightarrow> string option" where
  "registration_failure env =
     first_failure
       [(register_controller env ''Advertisement'', ''unable to create controller''),
        (register_controller env ''ProviderInstruction'', ''unable to create controller''),
        (register_controller env ''ReservationInstruction'', ''unable to create controller''),
        (AddHealthzCheck env ''healthz'', ''unable to set up health check''),
        (AddReadyzCheck env ''readyz'', ''unable to set up ready check'')]"

text \<open>
  The right side is the agent whose manager is started. The two background loops are started just
  before the health checks are added; when that fails the process ends with them.
\<close>

definition main ::
    "'q quantity_ops \<Rightarrow> ('w, 'c) startup_env \<Rightarrow> ('w, 'q) agent_clients \<Rightarrow> agent_flags \<Rightarrow> go_time \<Rightarrow> 'w
       \<Rightarrow> (string + ('w, 'q) agent) \<times> 'w" where
  "main qo env k f now w =
     (case bootstrap_client env of
        Some e \<Rightarrow> (Inl ''failed to create bootstrap client'', w)
      | None \<Rightarrow>
     (case effective_clusterID f (get_kube_system (cluster (boot_client k) w)) of
        Inl e \<Rightarrow> (Inl e, w)
      | Inr cid \<Rightarrow>
     (case NewManager env (manager_options_of f) of
        Some e \<Rightarrow> (Inl ''unable to start manager'', w)
      | None \<Rightarrow>
     (case ensureAdvertisementExists qo (advertisements (boot_client k)) now w (advertisementNamespace f)
             (advertisementName f) cid of
        (Some e, w') \<Rightarrow> (Inl ''unable to bootstrap advertisement resource'', w')
      | (None, w') \<Rightarrow>
     (case select_transport env f cid of
        Inl e \<Rightarrow> (Inl e, w')
      | Inr (bc, com) \<Rightarrow>
     (case registration_failure env of
        Some msg \<Rightarrow> (Inl msg, w')
      | None \<Rightarrow> (Inr (build_agent k f cid bc com), w')))))))"

section \<open>Properties\<close>

text \<open>What the advertisement of a cluster looks like that nobody has measured yet.\<close>

definition unmeasured ::
    "('q \<Rightarrow> int) \<Rightarrow> string \<Rightarrow> go_time \<Rightarrow> 'q AdvertisementSpec \<Rightarrow> bool" where
  "unmeasured qval cid now s \<longleftrightarrow>
     adv_ClusterID s = cid \<and> adv_Timestamp s = wire_time now \<and> adv_Cost s = None \<and>
     Used (adv_Resources s) = None \<and>
     list_all (\<lambda>part. qval (CPU (part (adv_Resources s))) = 0 \<and> qval (Memory (part (adv_Resources s))) = 0 \<and>
                      GPU (part (adv_Resources s)) = None \<and> Storage (part (adv_Resources s)) = None)
       [Capacity, Allocatable, Allocated, Available]"

context quantity begin

lemma new_advertisement_unmeasured:
  "unmeasured qval cid now (wire_adv_spec qo (Spec (new_advertisement qo now ns name cid)))"
  by (simp add: unmeasured_def new_advertisement_def defaultResourceMetrics_def wire_adv_spec_def
      wire_metrics_def wire_quantities_def Let_def val_NewQuantity)

end

text \<open>
  C28. The bootstrap of the advertisement never touches one that exists: when the read finds it,
  nothing is done. When the read fails for any reason but "not found", its error is returned and
  nothing is done either. When there is none, one object of that name is created, and the error, if
  any, is the one of this call; after success, or if the call took effect though it failed, the new
  advertisement is there, with the agent's cluster ID, the time of the start in whole seconds, no
  cost, no usage, zero CPU and memory in each of its four parts, no GPU and no storage, and the
  empty status, and no other advertisement has changed.
\<close>

theorem ensure_advertisement:
  assumes "quantity qo qval"
    and "api_server C stored (wire_adv_spec qo) wire_adv_status AdvertisementStatus_zero"
    and "ensureAdvertisementExists qo C now w ns name cid = (e, w')"
  shows "case Get C w (ns, name) of
      Inr x \<Rightarrow> e = None \<and> w' = w
    | Inl err \<Rightarrow>
        if \<forall>msg. err \<noteq> NotFound msg then e = Some err \<and> w' = w
        else
          (\<exists>x res. Create C w x = (res, w') \<and> okey x = (ns, name) \<and>
             e = (case res of Inl f \<Rightarrow> Some f | Inr y \<Rightarrow> None)) \<and>
          ((stored w' = stored w \<and> e \<noteq> None) \<or>
           (\<exists>y. stored w (ns, name) = None \<and> stored w' = (stored w)((ns, name) \<mapsto> y) \<and>
              unmeasured qval cid now (Spec y) \<and> Status y = AdvertisementStatus_zero))"
proof (cases "Get C w (ns, name)")
  case (Inr x)
  with assms(3) show ?thesis by (simp add: ensureAdvertisementExists_def)
next
  case (Inl err)
  show ?thesis
  proof (cases "IsNotFound err")
    case False
    with Inl assms(3) show ?thesis by (cases err) (simp_all add: ensureAdvertisementExists_def)
  next
    case True
    let ?x = "new_advertisement qo now ns name cid"
    have k: "okey ?x = (ns, name)" by (simp add: new_advertisement_def)
    obtain res where c: "Create C w ?x = (res, w')" and e: "e = (case res of Inl f \<Rightarrow> Some f | Inr y \<Rightarrow> None)"
      using Inl True assms(3) by (auto simp: ensureAdvertisementExists_def split: prod.splits sum.splits)
    from c have "(stored w' = stored w \<and> e \<noteq> None) \<or>
        (\<exists>y. created stored (wire_adv_spec qo) AdvertisementStatus_zero w ?x w' y)"
      by (cases rule: api_server.create_outcome [OF assms(2)]) (auto simp: e)
    with quantity.new_advertisement_unmeasured [OF assms(1), of cid now ns name]
    have "(stored w' = stored w \<and> e \<noteq> None) \<or>
           (\<exists>y. stored w (ns, name) = None \<and> stored w' = (stored w)((ns, name) \<mapsto> y) \<and>
              unmeasured qval cid now (Spec y) \<and> Status y = AdvertisementStatus_zero)"
      by (auto simp: created_def k)
    moreover have "\<exists>x res. Create C w x = (res, w') \<and> okey x = (ns, name) \<and>
        e = (case res of Inl f \<Rightarrow> Some f | Inr y \<Rightarrow> None)"
      using c e k by blast
    moreover obtain msg where "err = NotFound msg" using True by (cases err) auto
    ultimately show ?thesis using Inl by (simp only: sum.case api_error.inject) simp
  qed
qed

definition no_advertisement :: "(int AdvertisementSpec, AdvertisementStatus) mem_server" where
  "no_advertisement = empty_server"

theorem ensure_advertisement_witness:
  "\<exists>w' y. ensureAdvertisementExists nano_ops (mem_client (wire_adv_spec nano_ops) wire_adv_status
           AdvertisementStatus_zero) 5 no_advertisement ''default'' ''adv'' ''rome'' = (None, w') \<and>
        mem_objs w' (''default'', ''adv'') = Some y \<and> adv_ClusterID (Spec y) = ''rome'' \<and>
        CPU (Available (adv_Resources (Spec y))) = 0"
proof -
  let ?C = "mem_client (wire_adv_spec nano_ops) wire_adv_status AdvertisementStatus_zero"
  have g: "Get ?C no_advertisement (''default'', ''adv'') = Inl (NotFound ''not found'')"
    by (simp add: mem_client_def no_advertisement_def empty_server_def)
  have "fst (ensureAdvertisementExists nano_ops ?C 5 no_advertisement ''default'' ''adv'' ''rome'') = None"
    by (simp add: ensureAdvertisementExists_def g)
      (simp add: mem_client_def no_advertisement_def empty_server_def mem_put_def Let_def)
  then obtain w' where h:
      "ensureAdvertisementExists nano_ops ?C 5 no_advertisement ''default'' ''adv'' ''rome'' = (None, w')"
    by (metis prod.collapse)
  show ?thesis using ensure_advertisement [OF nano.quantity_axioms mem.api_server_axioms h] h g
    by (auto simp: unmeasured_def)
qed

lemma new_broker_client:
  "NewBrokerClient env kubeconfig cid ns = Inr b \<Longrightarrow>
   (Enabled b \<longleftrightarrow> kubeconfig \<noteq> '''') \<and> (Enabled b \<longrightarrow> bc_Client b \<noteq> None \<and> bc_ClusterID b = cid)"
  by (auto simp: NewBrokerClient_def split: if_splits sum.splits)

lemma main_runs:
  assumes "main qo env k f now w = (Inr a, w')"
  obtains cid bc com where "select_transport env f cid = Inr (bc, com)" "a = build_agent k f cid bc com"
  using assms by (auto simp: main_def split: option.splits sum.splits prod.splits)

lemma select_transport_cases:
  assumes "select_transport env f cid = Inr (bc, com)"
  obtains (none) "effective_transport f = ''''" "bc = None" "com = None"
    | (http) c where "effective_transport f = ''http''" "bc = None" "com = Some c" "brokerURL f \<noteq> ''''"
        "brokerCertPath f \<noteq> ''''"
    | (kubernetes) b where "effective_transport f = ''kubernetes''" "com = None" "bc = Some b"
        "Enabled b \<longleftrightarrow> brokerKubeconfig f \<noteq> ''''" "Enabled b \<Longrightarrow> bc_Client b \<noteq> None \<and> bc_ClusterID b = cid"
  using assms
  by (auto simp: select_transport_def NewCommunicator_def Let_def dest: new_broker_client split: sum.splits if_splits)

lemma build_agent_id: "cid \<noteq> '''' \<Longrightarrow> own_cluster_id (reconciler (build_agent k f cid bc com)) v = Inr cid"
  by (simp add: build_agent_def SetupWithManager_def GetClusterID_def)

lemma build_agent_brokers:
  "BrokerClient (reconciler (build_agent k f cid bc com)) = bc"
  "BrokerCommunicator (reconciler (build_agent k f cid bc com)) = com"
  by (simp_all add: build_agent_def SetupWithManager_def)

text \<open>
  A change of the cluster leads to the advertisement that the bootstrap has seen to; a change of a
  provider instruction, which changes the figures as well, does not lead to one.
\<close>

lemma node_change_reconciles_bootstrapped:
  "advertisementName f \<noteq> '''' \<Longrightarrow>
     advertisement_requests (reconciler (build_agent k f cid bc com)) ChangedNode =
       [(advertisementNamespace f, advertisementName f)]"
  "advertisementName f \<noteq> '''' \<Longrightarrow>
     advertisement_requests (reconciler (build_agent k f cid bc com)) ChangedPod =
       [(advertisementNamespace f, advertisementName f)]"
  "advertisement_requests r (ChangedProviderInstruction key) = []"
  by (simp_all add: advertisement_requests_def findAdvertisementsForNode_def findAdvertisementsForPod_def
      build_agent_def SetupWithManager_def)

text \<open>
  C29. What a start that succeeds sets up. There is at most one way to the broker. The poller runs
  exactly with the HTTP transport, which needs a URL and a certificate path; then no watcher runs,
  its interval is positive, it works in the namespace the flags give, and it asks for the
  reservations of the very cluster ID the reconciler advertises. The watcher runs exactly with the
  Kubernetes transport and a kubeconfig; it is enabled, has a client of the broker and of the local
  cluster, and looks for the reservations of the advertised cluster ID. Without a transport nothing
  talks to a broker.
\<close>

theorem main_set_up:
  assumes "main qo env k f now w = (Inr a, w')"
  shows "(BrokerClient (reconciler a) = None \<or> BrokerCommunicator (reconciler a) = None) \<and>
    (effective_transport f = '''' \<longrightarrow>
       BrokerClient (reconciler a) = None \<and> BrokerCommunicator (reconciler a) = None) \<and>
    (watcher a \<noteq> None \<longleftrightarrow> effective_transport f = ''kubernetes'' \<and> brokerKubeconfig f \<noteq> '''') \<and>
    (\<forall>v. watcher a = Some v \<longrightarrow>
       rw_Enabled v \<and> rw_Client v \<noteq> None \<and>
       LocalClient v = Some \<lparr>lc_requester = mgr_requester k, lc_provider = mgr_provider k\<rparr> \<and>
       rw_InstructionNamespace v = or_default (effective_instructionNamespace f) \<and>
       (rw_ClusterID v \<noteq> '''' \<longrightarrow> (\<forall>u. own_cluster_id (reconciler a) u = Inr (rw_ClusterID v)))) \<and>
    (poller a \<noteq> None \<longleftrightarrow> effective_transport f = ''http'') \<and>
    (\<forall>p. poller a = Some p \<longrightarrow>
       brokerURL f \<noteq> '''' \<and> brokerCertPath f \<noteq> '''' \<and> watcher a = None \<and> 0 < po_interval p \<and>
       instructionNamespace p = effective_instructionNamespace f \<and>
       Some (communicator p) = BrokerCommunicator (reconciler a) \<and>
       (po_clusterID p \<noteq> '''' \<longrightarrow> (\<forall>v. own_cluster_id (reconciler a) v = Inr (po_clusterID p))))"
proof -
  obtain cid bc com where s: "select_transport env f cid = Inr (bc, com)" and a: "a = build_agent k f cid bc com"
    using main_runs [OF assms] .
  have w: "watcher a = (case bc of Some b \<Rightarrow> if Enabled b
      then Some (NewReservationWatcher bc (Some \<lparr>lc_requester = mgr_requester k, lc_provider = mgr_provider k\<rparr>)
        (effective_instructionNamespace f)) else None | None \<Rightarrow> None)"
    and p: "poller a = (case com of
         Some c \<Rightarrow> if effective_transport f = ''http''
                   then Some (NewReservationPoller c cid (30 * Second) (mgr_requester k) (mgr_provider k)
                                (effective_instructionNamespace f)) else None
       | None \<Rightarrow> None)"
    by (simp_all add: a build_agent_def)
  note b = build_agent_brokers [of k f cid bc com, folded a] and i = build_agent_id [of cid k f bc com, folded a]
  from s show ?thesis
  proof (cases rule: select_transport_cases)
    case none
    then show ?thesis by (simp add: b w p)
  next
    case (http c)
    then show ?thesis by (simp add: b w p i NewReservationPoller_def time_defs)
  next
    case (kubernetes b')
    then show ?thesis by (auto simp: b w p i NewReservationWatcher_def or_default_def Let_def)
  qed
qed

definition http_flags :: agent_flags where
  "http_flags =
     default_flags\<lparr>brokerTransport := ''http'', brokerURL := ''https://broker:8443'', brokerCertPath := ''/certs'',
                   clusterIDFlag := ''rome''\<rparr>"

definition sample_startup :: "(int agent_world, unit) startup_env" where
  "sample_startup =
     \<lparr>LoadX509KeyPair = (\<lambda>c k. None), ReadFile = (\<lambda>f. Inr ''pem''), AppendCertsFromPEM = (\<lambda>s. True),
      network = world_env sample_communicator, kubernetes = \<lparr>UserHomeDir = Inr ''/root'', BuildConfigFromFlags = (\<lambda>p. Inr ()),
        NewForConfig = (\<lambda>c. Inr world_dynamic)\<rparr>,
      bootstrap_client = None, NewManager = (\<lambda>o'. None), register_controller = (\<lambda>s. None),
      AddHealthzCheck = (\<lambda>s. None), AddReadyzCheck = (\<lambda>s. None)\<rparr>"

definition sample_clients :: "(int agent_world, int) agent_clients" where
  "sample_clients =
     \<lparr>boot_client = \<lparr>advertisements = world_adv nano_ops, cluster = world_reads [] sample_reads\<rparr>,
      mgr_client = \<lparr>advertisements = world_adv nano_ops, cluster = world_reads [] sample_reads\<rparr>,
      mgr_requester = world_ri, mgr_provider = world_pi\<rparr>"

lemma sample_start:
  "\<exists>a w'. main nano_ops sample_startup sample_clients http_flags 5 (adv_world 0) = (Inr a, w')"
proof -
  have "Get (world_adv nano_ops) (adv_world 0) (''default'', ''cluster-advertisement'') = Inr sample_adv"
    using adv_world_get [of sample_reads 0] by simp
  then have e: "ensureAdvertisementExists nano_ops (world_adv nano_ops) 5 (adv_world 0) ''default''
      ''cluster-advertisement'' ''rome'' = (None, adv_world 0)"
    by (simp add: ensureAdvertisementExists_def)
  have "\<exists>c. select_transport sample_startup http_flags ''rome'' = Inr (None, Some c)"
    by (simp add: select_transport_def effective_transport_def http_flags_def default_flags_def NewCommunicator_def
        NewHTTPCommunicator_def sample_startup_def)
  moreover have "bootstrap_client sample_startup = None" "NewManager sample_startup = (\<lambda>o'. None)"
    "registration_failure sample_startup = None"
    by (simp_all add: sample_startup_def registration_failure_def)
  ultimately show ?thesis
    using e by (auto simp: main_def effective_clusterID_def sample_clients_def http_flags_def default_flags_def)
qed

theorem main_set_up_witness:
  "\<exists>a w' p. main nano_ops sample_startup sample_clients http_flags 5 (adv_world 0) = (Inr a, w') \<and>
     poller a = Some p \<and> watcher a = None \<and> instructionNamespace p = ''default''"
proof -
  obtain a w' where h: "main nano_ops sample_startup sample_clients http_flags 5 (adv_world 0) = (Inr a, w')"
    using sample_start by blast
  have "effective_transport http_flags = ''http''" "effective_instructionNamespace http_flags = ''default''"
    by (simp_all add: effective_transport_def effective_instructionNamespace_def http_flags_def default_flags_def)
  then show ?thesis using main_set_up [OF h] h by auto
qed

end
