(* ===== verification/Agent_System.thy ===== *)
theory Agent_System
  imports Agent_Main
begin

text \<open>
  The agent as a whole: what \<^verbatim>\<open>main\<close> has started runs as a step relation on the clock and the world,
  in which the poller, the watcher, the three controllers and everybody else take turns in any
  order. A step is one call of a handler. Reads may be stale, so that a handler that reads, is
  overtaken by others and then writes is one of these interleavings: its write carries the version
  it has read. What happens between two writes of one call is not interleaved with others. The clock
  does not go back.

  The reconciler of provider instructions takes two steps, as time may pass between them: it reads
  the clock, and later it writes with this reading. A reading that has been taken and not yet used
  is in flight. Everybody else may do anything to the world at any time, to the provider
  instructions too: create them from a file, edit them, enforce them, remove them.

  The last two parts of the state are ghosts that log where instructions come from: those, by key,
  that the broker has asked for so far, in an answer to a poll or in an event of a watch; and those
  that others have left in a state the agent has not given them.
\<close>

section \<open>The step relation\<close>

record 'w agent_state =
  clock :: go_time
  world :: 'w
  checks :: "(namespaced_name \<times> go_time) set" \<comment> \<open>readings in flight\<close>
  asked :: "(namespaced_name \<times> ProviderInstructionSpec) set"
  foreign :: "(namespaced_name \<times> ProviderInstruction) set"

definition poll_asks ::
    "'w ReservationPoller \<Rightarrow> Role \<Rightarrow> 'w \<Rightarrow> (namespaced_name \<times> ProviderInstructionSpec) set" where
  "poll_asks p role w =
     (if role = RoleProvider then
        (\<lambda>r. (provider_key (instructionNamespace p) r, wire_pi_spec (provider_spec r))) `
          (case fst (com_FetchReservations (communicator p) w (po_clusterID p) RoleProvider) of
             Inl e \<Rightarrow> {} | Inr rs \<Rightarrow> reserved_in rs)
      else {})"

definition watch_asks ::
    "'w ReservationWatcher \<Rightarrow> clocked_event \<Rightarrow> (namespaced_name \<times> ProviderInstructionSpec) set" where
  "watch_asks v e = {(key, s). provider_source v [e] key s}"

text \<open>What a change by others leaves behind; \<open>m\<close> and \<open>m'\<close> are the objects before and after.\<close>

definition foreign_change ::
    "(namespaced_name \<rightharpoonup> ProviderInstruction) \<Rightarrow> (namespaced_name \<rightharpoonup> ProviderInstruction)
       \<Rightarrow> (namespaced_name \<times> ProviderInstruction) set" where
  "foreign_change m m' = {(key, y). m' key = Some y \<and> m key \<noteq> Some y}"

inductive agent_step ::
    "'q quantity_ops \<Rightarrow> ('w, 'q) agent_clients \<Rightarrow> ('w, 'q) agent
       \<Rightarrow> ('w \<Rightarrow> namespaced_name \<rightharpoonup> ProviderInstruction) \<Rightarrow> 'w agent_state \<Rightarrow> 'w agent_state \<Rightarrow> bool"
  for qo k a spi where
    time: "clock s \<le> t \<Longrightarrow> agent_step qo k a spi s (s\<lparr>clock := t\<rparr>)"
  | polls: "poller a = Some p \<Longrightarrow> role = RoleRequester \<or> role = RoleProvider \<Longrightarrow>
      pollAndProcess p (world s) role = (out, w') \<Longrightarrow>
      agent_step qo k a spi s (s\<lparr>world := w', asked := asked s \<union> poll_asks p role (world s)\<rparr>)"
  | watches: "watcher a = Some v \<Longrightarrow>
      agent_step qo k a spi s
        (s\<lparr>world := handle_event v (world s) e, asked := asked s \<union> watch_asks v e\<rparr>)"
  | reads_clock: "agent_step qo k a spi s (s\<lparr>checks := insert (key, clock s) (checks s)\<rparr>)"
  | enforces: "(key, now_check rd) \<in> checks s \<Longrightarrow>
      ProviderInstruction_Reconcile (mgr_provider k) rd (world s) key = (out, w') \<Longrightarrow>
      agent_step qo k a spi s (s\<lparr>world := w', checks := checks s - {(key, now_check rd)}\<rparr>)"
  | delivers: "ReservationInstruction_Reconcile (mgr_requester k) rd (world s) key = (out, w') \<Longrightarrow>
      agent_step qo k a spi s (s\<lparr>world := w'\<rparr>)"
  | advertises: "Reconcile qo (reconciler a) ard (world s) key = (out, w') \<Longrightarrow>
      agent_step qo k a spi s (s\<lparr>world := w'\<rparr>)"
  | outside: "agent_step qo k a spi s
      (s\<lparr>world := w', foreign := foreign s \<union> foreign_change (spi (world s)) (spi w')\<rparr>)"

inductive_cases agent_stepE: "agent_step qo k a spi s s'"

abbreviation agent_run where
  "agent_run qo k a spi \<equiv> (agent_step qo k a spi)\<^sup>*\<^sup>*"

section \<open>What the agent relies on\<close>

text \<open>
  The local API serves both kinds of instructions and keeps them apart from each other and from
  advertisements; and talking to the broker changes none of them. Nothing is assumed of others.
\<close>

locale agent_system =
  fixes k :: "('w, 'q) agent_clients"
    and a :: "('w, 'q) agent"
    and sri :: "'w \<Rightarrow> namespaced_name \<rightharpoonup> ReservationInstruction"
    and spi :: "'w \<Rightarrow> namespaced_name \<rightharpoonup> ProviderInstruction"
  assumes built: "\<exists>f cid bc com. a = build_agent k f cid bc com"
    and sys_ri: "api_server (mgr_requester k) sri wire_ri_spec wire_ri_status ReservationInstructionStatus_zero"
    and sys_pi: "api_server (mgr_provider k) spi wire_pi_spec wire_pi_status ProviderInstructionStatus_zero"
    and sys_ri_frame: "client_frame (mgr_requester k) spi"
    and sys_pi_frame: "client_frame (mgr_provider k) sri"
    and sys_adv_frame: "client_frame (advertisements (mgr_client k)) spi"
    and sys_brokers: "quiet_brokers (reconciler a) (\<lambda>w. (sri w, spi w))"
begin

lemma agent_client: "Client (reconciler a) = mgr_client k"
  using built by (auto simp: build_agent_def SetupWithManager_def)

lemma agent_poller:
  assumes "poller a = Some p"
  shows "localRequester p = mgr_requester k" and "localProvider p = mgr_provider k"
    and "BrokerCommunicator (reconciler a) = Some (communicator p)"
proof -
  obtain f cid bc com where a: "a = build_agent k f cid bc com" using built by blast
  then obtain c where "com = Some c" "p = NewReservationPoller c cid (30 * Second) (mgr_requester k) (mgr_provider k)
      (effective_instructionNamespace f)"
    using assms by (simp add: build_agent_def split: option.splits if_splits)
  then show "localRequester p = mgr_requester k" "localProvider p = mgr_provider k"
      "BrokerCommunicator (reconciler a) = Some (communicator p)"
    by (simp_all add: NewReservationPoller_def a build_agent_brokers)
qed

lemma agent_watcher:
  assumes "watcher a = Some v"
  shows "LocalClient v = Some \<lparr>lc_requester = mgr_requester k, lc_provider = mgr_provider k\<rparr>"
proof -
  obtain f cid bc com where a: "a = build_agent k f cid bc com" using built by blast
  then obtain b where "bc = Some b" "v = NewReservationWatcher bc
      (Some \<lparr>lc_requester = mgr_requester k, lc_provider = mgr_provider k\<rparr>) (effective_instructionNamespace f)"
    using assms by (auto simp: build_agent_def split: option.splits if_splits)
  then show ?thesis by (simp add: NewReservationWatcher_def Let_def)
qed

lemma the_poller_world:
  assumes "poller a = Some p"
  shows "poller_world p sri spi"
  unfolding poller_world_def agent_poller [OF assms]
  using sys_ri sys_pi client_frame.create_frame [OF sys_ri_frame] client_frame.create_frame [OF sys_pi_frame]
    quiet_brokers.communicator_frame [OF sys_brokers agent_poller(3) [OF assms]]
  by blast

lemma the_watcher_world:
  "watcher a = Some v \<Longrightarrow> watcher_world v \<lparr>lc_requester = mgr_requester k, lc_provider = mgr_provider k\<rparr> sri spi"
  using agent_watcher [of v] sys_ri sys_pi sys_ri_frame sys_pi_frame by (simp add: watcher_world_def)

lemma quiet_pi: "quiet_brokers (reconciler a) spi"
  using quiet_brokers.communicator_frame [OF sys_brokers] quiet_brokers.legacy_frame [OF sys_brokers]
  by (fastforce simp: quiet_brokers_def broker_frame_def dynamic_frame_def)

text \<open>
  What a step does to a provider instruction that is there afterwards. Its spec was there, or the
  broker has asked for it (\<open>A\<close>), or others have left it so (\<open>F\<close>). It is enforced only if it was, or
  others have left it so, or it was still valid at one of the readings \<open>U\<close>.
\<close>

definition sound_change ::
    "(namespaced_name \<times> ProviderInstructionSpec) set \<Rightarrow> (namespaced_name \<times> ProviderInstruction) set
       \<Rightarrow> (namespaced_name \<times> go_time) set \<Rightarrow> (namespaced_name \<rightharpoonup> ProviderInstruction)
       \<Rightarrow> (namespaced_name \<rightharpoonup> ProviderInstruction) \<Rightarrow> bool" where
  "sound_change A F U m m' \<longleftrightarrow>
     (\<forall>key y. m' key = Some y \<longrightarrow>
        ((\<exists>x. m key = Some x \<and> Spec x = Spec y) \<or> (key, Spec y) \<in> A \<or> (key, y) \<in> F) \<and>
        (pi_Enforced (Status y) \<longrightarrow>
           (\<exists>x. m key = Some x \<and> pi_Enforced (Status x)) \<or> (key, y) \<in> F \<or>
           (\<exists>u. (key, u) \<in> U \<and> \<not> expired (pi_ExpiresAt (Spec y)) u)))"

lemma sound_change_refl [simp]: "sound_change A F U m m"
  by (auto simp: sound_change_def)

lemma sound_change_mono:
  "sound_change A F U m m' \<Longrightarrow> A \<subseteq> A' \<Longrightarrow> F \<subseteq> F' \<Longrightarrow> U \<subseteq> U' \<Longrightarrow> sound_change A' F' U' m m'"
  unfolding sound_change_def by blast

lemma poll_sound:
  assumes "poller a = Some p" and "role = RoleRequester \<or> role = RoleProvider"
    and "pollAndProcess p w role = (out, w')"
  shows "sound_change (poll_asks p role w) {} {} (spi w) (spi w') \<and> spi w \<subseteq>\<^sub>m spi w'"
proof (cases "role = RoleProvider")
  case True
  with poller_world.provider_poll [OF the_poller_world [OF assms(1)]] assms(3)
  have ad: "adds_only (spi w) (spi w') (provider_key (instructionNamespace p)) (\<lambda>r. wire_pi_spec (provider_spec r))
      ProviderInstructionStatus_zero
      (case fst (com_FetchReservations (communicator p) w (po_clusterID p) RoleProvider) of
         Inl e \<Rightarrow> {} | Inr rs \<Rightarrow> reserved_in rs)" by blast
  then have le: "spi w \<subseteq>\<^sub>m spi w'" by (simp add: adds_only_def)
  have "((\<exists>x. spi w key = Some x \<and> Spec x = Spec y) \<or> (key, Spec y) \<in> poll_asks p role w) \<and>
      (pi_Enforced (Status y) \<longrightarrow> (\<exists>x. spi w key = Some x \<and> pi_Enforced (Status x)))"
    if y: "spi w' key = Some y" for key y
  proof (cases "spi w key")
    case None
    obtain r where r: "r \<in> (case fst (com_FetchReservations (communicator p) w (po_clusterID p) RoleProvider) of
         Inl e \<Rightarrow> {} | Inr rs \<Rightarrow> reserved_in rs)" "key = provider_key (instructionNamespace p) r"
      "Spec y = wire_pi_spec (provider_spec r)" "Status y = ProviderInstructionStatus_zero"
      by (rule adds_only_new [OF ad y None])
    with True show ?thesis by (auto simp: poll_asks_def ProviderInstructionStatus_zero_def)
  next
    case (Some x)
    with le y have "x = y" by (metis domI map_le_def option.inject)
    with Some show ?thesis by blast
  qed
  with le show ?thesis by (auto simp: sound_change_def)
next
  case False
  with poller_world.requester_poll [OF the_poller_world [OF assms(1)]] assms(2,3) show ?thesis by auto
qed

lemma watch_sound:
  assumes "watcher a = Some v"
  shows "sound_change (watch_asks v e) {} {} (spi w) (spi (handle_event v w e))"
  using watcher_world.event_rewrites [OF the_watcher_world [OF assms], of e w]
  by (auto simp: sound_change_def rewritten_def watch_asks_def)

lemma enforce_sound:
  assumes "ProviderInstruction_Reconcile (mgr_provider k) rd w key = (out, w')"
  shows "sound_change {} {} {(key, now_check rd)} (spi w) (spi w') \<and>
    (\<forall>i x y. spi w i = Some x \<and> spi w' i = Some y \<longrightarrow> Spec x = Spec y)"
  using flag_reconciler.rec_effect [OF provider_contract [OF sys_pi], of rd w key] assms
  by (fastforce simp: sound_change_def split: if_splits)

lemma others_quiet:
  "ReservationInstruction_Reconcile (mgr_requester k) rd w key = (out, w') \<Longrightarrow> spi w' = spi w"
  "Reconcile qo (reconciler a) ard w key = (out', w') \<Longrightarrow> spi w' = spi w"
  using reservation_reconcile_frame [OF sys_ri_frame, of rd w key]
    quiet_brokers.reconcile_frame [OF quiet_pi, of qo ard w key] sys_adv_frame
  by (simp_all add: agent_client)

lemma foreign_sound: "sound_change {} (foreign_change m m') {} m m'"
  by (auto simp: sound_change_def foreign_change_def)

lemma step_sound:
  assumes "agent_step qo k a spi s s'"
  shows "clock s \<le> clock s' \<and> asked s \<subseteq> asked s' \<and> foreign s \<subseteq> foreign s' \<and>
    checks s' \<subseteq> checks s \<union> {(key, clock s) | key. True} \<and>
    sound_change (asked s') (foreign s') (checks s) (spi (world s)) (spi (world s'))"
  using assms
proof cases
  case (polls p role out w')
  with poll_sound [OF polls(2-4)] show ?thesis by (auto elim: sound_change_mono)
next
  case (watches v e)
  with watch_sound [OF watches(2), of e "world s"] show ?thesis by (auto elim: sound_change_mono)
next
  case (enforces key rd out w')
  with enforce_sound [OF enforces(3)] show ?thesis by (auto elim: sound_change_mono)
next
  case (outside w')
  with foreign_sound [of "spi (world s)" "spi w'"] show ?thesis by (auto elim: sound_change_mono)
qed (auto simp: others_quiet)

text \<open>Without the watcher, only others change the spec of an instruction that stays.\<close>

lemma step_keeps_spec:
  assumes "agent_step qo k a spi s s'" and "watcher a = None"
    and "spi (world s) key = Some x" and "spi (world s') key = Some y"
  shows "Spec x = Spec y \<or> (key, y) \<in> foreign s'"
  using assms(1)
proof cases
  case (polls p role out w')
  with poll_sound [OF polls(2-4)] assms(3,4) show ?thesis by (auto simp: map_le_def dest!: bspec)
next
  case (enforces i rd out w')
  with conjunct2 [OF enforce_sound [OF enforces(3)]] assms(3,4) show ?thesis by fastforce
next
  case (outside w')
  with assms(3,4) show ?thesis by (auto simp: foreign_change_def)
qed (use assms others_quiet in auto)

lemma run_origin:
  assumes "agent_run qo k a spi s s'" and "spi (world s') key = Some y"
  shows "(\<exists>x. spi (world s) key = Some x \<and> Spec x = Spec y) \<or> (key, Spec y) \<in> asked s' \<or>
    (\<exists>z. (key, z) \<in> foreign s' \<and> Spec z = Spec y)"
  using assms
proof (induction arbitrary: y rule: rtranclp_induct)
  case (step s1 s2)
  note sound = step_sound [OF step.hyps(2)]
  with step.prems consider x where "spi (world s1) key = Some x" "Spec x = Spec y"
    | "(key, Spec y) \<in> asked s2" | "(key, y) \<in> foreign s2"
    unfolding sound_change_def by blast
  then show ?case
  proof cases
    case 1
    with step.IH [OF 1(1)] sound show ?thesis by auto
  qed blast+
qed blast

definition late_holds :: "go_time \<Rightarrow> namespaced_name \<Rightarrow> 'w agent_state \<Rightarrow> bool" where
  "late_holds t key s \<longleftrightarrow>
     (\<forall>y. spi (world s) key = Some y \<and> pi_Enforced (Status y) \<and> expired (pi_ExpiresAt (Spec y)) t \<longrightarrow>
        (\<exists>z. (key, z) \<in> foreign s \<and> pi_Enforced (Status z) \<and> Spec z = Spec y))"

lemma step_late_holds:
  assumes "agent_step qo k a spi s s'" and "watcher a = None"
    and "\<forall>u. (key, u) \<in> checks s \<longrightarrow> t \<le> u" and "late_holds t key s"
  shows "late_holds t key s'"
  unfolding late_holds_def
proof (intro allI impI)
  note sound = step_sound [OF assms(1)]
  fix y
  assume y: "spi (world s') key = Some y \<and> pi_Enforced (Status y) \<and> expired (pi_ExpiresAt (Spec y)) t"
  with sound consider x where "spi (world s) key = Some x" "pi_Enforced (Status x)" | "(key, y) \<in> foreign s'"
    | u where "(key, u) \<in> checks s" "\<not> expired (pi_ExpiresAt (Spec y)) u"
    unfolding sound_change_def by blast
  then show "\<exists>z. (key, z) \<in> foreign s' \<and> pi_Enforced (Status z) \<and> Spec z = Spec y"
  proof cases
    case x: 1
    with step_keeps_spec [OF assms(1,2) x(1)] y consider "Spec x = Spec y" | "(key, y) \<in> foreign s'" by blast
    then show ?thesis
    proof cases
      case 1
      with y have "expired (pi_ExpiresAt (Spec x)) t" by simp
      with x assms(4) obtain z where "(key, z) \<in> foreign s" "pi_Enforced (Status z)" "Spec z = Spec x"
        unfolding late_holds_def by blast
      with 1 sound show ?thesis by auto
    qed (use y in blast)
  next
    case 3
    then have "t \<le> u" using assms(3) by blast
    with 3 y show ?thesis by (auto simp: expired_def Before_def split: option.splits)
  qed (use y in blast)
qed

lemma run_late_holds:
  assumes "agent_run qo k a spi s s'" and "watcher a = None" and "t \<le> clock s"
    and "\<forall>u. (key, u) \<in> checks s \<longrightarrow> t \<le> u" and "late_holds t key s"
  shows "t \<le> clock s' \<and> (\<forall>u. (key, u) \<in> checks s' \<longrightarrow> t \<le> u) \<and> late_holds t key s'"
  using assms
proof (induction rule: rtranclp_induct)
  case (step s1 s2)
  then have IH: "t \<le> clock s1" "\<forall>u. (key, u) \<in> checks s1 \<longrightarrow> t \<le> u" "late_holds t key s1" by blast+
  note sound = step_sound [OF step.hyps(2)]
  have "t \<le> u" if "(key, u) \<in> checks s2" for u
    using sound that IH(1,2) by blast
  moreover have "t \<le> clock s2" using sound IH(1) by simp
  ultimately show ?case using step_late_holds [OF step.hyps(2) assms(2) IH(2,3)] by blast
qed simp

end

section \<open>An instance\<close>

text \<open>The agent that the sample start sets up.\<close>

definition http_agent :: "(int agent_world, int) agent" where
  "http_agent = build_agent sample_clients http_flags ''rome'' None
     (Some (http_communicator sample_communicator (world_env sample_communicator)))"

interpretation world_adv_pi: client_frame "world_adv qo" pi_objs
  by unfold_locales (simp_all add: world_adv_def lift_client_def lift_write_def split: prod.split)

interpretation http_system: agent_system sample_clients http_agent ri_objs pi_objs
proof (rule agent_system.intro)
  show "\<exists>f cid bc com. http_agent = build_agent sample_clients f cid bc com" unfolding http_agent_def by blast
  show "quiet_brokers (reconciler http_agent) (\<lambda>w. (ri_objs w, pi_objs w))"
    by (rule quiet_brokers.intro) (auto simp: http_agent_def build_agent_brokers broker_frame_def)
qed (simp_all add: sample_clients_def world_ri.api_server_axioms world_pi.api_server_axioms
    world_ri_pi.client_frame_axioms world_pi_ri.client_frame_axioms world_adv_pi.client_frame_axioms)

section \<open>Properties\<close>

text \<open>
  C5. No instruction without an origin. However the calls of the agent's parts and the changes by
  others interleave, with either transport, every provider instruction that exists at the end of a
  run has the spec of an instruction of its key at the start of the run; or the key and the spec of
  a reservation that the broker has reported to this cluster as its provider; or the spec of an
  instruction of its key that others have created or changed. The agent makes up none.
\<close>

theorem every_instruction_has_origin:
  assumes "agent_system k a sri spi" and "agent_run qo k a spi s s'"
    and "spi (world s') key = Some y"
  shows "(\<exists>x. spi (world s) key = Some x \<and> Spec x = Spec y) \<or> (key, Spec y) \<in> asked s' \<or>
    (\<exists>z. (key, z) \<in> foreign s' \<and> Spec z = Spec y)"
  using agent_system.run_origin [OF assms] .

definition start_state :: "go_time \<Rightarrow> int agent_world agent_state" where
  "start_state t = \<lparr>clock = t, world = rome_world [Some sample_rsv], checks = {}, asked = {}, foreign = {}\<rparr>"

lemma http_poller: "poller http_agent = Some rome_poller"
  by (simp add: http_agent_def build_agent_def effective_transport_def effective_instructionNamespace_def http_flags_def
      default_flags_def sample_clients_def world_poller_def sample_communicator_def)

text \<open>
  The sample reservation is polled; the reconciler reads the clock at \<open>n\<close> seconds and writes at \<open>m\<close>.
\<close>

definition polled_world :: "int agent_world" where
  "polled_world = snd (pollAndProcess rome_poller (rome_world [Some sample_rsv]) RoleProvider)"

definition reconciled_world :: "int \<Rightarrow> int agent_world" where
  "reconciled_world n =
     snd (ProviderInstruction_Reconcile world_pi (at_seconds n) polled_world (''default'', ''rsv-1-provider''))"

lemma sample_run:
  assumes "0 \<le> t" and "t \<le> n * Second" and "n \<le> m"
  obtains s' where "agent_run nano_ops sample_clients http_agent pi_objs (start_state t) s'"
    "world s' = reconciled_world n" "foreign s' = {}" "clock s' = m * Second"
proof -
  let ?k = "(''default'', ''rsv-1-provider'')"
  let ?step = "agent_step nano_ops sample_clients http_agent pi_objs"
  define s1 where "s1 = (start_state t)\<lparr>world := polled_world,
      asked := asked (start_state t) \<union> poll_asks rome_poller RoleProvider (world (start_state t))\<rparr>"
  define s2 where "s2 = s1\<lparr>clock := n * Second\<rparr>"
  define s3 where "s3 = s2\<lparr>checks := insert (?k, clock s2) (checks s2)\<rparr>"
  define s4 where "s4 = s3\<lparr>clock := m * Second\<rparr>"
  define s5 where "s5 = s4\<lparr>world := reconciled_world n, checks := checks s4 - {(?k, now_check (at_seconds n))}\<rparr>"
  have "?step (start_state t) s1"
    unfolding s1_def by (rule agent_step.polls [OF http_poller, of RoleProvider, OF disjI2 [OF refl]])
      (auto simp: polled_world_def start_state_def intro: prod.collapse [symmetric])
  moreover have "?step s1 s2"
    unfolding s2_def by (rule agent_step.time) (use assms in \<open>simp add: s1_def start_state_def\<close>)
  moreover have "?step s2 s3" unfolding s3_def by (rule agent_step.reads_clock)
  moreover have "?step s3 s4"
    unfolding s4_def by (rule agent_step.time) (use assms in \<open>simp add: s3_def s2_def time_defs\<close>)
  moreover have "?step s4 s5"
    unfolding s5_def by (rule agent_step.enforces)
      (auto simp: s4_def s3_def s2_def s1_def reconciled_world_def sample_clients_def
        intro: prod.collapse [symmetric])
  ultimately have "agent_run nano_ops sample_clients http_agent pi_objs (start_state t) s5"
    by (meson converse_rtranclp_into_rtranclp r_into_rtranclp)
  then show ?thesis
    by (rule that) (simp_all add: s5_def s4_def s3_def s2_def s1_def start_state_def)
qed

lemma reconciled_instruction:
  "\<exists>y. pi_objs (reconciled_world n) (''default'', ''rsv-1-provider'') = Some y \<and>
     pi_ExpiresAt (Spec y) = Some (100 * Second)"
proof -
  let ?k = "(''default'', ''rsv-1-provider'')"
  have k: "provider_key (instructionNamespace rome_poller) sample_rsv = ?k"
    by (simp add: provider_key_def sample_rsv_def)
  obtain out where p: "pollAndProcess rome_poller (rome_world [Some sample_rsv]) RoleProvider = (out, polled_world)"
    unfolding polled_world_def by (metis prod.collapse)
  obtain x where x: "pi_objs polled_world ?k = Some x" "Spec x = wire_pi_spec (provider_spec sample_rsv)"
    using polled_instruction [OF wp.responsive_world_axioms rome_world_good rome_world_fetch(1) _ _ _ _ p, of sample_rsv]
    unfolding k by (auto simp: sample_rsv_def rome_world_def empty_server_def)
  have "map_option Spec (pi_objs (reconciled_world n) ?k) = map_option Spec (pi_objs polled_world ?k)"
    unfolding reconciled_world_def
    by (rule flag_reconciler.rec_keeps_spec [OF provider_contract [OF world_pi.api_server_axioms]])
  with x show ?thesis
    by (auto simp: wire_pi_spec_def provider_spec_def sample_rsv_def convertTimePtr_def wire_time_def time_defs Let_def)
qed

lemma no_instruction_at_start: "pi_objs (world (start_state t)) key = None"
  by (simp add: start_state_def rome_world_def empty_server_def)

theorem every_instruction_has_origin_witness:
  "\<exists>s' y. agent_run nano_ops sample_clients http_agent pi_objs (start_state 0) s' \<and>
     pi_objs (world s') (''default'', ''rsv-1-provider'') = Some y \<and>
     ((''default'', ''rsv-1-provider''), Spec y) \<in> asked s'"
proof -
  obtain s' where r: "agent_run nano_ops sample_clients http_agent pi_objs (start_state 0) s'"
    and w: "world s' = reconciled_world 50" "foreign s' = {}"
    by (rule sample_run [of 0 50 60]) (simp_all add: time_defs)
  obtain y where y: "pi_objs (world s') (''default'', ''rsv-1-provider'') = Some y"
    using reconciled_instruction [of 50] w by auto
  from every_instruction_has_origin [OF http_system.agent_system_axioms r y] y r w show ?thesis
    by (auto simp: no_instruction_at_start)
qed

text \<open>
  C6. What has expired stays released, in the whole agent with the HTTP transport. Let \<open>t\<close> be an
  instant that has passed, such that no check of the instruction under a key that was made before
  \<open>t\<close> is still in flight, and this instruction, if any, is not enforced or had not expired at \<open>t\<close>.
  Then no interleaving of polls, reconciliations and changes by others from then on leads to an
  instruction under this key that is enforced though it had expired at \<open>t\<close>, even if it is removed and
  created again, unless others have themselves left one enforced with this very spec. While a check
  from before \<open>t\<close> is in flight, its write may still enforce: the code reads the clock before it
  writes the status.
\<close>

theorem expired_stays_released:
  assumes "agent_system k a sri spi" and "agent_run qo k a spi s s'" and "watcher a = None"
    and "t \<le> clock s" and "\<forall>u. (key, u) \<in> checks s \<longrightarrow> t \<le> u"
    and "\<forall>y. spi (world s) key = Some y \<and> pi_Enforced (Status y) \<longrightarrow> \<not> expired (pi_ExpiresAt (Spec y)) t"
  shows "\<forall>y. spi (world s') key = Some y \<and> pi_Enforced (Status y) \<and> expired (pi_ExpiresAt (Spec y)) t \<longrightarrow>
    (\<exists>z. (key, z) \<in> foreign s' \<and> pi_Enforced (Status z) \<and> Spec z = Spec y)"
proof -
  have "agent_system.late_holds spi t key s"
    using assms(6) by (auto simp: agent_system.late_holds_def [OF assms(1)])
  with agent_system.run_late_holds [OF assms(1-5)] show ?thesis
    by (simp add: agent_system.late_holds_def [OF assms(1)])
qed

text \<open>
  The condition on checks in flight is needed: here the check is made at 50 seconds, the write comes
  at 150, and the instruction is enforced 50 seconds after it has expired.
\<close>

lemma late_write_enforces:
  "\<exists>s' y. agent_run nano_ops sample_clients http_agent pi_objs (start_state 0) s' \<and> clock s' = 150 * Second \<and>
     pi_objs (world s') (''default'', ''rsv-1-provider'') = Some y \<and> pi_Enforced (Status y) \<and>
     expired (pi_ExpiresAt (Spec y)) (clock s')"
proof -
  obtain s' where r: "agent_run nano_ops sample_clients http_agent pi_objs (start_state 0) s'"
    and w: "world s' = reconciled_world 50" "clock s' = 150 * Second"
    by (rule sample_run [of 0 50 150]) (simp_all add: time_defs)
  have "map_option (\<lambda>y. (pi_Enforced (Status y), pi_ExpiresAt (Spec y)))
      (pi_objs (reconciled_world 50) (''default'', ''rsv-1-provider'')) = Some (True, Some (100 * Second))"
    by code_simp
  with r w show ?thesis by (auto simp: expired_def Before_def time_defs)
qed

theorem expired_stays_released_witness:
  "\<exists>s' y. agent_run nano_ops sample_clients http_agent pi_objs (start_state (150 * Second)) s' \<and>
     pi_objs (world s') (''default'', ''rsv-1-provider'') = Some y \<and>
     pi_ExpiresAt (Spec y) = Some (100 * Second) \<and> \<not> pi_Enforced (Status y)"
proof -
  let ?t = "150 * Second" and ?k = "(''default'', ''rsv-1-provider'')"
  obtain s' where r: "agent_run nano_ops sample_clients http_agent pi_objs (start_state ?t) s'"
    and w: "world s' = reconciled_world 200" "foreign s' = {}"
    by (rule sample_run [of ?t 200 210]) (simp_all add: time_defs)
  obtain y where y: "pi_objs (world s') ?k = Some y" "pi_ExpiresAt (Spec y) = Some (100 * Second)"
    using reconciled_instruction [of 200] w by auto
  have h: "watcher http_agent = None" "?t \<le> clock (start_state ?t)" "\<forall>u. (?k, u) \<in> checks (start_state ?t) \<longrightarrow> ?t \<le> u"
    by (simp_all add: http_agent_def build_agent_def start_state_def)
  have "\<forall>y. pi_objs (world (start_state ?t)) ?k = Some y \<and> pi_Enforced (Status y) \<longrightarrow>
      \<not> expired (pi_ExpiresAt (Spec y)) ?t"
    by (simp add: no_instruction_at_start)
  from expired_stays_released [OF http_system.agent_system_axioms r h this] y r w show ?thesis
    by (auto simp: expired_def Before_def time_defs)
qed

end
