(* ===== verification/Deep_Copy.thy ===== *)
theory Deep_Copy
  imports Api_Types "HOL-Library.Monad_Syntax"
begin

text \<open>
  The generated deep copies of \<^verbatim>\<open>api/v1alpha1/zz_generated.deepcopy.go\<close>, over an explicit heap. The
  other theories treat an object of the API as a value; in the program it is a struct with pointers
  into memory, and that objects can be treated as values rests on these functions: the client
  library copies the objects it hands out of its cache with them.

  Here a struct has a pointer where the source has one. Its \<open>view\<close> in a heap is the value of
  \<open>Api_Types\<close> it stands for, its \<open>reach\<close> the addresses it leads to. The contract of a copy is the
  locale \<open>deep_copy\<close>: the copy has the same view, nothing it reaches existed before, and every cell
  that existed is as it was. A \<^verbatim>\<open>DeepCopyInto\<close> gives the value that is written to its target; the
  copies of quantities, times and metadata, which belong to other packages, are a parameter with
  this contract.
\<close>

section \<open>The heap\<close>

type_synonym addr = nat

record 'q h_ResourceQuantities =
  h_CPU :: 'q
  h_Memory :: 'q
  h_GPU :: "addr option"
  h_Storage :: "addr option"

record 'q h_ResourceMetrics =
  h_Capacity :: "'q h_ResourceQuantities"
  h_Allocatable :: "'q h_ResourceQuantities"
  h_Allocated :: "'q h_ResourceQuantities"
  h_Used :: "addr option"
  h_Available :: "'q h_ResourceQuantities"

record 'q h_AdvertisementSpec =
  h_ClusterID :: string
  h_Resources :: "'q h_ResourceMetrics"
  h_Cost :: "addr option"
  h_Timestamp :: go_time

record h_ReservationInstructionSpec =
  h_ri_ReservationName :: string
  h_ri_TargetClusterID :: string
  h_ri_RequestedCPU :: string
  h_ri_RequestedMemory :: string
  h_ri_Message :: string
  h_ri_ExpiresAt :: "addr option"

record h_ProviderInstructionSpec =
  h_pi_ReservationName :: string
  h_pi_RequesterClusterID :: string
  h_pi_RequestedCPU :: string
  h_pi_RequestedMemory :: string
  h_pi_Message :: string
  h_pi_ExpiresAt :: "addr option"

text \<open>The root types and their lists; \<open>'m\<close> is the type of metadata.\<close>

record ('m, 's, 't) api_object =
  a_TypeMeta :: "string \<times> string"
  a_ObjectMeta :: 'm
  a_Spec :: 's
  a_Status :: 't

record ('m, 'i) api_list =
  l_TypeMeta :: "string \<times> string"
  l_ListMeta :: 'm
  Items :: 'i

type_synonym ('q, 'm) h_Advertisement = "('m, 'q h_AdvertisementSpec, AdvertisementStatus) api_object"
type_synonym 'm h_ProviderInstruction = "('m, h_ProviderInstructionSpec, ProviderInstructionStatus) api_object"
type_synonym 'm h_ReservationInstruction = "('m, h_ReservationInstructionSpec, ReservationInstructionStatus) api_object"
type_synonym 'm h_list = "('m, addr option) api_list" \<comment> \<open>a slice is \<^verbatim>\<open>nil\<close> or an array\<close>

datatype ('q, 'm, 'x) cell =
    CQuantity 'q
  | CQuantities "'q h_ResourceQuantities"
  | CMetrics "'q h_ResourceMetrics"
  | CCost CostInfo
  | CTime go_time
  | CAdvertisementSpec "'q h_AdvertisementSpec"
  | CAdvertisementStatus AdvertisementStatus
  | CAdvertisement "('q, 'm) h_Advertisement"
  | CAdvertisements "('q, 'm) h_Advertisement list"
  | CAdvertisementList "'m h_list"
  | CProviderInstructionSpec h_ProviderInstructionSpec
  | CProviderInstructionStatus ProviderInstructionStatus
  | CProviderInstruction "'m h_ProviderInstruction"
  | CProviderInstructions "'m h_ProviderInstruction list"
  | CProviderInstructionList "'m h_list"
  | CReservationInstructionSpec h_ReservationInstructionSpec
  | CReservationInstructionStatus ReservationInstructionStatus
  | CReservationInstruction "'m h_ReservationInstruction"
  | CReservationInstructions "'m h_ReservationInstruction list"
  | CReservationInstructionList "'m h_list"
  | CForeign 'x

record ('q, 'm, 'x) heap =
  cells :: "addr \<rightharpoonup> ('q, 'm, 'x) cell"
  next_addr :: addr

definition alloc :: "('q, 'm, 'x) cell \<Rightarrow> ('q, 'm, 'x) heap \<Rightarrow> addr \<times> ('q, 'm, 'x) heap" where
  "alloc c h = (next_addr h, h\<lparr>cells := (cells h)(next_addr h \<mapsto> c), next_addr := Suc (next_addr h)\<rparr>)"

definition wf_heap :: "('q, 'm, 'x) heap \<Rightarrow> bool" where
  "wf_heap h \<longleftrightarrow> (\<forall>a\<in>dom (cells h). a < next_addr h)"

definition extends :: "('q, 'm, 'x) heap \<Rightarrow> ('q, 'm, 'x) heap \<Rightarrow> bool" where
  "extends h h' \<longleftrightarrow> cells h \<subseteq>\<^sub>m cells h' \<and> wf_heap h'"

lemma extends_refl: "wf_heap h \<Longrightarrow> extends h h"
  by (simp add: extends_def)

lemma extends_trans: "extends h h1 \<Longrightarrow> extends h1 h2 \<Longrightarrow> extends h h2"
  by (auto simp: extends_def intro: map_le_trans)

lemma extends_dom: "extends h h' \<Longrightarrow> dom (cells h) \<subseteq> dom (cells h')"
  by (simp add: extends_def map_le_implies_dom_le)

lemma alloc_extends:
  assumes "wf_heap h" and "alloc c h = (a, h')"
  shows "extends h h'" and "a \<notin> dom (cells h)" and "cells h' a = Some c"
  using assms
  by (auto simp: alloc_def extends_def wf_heap_def map_le_def less_Suc_eq domIff split: if_splits)

section \<open>The contract of a deep copy\<close>

locale deep_copy =
  fixes copy :: "('q, 'm, 'x) heap \<Rightarrow> 'a \<Rightarrow> 'a \<times> ('q, 'm, 'x) heap"
    and view :: "('q, 'm, 'x) heap \<Rightarrow> 'a \<Rightarrow> 'v option"
    and reach :: "('q, 'm, 'x) heap \<Rightarrow> 'a \<Rightarrow> addr set"
  assumes reach_dom: "view h x = Some v \<Longrightarrow> reach h x \<subseteq> dom (cells h)"
    and view_local: "view h x = Some v \<Longrightarrow> \<forall>a\<in>reach h x. cells h' a = cells h a \<Longrightarrow>
      view h' x = Some v \<and> reach h' x = reach h x"
    and copy_done: "wf_heap h \<Longrightarrow> view h x = Some v \<Longrightarrow> copy h x = (y, h') \<Longrightarrow>
      extends h h' \<and> view h' y = Some v \<and> reach h' y \<inter> dom (cells h) = {}"
begin

lemma view_extends:
  assumes "view h x = Some v" and "extends h h'"
  shows "view h' x = Some v \<and> reach h' x = reach h x"
  using assms reach_dom [OF assms(1)] by (intro view_local) (auto simp: extends_def map_le_def subset_iff)

text \<open>A copy in the middle of a longer one.\<close>

lemma copy_step:
  assumes "extends h0 h" and "view h0 x = Some v" and "copy h x = (y, h')"
  shows "extends h0 h'" and "extends h h'"
    and "\<And>h''. extends h' h'' \<Longrightarrow> view h'' y = Some v \<and> reach h'' y \<inter> dom (cells h0) = {}"
proof -
  have "wf_heap h" using assms(1) by (simp add: extends_def)
  moreover have "view h x = Some v" using view_extends [OF assms(2,1)] by simp
  ultimately have c: "extends h h'" "view h' y = Some v" "reach h' y \<inter> dom (cells h) = {}"
    using copy_done assms(3) by blast+
  then show "extends h h'" "extends h0 h'" using extends_trans [OF assms(1)] by blast+
  show "view h'' y = Some v \<and> reach h'' y \<inter> dom (cells h0) = {}" if "extends h' h''" for h''
    using view_extends [OF c(2) that] c(3) extends_dom [OF assms(1)] by blast
qed

text \<open>Whatever is written to what only one of the two reaches, the other one does not change.\<close>

lemma copy_independent:
  assumes "wf_heap h" and "view h x = Some v" and "copy h x = (y, h')"
  shows "reach h' x \<inter> reach h' y = {}"
    and "\<forall>a\<in>- reach h' y. cells h'' a = cells h' a \<Longrightarrow> view h'' x = Some v"
    and "\<forall>a\<in>- reach h' x. cells h'' a = cells h' a \<Longrightarrow> view h'' y = Some v"
proof -
  note c = copy_done [OF assms]
  have x: "view h' x = Some v" "reach h' x = reach h x" using view_extends [OF assms(2)] c by auto
  show d: "reach h' x \<inter> reach h' y = {}" using reach_dom [OF assms(2)] x(2) c by auto
  show "view h'' x = Some v" if "\<forall>a\<in>- reach h' y. cells h'' a = cells h' a"
    using view_local [OF x(1), of h''] that d by blast
  show "view h'' y = Some v" if "\<forall>a\<in>- reach h' x. cells h'' a = cells h' a"
    using view_local [of h' y v h''] c that d by blast
qed

end

section \<open>Putting copies together\<close>

definition plain_copy :: "('q, 'm, 'x) heap \<Rightarrow> 'a \<Rightarrow> 'a \<times> ('q, 'm, 'x) heap" where
  "plain_copy h x = (x, h)"

lemma deep_copy_plain: "deep_copy plain_copy (\<lambda>h. Some) (\<lambda>h x. {})"
  by unfold_locales (auto simp: plain_copy_def extends_refl)

definition pair_copy where
  "pair_copy c1 c2 h p = (case c1 h (fst p) of (y1, h1) \<Rightarrow> case c2 h1 (snd p) of (y2, h2) \<Rightarrow> ((y1, y2), h2))"

definition pair_view where
  "pair_view v1 v2 h p = do { a \<leftarrow> v1 h (fst p); b \<leftarrow> v2 h (snd p); Some (a, b) }"

definition pair_reach where
  "pair_reach r1 r2 h p = r1 h (fst p) \<union> r2 h (snd p)"

lemma deep_copy_pair:
  assumes "deep_copy c1 v1 r1" and "deep_copy c2 v2 r2"
  shows "deep_copy (pair_copy c1 c2) (pair_view v1 v2) (pair_reach r1 r2)"
proof
  fix h p v
  assume "pair_view v1 v2 h p = Some v"
  then obtain a b where v: "v1 h (fst p) = Some a" "v2 h (snd p) = Some b" "v = (a, b)"
    by (auto simp: pair_view_def bind_eq_Some_conv)
  show "pair_reach r1 r2 h p \<subseteq> dom (cells h)"
    using deep_copy.reach_dom [OF assms(1) v(1)] deep_copy.reach_dom [OF assms(2) v(2)] by (simp add: pair_reach_def)
  show "pair_view v1 v2 h' p = Some v \<and> pair_reach r1 r2 h' p = pair_reach r1 r2 h p"
    if "\<forall>a\<in>pair_reach r1 r2 h p. cells h' a = cells h a" for h'
    using deep_copy.view_local [OF assms(1) v(1), of h'] deep_copy.view_local [OF assms(2) v(2), of h'] that v
    by (simp add: pair_reach_def pair_view_def)
  show "extends h h' \<and> pair_view v1 v2 h' y = Some v \<and> pair_reach r1 r2 h' y \<inter> dom (cells h) = {}"
    if wf: "wf_heap h" and cp: "pair_copy c1 c2 h p = (y, h')" for y h'
  proof -
    obtain y1 h1 y2 where c: "c1 h (fst p) = (y1, h1)" "c2 h1 (snd p) = (y2, h')" "y = (y1, y2)"
      using cp by (auto simp: pair_copy_def split: prod.splits)
    note s1 = deep_copy.copy_step [OF assms(1) extends_refl [OF wf] v(1) c(1)]
    note s2 = deep_copy.copy_step [OF assms(2) s1(1) v(2) c(2)]
    have "extends h' h'" using s2(1) by (simp add: extends_def)
    then show ?thesis
      using s1(3) [OF s2(2)] s2(1,3) v(3) c(3) by (simp add: pair_view_def pair_reach_def Int_Un_distrib2)
  qed
qed

text \<open>A struct is the tuple of its fields.\<close>

lemma deep_copy_struct:
  assumes "deep_copy c v r" and "\<And>t. unpack (pack t) = t"
    and "\<And>h s. copy h s = (case c h (unpack s) of (t, h') \<Rightarrow> (pack t, h'))"
    and "\<And>h s. view h s = map_option f (v h (unpack s))"
    and "\<And>h s. reach h s = r h (unpack s)"
  shows "deep_copy copy view reach"
proof
  fix h s u
  assume "view h s = Some u"
  then obtain w where w: "v h (unpack s) = Some w" "u = f w" by (auto simp: assms(4))
  show "reach h s \<subseteq> dom (cells h)" using deep_copy.reach_dom [OF assms(1) w(1)] by (simp add: assms(5))
  show "view h' s = Some u \<and> reach h' s = reach h s" if "\<forall>a\<in>reach h s. cells h' a = cells h a" for h'
    using deep_copy.view_local [OF assms(1) w(1), of h'] that w by (simp add: assms(4,5))
  show "extends h h' \<and> view h' y = Some u \<and> reach h' y \<inter> dom (cells h) = {}"
    if "wf_heap h" "copy h s = (y, h')" for y h'
    using deep_copy.copy_done [OF assms(1) that(1) w(1)] that(2) w(2) by (auto simp: assms(2-5) split: prod.splits)
qed

text \<open>A pointer to a cell of one type, which is read with \<open>proj\<close> and made with \<open>mk\<close>.\<close>

definition load :: "(('q, 'm, 'x) cell \<Rightarrow> 'a option) \<Rightarrow> ('q, 'm, 'x) heap \<Rightarrow> addr \<Rightarrow> 'a option" where
  "load proj h a = Option.bind (cells h a) proj"

definition ref_copy where
  "ref_copy proj mk c h a =
     (case load proj h a of
        None \<Rightarrow> (a, h)
      | Some x \<Rightarrow> (case c h x of (y, h1) \<Rightarrow> alloc (mk y) h1))"

definition ref_view where
  "ref_view proj v h a = Option.bind (load proj h a) (v h)"

definition ref_reach where
  "ref_reach proj r h a = insert a (case load proj h a of None \<Rightarrow> {} | Some x \<Rightarrow> r h x)"

lemma deep_copy_ref:
  assumes "deep_copy c v r" and "\<And>x. proj (mk x) = Some x"
  shows "deep_copy (ref_copy proj mk c) (ref_view proj v) (ref_reach proj r)"
proof
  fix h a u
  assume "ref_view proj v h a = Some u"
  then obtain x where x: "load proj h a = Some x" "v h x = Some u"
    by (auto simp: ref_view_def bind_eq_Some_conv)
  then have a: "a \<in> dom (cells h)" by (auto simp: load_def bind_eq_Some_conv)
  then show "ref_reach proj r h a \<subseteq> dom (cells h)"
    using deep_copy.reach_dom [OF assms(1) x(2)] by (simp add: ref_reach_def x)
  show "ref_view proj v h' a = Some u \<and> ref_reach proj r h' a = ref_reach proj r h a"
    if "\<forall>b\<in>ref_reach proj r h a. cells h' b = cells h b" for h'
  proof -
    have "load proj h' a = Some x" using that x(1) by (simp add: load_def ref_reach_def)
    then show ?thesis
      using deep_copy.view_local [OF assms(1) x(2), of h'] that x(1) by (simp add: ref_view_def ref_reach_def)
  qed
  show "extends h h' \<and> ref_view proj v h' b = Some u \<and> ref_reach proj r h' b \<inter> dom (cells h) = {}"
    if wf: "wf_heap h" and cp: "ref_copy proj mk c h a = (b, h')" for b h'
  proof -
    obtain y h1 where c: "c h x = (y, h1)" "alloc (mk y) h1 = (b, h')"
      using cp x(1) by (auto simp: ref_copy_def split: prod.splits)
    note s = deep_copy.copy_step [OF assms(1) extends_refl [OF wf] x(2) c(1)]
    have w: "wf_heap h1" using s(1) by (simp add: extends_def)
    note al = alloc_extends [OF w c(2)]
    have "load proj h' b = Some y" by (simp add: load_def al(3) assms(2))
    moreover have "b \<notin> dom (cells h)" using al(2) extends_dom [OF s(1)] by blast
    ultimately show ?thesis
      using s(3) [OF al(1)] extends_trans [OF s(1) al(1)] by (simp add: ref_view_def ref_reach_def)
  qed
qed

text \<open>A pointer that may be \<^verbatim>\<open>nil\<close>.\<close>

definition option_copy where
  "option_copy c h p = (case p of None \<Rightarrow> (None, h) | Some x \<Rightarrow> (case c h x of (y, h') \<Rightarrow> (Some y, h')))"

definition option_view where
  "option_view v h p = (case p of None \<Rightarrow> Some None | Some x \<Rightarrow> map_option Some (v h x))"

definition option_reach where
  "option_reach r h p = (case p of None \<Rightarrow> {} | Some x \<Rightarrow> r h x)"

lemmas option_copy_defs = option_copy_def option_view_def option_reach_def

lemma deep_copy_option:
  assumes "deep_copy c v r"
  shows "deep_copy (option_copy c) (option_view v) (option_reach r)"
proof
  fix h p u
  assume u: "option_view v h p = Some u"
  show "option_reach r h p \<subseteq> dom (cells h)"
    using u deep_copy.reach_dom [OF assms] by (fastforce simp: option_copy_defs split: option.splits)
  show "option_view v h' p = Some u \<and> option_reach r h' p = option_reach r h p"
    if "\<forall>a\<in>option_reach r h p. cells h' a = cells h a" for h'
    using u that deep_copy.view_local [OF assms, of h _ _ h']
    by (auto simp: option_copy_defs split: option.splits)
  show "extends h h' \<and> option_view v h' y = Some u \<and> option_reach r h' y \<inter> dom (cells h) = {}"
    if wf: "wf_heap h" and cp: "option_copy c h p = (y, h')" for y h'
  proof (cases p)
    case None
    with u wf cp show ?thesis by (auto simp: option_copy_defs extends_refl)
  next
    case (Some x)
    with u obtain a where a: "v h x = Some a" "u = Some a" by (auto simp: option_view_def)
    from Some cp obtain z where "c h x = (z, h')" "y = Some z" by (auto simp: option_copy_def split: prod.splits)
    with deep_copy.copy_done [OF assms wf a(1)] a(2) show ?thesis by (simp add: option_copy_defs)
  qed
qed

text \<open>The elements of an array, from the first to the last.\<close>

fun list_copy where
  "list_copy c h [] = ([], h)"
| "list_copy c h (x # xs) = (case c h x of (y, h1) \<Rightarrow> case list_copy c h1 xs of (ys, h2) \<Rightarrow> (y # ys, h2))"

fun list_view where
  "list_view v h [] = Some []"
| "list_view v h (x # xs) = do { a \<leftarrow> v h x; as \<leftarrow> list_view v h xs; Some (a # as) }"

definition list_reach where
  "list_reach r h xs = (\<Union>x\<in>set xs. r h x)"

lemma deep_copy_list:
  assumes "deep_copy c v r"
  shows "deep_copy (list_copy c) (list_view v) (list_reach r)"
proof
  fix h xs u
  assume u: "list_view v h xs = Some u"
  have all: "\<forall>x\<in>set xs. \<exists>a. v h x = Some a"
    using u by (induction xs arbitrary: u) (auto simp: bind_eq_Some_conv)
  show "list_reach r h xs \<subseteq> dom (cells h)"
    using all deep_copy.reach_dom [OF assms] by (fastforce simp: list_reach_def)
  show "list_view v h' xs = Some u \<and> list_reach r h' xs = list_reach r h xs"
    if h': "\<forall>a\<in>list_reach r h xs. cells h' a = cells h a" for h'
  proof -
    have "v h' x = v h x \<and> r h' x = r h x" if "x \<in> set xs" for x
      using that all h' deep_copy.view_local [OF assms, of h x _ h'] by (fastforce simp: list_reach_def)
    moreover from this have "list_view v h' xs = list_view v h xs" by (induction xs) auto
    ultimately show ?thesis using u by (simp add: list_reach_def)
  qed
  have step: "extends h0 h2 \<and> extends h1 h2 \<and> list_view v h2 ys = Some u \<and> list_reach r h2 ys \<inter> dom (cells h0) = {}"
    if "extends h0 h1" "list_view v h0 xs = Some u" "list_copy c h1 xs = (ys, h2)" for h0 h1 xs u ys h2
    using that
  proof (induction xs arbitrary: h1 u ys h2)
    case Nil
    then show ?case by (auto simp: list_reach_def extends_def)
  next
    case (Cons x xs)
    from Cons.prems(2) obtain a as where a: "v h0 x = Some a" "list_view v h0 xs = Some as" "u = a # as"
      by (auto simp: bind_eq_Some_conv)
    from Cons.prems(3) obtain y h' zs where c: "c h1 x = (y, h')" "list_copy c h' xs = (zs, h2)" "ys = y # zs"
      by (auto split: prod.splits)
    note s = deep_copy.copy_step [OF assms Cons.prems(1) a(1) c(1)]
    note IH = Cons.IH [OF s(1) a(2) c(2)]
    then have "extends h' h2" by blast
    with IH s(3) [OF this] extends_trans [OF s(2) this] a(3) c(3) show ?case
      by (simp add: list_reach_def Int_Un_distrib2)
  qed
  show "extends h h' \<and> list_view v h' ys = Some u \<and> list_reach r h' ys \<inter> dom (cells h) = {}"
    if "wf_heap h" "list_copy c h xs = (ys, h')" for ys h'
    using step [OF extends_refl [OF that(1)] u that(2)] by blast
qed


section \<open>The generated functions\<close>

text \<open>
  What they call in other packages: \<^verbatim>\<open>Quantity.DeepCopy\<close>, the copies of \<^verbatim>\<open>ObjectMeta\<close> and \<^verbatim>\<open>ListMeta\<close>,
  and for \<^verbatim>\<open>metav1.Time\<close> the copy into a field and the copy of a pointer.
\<close>

record ('q, 'm, 'x) copy_ops =
  Quantity_DeepCopy :: "('q, 'm, 'x) heap \<Rightarrow> 'q \<Rightarrow> 'q \<times> ('q, 'm, 'x) heap"
  ObjectMeta_DeepCopyInto :: "('q, 'm, 'x) heap \<Rightarrow> 'm \<Rightarrow> 'm \<times> ('q, 'm, 'x) heap"
  ListMeta_DeepCopyInto :: "('q, 'm, 'x) heap \<Rightarrow> 'm \<Rightarrow> 'm \<times> ('q, 'm, 'x) heap"
  Time_DeepCopyInto :: "('q, 'm, 'x) heap \<Rightarrow> go_time \<Rightarrow> go_time \<times> ('q, 'm, 'x) heap"
  Time_DeepCopy :: "('q, 'm, 'x) heap \<Rightarrow> addr \<Rightarrow> addr \<times> ('q, 'm, 'x) heap"

text \<open>Reading a cell as one of a given type.\<close>

definition as_quantity where "as_quantity c = (case c of CQuantity x \<Rightarrow> Some x | _ \<Rightarrow> None)"
definition as_quantities where "as_quantities c = (case c of CQuantities x \<Rightarrow> Some x | _ \<Rightarrow> None)"
definition as_metrics where "as_metrics c = (case c of CMetrics x \<Rightarrow> Some x | _ \<Rightarrow> None)"
definition as_cost where "as_cost c = (case c of CCost x \<Rightarrow> Some x | _ \<Rightarrow> None)"
definition as_time where "as_time c = (case c of CTime x \<Rightarrow> Some x | _ \<Rightarrow> None)"
definition as_adv_spec where "as_adv_spec c = (case c of CAdvertisementSpec x \<Rightarrow> Some x | _ \<Rightarrow> None)"
definition as_adv_status where "as_adv_status c = (case c of CAdvertisementStatus x \<Rightarrow> Some x | _ \<Rightarrow> None)"
definition as_adv where "as_adv c = (case c of CAdvertisement x \<Rightarrow> Some x | _ \<Rightarrow> None)"
definition as_advs where "as_advs c = (case c of CAdvertisements x \<Rightarrow> Some x | _ \<Rightarrow> None)"
definition as_adv_list where "as_adv_list c = (case c of CAdvertisementList x \<Rightarrow> Some x | _ \<Rightarrow> None)"
definition as_pi_spec where "as_pi_spec c = (case c of CProviderInstructionSpec x \<Rightarrow> Some x | _ \<Rightarrow> None)"
definition as_pi_status where "as_pi_status c = (case c of CProviderInstructionStatus x \<Rightarrow> Some x | _ \<Rightarrow> None)"
definition as_pi where "as_pi c = (case c of CProviderInstruction x \<Rightarrow> Some x | _ \<Rightarrow> None)"
definition as_pis where "as_pis c = (case c of CProviderInstructions x \<Rightarrow> Some x | _ \<Rightarrow> None)"
definition as_pi_list where "as_pi_list c = (case c of CProviderInstructionList x \<Rightarrow> Some x | _ \<Rightarrow> None)"
definition as_ri_spec where "as_ri_spec c = (case c of CReservationInstructionSpec x \<Rightarrow> Some x | _ \<Rightarrow> None)"
definition as_ri_status where "as_ri_status c = (case c of CReservationInstructionStatus x \<Rightarrow> Some x | _ \<Rightarrow> None)"
definition as_ri where "as_ri c = (case c of CReservationInstruction x \<Rightarrow> Some x | _ \<Rightarrow> None)"
definition as_ris where "as_ris c = (case c of CReservationInstructions x \<Rightarrow> Some x | _ \<Rightarrow> None)"
definition as_ri_list where "as_ri_list c = (case c of CReservationInstructionList x \<Rightarrow> Some x | _ \<Rightarrow> None)"

lemma as_cell [simp]:
  "as_quantity (CQuantity a) = Some a" "as_quantities (CQuantities b) = Some b" "as_metrics (CMetrics d) = Some d"
  "as_cost (CCost e) = Some e" "as_time (CTime f) = Some f" "as_adv_spec (CAdvertisementSpec g) = Some g"
  "as_adv_status (CAdvertisementStatus i) = Some i" "as_adv (CAdvertisement j) = Some j"
  "as_advs (CAdvertisements js) = Some js" "as_adv_list (CAdvertisementList l) = Some l"
  "as_pi_spec (CProviderInstructionSpec m) = Some m" "as_pi_status (CProviderInstructionStatus n) = Some n"
  "as_pi (CProviderInstruction p) = Some p" "as_pis (CProviderInstructions ps) = Some ps"
  "as_pi_list (CProviderInstructionList l) = Some l"
  "as_ri_spec (CReservationInstructionSpec q) = Some q" "as_ri_status (CReservationInstructionStatus r) = Some r"
  "as_ri (CReservationInstruction s) = Some s" "as_ris (CReservationInstructions ss) = Some ss"
  "as_ri_list (CReservationInstructionList l) = Some l"
  by (simp_all add: as_quantity_def as_quantities_def as_metrics_def as_cost_def as_time_def as_adv_spec_def
      as_adv_status_def as_adv_def as_advs_def as_adv_list_def as_pi_spec_def as_pi_status_def as_pi_def as_pis_def
      as_pi_list_def as_ri_spec_def as_ri_status_def as_ri_def as_ris_def as_ri_list_def)

text \<open>
  The form of every \<^verbatim>\<open>DeepCopy\<close>: \<^verbatim>\<open>nil\<close> for \<^verbatim>\<open>nil\<close>, else a new cell with what \<^verbatim>\<open>DeepCopyInto\<close>
  writes; and of every \<^verbatim>\<open>DeepCopyObject\<close>, the same pointer as an interface value.
\<close>

definition new_copy where
  "new_copy proj mk copyInto h p = option_copy (ref_copy proj mk copyInto) h p"

definition as_object :: "addr option \<times> 'h \<Rightarrow> addr option \<times> 'h" where
  "as_object r = (case fst r of Some c \<Rightarrow> (Some c, snd r) | None \<Rightarrow> (None, snd r))"

definition quantity_field where
  "quantity_field O' h p = option_copy (ref_copy as_quantity CQuantity (Quantity_DeepCopy O')) h p"

definition ResourceQuantities_DeepCopyInto ::
    "('q, 'm, 'x) copy_ops \<Rightarrow> ('q, 'm, 'x) heap \<Rightarrow> 'q h_ResourceQuantities
       \<Rightarrow> 'q h_ResourceQuantities \<times> ('q, 'm, 'x) heap" where
  "ResourceQuantities_DeepCopyInto O' h i =
     (let (cpu, h1) = Quantity_DeepCopy O' h (h_CPU i);
          (mem, h2) = Quantity_DeepCopy O' h1 (h_Memory i);
          (gpu, h3) = quantity_field O' h2 (h_GPU i);
          (sto, h4) = quantity_field O' h3 (h_Storage i)
      in (i\<lparr>h_CPU := cpu, h_Memory := mem, h_GPU := gpu, h_Storage := sto\<rparr>, h4))"

definition ResourceMetrics_DeepCopyInto ::
    "('q, 'm, 'x) copy_ops \<Rightarrow> ('q, 'm, 'x) heap \<Rightarrow> 'q h_ResourceMetrics
       \<Rightarrow> 'q h_ResourceMetrics \<times> ('q, 'm, 'x) heap" where
  "ResourceMetrics_DeepCopyInto O' h i =
     (let (cap, h1) = ResourceQuantities_DeepCopyInto O' h (h_Capacity i);
          (alb, h2) = ResourceQuantities_DeepCopyInto O' h1 (h_Allocatable i);
          (ald, h3) = ResourceQuantities_DeepCopyInto O' h2 (h_Allocated i);
          (used, h4) = option_copy (ref_copy as_quantities CQuantities (ResourceQuantities_DeepCopyInto O')) h3 (h_Used i);
          (ava, h5) = ResourceQuantities_DeepCopyInto O' h4 (h_Available i)
      in (i\<lparr>h_Capacity := cap, h_Allocatable := alb, h_Allocated := ald, h_Used := used, h_Available := ava\<rparr>, h5))"

definition CostInfo_DeepCopyInto :: "('q, 'm, 'x) heap \<Rightarrow> CostInfo \<Rightarrow> CostInfo \<times> ('q, 'm, 'x) heap" where
  "CostInfo_DeepCopyInto h i = (i, h)"

definition AdvertisementSpec_DeepCopyInto ::
    "('q, 'm, 'x) copy_ops \<Rightarrow> ('q, 'm, 'x) heap \<Rightarrow> 'q h_AdvertisementSpec
       \<Rightarrow> 'q h_AdvertisementSpec \<times> ('q, 'm, 'x) heap" where
  "AdvertisementSpec_DeepCopyInto O' h i =
     (let (res, h1) = ResourceMetrics_DeepCopyInto O' h (h_Resources i);
          (cost, h2) = option_copy (ref_copy as_cost CCost plain_copy) h1 (h_Cost i);
          (ts, h3) = Time_DeepCopyInto O' h2 (h_Timestamp i)
      in (i\<lparr>h_Resources := res, h_Cost := cost, h_Timestamp := ts\<rparr>, h3))"

definition AdvertisementStatus_DeepCopyInto ::
    "('q, 'm, 'x) copy_ops \<Rightarrow> ('q, 'm, 'x) heap \<Rightarrow> AdvertisementStatus \<Rightarrow> AdvertisementStatus \<times> ('q, 'm, 'x) heap" where
  "AdvertisementStatus_DeepCopyInto O' h i =
     (let (t, h1) = Time_DeepCopyInto O' h (adv_LastUpdateTime i) in (i\<lparr>adv_LastUpdateTime := t\<rparr>, h1))"

definition ProviderInstructionSpec_DeepCopyInto ::
    "('q, 'm, 'x) copy_ops \<Rightarrow> ('q, 'm, 'x) heap \<Rightarrow> h_ProviderInstructionSpec
       \<Rightarrow> h_ProviderInstructionSpec \<times> ('q, 'm, 'x) heap" where
  "ProviderInstructionSpec_DeepCopyInto O' h i =
     (let (e, h1) = option_copy (Time_DeepCopy O') h (h_pi_ExpiresAt i) in (i\<lparr>h_pi_ExpiresAt := e\<rparr>, h1))"

definition ProviderInstructionStatus_DeepCopyInto ::
    "('q, 'm, 'x) copy_ops \<Rightarrow> ('q, 'm, 'x) heap \<Rightarrow> ProviderInstructionStatus
       \<Rightarrow> ProviderInstructionStatus \<times> ('q, 'm, 'x) heap" where
  "ProviderInstructionStatus_DeepCopyInto O' h i =
     (let (t, h1) = Time_DeepCopyInto O' h (pi_LastUpdateTime i) in (i\<lparr>pi_LastUpdateTime := t\<rparr>, h1))"

definition ReservationInstructionSpec_DeepCopyInto ::
    "('q, 'm, 'x) copy_ops \<Rightarrow> ('q, 'm, 'x) heap \<Rightarrow> h_ReservationInstructionSpec
       \<Rightarrow> h_ReservationInstructionSpec \<times> ('q, 'm, 'x) heap" where
  "ReservationInstructionSpec_DeepCopyInto O' h i =
     (let (e, h1) = option_copy (Time_DeepCopy O') h (h_ri_ExpiresAt i) in (i\<lparr>h_ri_ExpiresAt := e\<rparr>, h1))"

definition ReservationInstructionStatus_DeepCopyInto ::
    "('q, 'm, 'x) copy_ops \<Rightarrow> ('q, 'm, 'x) heap \<Rightarrow> ReservationInstructionStatus
       \<Rightarrow> ReservationInstructionStatus \<times> ('q, 'm, 'x) heap" where
  "ReservationInstructionStatus_DeepCopyInto O' h i =
     (let (t, h1) = Time_DeepCopyInto O' h (ri_LastUpdateTime i) in (i\<lparr>ri_LastUpdateTime := t\<rparr>, h1))"

text \<open>The root types and the lists have one form each.\<close>

definition object_DeepCopyInto ::
    "('q, 'm, 'x) copy_ops \<Rightarrow> (('q, 'm, 'x) copy_ops \<Rightarrow> ('q, 'm, 'x) heap \<Rightarrow> 's \<Rightarrow> 's \<times> ('q, 'm, 'x) heap)
       \<Rightarrow> (('q, 'm, 'x) copy_ops \<Rightarrow> ('q, 'm, 'x) heap \<Rightarrow> 't \<Rightarrow> 't \<times> ('q, 'm, 'x) heap)
       \<Rightarrow> ('q, 'm, 'x) heap \<Rightarrow> ('m, 's, 't) api_object \<Rightarrow> ('m, 's, 't) api_object \<times> ('q, 'm, 'x) heap" where
  "object_DeepCopyInto O' specInto statusInto h i =
     (let (m, h1) = ObjectMeta_DeepCopyInto O' h (a_ObjectMeta i);
          (s, h2) = specInto O' h1 (a_Spec i);
          (t, h3) = statusInto O' h2 (a_Status i)
      in (i\<lparr>a_TypeMeta := a_TypeMeta i, a_ObjectMeta := m, a_Spec := s, a_Status := t\<rparr>, h3))"

definition list_DeepCopyInto ::
    "('q, 'm, 'x) copy_ops \<Rightarrow> (('q, 'm, 'x) cell \<Rightarrow> 'a list option) \<Rightarrow> ('a list \<Rightarrow> ('q, 'm, 'x) cell)
       \<Rightarrow> (('q, 'm, 'x) copy_ops \<Rightarrow> ('q, 'm, 'x) heap \<Rightarrow> 'a \<Rightarrow> 'a \<times> ('q, 'm, 'x) heap)
       \<Rightarrow> ('q, 'm, 'x) heap \<Rightarrow> 'm h_list \<Rightarrow> 'm h_list \<times> ('q, 'm, 'x) heap" where
  "list_DeepCopyInto O' proj mk itemInto h i =
     (let (m, h1) = ListMeta_DeepCopyInto O' h (l_ListMeta i);
          (items, h2) = option_copy (ref_copy proj mk (list_copy (itemInto O'))) h1 (Items i)
      in (i\<lparr>l_TypeMeta := l_TypeMeta i, l_ListMeta := m, Items := items\<rparr>, h2))"

definition Advertisement_DeepCopyInto ::
    "('q, 'm, 'x) copy_ops \<Rightarrow> ('q, 'm, 'x) heap \<Rightarrow> ('q, 'm) h_Advertisement
       \<Rightarrow> ('q, 'm) h_Advertisement \<times> ('q, 'm, 'x) heap" where
  "Advertisement_DeepCopyInto O' =
     object_DeepCopyInto O' AdvertisementSpec_DeepCopyInto AdvertisementStatus_DeepCopyInto"

definition ProviderInstruction_DeepCopyInto ::
    "('q, 'm, 'x) copy_ops \<Rightarrow> ('q, 'm, 'x) heap \<Rightarrow> 'm h_ProviderInstruction
       \<Rightarrow> 'm h_ProviderInstruction \<times> ('q, 'm, 'x) heap" where
  "ProviderInstruction_DeepCopyInto O' =
     object_DeepCopyInto O' ProviderInstructionSpec_DeepCopyInto ProviderInstructionStatus_DeepCopyInto"

definition ReservationInstruction_DeepCopyInto ::
    "('q, 'm, 'x) copy_ops \<Rightarrow> ('q, 'm, 'x) heap \<Rightarrow> 'm h_ReservationInstruction
       \<Rightarrow> 'm h_ReservationInstruction \<times> ('q, 'm, 'x) heap" where
  "ReservationInstruction_DeepCopyInto O' =
     object_DeepCopyInto O' ReservationInstructionSpec_DeepCopyInto ReservationInstructionStatus_DeepCopyInto"


definition AdvertisementList_DeepCopyInto ::
    "('q, 'm, 'x) copy_ops \<Rightarrow> ('q, 'm, 'x) heap \<Rightarrow> 'm h_list \<Rightarrow> 'm h_list \<times> ('q, 'm, 'x) heap" where
  "AdvertisementList_DeepCopyInto O' = list_DeepCopyInto O' as_advs CAdvertisements Advertisement_DeepCopyInto"

definition ProviderInstructionList_DeepCopyInto ::
    "('q, 'm, 'x) copy_ops \<Rightarrow> ('q, 'm, 'x) heap \<Rightarrow> 'm h_list \<Rightarrow> 'm h_list \<times> ('q, 'm, 'x) heap" where
  "ProviderInstructionList_DeepCopyInto O' =
     list_DeepCopyInto O' as_pis CProviderInstructions ProviderInstruction_DeepCopyInto"

definition ReservationInstructionList_DeepCopyInto ::
    "('q, 'm, 'x) copy_ops \<Rightarrow> ('q, 'm, 'x) heap \<Rightarrow> 'm h_list \<Rightarrow> 'm h_list \<times> ('q, 'm, 'x) heap" where
  "ReservationInstructionList_DeepCopyInto O' =
     list_DeepCopyInto O' as_ris CReservationInstructions ReservationInstruction_DeepCopyInto"

type_synonym ('q, 'm, 'x) pointer_copy =
  "('q, 'm, 'x) heap \<Rightarrow> addr option \<Rightarrow> addr option \<times> ('q, 'm, 'x) heap"

definition ResourceQuantities_DeepCopy :: "('q, 'm, 'x) copy_ops \<Rightarrow> ('q, 'm, 'x) pointer_copy" where
  "ResourceQuantities_DeepCopy O' = new_copy as_quantities CQuantities (ResourceQuantities_DeepCopyInto O')"

definition ResourceMetrics_DeepCopy :: "('q, 'm, 'x) copy_ops \<Rightarrow> ('q, 'm, 'x) pointer_copy" where
  "ResourceMetrics_DeepCopy O' = new_copy as_metrics CMetrics (ResourceMetrics_DeepCopyInto O')"

definition CostInfo_DeepCopy :: "('q, 'm, 'x) copy_ops \<Rightarrow> ('q, 'm, 'x) pointer_copy" where
  "CostInfo_DeepCopy O' = new_copy as_cost CCost CostInfo_DeepCopyInto"

definition AdvertisementSpec_DeepCopy :: "('q, 'm, 'x) copy_ops \<Rightarrow> ('q, 'm, 'x) pointer_copy" where
  "AdvertisementSpec_DeepCopy O' = new_copy as_adv_spec CAdvertisementSpec (AdvertisementSpec_DeepCopyInto O')"

definition AdvertisementStatus_DeepCopy :: "('q, 'm, 'x) copy_ops \<Rightarrow> ('q, 'm, 'x) pointer_copy" where
  "AdvertisementStatus_DeepCopy O' = new_copy as_adv_status CAdvertisementStatus (AdvertisementStatus_DeepCopyInto O')"

definition Advertisement_DeepCopy :: "('q, 'm, 'x) copy_ops \<Rightarrow> ('q, 'm, 'x) pointer_copy" where
  "Advertisement_DeepCopy O' = new_copy as_adv CAdvertisement (Advertisement_DeepCopyInto O')"

definition AdvertisementList_DeepCopy :: "('q, 'm, 'x) copy_ops \<Rightarrow> ('q, 'm, 'x) pointer_copy" where
  "AdvertisementList_DeepCopy O' = new_copy as_adv_list CAdvertisementList (AdvertisementList_DeepCopyInto O')"

definition ProviderInstructionSpec_DeepCopy :: "('q, 'm, 'x) copy_ops \<Rightarrow> ('q, 'm, 'x) pointer_copy" where
  "ProviderInstructionSpec_DeepCopy O' =
     new_copy as_pi_spec CProviderInstructionSpec (ProviderInstructionSpec_DeepCopyInto O')"

definition ProviderInstructionStatus_DeepCopy :: "('q, 'm, 'x) copy_ops \<Rightarrow> ('q, 'm, 'x) pointer_copy" where
  "ProviderInstructionStatus_DeepCopy O' =
     new_copy as_pi_status CProviderInstructionStatus (ProviderInstructionStatus_DeepCopyInto O')"

definition ProviderInstruction_DeepCopy :: "('q, 'm, 'x) copy_ops \<Rightarrow> ('q, 'm, 'x) pointer_copy" where
  "ProviderInstruction_DeepCopy O' = new_copy as_pi CProviderInstruction (ProviderInstruction_DeepCopyInto O')"

definition ProviderInstructionList_DeepCopy :: "('q, 'm, 'x) copy_ops \<Rightarrow> ('q, 'm, 'x) pointer_copy" where
  "ProviderInstructionList_DeepCopy O' =
     new_copy as_pi_list CProviderInstructionList (ProviderInstructionList_DeepCopyInto O')"

definition ReservationInstructionSpec_DeepCopy :: "('q, 'm, 'x) copy_ops \<Rightarrow> ('q, 'm, 'x) pointer_copy" where
  "ReservationInstructionSpec_DeepCopy O' =
     new_copy as_ri_spec CReservationInstructionSpec (ReservationInstructionSpec_DeepCopyInto O')"

definition ReservationInstructionStatus_DeepCopy :: "('q, 'm, 'x) copy_ops \<Rightarrow> ('q, 'm, 'x) pointer_copy" where
  "ReservationInstructionStatus_DeepCopy O' =
     new_copy as_ri_status CReservationInstructionStatus (ReservationInstructionStatus_DeepCopyInto O')"

definition ReservationInstruction_DeepCopy :: "('q, 'm, 'x) copy_ops \<Rightarrow> ('q, 'm, 'x) pointer_copy" where
  "ReservationInstruction_DeepCopy O' =
     new_copy as_ri CReservationInstruction (ReservationInstruction_DeepCopyInto O')"

definition ReservationInstructionList_DeepCopy :: "('q, 'm, 'x) copy_ops \<Rightarrow> ('q, 'm, 'x) pointer_copy" where
  "ReservationInstructionList_DeepCopy O' =
     new_copy as_ri_list CReservationInstructionList (ReservationInstructionList_DeepCopyInto O')"

definition Advertisement_DeepCopyObject :: "('q, 'm, 'x) copy_ops \<Rightarrow> ('q, 'm, 'x) pointer_copy" where
  "Advertisement_DeepCopyObject O' h i = as_object (Advertisement_DeepCopy O' h i)"

definition AdvertisementList_DeepCopyObject :: "('q, 'm, 'x) copy_ops \<Rightarrow> ('q, 'm, 'x) pointer_copy" where
  "AdvertisementList_DeepCopyObject O' h i = as_object (AdvertisementList_DeepCopy O' h i)"

definition ProviderInstruction_DeepCopyObject :: "('q, 'm, 'x) copy_ops \<Rightarrow> ('q, 'm, 'x) pointer_copy" where
  "ProviderInstruction_DeepCopyObject O' h i = as_object (ProviderInstruction_DeepCopy O' h i)"

definition ProviderInstructionList_DeepCopyObject :: "('q, 'm, 'x) copy_ops \<Rightarrow> ('q, 'm, 'x) pointer_copy" where
  "ProviderInstructionList_DeepCopyObject O' h i = as_object (ProviderInstructionList_DeepCopy O' h i)"

definition ReservationInstruction_DeepCopyObject :: "('q, 'm, 'x) copy_ops \<Rightarrow> ('q, 'm, 'x) pointer_copy" where
  "ReservationInstruction_DeepCopyObject O' h i = as_object (ReservationInstruction_DeepCopy O' h i)"

definition ReservationInstructionList_DeepCopyObject :: "('q, 'm, 'x) copy_ops \<Rightarrow> ('q, 'm, 'x) pointer_copy" where
  "ReservationInstructionList_DeepCopyObject O' h i = as_object (ReservationInstructionList_DeepCopy O' h i)"

lemma as_object_id [simp]: "as_object r = r"
  by (cases r) (simp add: as_object_def split: option.split)

section \<open>What the structs stand for\<close>

text \<open>
  The value of a struct in a heap, given the values of quantities (\<open>qv\<close>) and metadata (\<open>mv\<close>, \<open>lv\<close>),
  and what it reaches; a dangling pointer has no value.
\<close>

abbreviation "quantity_ptr_view qv \<equiv> option_view (ref_view as_quantity qv)"
abbreviation "quantity_ptr_reach qr \<equiv> option_reach (ref_reach as_quantity qr)"

definition quantities_view where
  "quantities_view qv h i = do {
     c \<leftarrow> qv h (h_CPU i); m \<leftarrow> qv h (h_Memory i);
     g \<leftarrow> quantity_ptr_view qv h (h_GPU i); s \<leftarrow> quantity_ptr_view qv h (h_Storage i);
     Some \<lparr>CPU = c, Memory = m, GPU = g, Storage = s\<rparr> }"

definition quantities_reach where
  "quantities_reach qr h i =
     qr h (h_CPU i) \<union> qr h (h_Memory i) \<union> quantity_ptr_reach qr h (h_GPU i) \<union> quantity_ptr_reach qr h (h_Storage i)"

definition metrics_view where
  "metrics_view qv h i = do {
     c \<leftarrow> quantities_view qv h (h_Capacity i); b \<leftarrow> quantities_view qv h (h_Allocatable i);
     d \<leftarrow> quantities_view qv h (h_Allocated i);
     u \<leftarrow> option_view (ref_view as_quantities (quantities_view qv)) h (h_Used i);
     a \<leftarrow> quantities_view qv h (h_Available i);
     Some \<lparr>Capacity = c, Allocatable = b, Allocated = d, Used = u, Available = a\<rparr> }"

definition metrics_reach where
  "metrics_reach qr h i =
     quantities_reach qr h (h_Capacity i) \<union> quantities_reach qr h (h_Allocatable i) \<union>
     quantities_reach qr h (h_Allocated i) \<union> option_reach (ref_reach as_quantities (quantities_reach qr)) h (h_Used i) \<union>
     quantities_reach qr h (h_Available i)"

definition adv_spec_view where
  "adv_spec_view qv h i = do {
     r \<leftarrow> metrics_view qv h (h_Resources i);
     c \<leftarrow> option_view (ref_view as_cost (\<lambda>h. Some)) h (h_Cost i);
     Some \<lparr>adv_ClusterID = h_ClusterID i, adv_Resources = r, adv_Cost = c, adv_Timestamp = h_Timestamp i\<rparr> }"

definition adv_spec_reach where
  "adv_spec_reach qr h i =
     metrics_reach qr h (h_Resources i) \<union> option_reach (ref_reach as_cost (\<lambda>h x. {})) h (h_Cost i)"

abbreviation "time_ptr_view \<equiv> ref_view as_time (\<lambda>h. Some)"
abbreviation "time_ptr_reach \<equiv> ref_reach as_time (\<lambda>h x. {})"

definition pi_spec_view where
  "pi_spec_view h i = do {
     e \<leftarrow> option_view time_ptr_view h (h_pi_ExpiresAt i);
     Some \<lparr>pi_ReservationName = h_pi_ReservationName i, pi_RequesterClusterID = h_pi_RequesterClusterID i,
           pi_RequestedCPU = h_pi_RequestedCPU i, pi_RequestedMemory = h_pi_RequestedMemory i,
           pi_Message = h_pi_Message i, pi_ExpiresAt = e\<rparr> }"

definition pi_spec_reach where
  "pi_spec_reach h i = option_reach time_ptr_reach h (h_pi_ExpiresAt i)"

definition ri_spec_view where
  "ri_spec_view h i = do {
     e \<leftarrow> option_view time_ptr_view h (h_ri_ExpiresAt i);
     Some \<lparr>ri_ReservationName = h_ri_ReservationName i, ri_TargetClusterID = h_ri_TargetClusterID i,
           ri_RequestedCPU = h_ri_RequestedCPU i, ri_RequestedMemory = h_ri_RequestedMemory i,
           ri_Message = h_ri_Message i, ri_ExpiresAt = e\<rparr> }"

definition ri_spec_reach where
  "ri_spec_reach h i = option_reach time_ptr_reach h (h_ri_ExpiresAt i)"

definition object_view ::
    "(('q, 'm, 'x) heap \<Rightarrow> 'm \<Rightarrow> 'b option) \<Rightarrow> (('q, 'm, 'x) heap \<Rightarrow> 's \<Rightarrow> 'v option)
       \<Rightarrow> ('q, 'm, 'x) heap \<Rightarrow> ('m, 's, 't) api_object \<Rightarrow> ('b, 'v, 't) api_object option" where
  "object_view mv sv h i = do {
     m \<leftarrow> mv h (a_ObjectMeta i); s \<leftarrow> sv h (a_Spec i);
     Some \<lparr>a_TypeMeta = a_TypeMeta i, a_ObjectMeta = m, a_Spec = s, a_Status = a_Status i\<rparr> }"

definition object_reach ::
    "(('q, 'm, 'x) heap \<Rightarrow> 'm \<Rightarrow> addr set) \<Rightarrow> (('q, 'm, 'x) heap \<Rightarrow> 's \<Rightarrow> addr set)
       \<Rightarrow> ('q, 'm, 'x) heap \<Rightarrow> ('m, 's, 't) api_object \<Rightarrow> addr set" where
  "object_reach mr sr h i = mr h (a_ObjectMeta i) \<union> sr h (a_Spec i)"

definition items_view ::
    "(('q, 'm, 'x) heap \<Rightarrow> 'm \<Rightarrow> 'c option) \<Rightarrow> (('q, 'm, 'x) cell \<Rightarrow> 'a list option) \<Rightarrow> (('q, 'm, 'x) heap \<Rightarrow> 'a \<Rightarrow> 'v option)
       \<Rightarrow> ('q, 'm, 'x) heap \<Rightarrow> 'm h_list \<Rightarrow> ('c, 'v list option) api_list option" where
  "items_view lv proj iv h i = do {
     m \<leftarrow> lv h (l_ListMeta i); xs \<leftarrow> option_view (ref_view proj (list_view iv)) h (Items i);
     Some \<lparr>l_TypeMeta = l_TypeMeta i, l_ListMeta = m, Items = xs\<rparr> }"

definition items_reach ::
    "(('q, 'm, 'x) heap \<Rightarrow> 'm \<Rightarrow> addr set) \<Rightarrow> (('q, 'm, 'x) cell \<Rightarrow> 'a list option) \<Rightarrow> (('q, 'm, 'x) heap \<Rightarrow> 'a \<Rightarrow> addr set)
       \<Rightarrow> ('q, 'm, 'x) heap \<Rightarrow> 'm h_list \<Rightarrow> addr set" where
  "items_reach lr proj ir h i = lr h (l_ListMeta i) \<union> option_reach (ref_reach proj (list_reach ir)) h (Items i)"


section \<open>Every generated copy is a deep copy\<close>

text \<open>What is relied on of the other packages: that their copies are deep.\<close>

locale foreign_copies =
  fixes O' :: "('q, 'm, 'x) copy_ops"
    and qv :: "('q, 'm, 'x) heap \<Rightarrow> 'q \<Rightarrow> 'a option" and qr :: "('q, 'm, 'x) heap \<Rightarrow> 'q \<Rightarrow> addr set"
    and mv :: "('q, 'm, 'x) heap \<Rightarrow> 'm \<Rightarrow> 'b option" and mr :: "('q, 'm, 'x) heap \<Rightarrow> 'm \<Rightarrow> addr set"
    and lv :: "('q, 'm, 'x) heap \<Rightarrow> 'm \<Rightarrow> 'c option" and lr :: "('q, 'm, 'x) heap \<Rightarrow> 'm \<Rightarrow> addr set"
  assumes quantity_copies: "deep_copy (Quantity_DeepCopy O') qv qr"
    and meta_copies: "deep_copy (ObjectMeta_DeepCopyInto O') mv mr"
    and list_meta_copies: "deep_copy (ListMeta_DeepCopyInto O') lv lr"
    and time_copies: "deep_copy (Time_DeepCopyInto O') (\<lambda>h. Some) (\<lambda>h t. {})"
    and time_ptr_copies: "deep_copy (Time_DeepCopy O') time_ptr_view time_ptr_reach"
begin

lemma quantity_field_copies: "deep_copy (quantity_field O') (quantity_ptr_view qv) (quantity_ptr_reach qr)"
  using deep_copy_option [OF deep_copy_ref [OF quantity_copies, of as_quantity CQuantity]]
  by (simp add: quantity_field_def [abs_def])

lemma quantities_copies:
  "deep_copy (ResourceQuantities_DeepCopyInto O') (quantities_view qv) (quantities_reach qr)"
  by (rule deep_copy_struct [where unpack = "\<lambda>i. (h_CPU i, h_Memory i, h_GPU i, h_Storage i)"
        and pack = "\<lambda>(c, m, g, s). \<lparr>h_CPU = c, h_Memory = m, h_GPU = g, h_Storage = s\<rparr>"
        and f = "\<lambda>(c, m, g, s). \<lparr>CPU = c, Memory = m, GPU = g, Storage = s\<rparr>",
        OF deep_copy_pair [OF quantity_copies deep_copy_pair [OF quantity_copies
          deep_copy_pair [OF quantity_field_copies quantity_field_copies]]]])
    (auto simp: ResourceQuantities_DeepCopyInto_def quantities_view_def quantities_reach_def pair_copy_def
      pair_view_def pair_reach_def Let_def split: prod.splits Option.bind_splits)

lemma metrics_copies:
  "deep_copy (ResourceMetrics_DeepCopyInto O') (metrics_view qv) (metrics_reach qr)"
  by (rule deep_copy_struct [where unpack = "\<lambda>i. (h_Capacity i, h_Allocatable i, h_Allocated i, h_Used i, h_Available i)"
        and pack = "\<lambda>(c, b, d, u, a). \<lparr>h_Capacity = c, h_Allocatable = b, h_Allocated = d, h_Used = u, h_Available = a\<rparr>"
        and f = "\<lambda>(c, b, d, u, a). \<lparr>Capacity = c, Allocatable = b, Allocated = d, Used = u, Available = a\<rparr>",
        OF deep_copy_pair [OF quantities_copies deep_copy_pair [OF quantities_copies deep_copy_pair [OF quantities_copies
          deep_copy_pair [OF deep_copy_option [OF deep_copy_ref [OF quantities_copies, of as_quantities CQuantities]]
            quantities_copies]]]]])
    (auto simp: ResourceMetrics_DeepCopyInto_def metrics_view_def metrics_reach_def pair_copy_def
      pair_view_def pair_reach_def Let_def split: prod.splits Option.bind_splits)

lemma adv_spec_copies:
  "deep_copy (AdvertisementSpec_DeepCopyInto O') (adv_spec_view qv) (adv_spec_reach qr)"
  by (rule deep_copy_struct [where unpack = "\<lambda>i. (h_ClusterID i, h_Resources i, h_Cost i, h_Timestamp i)"
        and pack = "\<lambda>(i, r, c, t). \<lparr>h_ClusterID = i, h_Resources = r, h_Cost = c, h_Timestamp = t\<rparr>"
        and f = "\<lambda>(i, r, c, t). \<lparr>adv_ClusterID = i, adv_Resources = r, adv_Cost = c, adv_Timestamp = t\<rparr>",
        OF deep_copy_pair [OF deep_copy_plain deep_copy_pair [OF metrics_copies
          deep_copy_pair [OF deep_copy_option [OF deep_copy_ref [OF deep_copy_plain, of as_cost CCost]] time_copies]]]])
    (auto simp: AdvertisementSpec_DeepCopyInto_def adv_spec_view_def adv_spec_reach_def pair_copy_def
      pair_view_def pair_reach_def plain_copy_def Let_def split: prod.splits Option.bind_splits)

lemmas copy_defs = pair_copy_def pair_view_def pair_reach_def plain_copy_def Let_def

lemma adv_status_copies: "deep_copy (AdvertisementStatus_DeepCopyInto O') (\<lambda>h. Some) (\<lambda>h t. {})"
  by (rule deep_copy_struct [where unpack = "\<lambda>i. (adv_LastUpdateTime i, adv_Phase i, adv_Published i, adv_Message i)"
        and pack = "\<lambda>(t, p, b, m). \<lparr>adv_Phase = p, adv_LastUpdateTime = t, adv_Published = b, adv_Message = m\<rparr>"
        and f = "\<lambda>(t, p, b, m). \<lparr>adv_Phase = p, adv_LastUpdateTime = t, adv_Published = b, adv_Message = m\<rparr>",
        OF deep_copy_pair [OF time_copies deep_copy_plain]])
    (auto simp: AdvertisementStatus_DeepCopyInto_def copy_defs split: prod.splits)

lemma pi_status_copies: "deep_copy (ProviderInstructionStatus_DeepCopyInto O') (\<lambda>h. Some) (\<lambda>h t. {})"
  by (rule deep_copy_struct [where unpack = "\<lambda>i. (pi_LastUpdateTime i, pi_Enforced i)"
        and pack = "\<lambda>(t, e). \<lparr>pi_Enforced = e, pi_LastUpdateTime = t\<rparr>"
        and f = "\<lambda>(t, e). \<lparr>pi_Enforced = e, pi_LastUpdateTime = t\<rparr>",
        OF deep_copy_pair [OF time_copies deep_copy_plain]])
    (auto simp: ProviderInstructionStatus_DeepCopyInto_def copy_defs split: prod.splits)

lemma ri_status_copies: "deep_copy (ReservationInstructionStatus_DeepCopyInto O') (\<lambda>h. Some) (\<lambda>h t. {})"
  by (rule deep_copy_struct [where
        unpack = "\<lambda>i. (ri_LastUpdateTime i, ri_ObservedReservationResourceVersion i, ri_Delivered i)"
        and pack = "\<lambda>(t, v, d). \<lparr>ri_ObservedReservationResourceVersion = v, ri_Delivered = d, ri_LastUpdateTime = t\<rparr>"
        and f = "\<lambda>(t, v, d). \<lparr>ri_ObservedReservationResourceVersion = v, ri_Delivered = d, ri_LastUpdateTime = t\<rparr>",
        OF deep_copy_pair [OF time_copies deep_copy_plain]])
    (auto simp: ReservationInstructionStatus_DeepCopyInto_def copy_defs split: prod.splits)

lemma pi_spec_copies: "deep_copy (ProviderInstructionSpec_DeepCopyInto O') pi_spec_view pi_spec_reach"
  by (rule deep_copy_struct [where
        unpack = "\<lambda>i. (h_pi_ExpiresAt i, h_pi_ReservationName i, h_pi_RequesterClusterID i, h_pi_RequestedCPU i,
                       h_pi_RequestedMemory i, h_pi_Message i)"
        and pack = "\<lambda>(e, n, r, c, m, s). \<lparr>h_pi_ReservationName = n, h_pi_RequesterClusterID = r,
          h_pi_RequestedCPU = c, h_pi_RequestedMemory = m, h_pi_Message = s, h_pi_ExpiresAt = e\<rparr>"
        and f = "\<lambda>(e, n, r, c, m, s). \<lparr>pi_ReservationName = n, pi_RequesterClusterID = r,
          pi_RequestedCPU = c, pi_RequestedMemory = m, pi_Message = s, pi_ExpiresAt = e\<rparr>",
        OF deep_copy_pair [OF deep_copy_option [OF time_ptr_copies] deep_copy_plain]])
    (auto simp: ProviderInstructionSpec_DeepCopyInto_def pi_spec_view_def pi_spec_reach_def copy_defs
      split: prod.splits Option.bind_splits)

lemma ri_spec_copies: "deep_copy (ReservationInstructionSpec_DeepCopyInto O') ri_spec_view ri_spec_reach"
  by (rule deep_copy_struct [where
        unpack = "\<lambda>i. (h_ri_ExpiresAt i, h_ri_ReservationName i, h_ri_TargetClusterID i, h_ri_RequestedCPU i,
                       h_ri_RequestedMemory i, h_ri_Message i)"
        and pack = "\<lambda>(e, n, r, c, m, s). \<lparr>h_ri_ReservationName = n, h_ri_TargetClusterID = r,
          h_ri_RequestedCPU = c, h_ri_RequestedMemory = m, h_ri_Message = s, h_ri_ExpiresAt = e\<rparr>"
        and f = "\<lambda>(e, n, r, c, m, s). \<lparr>ri_ReservationName = n, ri_TargetClusterID = r,
          ri_RequestedCPU = c, ri_RequestedMemory = m, ri_Message = s, ri_ExpiresAt = e\<rparr>",
        OF deep_copy_pair [OF deep_copy_option [OF time_ptr_copies] deep_copy_plain]])
    (auto simp: ReservationInstructionSpec_DeepCopyInto_def ri_spec_view_def ri_spec_reach_def copy_defs
      split: prod.splits Option.bind_splits)

lemma object_copies:
  assumes "deep_copy (specInto O') sv sr" and "deep_copy (statusInto O') (\<lambda>h. Some) (\<lambda>h t. {})"
  shows "deep_copy (object_DeepCopyInto O' specInto statusInto) (object_view mv sv) (object_reach mr sr)"
  by (rule deep_copy_struct [where unpack = "\<lambda>i. (a_TypeMeta i, a_ObjectMeta i, a_Spec i, a_Status i)"
        and pack = "\<lambda>(y, m, s, t). \<lparr>a_TypeMeta = y, a_ObjectMeta = m, a_Spec = s, a_Status = t\<rparr>"
        and f = "\<lambda>(y, m, s, t). \<lparr>a_TypeMeta = y, a_ObjectMeta = m, a_Spec = s, a_Status = t\<rparr>",
        OF deep_copy_pair [OF deep_copy_plain deep_copy_pair [OF meta_copies deep_copy_pair [OF assms]]]])
    (auto simp: object_DeepCopyInto_def object_view_def object_reach_def copy_defs
      split: prod.splits Option.bind_splits)

lemma items_copies:
  assumes "deep_copy (itemInto O') iv ir" and "\<And>xs. proj (mk xs) = Some xs"
  shows "deep_copy (list_DeepCopyInto O' proj mk itemInto) (items_view lv proj iv) (items_reach lr proj ir)"
  by (rule deep_copy_struct [where unpack = "\<lambda>i. (l_TypeMeta i, l_ListMeta i, Items i)"
        and pack = "\<lambda>(y, m, xs). \<lparr>l_TypeMeta = y, l_ListMeta = m, Items = xs\<rparr>"
        and f = "\<lambda>(y, m, xs). \<lparr>l_TypeMeta = y, l_ListMeta = m, Items = xs\<rparr>",
        OF deep_copy_pair [OF deep_copy_plain deep_copy_pair [OF list_meta_copies
          deep_copy_option [OF deep_copy_ref [OF deep_copy_list [OF assms(1)] assms(2)]]]]])
    (auto simp: list_DeepCopyInto_def items_view_def items_reach_def copy_defs split: prod.splits Option.bind_splits)

lemma new_copies:
  assumes "deep_copy c v r" and "\<And>x. proj (mk x) = Some x"
  shows "deep_copy (new_copy proj mk c) (option_view (ref_view proj v)) (option_reach (ref_reach proj r))"
  using deep_copy_option [OF deep_copy_ref [OF assms]] by (simp add: new_copy_def [abs_def])

end

section \<open>An instance\<close>

text \<open>
  A quantity that is a machine integer or, when it does not fit, points to a decimal of arbitrary
  precision in the heap, which its copy duplicates; metadata without pointers.
\<close>

type_synonym dec_quantity = "int \<times> addr option"
type_synonym dec_heap = "(dec_quantity, string, int) heap"

definition as_decimal where
  "as_decimal c = (case c of CForeign d \<Rightarrow> Some d | _ \<Rightarrow> None)"

lemma as_decimal_foreign: "as_decimal (CForeign d) = Some d"
  by (simp add: as_decimal_def)

definition dec_copies :: "(dec_quantity, string, int) copy_ops" where
  "dec_copies =
     \<lparr>Quantity_DeepCopy = pair_copy plain_copy (option_copy (ref_copy as_decimal CForeign plain_copy)),
      ObjectMeta_DeepCopyInto = plain_copy, ListMeta_DeepCopyInto = plain_copy, Time_DeepCopyInto = plain_copy,
      Time_DeepCopy = ref_copy as_time CTime plain_copy\<rparr>"

abbreviation dec_view :: "dec_heap \<Rightarrow> dec_quantity \<Rightarrow> (int \<times> int option) option" where
  "dec_view \<equiv> pair_view (\<lambda>h. Some) (option_view (ref_view as_decimal (\<lambda>h. Some)))"

abbreviation dec_reach :: "dec_heap \<Rightarrow> dec_quantity \<Rightarrow> addr set" where
  "dec_reach \<equiv> pair_reach (\<lambda>h x. {}) (option_reach (ref_reach as_decimal (\<lambda>h x. {})))"

interpretation dec: foreign_copies dec_copies dec_view dec_reach "\<lambda>h. Some" "\<lambda>h x. {}" "\<lambda>h. Some" "\<lambda>h x. {}"
proof (rule foreign_copies.intro)
  show "deep_copy (Quantity_DeepCopy dec_copies) dec_view dec_reach"
    unfolding dec_copies_def copy_ops.simps
    by (intro deep_copy_pair deep_copy_plain deep_copy_option deep_copy_ref) (rule as_decimal_foreign)
  show "deep_copy (Time_DeepCopy dec_copies) time_ptr_view time_ptr_reach"
    using deep_copy_ref [OF deep_copy_plain, of as_time CTime] by (simp add: dec_copies_def)
qed (simp_all add: dec_copies_def deep_copy_plain)

section \<open>Properties\<close>

abbreviation adv_ptr_view where
  "adv_ptr_view qv mv \<equiv> option_view (ref_view as_adv (object_view mv (adv_spec_view qv)))"

abbreviation adv_ptr_reach where
  "adv_ptr_reach qr mr \<equiv> option_reach (ref_reach as_adv (object_reach mr (adv_spec_reach qr)))"

abbreviation pi_ptr_view where "pi_ptr_view mv \<equiv> option_view (ref_view as_pi (object_view mv pi_spec_view))"
abbreviation pi_ptr_reach where "pi_ptr_reach mr \<equiv> option_reach (ref_reach as_pi (object_reach mr pi_spec_reach))"
abbreviation ri_ptr_view where "ri_ptr_view mv \<equiv> option_view (ref_view as_ri (object_view mv ri_spec_view))"
abbreviation ri_ptr_reach where "ri_ptr_reach mr \<equiv> option_reach (ref_reach as_ri (object_reach mr ri_spec_reach))"

context foreign_copies begin

lemma adv_copies:
  "deep_copy (Advertisement_DeepCopyInto O') (object_view mv (adv_spec_view qv)) (object_reach mr (adv_spec_reach qr))"
  unfolding Advertisement_DeepCopyInto_def by (rule object_copies, rule adv_spec_copies, rule adv_status_copies)

lemma pi_copies:
  "deep_copy (ProviderInstruction_DeepCopyInto O') (object_view mv pi_spec_view) (object_reach mr pi_spec_reach)"
  unfolding ProviderInstruction_DeepCopyInto_def by (rule object_copies, rule pi_spec_copies, rule pi_status_copies)

lemma ri_copies:
  "deep_copy (ReservationInstruction_DeepCopyInto O') (object_view mv ri_spec_view) (object_reach mr ri_spec_reach)"
  unfolding ReservationInstruction_DeepCopyInto_def by (rule object_copies, rule ri_spec_copies, rule ri_status_copies)

end

text \<open>
  C19. The generated copies of the three kinds of objects and of their lists, as the client library
  calls them, are deep copies, given that those of quantities, times and metadata are: the copy of
  an object without dangling pointers stands for the same value of the API, everything it reaches is
  new, every cell that existed is unchanged, and the heap stays well formed; \<^verbatim>\<open>nil\<close> is copied to
  \<^verbatim>\<open>nil\<close>.
\<close>

theorem generated_copies_are_deep:
  assumes "foreign_copies O' qv qr mv mr lv lr"
  shows "deep_copy (Advertisement_DeepCopyObject O') (adv_ptr_view qv mv) (adv_ptr_reach qr mr) \<and>
    deep_copy (ProviderInstruction_DeepCopyObject O') (pi_ptr_view mv) (pi_ptr_reach mr) \<and>
    deep_copy (ReservationInstruction_DeepCopyObject O') (ri_ptr_view mv) (ri_ptr_reach mr) \<and>
    deep_copy (AdvertisementList_DeepCopyObject O')
      (option_view (ref_view as_adv_list (items_view lv as_advs (object_view mv (adv_spec_view qv)))))
      (option_reach (ref_reach as_adv_list (items_reach lr as_advs (object_reach mr (adv_spec_reach qr))))) \<and>
    deep_copy (ProviderInstructionList_DeepCopyObject O')
      (option_view (ref_view as_pi_list (items_view lv as_pis (object_view mv pi_spec_view))))
      (option_reach (ref_reach as_pi_list (items_reach lr as_pis (object_reach mr pi_spec_reach)))) \<and>
    deep_copy (ReservationInstructionList_DeepCopyObject O')
      (option_view (ref_view as_ri_list (items_view lv as_ris (object_view mv ri_spec_view))))
      (option_reach (ref_reach as_ri_list (items_reach lr as_ris (object_reach mr ri_spec_reach))))"
proof -
  note new = foreign_copies.new_copies [OF assms] and items = foreign_copies.items_copies [OF assms]
  note objects = foreign_copies.adv_copies [OF assms] foreign_copies.pi_copies [OF assms]
    foreign_copies.ri_copies [OF assms]
  note defs = Advertisement_DeepCopyObject_def [abs_def] AdvertisementList_DeepCopyObject_def [abs_def]
    ProviderInstruction_DeepCopyObject_def [abs_def] ProviderInstructionList_DeepCopyObject_def [abs_def]
    ReservationInstruction_DeepCopyObject_def [abs_def] ReservationInstructionList_DeepCopyObject_def [abs_def]
    as_object_id Advertisement_DeepCopy_def ProviderInstruction_DeepCopy_def ReservationInstruction_DeepCopy_def
    AdvertisementList_DeepCopy_def ProviderInstructionList_DeepCopy_def ReservationInstructionList_DeepCopy_def
    AdvertisementList_DeepCopyInto_def ProviderInstructionList_DeepCopyInto_def
    ReservationInstructionList_DeepCopyInto_def
  show ?thesis unfolding defs by (intro conjI new items objects) simp_all
qed


text \<open>An advertisement whose GPU figures and cost are behind pointers.\<close>

definition sample_heap :: dec_heap where
  "sample_heap =
     (let z = \<lparr>h_CPU = (5, None), h_Memory = (0, Some 1), h_GPU = Some 2, h_Storage = None\<rparr>
      in \<lparr>cells = [1 \<mapsto> CForeign 7, 2 \<mapsto> CQuantity (3, None), 3 \<mapsto> CCost \<lparr>CPUCost = ''1'', MemoryCost = ''2'', Currency = ''EUR''\<rparr>,
           4 \<mapsto> CAdvertisement
             \<lparr>a_TypeMeta = (''Advertisement'', ''v1alpha1''), a_ObjectMeta = ''adv'',
              a_Spec = \<lparr>h_ClusterID = ''rome'',
                        h_Resources = \<lparr>h_Capacity = z, h_Allocatable = z, h_Allocated = z, h_Used = None, h_Available = z\<rparr>,
                        h_Cost = Some 3, h_Timestamp = 0\<rparr>,
              a_Status = AdvertisementStatus_zero\<rparr>],
          next_addr = 5\<rparr>)"

lemma sample_heap_dom: "dom (cells sample_heap) = {1, 2, 3, 4}"
  by (auto simp: sample_heap_def Let_def)

lemma sample_heap_wf: "wf_heap sample_heap"
  unfolding wf_heap_def sample_heap_dom by (simp add: sample_heap_def Let_def)

lemma sample_heap_view: "\<exists>v. adv_ptr_view dec_view (\<lambda>h. Some) sample_heap (Some 4) = Some (Some v)"
  by (simp add: sample_heap_def Let_def option_view_def ref_view_def load_def as_adv_def object_view_def
      adv_spec_view_def metrics_view_def quantities_view_def pair_view_def as_decimal_def as_quantity_def as_cost_def)

theorem generated_copies_are_deep_witness:
  "\<exists>q h' v. Advertisement_DeepCopyObject dec_copies sample_heap (Some 4) = (q, h') \<and>
     adv_ptr_view dec_view (\<lambda>h. Some) sample_heap (Some 4) = Some (Some v) \<and>
     adv_ptr_view dec_view (\<lambda>h. Some) h' q = Some (Some v) \<and>
     adv_ptr_reach dec_reach (\<lambda>h x. {}) h' q \<inter> {1, 2, 3, 4} = {}"
proof -
  let ?v = "adv_ptr_view dec_view (\<lambda>h. Some)" and ?r = "adv_ptr_reach dec_reach (\<lambda>h x. {})"
  obtain q h' where c: "Advertisement_DeepCopyObject dec_copies sample_heap (Some 4) = (q, h')" by fastforce
  obtain v where v: "?v sample_heap (Some 4) = Some (Some v)" using sample_heap_view by blast
  from generated_copies_are_deep [OF dec.foreign_copies_axioms]
  have "deep_copy (Advertisement_DeepCopyObject dec_copies) ?v ?r" by blast
  from deep_copy.copy_done [OF this sample_heap_wf v c] show ?thesis using c v sample_heap_dom by auto
qed

text \<open>
  C20. An advertisement and its copy are independent. After \<^verbatim>\<open>DeepCopyObject\<close> both stand for the value
  the original stood for, no cell is reached from both, and whatever is written later to what the
  copy reaches leaves the value of the original, and the other way round.
\<close>

theorem advertisement_copy_independent:
  assumes "foreign_copies O' qv qr mv mr lv lr" and "wf_heap h" and "adv_ptr_view qv mv h p = Some v"
    and "Advertisement_DeepCopyObject O' h p = (q, h')"
  shows "adv_ptr_view qv mv h' p = Some v \<and> adv_ptr_view qv mv h' q = Some v \<and>
    adv_ptr_reach qr mr h' p \<inter> adv_ptr_reach qr mr h' q = {} \<and>
    (\<forall>h''. (\<forall>a\<in>- adv_ptr_reach qr mr h' q. cells h'' a = cells h' a) \<longrightarrow> adv_ptr_view qv mv h'' p = Some v) \<and>
    (\<forall>h''. (\<forall>a\<in>- adv_ptr_reach qr mr h' p. cells h'' a = cells h' a) \<longrightarrow> adv_ptr_view qv mv h'' q = Some v)"
proof -
  have d: "deep_copy (Advertisement_DeepCopyObject O') (adv_ptr_view qv mv) (adv_ptr_reach qr mr)"
    unfolding Advertisement_DeepCopyObject_def [abs_def] as_object_id Advertisement_DeepCopy_def
    by (intro foreign_copies.new_copies [OF assms(1)] foreign_copies.adv_copies [OF assms(1)]) simp
  note i = deep_copy.copy_independent [OF d assms(2-4)]
  have "adv_ptr_view qv mv h' q = Some v" using deep_copy.copy_done [OF d assms(2-4)] by blast
  moreover have "adv_ptr_view qv mv h' p = Some v" by (rule i(2)) simp
  ultimately show ?thesis using i by blast
qed

theorem advertisement_copy_independent_witness:
  "\<exists>q h'. Advertisement_DeepCopyObject dec_copies sample_heap (Some 4) = (q, h') \<and>
     adv_ptr_reach dec_reach (\<lambda>h x. {}) h' (Some 4) \<inter> adv_ptr_reach dec_reach (\<lambda>h x. {}) h' q = {}"
proof -
  obtain q h' where c: "Advertisement_DeepCopyObject dec_copies sample_heap (Some 4) = (q, h')" by fastforce
  obtain v where v: "adv_ptr_view dec_view (\<lambda>h. Some) sample_heap (Some 4) = Some v" using sample_heap_view by blast
  from advertisement_copy_independent [OF dec.foreign_copies_axioms sample_heap_wf v c] c show ?thesis by blast
qed

end
