(* ===== verification/Spec2Isabelle.thy ===== *)
theory Spec2Isabelle
  imports Agent_System Deep_Copy
begin

text \<open>
  A verification library for the \<^verbatim>\<open>liqo-resource-agent\<close>, a Kubernetes operator in Go that measures
  a cluster, advertises the figures to a resource broker, and turns the broker's reservations into
  local instructions, which in turn lower what is advertised.

  \<^bold>\<open>The program and its parts.\<close> The metrics collector (\<^verbatim>\<open>internal/metrics\<close>) sums nodes, pods and
  provider instructions. The advertisement controller (\<^verbatim>\<open>internal/controller\<close>) writes the sums into
  the local \<^verbatim>\<open>Advertisement\<close> and hands it to a transport; it comes back at instants of the wall clock
  that all agents share. The HTTP transport (\<^verbatim>\<open>internal/transport/http/client.go\<close>) exchanges messages
  (\<^verbatim>\<open>internal/transport/dto\<close>) with the broker, with retries. The reservation poller
  (\<^verbatim>\<open>internal/transport/http/poller.go\<close>) creates a \<^verbatim>\<open>ReservationInstruction\<close> or a
  \<^verbatim>\<open>ProviderInstruction\<close> for each reservation; two small controllers keep their status in step with
  their expiry; provider instructions in force are what the collector subtracts, which closes the
  circle. A legacy transport (\<^verbatim>\<open>internal/publisher\<close>) writes the advertisement straight into the
  broker's cluster, and its watcher turns the reservations there into instructions. \<^verbatim>\<open>cmd/main.go\<close>
  reads the flags and puts the parts together.

  \<^bold>\<open>The theories.\<close>
  \<^item> \<open>Prelude\<close>: instants and durations, backoff, decimal text, the errors of the Kubernetes client.
  \<^item> \<open>Quantity\<close>: the interface of \<^verbatim>\<open>resource.Quantity\<close> (record \<open>quantity_ops\<close>, locale \<open>quantity\<close>) and
    an instance.
  \<^item> \<open>Api_Types\<close>: the custom resources of \<^verbatim>\<open>api/v1alpha1\<close>, one record per struct, and what of them
    survives the API server's JSON form.
  \<^item> \<open>Collector\<close>, \<open>Collector_Correct\<close>: \<^verbatim>\<open>internal/metrics/collector.go\<close>, loop by loop, and the
    theorems that the loops compute the sums they are meant to compute.
  \<^item> \<open>Kube_Client\<close>: the client of the local API as the locale \<open>api_server\<close>, with stale reads, refused
    writes and writes of unknown outcome, and an in-memory server.
  \<^item> \<open>Clock_Sync\<close>: \<^verbatim>\<open>calculateNextClockSync\<close>.
  \<^item> \<open>Instruction_Controllers\<close>: the two instruction reconcilers; their common contract is the locale
    \<open>flag_reconciler\<close>, from which statements about whole runs follow for both.
  \<^item> \<open>Dto\<close>: \<^verbatim>\<open>internal/transport/dto\<close>, with the round trip of quantities.
  \<^item> \<open>Http_Client\<close>, \<open>Http_Correct\<close>: \<^verbatim>\<open>internal/transport/http/client.go\<close> over an arbitrary network
    (record \<open>http_env\<close>); the log of a retried call; publishing to a broker that keeps the promises of
    the locale \<open>rest_broker\<close>.
  \<^item> \<open>Calendar\<close>: the part of Go's \<^verbatim>\<open>time\<close> that prints and parses instants.
  \<^item> \<open>Broker_Client\<close>: the legacy transport of \<^verbatim>\<open>internal/publisher/broker_client.go\<close>, over untyped
    JSON objects and a dynamic client (locale \<open>dynamic_server\<close>).
  \<^item> \<open>Transport\<close>: \<^verbatim>\<open>internal/transport/interface.go\<close>, the HTTP client seen through it, the frame
    conditions its clients rely on, and a concrete world in which all parts run together.
  \<^item> \<open>Poller\<close>: \<^verbatim>\<open>internal/transport/http/poller.go\<close>; the two handlers keep the contract
    \<open>create_if_absent\<close>.
  \<^item> \<open>Reservation_Watcher\<close>: \<^verbatim>\<open>internal/publisher/reservation_watcher.go\<close>; what a write of an
    instruction does is a consequence of \<open>api_server\<close>, what a run does is stated in \<open>watcher_world\<close>.
  \<^item> \<open>Advertisement_Controller\<close>: \<^verbatim>\<open>internal/controller/advertisement_controller.go\<close>.
  \<^item> \<open>Agent_Main\<close>: the decisions of \<^verbatim>\<open>cmd/main.go\<close> at start-up and the options it gives to the manager.
  \<^item> \<open>Agent_System\<close>: the whole agent as an inductive step relation in which its parts and others, who
    may do anything, interleave (locale \<open>agent_system\<close>), with invariants over all its runs. A check of
    the expiry and the write that follows it are two steps, so that the write may come late.
  \<^item> \<open>Deep_Copy\<close>: \<^verbatim>\<open>api/v1alpha1/zz_generated.deepcopy.go\<close> over an explicit heap (locale \<open>deep_copy\<close>):
    why the objects of the API can be values in all other theories.
  \<^item> this theory: the properties that span components.

  \<^bold>\<open>How state and effects correspond.\<close> A struct is a record with its fields, a pointer that may be
  \<^verbatim>\<open>nil\<close> an \<open>option\<close>, a Go error a value of a sum or option type, a panic a value of \<open>go_exit\<close>.
  Whatever is outside the process, the local API server, the network, the broker, is an arbitrary
  type \<open>'w\<close> of worlds: an operation takes a world and returns the next one, the calls it makes in
  the order of the source. Readings of the clock are arguments. A single client value that serves
  several kinds of objects is given by one typed record of operations per kind. Log output is left
  out. Code that is not part of the repository (controller-runtime, client-go, the quantity
  package, the HTTP client, the broker) enters as a record of operations, with what is documented of
  it as the assumptions of a locale, and every locale is interpreted on a concrete instance, on
  which the witnesses run.

  \<^bold>\<open>What the theorems show.\<close> The figures the collector publishes (CPU, memory, GPU), their errors
  and their independence of list order; what an instruction costs; that a reconciliation writes,
  and the broker receives, what was measured; where every instruction comes from, and that what has
  expired stays released, whatever the interleaving of the agent's parts and of others; that polling adds the right instructions, never
  touches existing ones and leaves none out; that the watcher writes the same instructions, and
  nothing that the broker has not asked for; that a publication does all or nothing and keeps the
  broker's bookkeeping; the log of retries, event by event, and the spacing and of attempts to watch; the alignment and the bounds of the
  schedule; round trips; that copies of objects are deep; start-up. Some theorems record behaviour
  that differs from what comments or documentation say: a failed
  read makes a publication drop the broker's bookkeeping, \<^verbatim>\<open>Published\<close> is set before anything is
  published, the legacy time stamp is off by the zone's offset, an event of the watch releases what
  its instruction holds, the delay of the next update can be lost, intervals of an hour or more and
  of less than two minutes are not honoured.

  \<^bold>\<open>Bounds and termination.\<close> There is no fuel. The retry loop recurses on the attempts that are left,
  loops over lists on the list; the endless loops of the poller and of the watcher are functions of
  the events they receive. Instants and durations are unbounded integers of nanoseconds: the agent
  handles present instants and durations of minutes, far from the range of \<^verbatim>\<open>int64\<close>. The wall clock
  has a fixed offset from UTC, and in \<open>Agent_System\<close> it does not go back.

  \<^bold>\<open>What is not modelled.\<close> What \<^verbatim>\<open>net/http\<close> does inside one exchange, such as rewinding the body of a
  request with \<^verbatim>\<open>GetBody\<close>, is up to the environment, and so is whether a retried request whose reader
  is drained still carries its body; a handler's call is one step, except for the check of the
  expiry; JSON text (a body stands for the value in it) and TLS handshakes; what the
  manager of controller-runtime does with the options, controllers and checks it is given; the
  registration of the types with the runtime scheme (\<^verbatim>\<open>groupversion_info.go\<close>); logging; tests and
  deployment files. The plan for what is left: a broker that books while an HTTP publication is under
  way, as a step of its own between the two requests, and the work queue that decides when a
  reconciliation follows a change.
\<close>

section \<open>From the broker's reservation to the advertised figures\<close>

text \<open>
  What an enforced instruction of a reservation with the expiry \<open>t\<close> takes away from the available
  amounts, in any measurement.
\<close>

lemma one_instruction_cost:
  assumes "quantity qo qval" and "list_provider_instructions rd = Inr (xs @ y # ys)"
    and "CollectClusterResources qo rd now = Inr m"
    and "CollectClusterResources qo (rd\<lparr>list_provider_instructions := Inr (xs @ ys)\<rparr>) now = Inr m'"
  shows "qval (CPU (Available m)) = qval (CPU (Available m')) - reserved_cpu qo qval now y \<and>
    qval (Memory (Available m)) = qval (Memory (Available m')) - reserved_memory qo qval now y"
proof -
  from assms(3) obtain ns ps
    where l: "list_nodes rd = Inr ns" "ns \<noteq> []" "list_pods rd = Inr ps"
    by (rule collect_Inr_cases)
  let ?rd = "rd\<lparr>list_provider_instructions := Inr (xs @ ys)\<rparr>"
  have l': "list_nodes ?rd = Inr ns" "list_pods ?rd = Inr ps" "list_provider_instructions ?rd = Inr (xs @ ys)"
    using l by simp_all
  note sums = quantity.collect_cpu_memory [OF assms(1) l assms(2,3)]
    quantity.collect_cpu_memory [OF assms(1) l'(1) l(2) l'(2,3) assms(4)]
  then show ?thesis by simp
qed

lemma enforced_instruction_cost:
  assumes "quantity qo qval" and "pi_Enforced (Status y)" and "pi_ExpiresAt (Spec y) = Some t"
    and "request_value qo qval (pi_RequestedCPU (Spec y)) = Some c"
    and "request_value qo qval (pi_RequestedMemory (Spec y)) = Some v"
    and "list_provider_instructions rd = Inr (xs @ y # ys)"
    and "CollectClusterResources qo rd now = Inr m"
    and "CollectClusterResources qo (rd\<lparr>list_provider_instructions := Inr (xs @ ys)\<rparr>) now = Inr m'"
  shows "qval (CPU (Available m)) = qval (CPU (Available m')) - (if now \<le> t then c else 0) \<and>
    qval (Memory (Available m)) = qval (Memory (Available m')) - (if now \<le> t then v else 0)"
proof -
  have "reserved_cpu qo qval now y = (if now \<le> t then c else 0)"
    "reserved_memory qo qval now y = (if now \<le> t then v else 0)"
    using assms(2-5) by (simp_all add: reserved_cpu_def reserved_memory_def holds_resources_def)
  with one_instruction_cost [OF assms(1,6-8)] show ?thesis by simp
qed

text \<open>
  C2. A reservation is held. Suppose the broker reports a reservation of this cluster as provider,
  with an expiry and amounts that parse, for which there is no instruction yet; a poll runs, and
  then a reconciliation of the new instruction that reports success before the expiry. Then every
  later measurement that lists this instruction advertises exactly the reserved CPU and memory less
  than it would without it up to the expiry (to the second), and nothing less after it.
\<close>

theorem reservation_is_held:
  assumes "quantity qo qval" and "responsive_world p sri spi good" and "good w"
    and "com_FetchReservations (communicator p) w (po_clusterID p) RoleProvider = (Inr rs, w1)"
    and "None \<notin> set rs" and "r \<in> reserved_in rs"
    and "\<forall>r'\<in>reserved_in rs. rsv_ID r' = rsv_ID r \<longrightarrow> r' = r"
    and "spi w (provider_key (instructionNamespace p) r) = None"
    and "rsv_ExpiresAt (rsv_Status r) = Some t"
    and "request_value qo qval (dto_CPU (rsv_RequestedResources r)) = Some c"
    and "request_value qo qval (dto_Memory (rsv_RequestedResources r)) = Some v"
    and "pollAndProcess p w RoleProvider = (out, w2)"
    and "ProviderInstruction_Reconcile (localProvider p) rd w2 (provider_key (instructionNamespace p) r)
           = ((res, None), w3)"
    and "now_check rd \<le> wire_time t"
  shows "\<exists>y. spi w3 (provider_key (instructionNamespace p) r) = Some y \<and> pi_Enforced (Status y) \<and>
    (\<forall>reads xs ys now m m'.
       list_provider_instructions reads = Inr (xs @ y # ys) \<longrightarrow>
       CollectClusterResources qo reads now = Inr m \<longrightarrow>
       CollectClusterResources qo (reads\<lparr>list_provider_instructions := Inr (xs @ ys)\<rparr>) now = Inr m' \<longrightarrow>
       qval (CPU (Available m)) = qval (CPU (Available m')) - (if now \<le> wire_time t then c else 0) \<and>
       qval (Memory (Available m)) = qval (Memory (Available m')) - (if now \<le> wire_time t then v else 0))"
proof -
  let ?k = "provider_key (instructionNamespace p) r"
  obtain x where x: "spi w2 ?k = Some x" "good w2" "Spec x = wire_pi_spec (provider_spec r)"
    using polled_instruction [OF assms(2-8,12)] by blast
  have g: "Get (localProvider p) w2 ?k = Inr x"
    by (rule responsive_world.pi_get(2) [OF assms(2) x(2,1)])
  have pw: "poller_world p sri spi" by (rule responsive_world.axioms(1) [OF assms(2)])
  note contract = provider_contract [OF poller_world.pi_server [OF pw]]
  have s: "pi_ExpiresAt (Spec x) = Some (wire_time t)"
      "pi_RequestedCPU (Spec x) = dto_CPU (rsv_RequestedResources r)"
      "pi_RequestedMemory (Spec x) = dto_Memory (rsv_RequestedResources r)"
    using assms(9) by (simp_all add: x(3) wire_pi_spec_def provider_spec_def convertTimePtr_def Let_def)
  have "\<not> expired (pi_ExpiresAt (Spec x)) (now_check rd)"
    using assms(14) by (simp add: s expired_def Before_def)
  then obtain y where y: "spi w3 ?k = Some y" "Spec y = Spec x" "pi_Enforced (Status y)"
    using flag_reconciler.rec_success [OF contract g x(1) assms(13)] by auto
  note cost = enforced_instruction_cost [OF assms(1) y(3), of "wire_time t" c v]
  show ?thesis using y s assms(10,11) cost by (intro exI [of _ y]) auto
qed


lemma sample_request_values:
  "request_value nano_ops (\<lambda>v. v) ''2'' = Some 2000000000"
  "request_value nano_ops (\<lambda>v. v) ''3'' = Some 3000000000"
  by code_simp+

lemma sample_hold_runs:
  "snd (fst (ProviderInstruction_Reconcile world_pi (at_seconds 50)
     (snd (pollAndProcess rome_poller (rome_world [Some sample_rsv]) RoleProvider))
     (''default'', ''rsv-1-provider''))) = None"
  by code_simp

theorem reservation_is_held_witness:
  "\<exists>out w2 res w3 y. pollAndProcess rome_poller (rome_world [Some sample_rsv]) RoleProvider = (out, w2) \<and>
     ProviderInstruction_Reconcile world_pi (at_seconds 50) w2 (''default'', ''rsv-1-provider'') = ((res, None), w3) \<and>
     pi_objs w3 (''default'', ''rsv-1-provider'') = Some y \<and> pi_Enforced (Status y) \<and>
     (\<forall>m m'. CollectClusterResources nano_ops (sample_reads\<lparr>list_provider_instructions := Inr [y]\<rparr>) 0 = Inr m \<longrightarrow>
        CollectClusterResources nano_ops (sample_reads\<lparr>list_provider_instructions := Inr []\<rparr>) 0 = Inr m' \<longrightarrow>
        CPU (Available m) = CPU (Available m') - 2000000000)"
proof -
  let ?k = "(''default'', ''rsv-1-provider'')"
  obtain out w2 where p: "pollAndProcess rome_poller (rome_world [Some sample_rsv]) RoleProvider = (out, w2)"
    by fastforce
  obtain res w3 where q: "ProviderInstruction_Reconcile world_pi (at_seconds 50) w2 ?k = ((res, None), w3)"
    using sample_hold_runs p by (metis prod.collapse snd_conv)
  have k: "provider_key (instructionNamespace rome_poller) sample_rsv = ?k"
    by (simp add: provider_key_def sample_rsv_def)
  have n: "None \<notin> set [Some sample_rsv]" and r: "sample_rsv \<in> reserved_in [Some sample_rsv]"
    and u: "\<forall>r'\<in>reserved_in [Some sample_rsv]. rsv_ID r' = rsv_ID sample_rsv \<longrightarrow> r' = sample_rsv"
    and e: "pi_objs (rome_world [Some sample_rsv]) (provider_key (instructionNamespace rome_poller) sample_rsv) = None"
    and t: "rsv_ExpiresAt (rsv_Status sample_rsv) = Some (100 * Second)"
    by (simp_all add: sample_rsv_def rome_world_def empty_server_def)
  have c: "request_value nano_ops (\<lambda>v. v) (dto_CPU (rsv_RequestedResources sample_rsv)) = Some 2000000000"
    "request_value nano_ops (\<lambda>v. v) (dto_Memory (rsv_RequestedResources sample_rsv)) = Some 3000000000"
    by (simp_all add: sample_rsv_def sample_request_values)
  have q': "ProviderInstruction_Reconcile (localProvider rome_poller) (at_seconds 50) w2
      (provider_key (instructionNamespace rome_poller) sample_rsv) = ((res, None), w3)"
    using q k by simp
  have b: "now_check (at_seconds 50) \<le> wire_time (100 * Second)"
    by (simp add: wire_time_def time_defs)
  from reservation_is_held [OF nano.quantity_axioms wp.responsive_world_axioms rome_world_good
      rome_world_fetch(1) n r u e t c p q' b]
  obtain y where y: "pi_objs w3 ?k = Some y" "pi_Enforced (Status y)"
    and cost: "\<forall>reads xs ys now m m'.
       list_provider_instructions reads = Inr (xs @ y # ys) \<longrightarrow>
       CollectClusterResources nano_ops reads now = Inr m \<longrightarrow>
       CollectClusterResources nano_ops (reads\<lparr>list_provider_instructions := Inr (xs @ ys)\<rparr>) now = Inr m' \<longrightarrow>
       CPU (Available m) = CPU (Available m') - (if now \<le> wire_time (100 * Second) then 2000000000 else 0)"
    unfolding k by blast
  have "CPU (Available m) = CPU (Available m') - 2000000000"
    if "CollectClusterResources nano_ops (sample_reads\<lparr>list_provider_instructions := Inr [y]\<rparr>) 0 = Inr m"
      "CollectClusterResources nano_ops (sample_reads\<lparr>list_provider_instructions := Inr []\<rparr>) 0 = Inr m'" for m m'
    using cost [rule_format, of "sample_reads\<lparr>list_provider_instructions := Inr [y]\<rparr>" "[]" "[]" 0 m m'] that
    by (simp add: wire_time_def time_defs)
  with p q y show ?thesis by blast
qed


section \<open>From the watched event to the advertised figures\<close>

text \<open>
  C36. A watched event releases what is held. Whenever the watcher has successfully written a provider
  instruction, also one that was enforced before, for an event that repeats what is known, a
  measurement that lists this instruction advertises the same CPU and memory as if it were not
  there: until its next reconciliation the reserved resources are offered again.
\<close>

theorem watch_event_releases_hold:
  assumes "quantity qo qval" and "watcher_world wt c sri spi"
    and "upsertProviderInstruction wt c t w u requester cpu mem expiresAt = (None, w')"
  shows "\<exists>y. spi w' (or_default (rw_InstructionNamespace wt), GetName u @ ''-provider'') = Some y \<and>
    (\<forall>reads xs ys now m m'.
       list_provider_instructions reads = Inr (xs @ y # ys) \<longrightarrow>
       CollectClusterResources qo reads now = Inr m \<longrightarrow>
       CollectClusterResources qo (reads\<lparr>list_provider_instructions := Inr (xs @ ys)\<rparr>) now = Inr m' \<longrightarrow>
       qval (CPU (Available m)) = qval (CPU (Available m')) \<and>
       qval (Memory (Available m)) = qval (Memory (Available m')))"
proof -
  let ?k = "(or_default (rw_InstructionNamespace wt), GetName u @ ''-provider'')"
  obtain y where y: "spi w' ?k = Some y"
      "Status y = wire_pi_status (reset_provider t (status_before (spi w) ProviderInstructionStatus_zero ?k))"
    using api_server.upsert_done [OF watcher_world.watcher_pi [OF assms(2)]] assms(3)
    unfolding upsertProviderInstruction_def Let_def by (blast elim: put_withE)
  then have "\<not> pi_Enforced (Status y)" by (simp add: wire_pi_status_def reset_provider_def)
  then have "reserved_cpu qo qval now y = 0" "reserved_memory qo qval now y = 0" for now
    by (simp_all add: reserved_cpu_def reserved_memory_def holds_resources_def)
  with y(1) one_instruction_cost [OF assms(1)] show ?thesis by (intro exI [of _ y]) auto
qed

lemma held_upsert:
  "fst (upsertProviderInstruction (world_watcher ''rome'') \<lparr>lc_requester = world_ri, lc_provider = world_pi\<rparr>
     (5 * Second) held_world (broker_reservation ''7'' sample_rsv) ''paris'' ''2'' ''3'' '''') = None"
  by code_simp

theorem watch_event_releases_hold_witness:
  "\<exists>w' y. pi_Enforced (Status held_pi) \<and> pi_objs held_world (''default'', ''rsv-1-provider'') = Some held_pi \<and>
     upsertProviderInstruction (world_watcher ''rome'') \<lparr>lc_requester = world_ri, lc_provider = world_pi\<rparr>
       (5 * Second) held_world (broker_reservation ''7'' sample_rsv) ''paris'' ''2'' ''3'' '''' = (None, w') \<and>
     pi_objs w' (''default'', ''rsv-1-provider'') = Some y \<and>
     (\<forall>m m'. CollectClusterResources nano_ops (sample_reads\<lparr>list_provider_instructions := Inr [y]\<rparr>) 0 = Inr m \<longrightarrow>
        CollectClusterResources nano_ops (sample_reads\<lparr>list_provider_instructions := Inr []\<rparr>) 0 = Inr m' \<longrightarrow>
        CPU (Available m) = CPU (Available m'))"
proof -
  let ?u = "upsertProviderInstruction (world_watcher ''rome'') \<lparr>lc_requester = world_ri, lc_provider = world_pi\<rparr>
       (5 * Second) held_world (broker_reservation ''7'' sample_rsv) ''paris'' ''2'' ''3'' ''''"
  obtain w' where h: "?u = (None, w')" using held_upsert by (metis prod.collapse)
  have k: "or_default (rw_InstructionNamespace (world_watcher ''rome'' :: int agent_world ReservationWatcher)) = ''default''"
    "GetName (broker_reservation ''7'' sample_rsv) = ''rsv-1''"
    by (simp_all add: world_watcher_def NewReservationWatcher_def or_default_def GetName_def NestedString_def or_empty_def
        broker_reservation_def sample_rsv_def Let_def)
  from watch_event_releases_hold [OF nano.quantity_axioms ww.watcher_world_axioms h]
  obtain y where y: "pi_objs w' (''default'', ''rsv-1-provider'') = Some y"
    and cost: "\<forall>reads xs ys now m m'. list_provider_instructions reads = Inr (xs @ y # ys) \<longrightarrow>
       CollectClusterResources nano_ops reads now = Inr m \<longrightarrow>
       CollectClusterResources nano_ops (reads\<lparr>list_provider_instructions := Inr (xs @ ys)\<rparr>) now = Inr m' \<longrightarrow>
       CPU (Available m) = CPU (Available m')"
    unfolding k by auto
  have "CPU (Available m) = CPU (Available m')"
    if "CollectClusterResources nano_ops (sample_reads\<lparr>list_provider_instructions := Inr [y]\<rparr>) 0 = Inr m"
      "CollectClusterResources nano_ops (sample_reads\<lparr>list_provider_instructions := Inr []\<rparr>) 0 = Inr m'" for m m'
    using cost [rule_format, of "sample_reads\<lparr>list_provider_instructions := Inr [y]\<rparr>" "[]" "[]" 0 m m'] that by simp
  with h y show ?thesis
    by (auto simp: held_pi_def held_world_def server_with_def okey_def)
qed

section \<open>From the measurement to the broker\<close>

lemma preserve_reserved_frame [simp]:
  "dto_ClusterID (preserve_reserved got d) = dto_ClusterID d"
  "dto_Capacity (dto_Resources (preserve_reserved got d)) = dto_Capacity (dto_Resources d)"
  "dto_Allocatable (dto_Resources (preserve_reserved got d)) = dto_Allocatable (dto_Resources d)"
  "dto_Allocated (dto_Resources (preserve_reserved got d)) = dto_Allocated (dto_Resources d)"
  "dto_Available (dto_Resources (preserve_reserved got d)) = dto_Available (dto_Resources d)"
  by (simp_all add: preserve_reserved_def with_reserved_def split: sum.splits option.splits)

text \<open>The amounts of a message are those of the metrics \<open>m\<close>.\<close>

definition carries :: "'q quantity_ops \<Rightarrow> ('q \<Rightarrow> int) \<Rightarrow> AdvertisementDTO \<Rightarrow> 'q ResourceMetrics \<Rightarrow> bool" where
  "carries qo qval d m \<longleftrightarrow>
     (\<forall>(f, g)\<in>{(dto_Capacity, Capacity), (dto_Allocatable, Allocatable), (dto_Allocated, Allocated),
              (dto_Available, Available)}.
        \<exists>q. fromResourceQuantitiesDTO qo (f (dto_Resources d)) = (q, None) \<and> same_amounts qval q (g m))"

lemma carries_preserve_reserved: "carries qo qval (preserve_reserved got d) m = carries qo qval d m"
  by (simp add: carries_def)

lemma carries_written:
  assumes "quantity qo qval" and "adv_Resources (Spec y) = wire_metrics qo m"
  shows "carries qo qval (ToAdvertisementDTO qo y) m"
proof -
  have "\<exists>q. fromResourceQuantitiesDTO qo (toResourceQuantitiesDTO qo (wire_quantities qo b)) = (q, None) \<and>
      same_amounts qval q b" for b
    using quantity.dto_roundtrip [OF assms(1), of "wire_quantities qo b"]
    by (simp add: quantity.same_amounts_wire [OF assms(1)])
  then show ?thesis by (simp add: carries_def ToAdvertisementDTO_def assms(2) wire_metrics_def Let_def)
qed

text \<open>
  C3. What the broker ends up with. Suppose a reconciliation with the HTTP transport measures the
  cluster, writes the spec and the status, and publishes, all with success. Then it reports success,
  and the broker holds an advertisement for the agent's cluster ID whose capacity, allocatable,
  allocated and available amounts parse to the values the collector has measured; the broker's other
  advertisements are as before.
\<close>

theorem broker_gets_measurement:
  assumes "quantity qo qval" and "advertiser qo r stored" and "rest_broker c env advs"
    and "BrokerCommunicator r = Some (http_communicator c env)"
    and "Get (advertisements (Client r)) w k = Inr x"
    and "measured qo r rd w = Inr m" and "own_cluster_id r w = Inr cid"
    and "Update (advertisements (Client r)) w
           (x\<lparr>Spec := (Spec x)\<lparr>adv_ClusterID := cid, adv_Resources := m, adv_Timestamp := now_spec rd\<rparr>\<rparr>) = (Inr y1, w1)"
    and "updateStatus r rd w1 y1 ''Active'' True ''Advertisement updated successfully'' = ((res, None), y, w2)"
    and "PublishAdvertisement c env w2 (ToAdvertisementDTO qo y) = (None, w3)"
  shows "Reconcile qo r rd w k = ((res, None), w3) \<and>
    (\<exists>a. advs w3 = (advs w2)(cid \<mapsto> a) \<and> carries qo qval a m)"
proof -
  let ?d = "ToAdvertisementDTO qo y"
  have s: "Spec y = wire_adv_spec qo ((Spec x)\<lparr>adv_ClusterID := cid, adv_Resources := m, adv_Timestamp := now_spec rd\<rparr>)"
    using advertiser.status_after_update [OF assms(2,5,8,9)] by blast
  then have id: "dto_ClusterID ?d = cid" by (simp add: ToAdvertisementDTO_def wire_adv_spec_def Let_def)
  obtain got v where g: "doWithRetry c env (get_request (advertisement_url c (dto_ClusterID ?d))) w2 = (got, v)"
    by fastforce
  have "advs w3 = (advs w2)(cid \<mapsto> preserve_reserved got ?d)"
    using rest_broker.publish_stores [OF assms(3,10) g] by (simp only: id)
  moreover have "carries qo qval (preserve_reserved got ?d) m"
    using carries_written [OF assms(1)] s by (simp add: carries_preserve_reserved wire_adv_spec_def)
  moreover have "Reconcile qo r rd w k = ((res, None), w3)"
    using assms(4-10) by (simp add: Reconcile_def publish_def http_communicator_def)
  ultimately show ?thesis by blast
qed


definition sample_metrics :: "int ResourceMetrics" where
  "sample_metrics =
     projr (CollectClusterResources nano_ops (sample_reads\<lparr>list_provider_instructions := Inr []\<rparr>) (90 * Second))"

definition sample_spec :: "int AdvertisementSpec" where
  "sample_spec =
     (Spec sample_adv)\<lparr>adv_ClusterID := ''rome'', adv_Resources := sample_metrics, adv_Timestamp := now_spec (adv_at 90)\<rparr>"

lemma sample_publication_runs:
  "case Update (world_adv nano_ops) (adv_world 0) (sample_adv\<lparr>Spec := sample_spec\<rparr>) of
     (Inr y1, w1) \<Rightarrow>
       (case updateStatus (rome_reconciler sample_reads) (adv_at 90) w1 y1 ''Active'' True
               ''Advertisement updated successfully'' of
          ((res, None), y, w2) \<Rightarrow>
            fst (PublishAdvertisement sample_communicator (world_env sample_communicator) w2
                   (ToAdvertisementDTO nano_ops y)) = None
        | _ \<Rightarrow> False)
   | _ \<Rightarrow> False"
  by code_simp

theorem broker_gets_measurement_witness:
  "\<exists>res w3 a. Reconcile nano_ops (rome_reconciler sample_reads) (adv_at 90) (adv_world 0)
       (''default'', ''cluster-advertisement'') = ((res, None), w3) \<and>
     br_advs (broker_part w3) ''rome'' = Some a \<and> carries nano_ops (\<lambda>v. v) a sample_metrics"
proof -
  let ?r = "rome_reconciler sample_reads" and ?ok = "''Advertisement updated successfully''"
  obtain u1 w1 where u1: "Update (world_adv nano_ops) (adv_world 0) (sample_adv\<lparr>Spec := sample_spec\<rparr>) = (u1, w1)"
    by fastforce
  with sample_publication_runs obtain y1 where y1: "u1 = Inr y1" by (cases u1) auto
  obtain res e y w2 where t1: "updateStatus ?r (adv_at 90) w1 y1 ''Active'' True ?ok = ((res, e), y, w2)"
    by (metis surj_pair)
  have runs: "e = None \<and> fst (PublishAdvertisement sample_communicator (world_env sample_communicator) w2
      (ToAdvertisementDTO nano_ops y)) = None"
    using sample_publication_runs t1 unfolding u1 y1 by (cases e) simp_all
  note u = u1 [unfolded y1] and t = t1 [unfolded conjunct1 [OF runs]] and p = conjunct2 [OF runs]
  obtain w3 where p': "PublishAdvertisement sample_communicator (world_env sample_communicator) w2
      (ToAdvertisementDTO nano_ops y) = (None, w3)"
    using p by (metis prod.collapse)
  have "\<exists>m. CollectClusterResources nano_ops (sample_reads\<lparr>list_provider_instructions := Inr []\<rparr>) (90 * Second) = Inr m"
    by (auto simp: CollectClusterResources_def calculateAllocatedResources_def calculateReservedResources_def Let_def)
  then have m: "measured nano_ops (rome_reconciler sample_reads) (adv_at 90) (adv_world 0) = Inr sample_metrics"
    unfolding rome_measures(1) by (auto simp: sample_metrics_def)
  have u': "Update (advertisements (Client (rome_reconciler sample_reads))) (adv_world 0)
      (sample_adv\<lparr>Spec := (Spec sample_adv)\<lparr>adv_ClusterID := ''rome'', adv_Resources := sample_metrics,
         adv_Timestamp := now_spec (adv_at 90)\<rparr>\<rparr>) = (Inr y1, w1)"
    using u by (simp add: sample_spec_def)
  have b: "BrokerCommunicator (rome_reconciler sample_reads) =
      Some (http_communicator sample_communicator (world_env sample_communicator))"
    by simp
  from broker_gets_measurement [OF nano.quantity_axioms wa.advertiser_axioms world_broker.rest_broker_axioms b
      adv_world_get m rome_measures(2) u' t p']
  obtain a where "Reconcile nano_ops (rome_reconciler sample_reads) (adv_at 90) (adv_world 0)
       (''default'', ''cluster-advertisement'') = ((res, None), w3)"
    and a: "br_advs (broker_part w3) = (br_advs (broker_part w2))(''rome'' \<mapsto> a)"
      "carries nano_ops (\<lambda>v. v) a sample_metrics"
    by blast
  moreover have "br_advs (broker_part w3) ''rome'' = Some a" unfolding a by simp
  ultimately show ?thesis by blast
qed

end
